(* ===== verification/Prelude.thy ===== *)
theory Prelude
  imports Main "HOL-Library.Monad_Syntax" "HOL-Library.Word"
begin

section \<open>Shared vocabulary of the development\<close>

text \<open>
  What the components share: the reading of a Go call as a value of type \<open>'a option\<close>,
  where \<open>None\<close> is a run-time panic (the process dies) and \<open>Some r\<close> is a call that
  returns \<open>r\<close>; Go's \<open>int\<close> as a 64-bit word read with \<open>sint\<close>; the parts of the
  standard library that the code uses on byte strings (\<open>strings.Split\<close>,
  \<open>strings.Join\<close>, \<open>strconv.Itoa\<close>, \<open>strconv.ParseBool\<close>), with their lemmas.
  A Go string is a sequence of bytes, which is exactly HOL's \<open>string\<close>.
\<close>

named_theorems panic_split \<open>splitting the call of a hypothesis by what it returned\<close>
named_theorems wire_simps \<open>round-trip equations of the wire formats\<close>

type_synonym go_int = "64 word"
type_synonym uuid = "128 word"

abbreviation (input) panic :: "'a option" where
  "panic \<equiv> None"

abbreviation (input) returns :: "'a \<Rightarrow> 'a option" where
  "returns \<equiv> Some"

lemmas [panic_split] = bind_split_asm option.split_asm sum.split_asm prod.split_asm if_split_asm

subsection \<open>Returning early on an error\<close>

text \<open>\<open>tryE r f\<close> is \<open>x, err := r; if err != nil { return err }\<close> followed by \<open>f x\<close>.\<close>

fun tryE :: "'e + 'a \<Rightarrow> ('a \<Rightarrow> 'e + 'b) \<Rightarrow> 'e + 'b" where
  "tryE (Inl e) f = Inl e"
| "tryE (Inr a) f = f a"

lemma tryE_eq_Inr_iff: "tryE r f = Inr b \<longleftrightarrow> (\<exists>a. r = Inr a \<and> f a = Inr b)"
  by (cases r) simp_all

lemma tryE_cong [fundef_cong]:
  "r = r' \<Longrightarrow> (\<And>a. r' = Inr a \<Longrightarrow> f a = f' a) \<Longrightarrow> tryE r f = tryE r' f'"
  by (cases r') simp_all

subsection \<open>strings.Split and strings.Join\<close>

fun strings_Split :: "char \<Rightarrow> string \<Rightarrow> string list" where
  "strings_Split c [] = [[]]"
| "strings_Split c (x # xs) =
     (if x = c then [] # strings_Split c xs
      else (x # hd (strings_Split c xs)) # tl (strings_Split c xs))"

fun strings_Join :: "string \<Rightarrow> string list \<Rightarrow> string" where
  "strings_Join sep [] = []"
| "strings_Join sep [x] = x"
| "strings_Join sep (x # y # ys) = x @ sep @ strings_Join sep (y # ys)"

lemma Split_nonempty [simp]: "strings_Split c s \<noteq> []"
  by (cases s) auto

lemma Split_clean [simp]: "c \<notin> set s \<Longrightarrow> strings_Split c s = [s]"
  by (induction s) auto

lemma Split_append [simp]:
  "c \<notin> set s \<Longrightarrow> strings_Split c (s @ c # t) = s # strings_Split c t"
  by (induction s) auto

lemma Split_Join:
  "xs \<noteq> [] \<Longrightarrow> \<forall>x \<in> set xs. c \<notin> set x \<Longrightarrow> strings_Split c (strings_Join [c] xs) = xs"
proof (induction xs rule: induct_list012)
  case (3 x y zs)
  then show ?case by (simp del: strings_Split.simps)
qed auto

lemma Split_no_sep: "x \<in> set (strings_Split c s) \<Longrightarrow> c \<notin> set x"
proof (induction s arbitrary: x)
  case Nil
  then show ?case by simp
next
  case (Cons y ys)
  let ?S = "strings_Split c ys"
  have "hd ?S \<in> set ?S" by simp
  then have h: "c \<notin> set (hd ?S)" by (rule Cons.IH)
  have t: "c \<notin> set z" if "z \<in> set (tl ?S)" for z
    by (rule Cons.IH, rule list.set_sel(2)) (simp_all add: that)
  from Cons.prems have "x = [] \<or> x \<in> set ?S \<or> (y \<noteq> c \<and> x = y # hd ?S) \<or> x \<in> set (tl ?S)"
    by (simp split: if_splits) blast
  then show ?case using h t Cons.IH [of x] by (elim disjE) auto
qed

lemma set_Join: "set (strings_Join sep xs) \<subseteq> (\<Union>x \<in> set xs. set x) \<union> set sep"
  by (induction sep xs rule: strings_Join.induct) auto

lemma Join_eq_Nil_iff:
  "strings_Join [c] xs = [] \<longleftrightarrow> xs = [] \<or> xs = [[]]"
  by (induction xs rule: induct_list012) auto

subsection \<open>Decimal text\<close>

definition digit_char :: "nat \<Rightarrow> char" where
  "digit_char d = char_of (48 + d)"

definition char_digit :: "char \<Rightarrow> nat option" where
  "char_digit c = (let n = (of_char c :: nat) in if 48 \<le> n \<and> n \<le> 57 then Some (n - 48) else None)"

lemma char_digit_digit [simp]: "d < 10 \<Longrightarrow> char_digit (digit_char d) = Some d"
  by (simp add: char_digit_def digit_char_def)

fun dec_nat :: "nat \<Rightarrow> string" where
  "dec_nat n = (if n < 10 then [digit_char n] else dec_nat (n div 10) @ [digit_char (n mod 10)])"

declare dec_nat.simps [simp del]

fun read_digits :: "nat \<Rightarrow> string \<Rightarrow> nat option" where
  "read_digits acc [] = Some acc"
| "read_digits acc (c # cs) =
     (case char_digit c of None \<Rightarrow> None | Some d \<Rightarrow> read_digits (10 * acc + d) cs)"

lemma read_digits_append:
  "read_digits acc (xs @ ys) = Option.bind (read_digits acc xs) (\<lambda>a. read_digits a ys)"
  by (induction xs arbitrary: acc) (auto split: option.splits)

lemma read_dec_nat [simp]: "read_digits 0 (dec_nat n) = Some n"
proof (induction n rule: dec_nat.induct)
  case (1 n)
  show ?case
  proof (cases "n < 10")
    case True
    then show ?thesis by (subst dec_nat.simps) simp
  next
    case False
    with 1 have "read_digits 0 (dec_nat (n div 10)) = Some (n div 10)" by simp
    with False show ?thesis by (subst dec_nat.simps) (simp add: read_digits_append)
  qed
qed

lemma dec_nat_nonempty [simp]: "dec_nat n \<noteq> []"
  by (subst dec_nat.simps) simp

definition is_digit :: "char \<Rightarrow> bool" where
  "is_digit c \<longleftrightarrow> c \<in> set ''0123456789''"

lemma digit_char_is_digit: "d < 10 \<Longrightarrow> is_digit (digit_char d)"
proof -
  assume "d < 10"
  then have "d \<in> set [0..<10]" by simp
  moreover have "\<forall>d \<in> set [0..<10]. is_digit (digit_char d)"
    by code_simp
  ultimately show ?thesis by blast
qed

lemma dec_nat_digits: "c \<in> set (dec_nat n) \<Longrightarrow> is_digit c"
proof (induction n rule: dec_nat.induct)
  case (1 n)
  then show ?case
    by (subst (asm) dec_nat.simps) (auto split: if_splits simp: digit_char_is_digit)
qed

text \<open>\<open>strconv.Itoa\<close> (and \<open>%d\<close>) and \<open>strconv.Atoi\<close>, with Go's two ways to fail.\<close>

datatype num_error = ErrSyntax string | ErrRange string

definition Itoa :: "go_int \<Rightarrow> string" where
  "Itoa n = (let i = sint n in if i < 0 then CHR ''-'' # dec_nat (nat (- i)) else dec_nat (nat i))"

definition read_nat :: "string \<Rightarrow> nat option" where
  "read_nat s = (if s = [] then None else read_digits 0 s)"

definition read_int :: "string \<Rightarrow> int option" where
  "read_int s = (case s of
       [] \<Rightarrow> None
     | c # cs \<Rightarrow>
         if c = CHR ''-'' then map_option (\<lambda>n. - int n) (read_nat cs)
         else if c = CHR ''+'' then map_option int (read_nat cs)
         else map_option int (read_nat s))"

definition Atoi :: "string \<Rightarrow> num_error + go_int" where
  "Atoi s = (case read_int s of
       None \<Rightarrow> Inl (ErrSyntax s)
     | Some i \<Rightarrow> if - (2 ^ 63) \<le> i \<and> i < 2 ^ 63 then Inr (word_of_int i) else Inl (ErrRange s))"

lemma dec_nat_no_sign: "dec_nat n = c # cs \<Longrightarrow> c \<noteq> CHR ''-'' \<and> c \<noteq> CHR ''+''"
  using dec_nat_digits [of c n] by (auto simp: is_digit_def)

lemma read_int_dec [simp]: "read_int (dec_nat n) = Some (int n)"
proof (cases "dec_nat n")
  case Nil
  then show ?thesis by simp
next
  case (Cons c cs)
  then have "read_int (dec_nat n) = map_option int (read_digits 0 (dec_nat n))"
    using dec_nat_no_sign [OF Cons] by (simp add: read_int_def read_nat_def)
  then show ?thesis by (simp only: read_dec_nat option.map)
qed

lemma read_int_Itoa: "read_int (Itoa n) = Some (sint n)"
proof (cases "sint n < 0")
  case True
  then show ?thesis by (simp add: Itoa_def read_int_def read_nat_def)
next
  case False
  then show ?thesis by (simp add: Itoa_def)
qed

lemma Atoi_Itoa [wire_simps, simp]: "Atoi (Itoa n) = Inr n"
proof -
  have "sint n < 2 ^ 63" using sint_lt [of n] by simp
  moreover have "- (2 ^ 63) \<le> sint n" using sint_ge [of n] by simp
  ultimately show ?thesis by (simp add: Atoi_def read_int_Itoa)
qed

lemma Itoa_inject [simp]: "Itoa m = Itoa n \<longleftrightarrow> m = n"
  using Atoi_Itoa by (metis Inr_inject)

lemma Itoa_chars: "c \<in> set (Itoa n) \<Longrightarrow> is_digit c \<or> c = CHR ''-''"
  by (auto simp: Itoa_def Let_def split: if_splits dest: dec_nat_digits)

lemma Itoa_nonempty [simp]: "Itoa n \<noteq> []"
  by (simp add: Itoa_def Let_def)

subsection \<open>Boolean text\<close>

text \<open>\<open>%t\<close> of package fmt and \<open>strconv.ParseBool\<close>.\<close>

definition fmt_bool :: "bool \<Rightarrow> string" where
  "fmt_bool b = (if b then ''true'' else ''false'')"

definition ParseBool :: "string \<Rightarrow> num_error + bool" where
  "ParseBool s =
     (if s \<in> set [''1'', ''t'', ''T'', ''true'', ''TRUE'', ''True''] then Inr True
      else if s \<in> set [''0'', ''f'', ''F'', ''false'', ''FALSE'', ''False''] then Inr False
      else Inl (ErrSyntax s))"

lemma ParseBool_fmt [wire_simps, simp]: "ParseBool (fmt_bool b) = Inr b"
  by (cases b) (simp_all add: ParseBool_def fmt_bool_def)

end
