(* ===== verification/Log.thy ===== *)
theory Log
  imports Prelude
begin

section \<open>Log levels: v2/log/log.go and starterimpl/zap/zap.go\<close>

text \<open>
  The five levels of package \<open>log\<close>, each a pointer to its own struct type with a value
  (\<open>Trace\<close> is 5, \<open>Error\<close> is 1), \<open>AtLeast\<close>, the names and \<open>ParseLevel\<close>; then the zap
  adapter: the level handed to the zap library and which calls reach zap. What zap does
  with a message is that library's business and no part of the model.
\<close>

datatype Level = Trace | Debug | Info | Warn | Error

fun level_value :: "Level \<Rightarrow> int" where
  "level_value Trace = 5"
| "level_value Debug = 4"
| "level_value Info = 3"
| "level_value Warn = 2"
| "level_value Error = 1"

definition AtLeast :: "Level \<Rightarrow> Level \<Rightarrow> bool" where
  "AtLeast t level = (level_value t \<ge> level_value level)"

fun level_String :: "Level \<Rightarrow> string" where
  "level_String Trace = ''TRACE''"
| "level_String Debug = ''DEBUG''"
| "level_String Info = ''INFO''"
| "level_String Warn = ''WARN''"
| "level_String Error = ''ERROR''"

text \<open>
  \<open>strings.ToLower\<close>, as far as \<open>ParseLevel\<close> can see it: the ASCII letters, and the two
  non-ASCII code points whose lower case is ASCII (U+0130, bytes C4 B0, becomes \<open>i\<close>;
  U+212A, bytes E2 84 AA, becomes \<open>k\<close>). Every other non-ASCII code point stays outside
  ASCII, so it can never make one of the five names; its bytes are kept here.
\<close>

definition lower_ascii :: "char \<Rightarrow> char" where
  "lower_ascii c = (let n = (of_char c :: nat) in if 65 \<le> n \<and> n \<le> 90 then char_of (n + 32) else c)"

fun strings_ToLower :: "string \<Rightarrow> string" where
  "strings_ToLower (a # b # cs) =
     (if a = CHR 0xC4 \<and> b = CHR 0xB0 then CHR ''i'' # strings_ToLower cs
      else if a = CHR 0xE2 \<and> b = CHR 0x84 \<and> cs \<noteq> [] \<and> hd cs = CHR 0xAA
      then CHR ''k'' # strings_ToLower (tl cs)
      else lower_ascii a # strings_ToLower (b # cs))"
| "strings_ToLower [a] = [lower_ascii a]"
| "strings_ToLower [] = []"

text \<open>The error of \<open>ParseLevel\<close> carries the text it could not read.\<close>

definition ParseLevel :: "string \<Rightarrow> string + Level" where
  "ParseLevel str = (let s = strings_ToLower str in
     if s = ''trace'' then Inr Trace
     else if s = ''debug'' then Inr Debug
     else if s = ''info'' then Inr Info
     else if s = ''warn'' then Inr Warn
     else if s = ''error'' then Inr Error
     else Inl str)"

subsection \<open>Levels are linearly ordered by AtLeast\<close>

instantiation Level :: linorder
begin

definition less_eq_Level :: "Level \<Rightarrow> Level \<Rightarrow> bool" where
  "less_eq_Level a b = AtLeast b a"

definition less_Level :: "Level \<Rightarrow> Level \<Rightarrow> bool" where
  "less_Level a b = (\<not> AtLeast a b)"

lemma level_value_inj: "level_value a = level_value b \<longleftrightarrow> a = b"
  by (cases a; cases b) simp_all

instance
  by standard (auto simp: less_eq_Level_def less_Level_def AtLeast_def level_value_inj)

end

lemma level_le_Trace [simp]: "(a :: Level) \<le> Trace"
  by (cases a) (simp_all add: less_eq_Level_def AtLeast_def)

lemma Trace_le_iff: "Trace \<le> a \<longleftrightarrow> a = Trace"
  by (auto intro: antisym)

lemma AtLeast_iff [simp]: "AtLeast a b \<longleftrightarrow> b \<le> a"
  by (simp add: less_eq_Level_def)

lemma ParseLevel_name: "ParseLevel (level_String l) = Inr l"
  by (cases l; hypsubst) code_simp+

subsection \<open>The zap adapter\<close>

datatype zap_level = DebugLevel | InfoLevel | WarnLevel | ErrorLevel

fun toZapLevel :: "Level \<Rightarrow> zap_level" where
  "toZapLevel Trace = DebugLevel"
| "toZapLevel Debug = DebugLevel"
| "toZapLevel Info = InfoLevel"
| "toZapLevel Warn = WarnLevel"
| "toZapLevel Error = ErrorLevel"

text \<open>
  A call of a \<open>ZapLogger\<close> method, as the call it makes on the sugared zap logger: the zap
  level and the text, or no call. \<open>msg\<close> is the formatted message.
\<close>

fun zap_call :: "Level \<Rightarrow> Level \<Rightarrow> string \<Rightarrow> (zap_level \<times> string) option" where
  "zap_call level Trace msg =
     (if AtLeast level Trace then Some (DebugLevel, level_String Trace @ [CHR 0x09] @ msg) else None)"
| "zap_call level Debug msg = Some (DebugLevel, msg)"
| "zap_call level Info msg = Some (InfoLevel, msg)"
| "zap_call level Warn msg = Some (WarnLevel, msg)"
| "zap_call level Error msg = Some (ErrorLevel, msg)"

text \<open>
  The text of the error of \<open>ParseLevel\<close>, and the construction of a logger: \<open>build\<close> is the
  zap library building its logger at a level, with the text of its error.
\<close>

definition levels :: "string list" where
  "levels = map level_String [Trace, Debug, Info, Warn, Error]"

definition unrecognized_level :: "string \<Rightarrow> string" where
  "unrecognized_level str = ''Unrecognized log level: '' @ str @ ''. Recognized levels are case insensitive ['' @
     strings_Join '' '' levels @ '']''"

definition NewZapLogger :: "(zap_level \<Rightarrow> string option) \<Rightarrow> Level \<Rightarrow> string + Level" where
  "NewZapLogger build level = (case build (toZapLevel level) of Some err \<Rightarrow> Inl err | None \<Rightarrow> Inr level)"

end
