(* ===== verification/Connection.thy ===== *)
theory Connection
  imports Log
begin

section \<open>Peers, connections and their errors: v2/peer, v2/connection, v2/readonlyconnection.go\<close>

text \<open>
  The data of packages \<open>peer\<close> and \<open>connection\<close>: peer identifiers (the Go interface value
  \<open>peer.ID\<close> may be nil, so it is an option), peers, the eight connection statuses, the
  witness selectors, the request, response and notification structs, and the errors the
  program builds, with their texts. An interface type with several implementations in the
  repository is a datatype with one constructor per implementation: a \<open>Connection\<close> is the
  in-memory one or the read-only view, and its methods dispatch on that.
\<close>

subsection \<open>Peers\<close>

type_synonym peer_id = string
type_synonym Address = string

record Peer =
  peer_ID :: "peer_id option"
  Addresses :: "Address list"

record PeersRequest =
  Num :: go_int

record PeersResponse =
  Peers :: "Peer list"

subsection \<open>Statuses, witness selectors, connections\<close>

datatype Status =
  RequestingReceiver | RequestingSender | AwaitingWitness | RequestingWitness
| NotifyingOfWitness | Open | Closing | Closed

fun status_String :: "Status \<Rightarrow> string" where
  "status_String RequestingReceiver = ''RequestingReceiver''"
| "status_String RequestingSender = ''RequestingSender''"
| "status_String RequestingWitness = ''RequestingWitness''"
| "status_String AwaitingWitness = ''AwaitingWitness''"
| "status_String NotifyingOfWitness = ''NotifyingOfWitness''"
| "status_String Open = ''Open''"
| "status_String Closing = ''Closing''"
| "status_String Closed = ''Closed''"

datatype WitnessSelector = WitnessSelectorSender | WitnessSelectorReceiver

fun selector_String :: "WitnessSelector \<Rightarrow> string" where
  "selector_String WitnessSelectorSender = ''Sender''"
| "selector_String WitnessSelectorReceiver = ''Receiver''"

text \<open>The selector inside \<open>Options\<close> is an interface value, nil when it was never set.\<close>

record Options =
  WitnessSelector :: "WitnessSelector option"

datatype Connection =
  inMemoryConnection (ID: uuid) (Sender: "peer_id option") (Witness: "peer_id option")
    (Receiver: "peer_id option") (Status: Status)
| readOnlyConnection (ID: uuid) (Sender: "peer_id option") (Witness: "peer_id option")
    (Receiver: "peer_id option") (Status: Status)

record ConnectRequest =
  cq_ConnectionID :: uuid
  cq_Sender :: "peer_id option"
  cq_Receiver :: "peer_id option"
  cq_Options :: Options

record ConnectResponse =
  cr_ConnectionID :: uuid
  cr_Errors :: "string list"
  cr_Accepted :: bool
  cr_RejectReasons :: "string list"

record WitnessRequest =
  wq_ConnectionID :: uuid
  wq_Sender :: "peer_id option"
  wq_Receiver :: "peer_id option"
  wq_Options :: Options

record WitnessResponse =
  wr_ConnectionID :: uuid
  wr_Errors :: "string list"
  wr_Accepted :: bool
  wr_RejectReasons :: "string list"

record CloseRequest =
  cl_ConnectionID :: uuid

record WitnessNotification =
  wn_ConnectionID :: uuid
  wn_Witness :: "peer_id option"

subsection \<open>Errors\<close>

text \<open>
  One constructor per place that builds an error, carrying the values its text shows.
  \<open>External\<close> is the error of a third-party or standard-library call, by its text.
\<close>

datatype error =
  External string
| ErrUnsupported
| UnrecognizedSelectorType string
| ConnectRejectError uuid "string list"
| WitnessRejectError uuid "string list"
| CloseError uuid "error option list"
| CollectiveError "error list"
| ConnectionExists uuid
| NoConnection uuid
| MessageExists string
| NoMessage string
| UnrecognizedWitnessSelector "WitnessSelector option"
| NoWitnessAssigned uuid
| ConnectResponseWrongID uuid uuid
| ConnectResponseErrors "string list"
| WitnessResponseWrongID uuid uuid
| WitnessResponseErrors "string list"
| FailedToFindWitness uuid
| ClosePeerLookup "peer_id option" error
| CloseRequestFailed "peer_id option" error
| MustRequestOnePeer
| TooManyPeers
| AddAddrFailed Address "peer_id option" error
| NotAwaitingWitness "peer_id option" uuid
| UnexpectedNotifier uuid "peer_id option" "peer_id option"
| CorruptInput nat
| NumError string num_error
| NoTerminator
| IncorrectParts nat nat
| DecodeElement string error
| CannotSerialize string
| CannotDeserialize string
| UnsupportedData string
| EncodeData error
| DecodeResponse error
| ShortWrite nat nat

subsection \<open>Methods of connections\<close>

text \<open>
  \<open>SetStatus\<close> and \<open>SetWitness\<close> return a connection (nil for the read-only view) and an
  error. The in-memory connection is immutable: the result is a fresh copy. Those of the
  read-only view do not look at the view.
\<close>

definition readOnly_SetStatus :: "Status \<Rightarrow> Connection option \<times> error option" where
  [simp]: "readOnly_SetStatus status = (None, Some ErrUnsupported)"

definition readOnly_SetWitness :: "peer_id option \<Rightarrow> Connection option \<times> error option" where
  [simp]: "readOnly_SetWitness peerID = (None, Some ErrUnsupported)"

fun SetStatus :: "Connection \<Rightarrow> Status \<Rightarrow> Connection option \<times> error option" where
  "SetStatus (inMemoryConnection i s w r st) status =
     (Some (inMemoryConnection i s w r status), None)"
| "SetStatus (readOnlyConnection i s w r st) status = readOnly_SetStatus status"

fun SetWitness :: "Connection \<Rightarrow> peer_id option \<Rightarrow> Connection option \<times> error option" where
  "SetWitness (inMemoryConnection i s w r st) peerID =
     (Some (inMemoryConnection i s peerID r st), None)"
| "SetWitness (readOnlyConnection i s w r st) peerID = readOnly_SetWitness peerID"

definition ParseWitnessSelector :: "string \<Rightarrow> error + WitnessSelector" where
  "ParseWitnessSelector s =
     (if s = selector_String WitnessSelectorSender then Inr WitnessSelectorSender
      else if s = selector_String WitnessSelectorReceiver then Inr WitnessSelectorReceiver
      else Inl (UnrecognizedSelectorType s))"

lemma ParseWitnessSelector_String [wire_simps, simp]:
  "ParseWitnessSelector (selector_String ws) = Inr ws"
  by (cases ws) (simp_all add: ParseWitnessSelector_def)

lemma ParseWitnessSelector_Inr_iff:
  "ParseWitnessSelector s = Inr ws \<longleftrightarrow> s = selector_String ws"
  by (cases ws) (auto simp: ParseWitnessSelector_def)

text \<open>A connection that can be stored and written: the in-memory implementation.\<close>

definition writable :: "Connection \<Rightarrow> bool" where
  "writable c = (case c of inMemoryConnection _ _ _ _ _ \<Rightarrow> True | readOnlyConnection _ _ _ _ _ \<Rightarrow> False)"

lemma writable_simps [simp]:
  "writable (inMemoryConnection i s w r st)"
  "\<not> writable (readOnlyConnection i s w r st)"
  by (simp_all add: writable_def)

text \<open>
  On a writable connection the setters are field updates: \<open>conn_as c st w\<close> is the copy of
  \<open>c\<close> with a new status and witness, the only fields that ever change.
\<close>

definition conn_as :: "Connection \<Rightarrow> Status \<Rightarrow> peer_id option \<Rightarrow> Connection" where
  "conn_as c st w = inMemoryConnection (ID c) (Sender c) w (Receiver c) st"

lemma SetStatus_writable [simp]: "writable c \<Longrightarrow> SetStatus c st = (Some (conn_as c st (Witness c)), None)"
  by (cases c) (simp_all add: conn_as_def)

lemma SetWitness_writable [simp]: "writable c \<Longrightarrow> SetWitness c w = (Some (conn_as c (Status c) w), None)"
  by (cases c) (simp_all add: conn_as_def)

lemma conn_as_sel [simp]:
  "ID (conn_as c st w) = ID c" "Sender (conn_as c st w) = Sender c"
  "Witness (conn_as c st w) = w" "Receiver (conn_as c st w) = Receiver c"
  "Status (conn_as c st w) = st" "writable (conn_as c st w)"
  "conn_as (conn_as c st w) st' w' = conn_as c st' w'"
  by (simp_all add: conn_as_def)

lemma conn_as_same: "writable c \<Longrightarrow> conn_as c (Status c) (Witness c) = c"
  by (cases c) (simp_all add: conn_as_def)

lemma setters_read_only:
  "SetStatus (readOnlyConnection i s w r st) st' = (None, Some ErrUnsupported)"
  "SetWitness (readOnlyConnection i s w r st) w' = (None, Some ErrUnsupported)"
  by simp_all

end
