(* ===== verification/Errors.thy ===== *)
theory Errors
  imports Connection
begin

section \<open>The texts of errors\<close>

text \<open>
  The \<open>Error()\<close> method of every error of the program, from the format strings of the code.
  Handlers put these texts into the \<open>Errors\<close> lists of their responses. The printed forms
  of connection and peer identifiers and the quoting inside \<open>strconv\<close> errors come from
  libraries and are the record \<open>names\<close>.
\<close>

record names =
  uuidString :: "uuid \<Rightarrow> string"
  idString :: "peer_id \<Rightarrow> string"
  quote :: "string \<Rightarrow> string"

text \<open>\<open>%s\<close> of a peer identifier (nil included) and \<open>%v\<close> of a slice.\<close>

definition fmt_id :: "names \<Rightarrow> peer_id option \<Rightarrow> string" where
  "fmt_id n p = (case p of None \<Rightarrow> ''%!s(<nil>)'' | Some i \<Rightarrow> idString n i)"

definition fmt_slice :: "string list \<Rightarrow> string" where
  "fmt_slice xs = ''['' @ strings_Join '' '' xs @ '']''"

definition fmt_selector :: "WitnessSelector option \<Rightarrow> string" where
  "fmt_selector s = (case s of None \<Rightarrow> ''%!s(<nil>)'' | Some ws \<Rightarrow> selector_String ws)"

fun num_error_text :: "names \<Rightarrow> string \<Rightarrow> num_error \<Rightarrow> string" where
  "num_error_text n f (ErrSyntax s) = ''strconv.'' @ f @ '': parsing '' @ quote n s @ '': invalid syntax''"
| "num_error_text n f (ErrRange s) = ''strconv.'' @ f @ '': parsing '' @ quote n s @ '': value out of range''"

text \<open>The \<open>Error()\<close> methods of the error structs of package \<open>connection\<close>.\<close>

definition connect_reject_text :: "names \<Rightarrow> uuid \<Rightarrow> string list \<Rightarrow> string" where
  "connect_reject_text n i rs =
     ''Connection '' @ uuidString n i @ '' connect request was rejected for the following reasons: '' @ fmt_slice rs"

definition witness_reject_text :: "names \<Rightarrow> uuid \<Rightarrow> string list \<Rightarrow> string" where
  "witness_reject_text n i rs =
     ''Connection '' @ uuidString n i @ '' witness request was rejected for the following reasons: '' @ fmt_slice rs"

text \<open>The list may hold nil errors.\<close>

definition close_error_text :: "names \<Rightarrow> uuid \<Rightarrow> string option list \<Rightarrow> string" where
  "close_error_text n i es = ''Errors encountered while closing connectin '' @ uuidString n i @ '': '' @
     fmt_slice (map (\<lambda>e. case e of None \<Rightarrow> ''<nil>'' | Some x \<Rightarrow> x) es)"

text \<open>\<open>%v\<close> of the read-only view, by its \<open>String\<close> method.\<close>

definition readOnly_String :: "names \<Rightarrow> Connection \<Rightarrow> string" where
  "readOnly_String n c = ''{'' @ strings_Join '' ''
     [uuidString n (ID c), fmt_id n (Sender c), fmt_id n (Witness c), fmt_id n (Receiver c), status_String (Status c)] @ ''}''"

fun error_text :: "names \<Rightarrow> error \<Rightarrow> string" where
  "error_text n (External s) = s"
| "error_text n ErrUnsupported = ''unsupported operation''"
| "error_text n (UnrecognizedSelectorType s) = ''Unrecognized witness selector type: '' @ s"
| "error_text n (ConnectRejectError i rs) = connect_reject_text n i rs"
| "error_text n (WitnessRejectError i rs) = witness_reject_text n i rs"
| "error_text n (CloseError i es) = close_error_text n i (map (map_option (error_text n)) es)"
| "error_text n (CollectiveError es) = ''Errors: '' @ fmt_slice (map (error_text n) es)"
| "error_text n (ConnectionExists i) = ''A connection already exists for ID: '' @ uuidString n i"
| "error_text n (NoConnection i) = ''No connection exists for ID '' @ uuidString n i"
| "error_text n (MessageExists k) = ''Message '' @ k @ '' already exists''"
| "error_text n (NoMessage k) = ''No message '' @ k"
| "error_text n (UnrecognizedWitnessSelector s) =
     ''Unrecognized WitnessSelector value '' @ fmt_selector s @ ''. Supported values are [ '' @
     selector_String WitnessSelectorSender @ '', '' @ selector_String WitnessSelectorReceiver @ '' ]''"
| "error_text n (NoWitnessAssigned i) =
     ''Attempting to notify of witness for connection '' @ uuidString n i @ '' with no witness assigned''"
| "error_text n (ConnectResponseWrongID expected got) =
     ''ConnectResponse contained the incorrect connection ID. Expected: '' @ uuidString n expected @
     '', Got: '' @ uuidString n got"
| "error_text n (ConnectResponseErrors es) =
     ''ConnectResponse contained the follwoing errors from the receiver: '' @ fmt_slice es"
| "error_text n (WitnessResponseWrongID got expected) =
     ''WitnessResponse contained the incorrect connection ID. Got: '' @ uuidString n got @
     '', Expected: '' @ uuidString n expected"
| "error_text n (WitnessResponseErrors es) =
     ''Encountered the following errors while requesting witness: '' @ fmt_slice es"
| "error_text n (FailedToFindWitness i) = ''Failed to find witness for connection '' @ uuidString n i"
| "error_text n (ClosePeerLookup p e) =
     ''Encountered error while retrieving peer '' @ fmt_id n p @ '': '' @ error_text n e"
| "error_text n (CloseRequestFailed p e) =
     ''Encountered error sending close request to peer '' @ fmt_id n p @ '': '' @ error_text n e"
| "error_text n MustRequestOnePeer = ''Must request at least one peer.''"
| "error_text n TooManyPeers = ''Target node returned more peers than requested.''"
| "error_text n (AddAddrFailed a p e) =
     ''Encountered error adding address '' @ a @ '' for peer '' @ fmt_id n p @ '': '' @ error_text n e"
| "error_text n (NotAwaitingWitness p i) =
     ''Received witness notification from peer '' @ fmt_id n p @ '' for connection '' @ uuidString n i @
     '' that is not awaiting witness notification.''"
| "error_text n (UnexpectedNotifier i expected got) =
     ''Received witness notification from unexpected peer for connection '' @ uuidString n i @
     ''. Expected: '' @ fmt_id n expected @ '', Got: '' @ fmt_id n got"
| "error_text n (CorruptInput k) = ''illegal base64 data at input byte '' @ dec_nat k"
| "error_text n (NumError f e) = num_error_text n f e"
| "error_text n NoTerminator = ''No terminating '' @ [CHR 0x27, CHR '';'', CHR 0x27]"
| "error_text n (IncorrectParts expected got) =
     ''Incorrect number of parts. Expected: '' @ dec_nat expected @ '', Got: '' @ dec_nat got"
| "error_text n (DecodeElement p e) = ''Failed to decode '' @ p @ '': '' @ error_text n e"
| "error_text n (CannotSerialize t) = ''Cannot serialize unrecognized type: '' @ t"
| "error_text n (CannotDeserialize t) = ''Cannot deserialize unrecognized type: '' @ t"
| "error_text n (UnsupportedData t) =
     ''Unsupported data type: '' @ t @ ''. Supported types are: [connection.ConnectRequest, '' @
     ''connection.WitnessRequest, connection.CloseRequest, connection.WitnessNotification]''"
| "error_text n (EncodeData e) = ''Failed to encode data: '' @ error_text n e"
| "error_text n (DecodeResponse e) = ''Failed to decode response: '' @ error_text n e"
| "error_text n (ShortWrite had wrote) =
     ''Failed to write all bytes. Had: '' @ dec_nat had @ '', Wrote: '' @ dec_nat wrote"

end
