(* ===== verification/Inmem_Connections.thy ===== *)
theory Inmem_Connections
  imports Errors "HOL-Library.AList"
begin

section \<open>The connection store: starterimpl/inmem/inmem.go, interface connection.ConnectionStore\<close>

text \<open>
  The in-memory store is a Go map from connection identifiers to entries, here an
  association list with distinct keys. Every operation holds the locks it needs for its
  whole duration, so an operation is one step. A write function runs with effects on the
  rest of the node, a state of type \<open>'s\<close> that it threads; it may panic. The locale
  \<open>connection_store\<close> states what a store promises its clients, and is interpreted on the
  in-memory store below.
\<close>

type_synonym connStore = "(uuid \<times> Connection) list"

text \<open>
  \<open>writeFunc\<close> of \<open>Update\<close>: the connection to persist (or nil) and an error; \<open>readFunc\<close> of
  \<open>Read\<close>: an error.
\<close>

type_synonym 's writeFunc = "Connection \<Rightarrow> 's \<Rightarrow> ((Connection option \<times> error option) \<times> 's) option"
type_synonym 's readFunc = "Connection \<Rightarrow> 's \<Rightarrow> (error option \<times> 's) option"

definition NewConnectionStore :: connStore where
  "NewConnectionStore = []"

definition Accept :: "uuid \<Rightarrow> Peer \<Rightarrow> Peer \<Rightarrow> Status \<Rightarrow> connStore \<Rightarrow> error option \<times> connStore" where
  "Accept uid sender receiver status cs =
     (let conn = inMemoryConnection uid (peer_ID sender) None (peer_ID receiver) status in
      case map_of cs uid of
        Some existing \<Rightarrow> (Some (ConnectionExists uid), cs)
      | None \<Rightarrow> (None, AList.update uid conn cs))"

text \<open>
  \<open>Create\<close> draws the identifier from \<open>uuid.NewRandom\<close>, whose result (an identifier, which
  is zero when the draw failed, and an error) is the argument \<open>draw\<close>.
\<close>

definition Create ::
  "uuid \<times> error option \<Rightarrow> Peer \<Rightarrow> Peer \<Rightarrow> Status \<Rightarrow> connStore \<Rightarrow> (uuid \<times> error option) \<times> connStore" where
  "Create draw sender receiver status cs =
     (case draw of
        (uid, Some e) \<Rightarrow> ((uid, Some e), cs)
      | (uid, None) \<Rightarrow> (case Accept uid sender receiver status cs of (err, cs') \<Rightarrow> ((uid, err), cs')))"

text \<open>
  \<open>All\<close> ranges over the map, in an order that Go leaves open: the argument \<open>order\<close>
  permutes the keys.
\<close>

definition All :: "(uuid list \<Rightarrow> uuid list) \<Rightarrow> connStore \<Rightarrow> uuid list" where
  "All order cs = order (map fst cs)"

definition getConnEntry :: "uuid \<Rightarrow> connStore \<Rightarrow> error + Connection" where
  "getConnEntry uid cs = (case map_of cs uid of None \<Rightarrow> Inl (NoConnection uid) | Some c \<Rightarrow> Inr c)"

definition Read :: "uuid \<Rightarrow> 's readFunc \<Rightarrow> connStore \<times> 's \<Rightarrow> (error option \<times> (connStore \<times> 's)) option" where
  "Read uid readFunc st = (case st of (cs, s) \<Rightarrow>
     (case getConnEntry uid cs of
        Inl e \<Rightarrow> returns (Some e, (cs, s))
      | Inr conn \<Rightarrow> do { (err, s) \<leftarrow> readFunc conn s; returns (err, (cs, s)) }))"

definition Update :: "uuid \<Rightarrow> 's writeFunc \<Rightarrow> connStore \<times> 's \<Rightarrow> (error option \<times> (connStore \<times> 's)) option" where
  "Update uid writeFunc st = (case st of (cs, s) \<Rightarrow>
     (case getConnEntry uid cs of
        Inl e \<Rightarrow> returns (Some e, (cs, s))
      | Inr conn \<Rightarrow> do {
          ((updated, err), s) \<leftarrow> writeFunc conn s;
          returns (err, ((case updated of None \<Rightarrow> cs | Some c \<Rightarrow> AList.update uid c cs), s)) }))"

subsection \<open>What each operation does to the entries\<close>

lemma Accept_fresh:
  "map_of cs uid = None \<Longrightarrow> Accept uid p q st cs =
     (None, AList.update uid (inMemoryConnection uid (peer_ID p) None (peer_ID q) st) cs)"
  by (simp add: Accept_def)

lemma Accept_taken: "map_of cs uid = Some c \<Longrightarrow> Accept uid p q st cs = (Some (ConnectionExists uid), cs)"
  by (simp add: Accept_def)

lemma Update_missing: "map_of cs uid = None \<Longrightarrow> Update uid f (cs, s) = Some (Some (NoConnection uid), (cs, s))"
  by (simp add: Update_def getConnEntry_def)

lemma Update_found:
  "map_of cs uid = Some c \<Longrightarrow> Update uid f (cs, s) =
     Option.bind (f c s) (\<lambda>((u, err), s'). Some (err, (case u of None \<Rightarrow> cs | Some c' \<Rightarrow> AList.update uid c' cs), s'))"
  by (simp add: Update_def getConnEntry_def)

lemma Read_missing: "map_of cs uid = None \<Longrightarrow> Read uid f (cs, s) = Some (Some (NoConnection uid), (cs, s))"
  by (simp add: Read_def getConnEntry_def)

lemma Read_found:
  "map_of cs uid = Some c \<Longrightarrow> Read uid f (cs, s) = Option.bind (f c s) (\<lambda>(err, s'). Some (err, cs, s'))"
  by (simp add: Read_def getConnEntry_def)

lemmas store_ops = Accept_fresh Accept_taken Update_missing Update_found Read_missing Read_found

subsection \<open>The contract of a connection store\<close>

text \<open>
  \<open>lookup\<close> is the abstraction: the connection a store holds under an identifier. The laws
  are those of the interface's comments: \<open>Update\<close> persists what the write function
  returned, also when it returned an error, and nothing when it returned nil; it fails,
  without calling the write function, when there is no such connection.
\<close>

locale connection_store =
  fixes lookup :: "'c \<Rightarrow> uuid \<Rightarrow> Connection option"
    and accept :: "uuid \<Rightarrow> Peer \<Rightarrow> Peer \<Rightarrow> Status \<Rightarrow> 'c \<Rightarrow> error option \<times> 'c"
    and update :: "uuid \<Rightarrow> 's writeFunc \<Rightarrow> 'c \<times> 's \<Rightarrow> (error option \<times> ('c \<times> 's)) option"
  assumes accept_fresh: "lookup cs uid = None \<Longrightarrow> accept uid p q st cs = (err, cs') \<Longrightarrow>
            err = None \<and> lookup cs' = (lookup cs)(uid \<mapsto> inMemoryConnection uid (peer_ID p) None (peer_ID q) st)"
    and accept_taken: "lookup cs uid = Some c \<Longrightarrow> accept uid p q st cs = (Some (ConnectionExists uid), cs)"
    and update_missing: "lookup cs uid = None \<Longrightarrow> update uid f (cs, s) = Some (Some (NoConnection uid), (cs, s))"
    and update_panic: "lookup cs uid = Some c \<Longrightarrow> f c s = None \<Longrightarrow> update uid f (cs, s) = None"
    and update_found: "lookup cs uid = Some c \<Longrightarrow> f c s = Some ((u, err), s') \<Longrightarrow>
            \<exists>cs'. update uid f (cs, s) = Some (err, (cs', s')) \<and>
              lookup cs' = (case u of None \<Rightarrow> lookup cs | Some c' \<Rightarrow> (lookup cs)(uid \<mapsto> c'))"
begin

text \<open>An \<open>Update\<close> that returns, inverted.\<close>

lemma update_cases:
  assumes "update uid f (cs, s) = Some (err, (cs', s'))"
  obtains (missing) "lookup cs uid = None" "err = Some (NoConnection uid)" "cs' = cs" "s' = s"
  | (found) c u where "lookup cs uid = Some c" "f c s = Some ((u, err), s')"
      "lookup cs' = (case u of None \<Rightarrow> lookup cs | Some c' \<Rightarrow> (lookup cs)(uid \<mapsto> c'))"
proof (cases "lookup cs uid")
  case None
  show thesis
    using assms by (intro missing None) (simp_all add: update_missing [OF None])
next
  case (Some c)
  show thesis
  proof (cases "f c s")
    case None
    with assms show thesis by (simp add: update_panic [OF Some])
  next
    case f: (Some r)
    obtain u e s2 where r: "f c s = Some ((u, e), s2)" using f by (metis prod.collapse)
    obtain cs2 where cs2: "update uid f (cs, s) = Some (e, (cs2, s2))"
      and l: "lookup cs2 = (case u of None \<Rightarrow> lookup cs | Some c' \<Rightarrow> (lookup cs)(uid \<mapsto> c'))"
      using update_found [OF Some, of f s u e s2] r by blast
    have eq: "e = err" "cs2 = cs'" "s2 = s'" using assms cs2 by simp_all
    show thesis by (rule found [OF Some]) (use r l eq in simp_all)
  qed
qed

text \<open>Only the entry it names changes, and an entry is never removed.\<close>

lemma update_other:
  assumes "update uid f (cs, s) = Some (err, (cs', s'))" and "uid' \<noteq> uid"
  shows "lookup cs' uid' = lookup cs uid'"
  using assms(1) by (cases rule: update_cases) (use assms(2) in \<open>auto split: option.splits\<close>)

lemma update_dom:
  assumes "update uid f (cs, s) = Some (err, (cs', s'))"
  shows "dom (lookup cs') = dom (lookup cs)"
  using assms by (cases rule: update_cases) (auto split: option.splits)

lemma accept_dom:
  assumes "accept uid p q st cs = (err, cs')"
  shows "dom (lookup cs') = insert uid (dom (lookup cs))"
proof (cases "lookup cs uid")
  case None
  from accept_fresh [OF None assms] show ?thesis by simp
next
  case (Some c)
  with accept_taken [OF Some, of p q st] assms show ?thesis by (simp add: insert_absorb domI)
qed

text \<open>
  The two rules by which clients prove what holds of every stored connection: an
  accepted connection satisfies it, and a write function keeps it.
\<close>

lemma accept_inv:
  assumes acc: "accept uid p q st cs = (err, cs')"
    and inv: "\<And>i c. lookup cs i = Some c \<Longrightarrow> P i c"
    and new: "P uid (inMemoryConnection uid (peer_ID p) None (peer_ID q) st)"
    and got: "lookup cs' i = Some c"
  shows "P i c"
proof (cases "lookup cs uid")
  case None
  with accept_fresh [OF None acc] got inv new show ?thesis by (auto split: if_splits)
next
  case (Some d)
  with accept_taken [OF Some] acc got inv show ?thesis by simp
qed

lemma update_inv:
  assumes upd: "update uid f (cs, s) = Some (err, (cs', s'))"
    and inv: "\<And>i c. lookup cs i = Some c \<Longrightarrow> P i c"
    and wrt: "\<And>c c' e s'. lookup cs uid = Some c \<Longrightarrow> f c s = Some ((Some c', e), s') \<Longrightarrow> P uid c'"
    and got: "lookup cs' i = Some c"
  shows "P i c"
  using upd
proof (cases rule: update_cases)
  case missing
  with got inv show ?thesis by simp
next
  case (found d u)
  with got inv wrt show ?thesis by (cases u) (auto split: if_splits)
qed

end

text \<open>The in-memory store keeps the contract, with \<open>map_of\<close> as its abstraction.\<close>

interpretation cs: connection_store map_of Accept Update
proof unfold_locales
  fix cs uid p q st err cs'
  assume "map_of cs uid = None" and "Accept uid p q st cs = (err, cs')"
  then show "err = None \<and> map_of cs' = (map_of cs)(uid \<mapsto> inMemoryConnection uid (peer_ID p) None (peer_ID q) st)"
    by (auto simp: Accept_fresh update_conv')
qed (auto simp: store_ops update_conv' split: option.splits)

subsection \<open>Keys stay distinct\<close>

definition wf_store :: "connStore \<Rightarrow> bool" where
  "wf_store cs \<longleftrightarrow> distinct (map fst cs)"

lemma wf_new [simp]: "wf_store NewConnectionStore"
  by (simp add: wf_store_def NewConnectionStore_def)

lemma wf_Accept: "wf_store cs \<Longrightarrow> Accept uid p q st cs = (err, cs') \<Longrightarrow> wf_store cs'"
  by (auto simp: Accept_def wf_store_def Let_def distinct_update split: option.splits)

lemma wf_Update: "wf_store cs \<Longrightarrow> Update uid f (cs, s) = Some (err, cs', s') \<Longrightarrow> wf_store cs'"
  by (cases "map_of cs uid")
    (auto simp: store_ops wf_store_def distinct_update bind_eq_Some_conv split: option.splits)

lemma set_All: "set (order (map fst cs)) = set (map fst cs) \<Longrightarrow> set (All order cs) = dom (map_of cs)"
  by (simp add: All_def dom_map_of_conv_image_fst)

end
