(* ===== verification/Float64.thy ===== *)
theory Float64
  imports Prelude Complex_Main "HOL-Library.Log_Nat"
begin

section \<open>Go's float64\<close>

text \<open>
  IEEE 754 binary64 arithmetic, as Go's \<open>float64\<close> does it: a finite value is a rational,
  an operation computes exactly and rounds to nearest, ties to even, with 53 significant
  bits, the least exponent -1074 and overflow to infinity at \<open>2 ^ 1024\<close>. The sign of zero
  is not kept: no operation of the program depends on it.
\<close>

datatype f64 = Fin rat | PInf | NInf | NaN

subsection \<open>Rounding\<close>

definition rne :: "rat \<Rightarrow> int" where
  "rne x = (let f = \<lfloor>x\<rfloor>; d = x - of_int f in
     if d < 1 / 2 then f else if 1 / 2 < d then f + 1 else if even f then f else f + 1)"

lemma rne_of_int [simp]: "rne (of_int n) = n"
  by (simp add: rne_def)

lemma rne_bounds: "\<lfloor>x\<rfloor> \<le> rne x" "rne x \<le> \<lfloor>x\<rfloor> + 1"
  by (auto simp: rne_def Let_def)

lemma rne_mono: "x \<le> y \<Longrightarrow> rne x \<le> rne y"
proof -
  assume le: "x \<le> y"
  show ?thesis
  proof (cases "\<lfloor>x\<rfloor> = \<lfloor>y\<rfloor>")
    case True
    with le show ?thesis by (auto simp: rne_def Let_def)
  next
    case False
    with le have "\<lfloor>x\<rfloor> + 1 \<le> \<lfloor>y\<rfloor>" using floor_mono [OF le] by linarith
    then show ?thesis using rne_bounds(2) [of x] rne_bounds(1) [of y] by linarith
  qed
qed

text \<open>\<open>expo x\<close> is the exponent of the binade of a positive \<open>x\<close>.\<close>

definition expo :: "rat \<Rightarrow> int" where
  "expo x = (case quotient_of x of (a, b) \<Rightarrow>
     (let e = bitlen a - bitlen b in if 2 powi e \<le> x then e else e - 1))"

definition ulp_expo :: "rat \<Rightarrow> int" where
  "ulp_expo x = max (expo x - 52) (- 1074)"

definition fl :: "rat \<Rightarrow> rat" where
  "fl x = (if x = 0 then 0
     else if x < 0 then - (of_int (rne (- x * 2 powi (- ulp_expo (- x)))) * 2 powi ulp_expo (- x))
     else of_int (rne (x * 2 powi (- ulp_expo x))) * 2 powi ulp_expo x)"

definition mk :: "rat \<Rightarrow> f64" where
  "mk x = (let r = fl x in if 2 ^ 1024 \<le> r then PInf else if r \<le> - (2 ^ 1024) then NInf else Fin r)"

subsection \<open>Operations\<close>

fun fneg :: "f64 \<Rightarrow> f64" where
  "fneg (Fin x) = Fin (- x)" | "fneg PInf = NInf" | "fneg NInf = PInf" | "fneg NaN = NaN"

fun fadd :: "f64 \<Rightarrow> f64 \<Rightarrow> f64" where
  "fadd (Fin x) (Fin y) = mk (x + y)"
| "fadd NaN _ = NaN" | "fadd _ NaN = NaN"
| "fadd PInf NInf = NaN" | "fadd NInf PInf = NaN"
| "fadd PInf _ = PInf" | "fadd _ PInf = PInf"
| "fadd NInf _ = NInf" | "fadd _ NInf = NInf"

definition fsub :: "f64 \<Rightarrow> f64 \<Rightarrow> f64" where
  "fsub x y = fadd x (fneg y)"

fun fdiv :: "f64 \<Rightarrow> f64 \<Rightarrow> f64" where
  "fdiv (Fin x) (Fin y) =
     (if y = 0 then (if x = 0 then NaN else if 0 < x then PInf else NInf) else mk (x / y))"
| "fdiv NaN _ = NaN" | "fdiv _ NaN = NaN"
| "fdiv (Fin x) _ = Fin 0"
| "fdiv PInf (Fin y) = (if 0 \<le> y then PInf else NInf)"
| "fdiv NInf (Fin y) = (if 0 \<le> y then NInf else PInf)"
| "fdiv _ _ = NaN"

text \<open>\<open>math.Pow(x, 2)\<close> is the rounded square.\<close>

fun fsquare :: "f64 \<Rightarrow> f64" where
  "fsquare (Fin x) = mk (x * x)"
| "fsquare NaN = NaN"
| "fsquare _ = PInf"

text \<open>
  \<open>math.Sqrt\<close> rounds the real root correctly: the root is computed to at least 60 bits, and
  an inexact one is marked by a half in the last of them, which decides every tie.
\<close>

function isqrt :: "int \<Rightarrow> int" where
  "isqrt n = (if n \<le> 0 then 0 else
     let r = 2 * isqrt (n div 4) in if (r + 1) * (r + 1) \<le> n then r + 1 else r)"
  by pat_completeness auto
termination
  by (relation "measure nat") auto

declare isqrt.simps [simp del]

fun fsqrt :: "f64 \<Rightarrow> f64" where
  "fsqrt (Fin x) =
     (if x < 0 then NaN else if x = 0 then Fin 0
      else let j = 60 - expo x div 2; y = x * 2 powi (2 * j); m = isqrt \<lfloor>y\<rfloor> in
        mk ((if of_int (m * m) = y then of_int m else of_int m + 1 / 2) * 2 powi (- j)))"
| "fsqrt PInf = PInf"
| "fsqrt NInf = NaN"
| "fsqrt NaN = NaN"

text \<open>Comparisons are false on NaN.\<close>

fun fless :: "f64 \<Rightarrow> f64 \<Rightarrow> bool" where
  "fless (Fin x) (Fin y) = (x < y)"
| "fless NaN _ = False" | "fless _ NaN = False"
| "fless NInf y = (y \<noteq> NInf)" | "fless _ NInf = False"
| "fless PInf _ = False" | "fless (Fin x) PInf = True"

definition fle :: "f64 \<Rightarrow> f64 \<Rightarrow> bool" where
  "fle x y \<longleftrightarrow> fless x y \<or> (x = y \<and> x \<noteq> NaN)"

text \<open>\<open>float64(n)\<close> of an integer.\<close>

definition of_count :: "int \<Rightarrow> f64" where
  "of_count n = mk (of_int n)"

subsection \<open>The binade of a positive rational\<close>

lemma powi_add2: "(2 :: rat) powi (a + b) = 2 powi a * 2 powi b"
  by (simp add: power_int_add)

lemma powi_mono2: "a \<le> b \<Longrightarrow> (2 :: rat) powi a \<le> 2 powi b"
  by (rule power_int_increasing) simp_all

lemma powi_of_nonneg: "0 \<le> a \<Longrightarrow> (2 :: rat) powi a = of_int (2 ^ nat a)"
  by (simp add: power_int_def)

lemma bitlen_bounds2:
  assumes "0 < (a :: int)"
  shows "(2 :: rat) powi (bitlen a - 1) \<le> of_int a" "(of_int a :: rat) < 2 powi bitlen a"
proof -
  have pos: "0 < bitlen a" using assms by (simp add: bitlen_nonneg less_le bitlen_eq_zero_iff)
  have b: "2 ^ nat (bitlen a - 1) \<le> a \<and> a < 2 ^ nat (bitlen a)"
    using bitlen_bounds [OF assms] by simp
  have "of_int (2 ^ nat (bitlen a - 1)) \<le> (of_int a :: rat)" using b by (simp only: of_int_le_iff)
  then show "(2 :: rat) powi (bitlen a - 1) \<le> of_int a" using pos by (simp add: powi_of_nonneg)
  have "(of_int a :: rat) < of_int (2 ^ nat (bitlen a))" using b by (simp only: of_int_less_iff)
  then show "(of_int a :: rat) < 2 powi bitlen a" using pos by (simp add: powi_of_nonneg)
qed

lemma expo_bounds:
  assumes "0 < x"
  shows "2 powi expo x \<le> x" "x < 2 powi (expo x + 1)"
proof -
  obtain a b where q: "quotient_of x = (a, b)" by force
  then have b: "0 < b" and x: "x = of_int a / of_int b"
    by (simp_all add: quotient_of_denom_pos quotient_of_div)
  with assms have a: "0 < a" by (simp add: zero_less_divide_iff)
  let ?e = "bitlen a - bitlen b"
  have lo: "2 powi (?e - 1) \<le> x"
  proof -
    have "2 powi (?e - 1) * of_int b \<le> 2 powi (?e - 1) * (2 powi bitlen b :: rat)"
      using bitlen_bounds2(2) [OF b] by simp
    also have "\<dots> = 2 powi (bitlen a - 1)" by (simp flip: powi_add2)
    also have "\<dots> \<le> of_int a" by (rule bitlen_bounds2(1) [OF a])
    finally show ?thesis using b by (simp add: x field_simps)
  qed
  have hi: "x < 2 powi (?e + 1)"
  proof -
    have "(of_int a :: rat) < 2 powi bitlen a" by (rule bitlen_bounds2(2) [OF a])
    also have "\<dots> = 2 powi (?e + 1) * 2 powi (bitlen b - 1)" by (simp flip: powi_add2)
    also have "\<dots> \<le> 2 powi (?e + 1) * of_int b"
      using bitlen_bounds2(1) [OF b] by simp
    finally show ?thesis using b by (simp add: x field_simps)
  qed
  show "2 powi expo x \<le> x" using lo by (simp add: expo_def q Let_def)
  show "x < 2 powi (expo x + 1)" using hi by (simp add: expo_def q Let_def)
qed

lemma expo_mono: "0 < x \<Longrightarrow> x \<le> y \<Longrightarrow> expo x \<le> expo y"
proof (rule ccontr)
  assume "0 < x" "x \<le> y" "\<not> expo x \<le> expo y"
  then have "(2 :: rat) powi (expo y + 1) \<le> 2 powi expo x" by (intro powi_mono2) simp
  with expo_bounds(2) [of y] expo_bounds(1) [of x] \<open>0 < x\<close> \<open>x \<le> y\<close> show False by linarith
qed

lemma expo_unique: "0 < x \<Longrightarrow> 2 powi e \<le> x \<Longrightarrow> x < 2 powi (e + 1) \<Longrightarrow> expo x = e"
proof -
  assume x: "0 < x" "2 powi e \<le> x" "x < 2 powi (e + 1)"
  have "expo x \<le> e"
  proof (rule ccontr)
    assume "\<not> expo x \<le> e"
    then have "(2 :: rat) powi (e + 1) \<le> 2 powi expo x" by (intro powi_mono2) simp
    with x expo_bounds(1) [of x] show False by linarith
  qed
  moreover have "e \<le> expo x"
  proof (rule ccontr)
    assume "\<not> e \<le> expo x"
    then have "(2 :: rat) powi (expo x + 1) \<le> 2 powi e" by (intro powi_mono2) simp
    with x expo_bounds(2) [of x] show False by linarith
  qed
  ultimately show ?thesis by simp
qed

subsection \<open>Rounding is monotone and fixes the representable values\<close>

lemma fl_0 [simp]: "fl 0 = 0"
  by (simp add: fl_def)

lemma fl_pos_eq: "0 < x \<Longrightarrow> fl x = of_int (rne (x * 2 powi (- ulp_expo x))) * 2 powi ulp_expo x"
  by (simp add: fl_def)

lemma fl_neg: "fl (- x) = - fl x"
  by (auto simp: fl_def)

text \<open>A bound \<open>2 powi e\<close> at or above the unit in the last place survives rounding.\<close>

lemma fl_le_powi:
  assumes "0 < x" "x \<le> 2 powi e" "ulp_expo x \<le> e"
  shows "fl x \<le> 2 powi e"
proof -
  let ?k = "ulp_expo x"
  have "x * 2 powi (- ?k) \<le> 2 powi e * 2 powi (- ?k)" using assms by simp
  also have "\<dots> = of_int (2 ^ nat (e - ?k))" using assms(3) by (simp add: powi_of_nonneg flip: powi_add2)
  finally have "rne (x * 2 powi (- ?k)) \<le> 2 ^ nat (e - ?k)"
    using rne_mono rne_of_int by (metis of_int_power of_int_numeral)
  then have "(of_int (rne (x * 2 powi (- ?k))) :: rat) \<le> of_int (2 ^ nat (e - ?k))"
    by (simp only: of_int_le_iff)
  also have "\<dots> = 2 powi (e - ?k)" using assms(3) by (simp add: powi_of_nonneg)
  finally have "of_int (rne (x * 2 powi (- ?k))) * 2 powi ?k \<le> 2 powi (e - ?k) * (2 powi ?k :: rat)"
    by simp
  also have "\<dots> = 2 powi e" by (simp flip: powi_add2)
  finally show ?thesis using assms(1) by (simp add: fl_pos_eq)
qed

lemma powi_le_fl:
  assumes "0 < x" "2 powi e \<le> x" "ulp_expo x \<le> e"
  shows "2 powi e \<le> fl x"
proof -
  let ?k = "ulp_expo x"
  have "of_int (2 ^ nat (e - ?k)) = 2 powi e * (2 powi (- ?k) :: rat)"
    using assms(3) by (simp add: powi_of_nonneg flip: powi_add2)
  also have "\<dots> \<le> x * 2 powi (- ?k)" using assms by simp
  finally have "2 ^ nat (e - ?k) \<le> rne (x * 2 powi (- ?k))"
    using rne_mono rne_of_int by (metis of_int_power of_int_numeral)
  then have "(of_int (2 ^ nat (e - ?k)) :: rat) \<le> of_int (rne (x * 2 powi (- ?k)))"
    by (simp only: of_int_le_iff)
  then have "2 powi (e - ?k) \<le> (of_int (rne (x * 2 powi (- ?k))) :: rat)"
    using assms(3) by (simp add: powi_of_nonneg)
  then have "2 powi (e - ?k) * (2 powi ?k :: rat) \<le> of_int (rne (x * 2 powi (- ?k))) * 2 powi ?k"
    by simp
  then have "2 powi e \<le> of_int (rne (x * 2 powi (- ?k))) * (2 powi ?k :: rat)"
    by (simp flip: powi_add2)
  then show ?thesis using assms(1) by (simp add: fl_pos_eq)
qed

lemma fl_mono_pos:
  assumes "0 < x" "x \<le> y"
  shows "fl x \<le> fl y"
proof (cases "ulp_expo x = ulp_expo y")
  case True
  have "rne (x * 2 powi (- ulp_expo y)) \<le> rne (y * 2 powi (- ulp_expo y))"
    using assms by (intro rne_mono) simp
  with True assms show ?thesis by (simp add: fl_pos_eq)
next
  case False
  have e: "expo x \<le> expo y" using assms by (rule expo_mono)
  with False have lt: "ulp_expo x < ulp_expo y" and u: "ulp_expo y = expo y - 52" and ne: "expo x < expo y"
    by (auto simp: ulp_expo_def max_def split: if_splits)
  have "x \<le> 2 powi (expo x + 1)" using expo_bounds(2) assms by (simp add: less_imp_le)
  also have "(2 :: rat) powi (expo x + 1) \<le> 2 powi expo y" using ne by (intro powi_mono2) simp
  finally have "fl x \<le> 2 powi expo y" using assms lt u by (intro fl_le_powi) simp_all
  also have "\<dots> \<le> fl y" using assms u by (intro powi_le_fl expo_bounds) simp_all
  finally show ?thesis .
qed

lemma fl_nonneg: "0 \<le> x \<Longrightarrow> 0 \<le> fl x"
proof (cases "x = 0")
  case False
  assume "0 \<le> x"
  with False have "0 < x" by simp
  then have "rne 0 \<le> rne (x * 2 powi (- ulp_expo x))" by (intro rne_mono) simp
  then have "0 \<le> rne (x * 2 powi (- ulp_expo x))" by (simp add: rne_def)
  with \<open>0 < x\<close> show ?thesis by (simp add: fl_pos_eq)
qed simp

lemma fl_mono: "0 \<le> x \<Longrightarrow> x \<le> y \<Longrightarrow> fl x \<le> fl y"
  by (cases "x = 0") (auto intro: fl_nonneg fl_mono_pos)

lemma fl_powi:
  assumes "- 1074 \<le> e" shows "fl (2 powi e) = 2 powi e"
proof -
  have "expo (2 powi e) = e" by (rule expo_unique) (simp_all add: power_int_add)
  then have "ulp_expo (2 powi e) \<le> e" using assms by (simp add: ulp_expo_def)
  then show ?thesis by (intro antisym fl_le_powi powi_le_fl) simp_all
qed

lemma fl_repr:
  assumes "0 \<le> m" "m \<le> 2 ^ 53" "- 1074 \<le> k"
  shows "fl (of_int m * 2 powi k) = of_int m * 2 powi k"
proof -
  let ?x = "of_int m * 2 powi k :: rat"
  consider "m = 0" | "m = 2 ^ 53" | "0 < m" "m < 2 ^ 53" using assms by linarith
  then show ?thesis
  proof cases
    case 2
    then have "?x = 2 powi (53 + k)" by (simp add: power_int_add)
    with assms show ?thesis using fl_powi [of "53 + k"] by simp
  next
    case 3
    then have pos: "0 < ?x" by simp
    have "expo ?x < 53 + k"
    proof (rule ccontr)
      assume "\<not> expo ?x < 53 + k"
      then have "(2 :: rat) powi (53 + k) \<le> 2 powi expo ?x" by (intro powi_mono2) simp
      also have "\<dots> \<le> ?x" by (rule expo_bounds(1) [OF pos])
      finally have "(2 :: rat) ^ 53 \<le> of_int m" by (simp add: power_int_add)
      then have "of_int (2 ^ 53) \<le> (of_int m :: rat)" by simp
      then have "2 ^ 53 \<le> m" by (simp only: of_int_le_iff)
      with 3 show False by simp
    qed
    then have k: "ulp_expo ?x \<le> k" using assms by (simp add: ulp_expo_def)
    let ?n = "m * 2 ^ nat (k - ulp_expo ?x)"
    have n: "?x * 2 powi (- ulp_expo ?x) = of_int ?n"
    proof -
      have "2 powi k * 2 powi (- ulp_expo ?x) = (of_int (2 ^ nat (k - ulp_expo ?x)) :: rat)"
        using k powi_of_nonneg [of "k - ulp_expo ?x"] by (simp flip: powi_add2)
      then show ?thesis by (simp only: mult.assoc of_int_mult)
    qed
    have "fl ?x = of_int ?n * 2 powi ulp_expo ?x" using pos by (simp only: fl_pos_eq n rne_of_int)
    also have "\<dots> = ?x * (2 powi (- ulp_expo ?x) * 2 powi ulp_expo ?x)" by (simp only: n [symmetric] mult.assoc)
    also have "\<dots> = ?x" by (simp flip: powi_add2)
    finally show ?thesis .
  qed simp
qed

lemma fl_of_nat: "n \<le> 2 ^ 53 \<Longrightarrow> fl (of_nat n) = of_nat n"
proof -
  assume "n \<le> 2 ^ 53"
  then have "int n \<le> 2 ^ 53" by (metis of_nat_le_iff of_nat_numeral of_nat_power)
  then show ?thesis using fl_repr [of "int n" 0] by simp
qed

text \<open>Rounding a second time changes nothing.\<close>

lemma fl_idem:
  assumes "0 \<le> x" shows "fl (fl x) = fl x"
proof (cases "x = 0")
  case False
  with assms have pos: "0 < x" by simp
  let ?k = "ulp_expo x" and ?m = "rne (x * 2 powi (- ulp_expo x))"
  have "x * 2 powi (- ?k) \<le> 2 powi (expo x + 1) * 2 powi (- ?k)"
    using expo_bounds(2) [OF pos] by simp
  also have "\<dots> \<le> 2 powi 53" unfolding powi_add2 [symmetric] by (rule powi_mono2) (simp add: ulp_expo_def)
  finally have "?m \<le> rne (of_int (2 ^ 53))" by (intro rne_mono) simp
  then have le: "?m \<le> 2 ^ 53" by (simp only: rne_of_int)
  have "rne (of_int 0) \<le> ?m" using pos by (intro rne_mono) simp
  then have "0 \<le> ?m" by (simp only: rne_of_int)
  then show ?thesis using le pos fl_repr [of ?m ?k] by (simp add: fl_pos_eq ulp_expo_def)
qed simp

lemma fl_numeral1 [simp]: "fl 1 = 1"
  using fl_of_nat [of 1] by simp

lemma mk_Fin: "0 \<le> x \<Longrightarrow> x \<le> 2 ^ 1023 \<Longrightarrow> mk x = Fin (fl x)"
proof -
  assume "0 \<le> x" "x \<le> 2 ^ 1023"
  then have "fl x \<le> fl (2 ^ 1023)" and nn: "0 \<le> fl x" by (auto intro: fl_mono fl_nonneg)
  moreover have "fl (2 ^ 1023) = 2 ^ 1023" using fl_powi [of 1023] by simp
  ultimately have "fl x < 2 ^ 1024" by simp
  moreover have "- (2 ^ 1024) < fl x" using nn by (rule less_le_trans [rotated]) simp
  ultimately show ?thesis by (simp add: mk_def Let_def)
qed

end
