(* ===== verification/Inmem_Reputation.thy ===== *)
theory Inmem_Reputation
  imports Errors Float64 "HOL-Library.AList"
begin

section \<open>Reputations: starterimpl/inmem/inmem.go, interface reputation.ReputationStore\<close>

text \<open>
  A proportional reputation counts good interactions against all of them, in \<open>float64\<close>;
  its value is the quotient. The store maps peers to entries and creates a missing entry
  on first use, so that every peer has a reputation at all times. The locale
  \<open>reputation_store\<close> states that contract by the function \<open>rep_of\<close>, the reputation a peer
  has whether or not its entry exists yet.
\<close>

subsection \<open>Proportional reputations\<close>

record proportionalReputation =
  rep_peerID :: "peer_id option"
  good :: f64
  total :: f64

definition Reward :: "proportionalReputation \<Rightarrow> proportionalReputation" where
  "Reward r = \<lparr> rep_peerID = rep_peerID r, good = fadd (good r) (Fin 1), total = fadd (total r) (Fin 1) \<rparr>"

definition StrongPenalize :: "proportionalReputation \<Rightarrow> proportionalReputation" where
  "StrongPenalize r = \<lparr> rep_peerID = rep_peerID r, good = good r, total = fadd (total r) (Fin 3) \<rparr>"

definition WeakPenalize :: "proportionalReputation \<Rightarrow> proportionalReputation" where
  "WeakPenalize r = \<lparr> rep_peerID = rep_peerID r, good = good r, total = fadd (total r) (Fin 1) \<rparr>"

definition Value :: "proportionalReputation \<Rightarrow> f64" where
  "Value r = (if total r = Fin 0 then Fin 1 else fdiv (good r) (total r))"

definition defaultReputation :: "peer_id option \<Rightarrow> proportionalReputation" where
  "defaultReputation peerID = \<lparr> rep_peerID = peerID, good = Fin 0, total = Fin 0 \<rparr>"

subsection \<open>The store\<close>

record repStore =
  reps :: "(peer_id option \<times> proportionalReputation) list"
  createFunc :: "peer_id option \<Rightarrow> proportionalReputation"

definition NewReputationStore :: "(peer_id option \<Rightarrow> proportionalReputation) option \<Rightarrow> repStore" where
  "NewReputationStore cf =
     \<lparr> reps = [], createFunc = (case cf of None \<Rightarrow> defaultReputation | Some f \<Rightarrow> f) \<rparr>"

definition ensureRepExists :: "peer_id option \<Rightarrow> repStore \<Rightarrow> proportionalReputation \<times> repStore" where
  "ensureRepExists peerID rs =
     (case map_of (reps rs) peerID of
        Some e \<Rightarrow> (e, rs)
      | None \<Rightarrow> (let e = createFunc rs peerID in (e, rs\<lparr>reps := AList.update peerID e (reps rs)\<rparr>)))"

type_synonym ('r, 'w) repReadFunc =
  "proportionalReputation \<Rightarrow> 'r \<times> 'w \<Rightarrow> (error option \<times> ('r \<times> 'w)) option"
type_synonym ('r, 'w) repWriteFunc =
  "proportionalReputation \<Rightarrow> 'r \<times> 'w \<Rightarrow> ((proportionalReputation option \<times> error option) \<times> ('r \<times> 'w)) option"

definition ReadRep ::
  "peer_id option \<Rightarrow> (repStore, 'w) repReadFunc \<Rightarrow> repStore \<times> 'w \<Rightarrow> (error option \<times> (repStore \<times> 'w)) option" where
  "ReadRep peerID readFunc st = (case st of (rs, w) \<Rightarrow>
     (case ensureRepExists peerID rs of (e, rs) \<Rightarrow> readFunc e (rs, w)))"

text \<open>
  The entry is a pointer: what the write function returned goes into it, in the map as
  it is after the write function ran.
\<close>

definition UpdateRep ::
  "peer_id option \<Rightarrow> (repStore, 'w) repWriteFunc \<Rightarrow> repStore \<times> 'w \<Rightarrow> (error option \<times> (repStore \<times> 'w)) option" where
  "UpdateRep peerID writeFunc st = (case st of (rs, w) \<Rightarrow>
     (case ensureRepExists peerID rs of (e, rs) \<Rightarrow> do {
        ((updated, err), (rs, w)) \<leftarrow> writeFunc e (rs, w);
        returns (err, (case updated of
            None \<Rightarrow> (rs, w)
          | Some r \<Rightarrow> (rs\<lparr>reps := AList.update peerID r (reps rs)\<rparr>, w))) }))"

subsection \<open>The contract of a reputation store\<close>

locale reputation_store =
  fixes rep_of :: "'r \<Rightarrow> peer_id option \<Rightarrow> proportionalReputation"
    and read :: "peer_id option \<Rightarrow> ('r, 'w) repReadFunc \<Rightarrow> 'r \<times> 'w \<Rightarrow> (error option \<times> ('r \<times> 'w)) option"
    and update :: "peer_id option \<Rightarrow> ('r, 'w) repWriteFunc \<Rightarrow> 'r \<times> 'w \<Rightarrow> (error option \<times> ('r \<times> 'w)) option"
  assumes read_calls: "\<exists>rs'. rep_of rs' = rep_of rs \<and> read p f (rs, w) = f (rep_of rs p) (rs', w)"
    and update_calls: "\<exists>rs'. rep_of rs' = rep_of rs \<and>
          (g (rep_of rs p) (rs', w) = None \<longrightarrow> update p g (rs, w) = None) \<and>
          (\<forall>u err rs2 w2. g (rep_of rs p) (rs', w) = Some ((u, err), (rs2, w2)) \<longrightarrow>
             (\<exists>rs3. update p g (rs, w) = Some (err, (rs3, w2)) \<and>
                rep_of rs3 = (case u of None \<Rightarrow> rep_of rs2 | Some r \<Rightarrow> (rep_of rs2)(p := r))))"
begin

text \<open>Reading never fails for want of an entry, and by itself changes no reputation.\<close>

lemma read_pure:
  assumes "\<And>rs'. f (rep_of rs p) (rs', w) = Some (err, (rs', w'))"
  shows "\<exists>rs'. read p f (rs, w) = Some (err, (rs', w')) \<and> rep_of rs' = rep_of rs"
  using read_calls [of rs p f w] assms by auto

lemma update_sets:
  assumes "\<And>rs'. f (rep_of rs p) (rs', w) = Some ((Some r, err), (rs', w'))"
  shows "\<exists>rs'. update p f (rs, w) = Some (err, (rs', w')) \<and> rep_of rs' = (rep_of rs)(p := r)"
proof -
  obtain rs' where "\<forall>u err rs2 w2. f (rep_of rs p) (rs', w) = Some ((u, err), (rs2, w2)) \<longrightarrow>
      (\<exists>rs3. update p f (rs, w) = Some (err, (rs3, w2)) \<and>
         rep_of rs3 = (case u of None \<Rightarrow> rep_of rs2 | Some r \<Rightarrow> (rep_of rs2)(p := r)))"
    and "rep_of rs' = rep_of rs"
    using update_calls [of rs f p w] by blast
  then show ?thesis by (simp add: assms)
qed

end

definition rep_of :: "repStore \<Rightarrow> peer_id option \<Rightarrow> proportionalReputation" where
  "rep_of rs p = (case map_of (reps rs) p of None \<Rightarrow> createFunc rs p | Some r \<Rightarrow> r)"

lemma ensureRepExists_rep_of:
  "fst (ensureRepExists p rs) = rep_of rs p" "rep_of (snd (ensureRepExists p rs)) = rep_of rs"
  by (auto simp: ensureRepExists_def rep_of_def update_conv' fun_eq_iff Let_def split: option.splits)

lemma rep_of_put: "rep_of (rs\<lparr>reps := AList.update p r (reps rs)\<rparr>) = (rep_of rs)(p := r)"
  by (auto simp: rep_of_def update_conv' fun_eq_iff split: option.splits)

interpretation rep: reputation_store rep_of ReadRep UpdateRep
proof unfold_locales
  fix rs :: repStore and p and f :: "(repStore, 'w) repReadFunc" and w :: 'w
  show "\<exists>rs'. rep_of rs' = rep_of rs \<and> ReadRep p f (rs, w) = f (rep_of rs p) (rs', w)"
    by (rule exI [of _ "snd (ensureRepExists p rs)"])
      (simp add: ReadRep_def ensureRepExists_rep_of split_beta)
next
  fix rs :: repStore and p and g :: "(repStore, 'w) repWriteFunc" and w :: 'w
  show "\<exists>rs'. rep_of rs' = rep_of rs \<and>
          (g (rep_of rs p) (rs', w) = None \<longrightarrow> UpdateRep p g (rs, w) = None) \<and>
          (\<forall>u err rs2 w2. g (rep_of rs p) (rs', w) = Some ((u, err), (rs2, w2)) \<longrightarrow>
             (\<exists>rs3. UpdateRep p g (rs, w) = Some (err, (rs3, w2)) \<and>
                rep_of rs3 = (case u of None \<Rightarrow> rep_of rs2 | Some r \<Rightarrow> (rep_of rs2)(p := r))))"
    by (rule exI [of _ "snd (ensureRepExists p rs)"])
      (auto simp: UpdateRep_def ensureRepExists_rep_of split_beta rep_of_put split: option.splits)
qed

subsection \<open>Counts and values stay in range\<close>

text \<open>
  A sound reputation has finite counts \<open>0 \<le> good \<le> total\<close>, representable in \<open>float64\<close>
  and at most \<open>2 ^ 55\<close>, where adding 1 or 3 rounds back: the counts saturate instead of
  growing without bound.
\<close>

definition sound_rep :: "proportionalReputation \<Rightarrow> bool" where
  "sound_rep r = (case (good r, total r) of
     (Fin g, Fin t) \<Rightarrow> 0 \<le> g \<and> g \<le> t \<and> t \<le> 2 ^ 55 \<and> fl g = g \<and> fl t = t
   | _ \<Rightarrow> False)"

lemma sound_repE:
  assumes "sound_rep r"
  obtains g t where "good r = Fin g" "total r = Fin t" "0 \<le> g" "g \<le> t" "t \<le> 2 ^ 55" "fl g = g" "fl t = t"
  using assms by (auto simp: sound_rep_def split: f64.splits)

lemma sound_default: "sound_rep (defaultReputation p)"
  by (simp add: sound_rep_def defaultReputation_def)

datatype rep_event = Rewarded | WeaklyPenalized | StronglyPenalized

fun rep_apply :: "rep_event \<Rightarrow> proportionalReputation \<Rightarrow> proportionalReputation" where
  "rep_apply Rewarded r = Reward r"
| "rep_apply WeaklyPenalized r = WeakPenalize r"
| "rep_apply StronglyPenalized r = StrongPenalize r"

definition rep_history :: "rep_event list \<Rightarrow> proportionalReputation \<Rightarrow> proportionalReputation" where
  "rep_history es r = foldl (\<lambda>r e. rep_apply e r) r es"


lemma fl_saturates: "fl (2 ^ 55 + 1) = 2 ^ 55" "fl (2 ^ 55 + 3) = 2 ^ 55"
  by code_simp+

lemma add_count:
  assumes "0 \<le> x" "x \<le> 2 ^ 55" "d = 1 \<or> d = 3"
  shows "fadd (Fin x) (Fin d) = Fin (fl (x + d))" "0 \<le> fl (x + d)" "fl (x + d) \<le> 2 ^ 55"
    "fl (fl (x + d)) = fl (x + d)"
proof -
  have nn: "0 \<le> x + d" using assms by auto
  have "x + d \<le> 2 ^ 1023" using assms by auto
  then show "fadd (Fin x) (Fin d) = Fin (fl (x + d))" using nn by (simp add: mk_Fin)
  show "0 \<le> fl (x + d)" using nn by (rule fl_nonneg)
  have "fl (x + d) \<le> fl (2 ^ 55 + d)" using nn assms(2) by (intro fl_mono) simp_all
  then show "fl (x + d) \<le> 2 ^ 55" using assms(3) fl_saturates by auto
  show "fl (fl (x + d)) = fl (x + d)" using nn by (rule fl_idem)
qed

lemma fl_grows: "0 \<le> x \<Longrightarrow> fl x = x \<Longrightarrow> 0 \<le> d \<Longrightarrow> x \<le> fl (x + d)"
  using fl_mono [of x "x + d"] by simp

lemma sound_Reward: "sound_rep r \<Longrightarrow> sound_rep (Reward r)"
proof (elim sound_repE)
  fix g t
  assume h: "good r = Fin g" "total r = Fin t" "0 \<le> g" "g \<le> t" "t \<le> 2 ^ 55" "fl g = g" "fl t = t"
  have "fl (g + 1) \<le> fl (t + 1)" using h by (intro fl_mono) simp_all
  with h add_count [of g 1] add_count [of t 1] show ?thesis
    by (simp add: sound_rep_def Reward_def del: fadd.simps)
qed

lemma sound_penalty:
  assumes "sound_rep r" "d = 1 \<or> d = 3"
  shows "sound_rep \<lparr>rep_peerID = p, good = good r, total = fadd (total r) (Fin d)\<rparr>"
  using assms(1)
proof (elim sound_repE)
  fix g t
  assume h: "good r = Fin g" "total r = Fin t" "0 \<le> g" "g \<le> t" "t \<le> 2 ^ 55" "fl g = g" "fl t = t"
  have "t \<le> fl (t + d)" using h assms(2) by (intro fl_grows) auto
  with h add_count [of t d] assms(2) show ?thesis
    by (simp add: sound_rep_def del: fadd.simps)
qed

lemma sound_apply: "sound_rep r \<Longrightarrow> sound_rep (rep_apply e r)"
  by (cases e) (simp_all add: sound_Reward sound_penalty WeakPenalize_def StrongPenalize_def)

lemma sound_history: "sound_rep r \<Longrightarrow> sound_rep (rep_history es r)"
  unfolding rep_history_def by (induction es arbitrary: r) (simp_all add: sound_apply)

lemma Value_sound:
  assumes "good r = Fin g" "total r = Fin t" "0 \<le> g" "g \<le> t"
  shows "Value r = (if t = 0 then Fin 1 else Fin (fl (g / t)))" "t \<noteq> 0 \<Longrightarrow> 0 \<le> g / t \<and> g / t \<le> 1"
proof -
  show q: "0 \<le> g / t \<and> g / t \<le> 1" if "t \<noteq> 0" using that assms by (simp add: field_simps)
  show "Value r = (if t = 0 then Fin 1 else Fin (fl (g / t)))"
  proof (cases "t = 0")
    case False
    with q have "0 \<le> g / t" "g / t \<le> 1" by simp_all
    then have "mk (g / t) = Fin (fl (g / t))"
      by (intro mk_Fin) (auto intro: order_trans [of _ 1] simp: one_le_power)
    with False assms show ?thesis by (simp add: Value_def)
  qed (use assms in \<open>simp add: Value_def\<close>)
qed

end
