(* ===== verification/Node.thy ===== *)
theory Node
  imports Inmem_Connections Inmem_Reputation
begin

section \<open>The node: v2/goclarinet.go, with the interfaces of v2/peer and v2/transport\<close>

text \<open>
  A node is a set of collaborators (record \<open>nodeEnv\<close>, the fields of the Go struct that are
  code) and the state they work on: the connection store, the reputation store and the world
  outside the process, of type \<open>'w\<close>, which the peer store and the transport read and change.
  One definition per method of \<open>Node\<close>; a write function given to \<open>Update\<close> is the closure
  that the code passes. Log calls have no effect in the model, except where their arguments
  can panic.
\<close>

subsection \<open>Collaborators\<close>

text \<open>
  \<open>transport.Options\<close>: durations in nanoseconds, nil for the default. The untyped map of
  additional options is read by no code and left out.
\<close>

record transportOptions =
  Timeout :: "int option"
  WriteTimeout :: "int option"
  ReadTimeout :: "int option"

text \<open>The interface \<open>peer.PeerStore\<close>; reading it may panic and leaves the world as it is.\<close>

record 'w PeerStore =
  AddAddr :: "peer_id option \<Rightarrow> Address \<Rightarrow> 'w \<Rightarrow> (error option \<times> 'w) option"
  Find :: "peer_id option \<Rightarrow> 'w \<Rightarrow> (error + Peer) option"
  AllPeers :: "'w \<Rightarrow> (error + Peer list) option"
  SelfPeer :: "'w \<Rightarrow> (error + Peer) option"

text \<open>
  What a node relies on: a peer that is found has the identifier it was looked up by, and
  the store knows the node itself, always under the same identifier.
\<close>

locale peer_store =
  fixes find :: "peer_id option \<Rightarrow> 'w \<Rightarrow> (error + Peer) option"
    and self :: "'w \<Rightarrow> (error + Peer) option"
    and me :: peer_id
  assumes find_ID: "find p w = Some (Inr q) \<Longrightarrow> peer_ID q = p"
    and self_found: "self w = Some r \<Longrightarrow> \<exists>q. r = Inr q \<and> peer_ID q = Some me"
begin

lemma self_ID: "self w = Some (Inr q) \<Longrightarrow> peer_ID q = Some me"
  using self_found by fastforce

lemma self_cases:
  obtains (panics) "self w = None" | (found) q where "self w = Some (Inr q)" "peer_ID q = Some me"
  by (cases "self w") (use self_found in auto)

text \<open>The three lookups with which the handlers of requests begin.\<close>

lemma lookups:
  assumes "find s w = Some (Inr a)" "find r w = Some (Inr b)" "self w = Some (Inr m)"
  shows "peer_ID a = s" "peer_ID b = r" "peer_ID m = Some me"
  using assms by (auto dest: find_ID self_ID)

end

text \<open>
  The interface \<open>transport.Transport\<close>: \<open>Send\<close> and \<open>Exchange\<close> at the types the node uses
  them with. \<open>Exchange\<close> yields an error or the response it filled in.
\<close>

record 'w Transport =
  SendNotification :: "Peer \<Rightarrow> transportOptions \<Rightarrow> WitnessNotification \<Rightarrow> 'w \<Rightarrow> (error option \<times> 'w) option"
  SendClose :: "Peer \<Rightarrow> transportOptions \<Rightarrow> CloseRequest \<Rightarrow> 'w \<Rightarrow> (error option \<times> 'w) option"
  ExchangeConnect :: "Peer \<Rightarrow> transportOptions \<Rightarrow> ConnectRequest \<Rightarrow> 'w \<Rightarrow> ((error + ConnectResponse) \<times> 'w) option"
  ExchangeWitness :: "Peer \<Rightarrow> transportOptions \<Rightarrow> WitnessRequest \<Rightarrow> 'w \<Rightarrow> ((error + WitnessResponse) \<times> 'w) option"
  ExchangePeers :: "Peer \<Rightarrow> transportOptions \<Rightarrow> PeersRequest \<Rightarrow> 'w \<Rightarrow> ((error + PeersResponse) \<times> 'w) option"

type_synonym 'w svc = "repStore \<times> 'w"
type_synonym 'w nodeState = "connStore \<times> 'w svc"

text \<open>
  \<open>newRandom\<close> is the library call behind \<open>NewRandomID\<close>, \<open>mapOrder\<close> the order in which Go
  ranges over the connection map.
\<close>

record 'w nodeEnv =
  peerStore :: "'w PeerStore"
  transport :: "'w Transport"
  trusts :: "proportionalReputation \<Rightarrow> 'w svc \<Rightarrow> ((bool \<times> error option) \<times> 'w svc) option"
  logLevel :: Level
  newRandom :: "'w \<Rightarrow> (uuid \<times> error option) \<times> 'w"
  mapOrder :: "uuid list \<Rightarrow> uuid list"
  envNames :: names

subsection \<open>Peers\<close>

text \<open>
  At trace level the peer is looked up again after each address; when that fails, the log
  call reads the fields of a nil peer.
\<close>

fun add_addresses :: "'w nodeEnv \<Rightarrow> Peer \<Rightarrow> Address list \<Rightarrow> 'w \<Rightarrow> (error option \<times> 'w) option" where
  "add_addresses env p [] w = returns (None, w)"
| "add_addresses env p (addr # addrs) w = do {
     (err, w) \<leftarrow> AddAddr (peerStore env) (peer_ID p) addr w;
     (case err of
        Some e \<Rightarrow> returns (Some e, w)
      | None \<Rightarrow>
          if AtLeast (logLevel env) Trace then do {
            found \<leftarrow> Find (peerStore env) (peer_ID p) w;
            (case found of Inl e \<Rightarrow> panic | Inr q \<Rightarrow> add_addresses env p addrs w) }
          else add_addresses env p addrs w) }"

definition UpdatePeer :: "'w nodeEnv \<Rightarrow> Peer \<Rightarrow> 'w \<Rightarrow> (error option \<times> 'w) option" where
  "UpdatePeer env p w = add_addresses env p (Addresses p) w"

subsection \<open>Requesting the connection\<close>

definition requestConnection ::
  "'w nodeEnv \<Rightarrow> Peer \<Rightarrow> Connection \<Rightarrow> Options \<Rightarrow> transportOptions \<Rightarrow> 'w \<Rightarrow> (error option \<times> 'w) option" where
  "requestConnection env dest conn connOpts trptOpts w = do {
     (r, w) \<leftarrow> ExchangeConnect (transport env) dest trptOpts
        \<lparr> cq_ConnectionID = ID conn, cq_Sender = Sender conn, cq_Receiver = Receiver conn, cq_Options = connOpts \<rparr> w;
     returns (case r of
         Inl err \<Rightarrow> Some err
       | Inr resp \<Rightarrow>
           if cr_ConnectionID resp \<noteq> ID conn then Some (ConnectResponseWrongID (ID conn) (cr_ConnectionID resp))
           else if length (cr_Errors resp) > 0 then Some (ConnectResponseErrors (cr_Errors resp))
           else if cr_Accepted resp then None
           else Some (ConnectRejectError (cr_ConnectionID resp) (cr_RejectReasons resp)), w) }"

definition requestWitness ::
  "'w nodeEnv \<Rightarrow> Peer \<Rightarrow> Connection \<Rightarrow> Options \<Rightarrow> transportOptions \<Rightarrow> 'w \<Rightarrow> (error option \<times> 'w) option" where
  "requestWitness env p conn connOpts trptOpts w = do {
     (r, w) \<leftarrow> ExchangeWitness (transport env) p trptOpts
        \<lparr> wq_ConnectionID = ID conn, wq_Sender = Sender conn, wq_Receiver = Receiver conn, wq_Options = connOpts \<rparr> w;
     returns (case r of
         Inl err \<Rightarrow> Some err
       | Inr resp \<Rightarrow>
           if wr_ConnectionID resp \<noteq> ID conn then Some (WitnessResponseWrongID (wr_ConnectionID resp) (ID conn))
           else if length (wr_Errors resp) > 0 then Some (WitnessResponseErrors (wr_Errors resp))
           else if wr_Accepted resp then None
           else Some (WitnessRejectError (wr_ConnectionID resp) (wr_RejectReasons resp)), w) }"

subsection \<open>Selecting a witness\<close>

text \<open>
  The read function appends a trusted peer to the captured list of candidates, so the list
  is part of the state it threads. An error of the assessment is logged and skips the peer.
\<close>

definition assess :: "'w nodeEnv \<Rightarrow> Peer \<Rightarrow> (repStore, Peer list \<times> 'w) repReadFunc" where
  "assess env p rep st = (case st of (rs, cands, w) \<Rightarrow> do {
     ((trusted, err), (rs, w)) \<leftarrow> trusts env rep (rs, w);
     (case err of
        Some e \<Rightarrow> returns (Some e, (rs, cands, w))
      | None \<Rightarrow> returns (None, (rs, if trusted then cands @ [p] else cands, w))) })"

fun assess_peers :: "'w nodeEnv \<Rightarrow> Connection \<Rightarrow> Peer list \<Rightarrow> repStore \<times> (Peer list \<times> 'w) \<Rightarrow>
    (repStore \<times> (Peer list \<times> 'w)) option" where
  "assess_peers env conn [] st = returns st"
| "assess_peers env conn (p # ps) st =
     (if peer_ID p = Receiver conn \<or> peer_ID p = Sender conn then assess_peers env conn ps st
      else do {
        (err, st) \<leftarrow> ReadRep (peer_ID p) (assess env p) st;
        assess_peers env conn ps st })"

definition witnessCandidates :: "'w nodeEnv \<Rightarrow> Connection \<Rightarrow> 'w svc \<Rightarrow> ((error + Peer list) \<times> 'w svc) option" where
  "witnessCandidates env conn s = (case s of (rs, w) \<Rightarrow> do {
     r \<leftarrow> AllPeers (peerStore env) w;
     (case r of
        Inl err \<Rightarrow> returns (Inl err, (rs, w))
      | Inr peers \<Rightarrow> do {
          (rs, cands, w) \<leftarrow> assess_peers env conn peers (rs, [], w);
          returns (Inr cands, (rs, w)) }) })"

fun try_candidates :: "'w nodeEnv \<Rightarrow> Connection \<Rightarrow> Options \<Rightarrow> transportOptions \<Rightarrow> Peer list \<Rightarrow> 'w \<Rightarrow>
    ((Connection option \<times> error option) \<times> 'w) option" where
  "try_candidates env conn connOpts trptOpts [] w =
     returns ((Some conn, Some (FailedToFindWitness (ID conn))), w)"
| "try_candidates env conn connOpts trptOpts (p # ps) w = do {
     (err, w) \<leftarrow> requestWitness env p conn connOpts trptOpts w;
     (case err of
        Some e \<Rightarrow> try_candidates env conn connOpts trptOpts ps w
      | None \<Rightarrow> returns (SetWitness conn (peer_ID p), w)) }"

definition findWitness :: "'w nodeEnv \<Rightarrow> Connection \<Rightarrow> Options \<Rightarrow> transportOptions \<Rightarrow> 'w svc \<Rightarrow>
    ((Connection option \<times> error option) \<times> 'w svc) option" where
  "findWitness env conn connOpts trptOpts s = (case SetStatus conn RequestingWitness of
     (c, Some err) \<Rightarrow> returns ((c, Some err), s)
   | (None, None) \<Rightarrow> panic
   | (Some conn, None) \<Rightarrow> do {
       (r, (rs, w)) \<leftarrow> witnessCandidates env conn s;
       (case r of
          Inl err \<Rightarrow> returns ((Some conn, Some err), (rs, w))
        | Inr cands \<Rightarrow> do {
            (res, w) \<leftarrow> try_candidates env conn connOpts trptOpts cands w;
            returns (res, (rs, w)) }) })"

text \<open>A connection that is neither from nor to this node makes the notification panic.\<close>

definition sendWitnessNotification ::
  "'w nodeEnv \<Rightarrow> Connection \<Rightarrow> transportOptions \<Rightarrow> 'w \<Rightarrow> (error option \<times> 'w) option" where
  "sendWitnessNotification env conn options w =
     (if Witness conn = None then returns (Some (NoWitnessAssigned (ID conn)), w)
      else do {
        self \<leftarrow> SelfPeer (peerStore env) w;
        (case self of
           Inl err \<Rightarrow> returns (Some err, w)
         | Inr self \<Rightarrow> do {
             peerToNotify \<leftarrow>
               (if Sender conn = peer_ID self then returns (Receiver conn)
                else if Receiver conn = peer_ID self then returns (Sender conn)
                else panic);
             p \<leftarrow> Find (peerStore env) peerToNotify w;
             (case p of
                Inl err \<Rightarrow> returns (Some err, w)
              | Inr p \<Rightarrow> SendNotification (transport env) p options
                  \<lparr> wn_ConnectionID = ID conn, wn_Witness = Witness conn \<rparr> w) }) })"

text \<open>
  \<open>handleWitnessSelection\<close> ends, on either selector, with notifying the other side; this
  part is \<open>notify_and_open\<close>. The connection it returns is persisted even with an error.
\<close>

definition notify_and_open :: "'w nodeEnv \<Rightarrow> Connection option \<times> error option \<Rightarrow> transportOptions \<Rightarrow> 'w svc \<Rightarrow>
    ((Connection option \<times> error option) \<times> 'w svc) option" where
  "notify_and_open env res transportOpts s = (case s of (rs, w) \<Rightarrow> (case res of
     (c, Some err) \<Rightarrow> returns ((c, Some err), (rs, w))
   | (None, None) \<Rightarrow> panic
   | (Some conn, None) \<Rightarrow>
       (case SetStatus conn NotifyingOfWitness of
          (c, Some err) \<Rightarrow> returns ((c, Some err), (rs, w))
        | (None, None) \<Rightarrow> panic
        | (Some conn, None) \<Rightarrow> do {
            (err, w) \<leftarrow> sendWitnessNotification env conn transportOpts w;
            (case err of
               Some e \<Rightarrow> returns ((Some conn, Some e), (rs, w))
             | None \<Rightarrow> returns (SetStatus conn Open, (rs, w))) })))"

definition handleWitnessSelection :: "'w nodeEnv \<Rightarrow> Connection \<Rightarrow> Options \<Rightarrow> transportOptions \<Rightarrow> 'w svc \<Rightarrow>
    ((Connection option \<times> error option) \<times> 'w svc) option" where
  "handleWitnessSelection env conn connOpts transportOpts s = do {
     self \<leftarrow> SelfPeer (peerStore env) (snd s);
     (case self of
        Inl err \<Rightarrow> returns ((None, Some err), s)
      | Inr self \<Rightarrow>
          (case WitnessSelector connOpts of
             Some WitnessSelectorSender \<Rightarrow>
               if peer_ID self \<noteq> Sender conn then returns (SetStatus conn AwaitingWitness, s)
               else do {
                 (res, s) \<leftarrow> findWitness env conn connOpts transportOpts s;
                 notify_and_open env res transportOpts s }
           | Some WitnessSelectorReceiver \<Rightarrow>
               if peer_ID self \<noteq> Receiver conn then returns (SetStatus conn AwaitingWitness, s)
               else do {
                 (res, s) \<leftarrow> findWitness env conn connOpts transportOpts s;
                 notify_and_open env res transportOpts s }
           | None \<Rightarrow>
               notify_and_open env
                 (Some conn, Some (UnrecognizedWitnessSelector (WitnessSelector connOpts))) transportOpts s)) }"

subsection \<open>Connect\<close>

definition connect_write :: "'w nodeEnv \<Rightarrow> Options \<Rightarrow> transportOptions \<Rightarrow> 'w svc writeFunc" where
  "connect_write env connOpts transportOpts conn s = (case s of (rs, w) \<Rightarrow> do {
     r \<leftarrow> Find (peerStore env) (Receiver conn) w;
     (case r of
        Inl err \<Rightarrow> returns ((None, Some err), (rs, w))
      | Inr receiver \<Rightarrow> do {
          (err, w) \<leftarrow> requestConnection env receiver conn connOpts transportOpts w;
          (case err of
             Some e \<Rightarrow> returns ((None, Some e), (rs, w))
           | None \<Rightarrow> handleWitnessSelection env conn connOpts transportOpts (rs, w)) }) })"

definition Connect :: "'w nodeEnv \<Rightarrow> Peer \<Rightarrow> Options \<Rightarrow> transportOptions \<Rightarrow> 'w nodeState \<Rightarrow>
    ((uuid \<times> error option) \<times> 'w nodeState) option" where
  "Connect env receiver connOpts transportOpts st = (case st of (cs, rs, w) \<Rightarrow> do {
     (err, w) \<leftarrow> UpdatePeer env receiver w;
     (case err of
        Some e \<Rightarrow> returns ((0, Some e), (cs, rs, w))
      | None \<Rightarrow> do {
          self \<leftarrow> SelfPeer (peerStore env) w;
          (case self of
             Inl e \<Rightarrow> returns ((0, Some e), (cs, rs, w))
           | Inr self \<Rightarrow>
               (case newRandom env w of (draw, w) \<Rightarrow>
               (case Create draw self receiver RequestingReceiver cs of
                  ((connID, Some e), cs) \<Rightarrow> returns ((0, Some e), (cs, rs, w))
                | ((connID, None), cs) \<Rightarrow> do {
                    (err, st) \<leftarrow> Update connID (connect_write env connOpts transportOpts) (cs, rs, w);
                    returns ((connID, err), st) }))) }) })"

subsection \<open>Closing\<close>

definition requestClose :: "'w nodeEnv \<Rightarrow> Peer \<Rightarrow> Connection \<Rightarrow> transportOptions \<Rightarrow> 'w \<Rightarrow> (error option \<times> 'w) option" where
  "requestClose env p conn options w =
     SendClose (transport env) p options \<lparr> cl_ConnectionID = ID conn \<rparr> w"

fun close_participants :: "'w nodeEnv \<Rightarrow> Peer \<Rightarrow> Connection \<Rightarrow> transportOptions \<Rightarrow> peer_id option list \<Rightarrow>
    error list \<Rightarrow> 'w \<Rightarrow> (error list \<times> 'w) option" where
  "close_participants env self conn options [] errs w = returns (errs, w)"
| "close_participants env self conn options (pid # ids) errs w =
     (if pid = peer_ID self \<or> pid = None then close_participants env self conn options ids errs w
      else do {
        r \<leftarrow> Find (peerStore env) pid w;
        (case r of
           Inl err \<Rightarrow> close_participants env self conn options ids (errs @ [ClosePeerLookup pid err]) w
         | Inr p \<Rightarrow> do {
             (err, w) \<leftarrow> requestClose env p conn options w;
             (case err of
                Some e \<Rightarrow> close_participants env self conn options ids (errs @ [CloseRequestFailed (peer_ID p) e]) w
              | None \<Rightarrow> close_participants env self conn options ids errs w) }) })"

text \<open>
  After a failure the error of \<open>SetStatus\<close>, normally nil, is appended to the list as well;
  a nil connection there would be dereferenced.
\<close>

definition close_write :: "'w nodeEnv \<Rightarrow> transportOptions \<Rightarrow> 'w svc writeFunc" where
  "close_write env transportOpts conn s = (case s of (rs, w) \<Rightarrow>
     (if Status conn = Closed then returns ((None, None), (rs, w))
      else do {
        self \<leftarrow> SelfPeer (peerStore env) w;
        (case self of
           Inl err \<Rightarrow> returns ((None, Some err), (rs, w))
         | Inr self \<Rightarrow> do {
             (errs, w) \<leftarrow> close_participants env self conn transportOpts
                [Sender conn, Witness conn, Receiver conn] [] w;
             (if length errs \<noteq> 0 then
                (case SetStatus conn Closing of
                   (None, err) \<Rightarrow> panic
                 | (Some conn, err) \<Rightarrow>
                     returns ((Some conn, Some (CloseError (ID conn) (map Some errs @ [err]))), (rs, w)))
              else returns (SetStatus conn Closed, (rs, w))) }) }))"

definition CloseConnection :: "'w nodeEnv \<Rightarrow> uuid \<Rightarrow> transportOptions \<Rightarrow> 'w nodeState \<Rightarrow>
    (error option \<times> 'w nodeState) option" where
  "CloseConnection env connID transportOpts st = Update connID (close_write env transportOpts) st"

subsection \<open>Views and peer exchange\<close>

text \<open>
  \<open>Connections\<close> reads every entry into a list of read-only views; the closure appends to the
  captured list. A failing read is logged and skipped.
\<close>

definition view_read :: "Connection list readFunc" where
  "view_read conn conns =
     returns (None, conns @ [readOnlyConnection (ID conn) (Sender conn) (Witness conn) (Receiver conn) (Status conn)])"

fun read_views :: "uuid list \<Rightarrow> connStore \<times> Connection list \<Rightarrow> (connStore \<times> Connection list) option" where
  "read_views [] st = returns st"
| "read_views (uid # ids) st = do { (err, st) \<leftarrow> Read uid view_read st; read_views ids st }"

definition Connections :: "'w nodeEnv \<Rightarrow> 'w nodeState \<Rightarrow> Connection list option" where
  "Connections env st = (case st of (cs, s) \<Rightarrow> do {
     (cs, conns) \<leftarrow> read_views (All (mapOrder env) cs) (cs, []);
     returns conns })"

definition PeersOf :: "'w nodeEnv \<Rightarrow> 'w \<Rightarrow> (error + Peer list) option" where
  "PeersOf env w = AllPeers (peerStore env) w"

definition SelfOf :: "'w nodeEnv \<Rightarrow> 'w \<Rightarrow> (error + Peer) option" where
  "SelfOf env w = SelfPeer (peerStore env) w"

text \<open>Adding the addresses of one received peer, then of all: failures are collected.\<close>

fun add_received :: "'w nodeEnv \<Rightarrow> Peer \<Rightarrow> Address list \<Rightarrow> error list \<Rightarrow> 'w \<Rightarrow> (error list \<times> 'w) option" where
  "add_received env np [] errs w = returns (errs, w)"
| "add_received env np (addr # addrs) errs w = do {
     (err, w) \<leftarrow> AddAddr (peerStore env) (peer_ID np) addr w;
     add_received env np addrs
       (case err of Some e \<Rightarrow> errs @ [AddAddrFailed addr (peer_ID np) e] | None \<Rightarrow> errs) w }"

fun add_received_peers :: "'w nodeEnv \<Rightarrow> Peer list \<Rightarrow> error list \<Rightarrow> 'w \<Rightarrow> (error list \<times> 'w) option" where
  "add_received_peers env [] errs w = returns (errs, w)"
| "add_received_peers env (np # nps) errs w = do {
     (errs, w) \<leftarrow> add_received env np (Addresses np) errs w;
     add_received_peers env nps errs w }"

definition RequestPeers :: "'w nodeEnv \<Rightarrow> Peer \<Rightarrow> PeersRequest \<Rightarrow> transportOptions \<Rightarrow> 'w \<Rightarrow>
    ((Peer list \<times> error option) \<times> 'w) option" where
  "RequestPeers env p request options w = do {
     (err, w) \<leftarrow> UpdatePeer env p w;
     (case err of
        Some e \<Rightarrow> returns (([], Some e), w)
      | None \<Rightarrow>
          if sint (Num request) < 1 then returns (([], Some MustRequestOnePeer), w)
          else do {
            (r, w) \<leftarrow> ExchangePeers (transport env) p options request w;
            (case r of
               Inl e \<Rightarrow> returns (([], Some e), w)
             | Inr resp \<Rightarrow>
                 let (peers, errs) =
                   (if int (length (Peers resp)) > sint (Num request)
                    then (take (nat (sint (Num request))) (Peers resp), [TooManyPeers])
                    else (Peers resp, []))
                 in do {
                   (errs, w) \<leftarrow> add_received_peers env peers errs w;
                   returns ((peers, if length errs > 0 then Some (CollectiveError errs) else None), w) }) }) }"

end
