(* ===== verification/Handlers.thy ===== *)
theory Handlers
  imports Node
begin

section \<open>The request handlers: v2/handlers.go\<close>

text \<open>
  What a node does when a peer calls it: each adapter checks the request, lets the user's
  handler decide and updates the connection store. \<open>Handlers\<close> are the user's handlers with
  their options, from package \<open>transport\<close>. A connect request may start a goroutine that
  selects the witness: the handler returns it as a task, and \<open>witness_task\<close> runs it.
\<close>

record 'w Handlers =
  ConnectHandler :: "peer_id option \<Rightarrow> ConnectRequest \<Rightarrow> 'w \<Rightarrow> ((ConnectResponse \<times> error option) \<times> 'w) option"
  WitnessHandler :: "peer_id option \<Rightarrow> WitnessRequest \<Rightarrow> 'w \<Rightarrow> ((WitnessResponse \<times> error option) \<times> 'w) option"
  PeerRequestHandler :: "peer_id option \<Rightarrow> PeersRequest \<Rightarrow> 'w \<Rightarrow> ((PeersResponse option \<times> error option) \<times> 'w) option"
  WitnessNotificationHandler :: "peer_id option \<Rightarrow> WitnessNotification \<Rightarrow> 'w \<Rightarrow> (error option \<times> 'w) option"
  CloseHandler :: "peer_id option \<Rightarrow> CloseRequest \<Rightarrow> 'w \<Rightarrow> (error option \<times> 'w) option"
  connectOptions :: transportOptions
  witnessOptions :: transportOptions
  peerRequestOptions :: transportOptions
  witnessNotificationOptions :: transportOptions
  closeOptions :: transportOptions

subsection \<open>Connect requests\<close>

definition connect_error :: "'w nodeEnv \<Rightarrow> ConnectRequest \<Rightarrow> error \<Rightarrow> ConnectResponse" where
  "connect_error env request err = \<lparr> cr_ConnectionID = cq_ConnectionID request,
     cr_Errors = [error_text (envNames env) err], cr_Accepted = False, cr_RejectReasons = [] \<rparr>"

definition connect_reject :: "ConnectRequest \<Rightarrow> string \<Rightarrow> ConnectResponse" where
  "connect_reject request reason = \<lparr> cr_ConnectionID = cq_ConnectionID request,
     cr_Errors = [], cr_Accepted = False, cr_RejectReasons = [reason] \<rparr>"

definition not_participant :: string where
  "not_participant = ''Will not accept connection from node that is not either the sender or the receiver.''"

definition not_for_us :: string where
  "not_for_us = ''Connection is not to or from this node.''"

text \<open>The task to select the witness of a connection with the options of its request.\<close>

type_synonym task = "uuid \<times> Options"

definition selects_witness :: "ConnectRequest \<Rightarrow> Peer \<Rightarrow> bool" where
  "selects_witness request self \<longleftrightarrow>
     (WitnessSelector (cq_Options request) = Some WitnessSelectorReceiver \<and> peer_ID self = cq_Receiver request) \<or>
     (WitnessSelector (cq_Options request) = Some WitnessSelectorSender \<and> peer_ID self = cq_Sender request)"

definition handle_connect :: "'w nodeEnv \<Rightarrow> 'w Handlers \<Rightarrow> peer_id option \<Rightarrow> ConnectRequest \<Rightarrow> 'w nodeState \<Rightarrow>
    ((ConnectResponse \<times> error option) \<times> task option \<times> 'w nodeState) option" where
  "handle_connect env h peerID request st = (case st of (cs, rs, w) \<Rightarrow> do {
     r \<leftarrow> Find (peerStore env) (cq_Sender request) w;
     (case r of Inl err \<Rightarrow> returns ((connect_error env request err, None), None, st)
      | Inr sender \<Rightarrow> do {
     r \<leftarrow> Find (peerStore env) (cq_Receiver request) w;
     (case r of Inl err \<Rightarrow> returns ((connect_error env request err, None), None, st)
      | Inr receiver \<Rightarrow>
     if peer_ID sender \<noteq> peerID \<and> peer_ID receiver \<noteq> peerID
     then returns ((connect_reject request not_participant, None), None, st)
     else do {
     r \<leftarrow> SelfPeer (peerStore env) w;
     (case r of Inl err \<Rightarrow> returns ((connect_error env request err, None), None, st)
      | Inr self \<Rightarrow>
     if cq_Sender request \<noteq> peer_ID self \<and> cq_Receiver request \<noteq> peer_ID self
     then returns ((connect_reject request not_for_us, None), None, st)
     else do {
     ((resp, err), w) \<leftarrow> ConnectHandler h peerID request w;
     if err \<noteq> None \<or> length (cr_Errors resp) > 0 \<or> \<not> cr_Accepted resp
     then returns ((resp, err), None, (cs, rs, w))
     else
     (case Accept (cq_ConnectionID request) sender receiver AwaitingWitness cs of
        (Some err, cs) \<Rightarrow>
          returns ((resp\<lparr>cr_Errors := cr_Errors resp @ [error_text (envNames env) err]\<rparr>, None), None, (cs, rs, w))
      | (None, cs) \<Rightarrow>
          returns ((resp, None),
            (if selects_witness request self then Some (cq_ConnectionID request, cq_Options request) else None),
            (cs, rs, w))) }) }) }) })"

text \<open>The goroutine: its error is logged.\<close>

definition witness_task :: "'w nodeEnv \<Rightarrow> 'w Handlers \<Rightarrow> task \<Rightarrow> 'w nodeState \<Rightarrow>
    (error option \<times> 'w nodeState) option" where
  "witness_task env h t st = (case t of (connID, opts) \<Rightarrow>
     Update connID (\<lambda>conn s. handleWitnessSelection env conn opts (connectOptions h) s) st)"

subsection \<open>Witness requests\<close>

definition witness_error :: "'w nodeEnv \<Rightarrow> WitnessRequest \<Rightarrow> error \<Rightarrow> WitnessResponse" where
  "witness_error env request err = \<lparr> wr_ConnectionID = wq_ConnectionID request,
     wr_Errors = [error_text (envNames env) err], wr_Accepted = False, wr_RejectReasons = [] \<rparr>"

definition witness_reject :: "WitnessRequest \<Rightarrow> string \<Rightarrow> WitnessResponse" where
  "witness_reject request reason = \<lparr> wr_ConnectionID = wq_ConnectionID request,
     wr_Errors = [], wr_Accepted = False, wr_RejectReasons = [reason] \<rparr>"

definition cannot_witness_own :: string where
  "cannot_witness_own = ''Cannot witness request in self is sender or receiver in.''"

definition witness_self_write :: "'w nodeEnv \<Rightarrow> 'w svc writeFunc" where
  "witness_self_write env conn s = do {
     self \<leftarrow> SelfOf env (snd s);
     (case self of
        Inl err \<Rightarrow> returns ((None, Some err), s)
      | Inr self \<Rightarrow> returns (SetWitness conn (peer_ID self), s)) }"

definition handle_witness :: "'w nodeEnv \<Rightarrow> 'w Handlers \<Rightarrow> peer_id option \<Rightarrow> WitnessRequest \<Rightarrow> 'w nodeState \<Rightarrow>
    ((WitnessResponse \<times> error option) \<times> 'w nodeState) option" where
  "handle_witness env h peerID request st = (case st of (cs, rs, w) \<Rightarrow> do {
     r \<leftarrow> Find (peerStore env) (wq_Sender request) w;
     (case r of Inl err \<Rightarrow> returns ((witness_error env request err, None), st)
      | Inr sender \<Rightarrow> do {
     r \<leftarrow> Find (peerStore env) (wq_Receiver request) w;
     (case r of Inl err \<Rightarrow> returns ((witness_error env request err, None), st)
      | Inr receiver \<Rightarrow>
     if peer_ID sender \<noteq> peerID \<and> peer_ID receiver \<noteq> peerID
     then returns ((witness_reject request not_participant, None), st)
     else do {
     r \<leftarrow> SelfOf env w;
     (case r of Inl err \<Rightarrow> returns ((witness_error env request err, None), st)
      | Inr self \<Rightarrow>
     if peer_ID sender = peer_ID self \<or> peer_ID receiver = peer_ID self
     then returns ((witness_reject request cannot_witness_own, None), st)
     else do {
     ((resp, err), w) \<leftarrow> WitnessHandler h peerID request w;
     if err \<noteq> None \<or> length (wr_Errors resp) > 0 \<or> \<not> wr_Accepted resp
     then returns ((resp, err), (cs, rs, w))
     else
     (case Accept (wq_ConnectionID request) sender receiver Open cs of
        (Some err, cs) \<Rightarrow>
          returns ((resp\<lparr>wr_Errors := wr_Errors resp @ [error_text (envNames env) err]\<rparr>, None), (cs, rs, w))
      | (None, cs) \<Rightarrow> do {
          (err, st) \<leftarrow> Update (wq_ConnectionID request) (witness_self_write env) (cs, rs, w);
          (case err of
             Some e \<Rightarrow> returns ((witness_error env request e, None), st)
           | None \<Rightarrow> returns ((resp, None), st)) }) }) }) }) })"

subsection \<open>Witness notifications\<close>

definition notification_write :: "'w nodeEnv \<Rightarrow> 'w Handlers \<Rightarrow> peer_id option \<Rightarrow> WitnessNotification \<Rightarrow>
    'w svc writeFunc" where
  "notification_write env h peerID notification conn s = (case s of (rs, w) \<Rightarrow>
     (if Status conn \<noteq> AwaitingWitness then returns ((None, Some (NotAwaitingWitness peerID (ID conn))), (rs, w))
      else do {
        self \<leftarrow> SelfPeer (peerStore env) w;
        (case self of
           Inl err \<Rightarrow> returns ((None, Some err), (rs, w))
         | Inr self \<Rightarrow>
             let expectedPeer = (if Sender conn = peer_ID self then Receiver conn else Sender conn) in
             if peerID \<noteq> expectedPeer
             then returns ((None, Some (UnexpectedNotifier (ID conn) expectedPeer peerID)), (rs, w))
             else do {
               (err, w) \<leftarrow> WitnessNotificationHandler h peerID notification w;
               (case err of
                  Some e \<Rightarrow> returns ((None, Some e), (rs, w))
                | None \<Rightarrow>
                    (case SetWitness conn (wn_Witness notification) of
                       (c, Some e) \<Rightarrow> returns ((c, Some e), (rs, w))
                     | (None, None) \<Rightarrow> panic
                     | (Some conn, None) \<Rightarrow> returns (SetStatus conn Open, (rs, w)))) }) }))"

definition handle_notification :: "'w nodeEnv \<Rightarrow> 'w Handlers \<Rightarrow> peer_id option \<Rightarrow> WitnessNotification \<Rightarrow>
    'w nodeState \<Rightarrow> (error option \<times> 'w nodeState) option" where
  "handle_notification env h peerID notification st =
     Update (wn_ConnectionID notification) (notification_write env h peerID notification) st"

subsection \<open>Close requests\<close>

text \<open>When \<open>SetStatus\<close> fails, the log call reads the nil connection it returned.\<close>

definition close_request_write :: "'w Handlers \<Rightarrow> peer_id option \<Rightarrow> CloseRequest \<Rightarrow> 'w svc writeFunc" where
  "close_request_write h peerID request conn s = (case s of (rs, w) \<Rightarrow>
     (if Status conn = Closed then returns ((None, None), (rs, w))
      else do {
        (err, w) \<leftarrow> CloseHandler h peerID request w;
        (case err of
           Some e \<Rightarrow>
             (case SetStatus conn Closing of
                (c, Some err2) \<Rightarrow> (case c of None \<Rightarrow> panic | Some _ \<Rightarrow> returns ((None, Some e), (rs, w)))
              | (c, None) \<Rightarrow> returns ((c, Some e), (rs, w)))
         | None \<Rightarrow> returns (SetStatus conn Closed, (rs, w))) }))"

definition handle_close :: "'w Handlers \<Rightarrow> peer_id option \<Rightarrow> CloseRequest \<Rightarrow> 'w nodeState \<Rightarrow>
    (error option \<times> 'w nodeState) option" where
  "handle_close h peerID request st =
     Update (cl_ConnectionID request) (close_request_write h peerID request) st"

subsection \<open>Peer requests\<close>

text \<open>
  \<open>rand.Intn\<close>: the \<open>k\<close>-th draw of the generator, reduced to the range; a panic for an
  empty range.
\<close>

definition rand_Intn :: "(nat \<Rightarrow> nat) \<Rightarrow> nat \<Rightarrow> nat \<Rightarrow> nat option" where
  "rand_Intn rnd k n = (if n = 0 then panic else returns (rnd k mod n))"

definition remove_at :: "nat \<Rightarrow> 'a list \<Rightarrow> 'a list" where
  "remove_at i xs = take i xs @ drop (Suc i) xs"

text \<open>
  The loop, with \<open>n\<close> the iterations left to \<open>request.Num\<close> and \<open>k\<close> the draws made. A
  drawn peer that is this node is replaced by another draw.
\<close>

fun select_peers :: "(nat \<Rightarrow> nat) \<Rightarrow> peer_id option \<Rightarrow> nat \<Rightarrow> nat \<Rightarrow> Peer list \<Rightarrow> Peer list \<Rightarrow> Peer list option" where
  "select_peers rnd self k 0 peers acc = returns acc"
| "select_peers rnd self k (Suc n) peers acc =
     (if peers = [] then returns acc
      else do {
        ind \<leftarrow> rand_Intn rnd k (length peers);
        let p = peers ! ind;
        let peers = remove_at ind peers;
        if peer_ID p = self then do {
          ind \<leftarrow> rand_Intn rnd (Suc k) (length peers);
          let p = peers ! ind;
          select_peers rnd self (Suc (Suc k)) n (remove_at ind peers) (acc @ [p]) }
        else select_peers rnd self (Suc k) n peers (acc @ [p]) })"

definition handle_peer_request :: "'w nodeEnv \<Rightarrow> 'w Handlers \<Rightarrow> (nat \<Rightarrow> nat) \<Rightarrow> peer_id option \<Rightarrow> PeersRequest \<Rightarrow>
    'w \<Rightarrow> ((PeersResponse option \<times> error option) \<times> 'w) option" where
  "handle_peer_request env h rnd peerID request w = do {
     ((resp, err), w) \<leftarrow> PeerRequestHandler h peerID request w;
     (case err of
        Some e \<Rightarrow> returns ((None, Some e), w)
      | None \<Rightarrow>
     (case resp of
        Some r \<Rightarrow> returns ((Some r, None), w)
      | None \<Rightarrow> do {
     r \<leftarrow> PeersOf env w;
     (case r of Inl e \<Rightarrow> returns ((None, Some e), w)
      | Inr peers \<Rightarrow> do {
     r \<leftarrow> SelfOf env w;
     (case r of Inl e \<Rightarrow> returns ((None, Some e), w)
      | Inr self \<Rightarrow> do {
          selected \<leftarrow> select_peers rnd (peer_ID self) 0 (nat (sint (Num request))) peers [];
          returns ((Some \<lparr> Peers = selected \<rparr>, None), w) }) }) })) }"

end
