(* ===== verification/App.thy ===== *)
theory App
  imports Handlers
begin

section \<open>The application: main.go\<close>

text \<open>
  What \<open>main.go\<close> plugs into the node: the five handlers, which accept everything and leave
  the peer list to the library, and the trust function, which compares a peer's reputation
  with the mean less the standard deviation over all known peers, in \<open>float64\<close>. The rest
  of \<open>main.go\<close> is in the theories \<open>Admin\<close> and \<open>Startup\<close>.
\<close>

definition noOptions :: transportOptions where
  "noOptions = \<lparr> Timeout = None, WriteTimeout = None, ReadTimeout = None \<rparr>"

definition appConnectHandler :: "peer_id option \<Rightarrow> ConnectRequest \<Rightarrow> 'w \<Rightarrow> ((ConnectResponse \<times> error option) \<times> 'w) option" where
  "appConnectHandler peerID request w = returns ((\<lparr> cr_ConnectionID = cq_ConnectionID request,
     cr_Errors = [], cr_Accepted = True, cr_RejectReasons = [] \<rparr>, None), w)"

definition appWitnessHandler :: "peer_id option \<Rightarrow> WitnessRequest \<Rightarrow> 'w \<Rightarrow> ((WitnessResponse \<times> error option) \<times> 'w) option" where
  "appWitnessHandler peerID request w = returns ((\<lparr> wr_ConnectionID = wq_ConnectionID request,
     wr_Errors = [], wr_Accepted = True, wr_RejectReasons = [] \<rparr>, None), w)"

definition appPeerRequestHandler :: "peer_id option \<Rightarrow> PeersRequest \<Rightarrow> 'w \<Rightarrow> ((PeersResponse option \<times> error option) \<times> 'w) option" where
  "appPeerRequestHandler peerID request w = returns ((None, None), w)"

definition appWitnessNotificationHandler :: "peer_id option \<Rightarrow> WitnessNotification \<Rightarrow> 'w \<Rightarrow> (error option \<times> 'w) option" where
  "appWitnessNotificationHandler peerID notification w = returns (None, w)"

definition appCloseHandler :: "peer_id option \<Rightarrow> CloseRequest \<Rightarrow> 'w \<Rightarrow> (error option \<times> 'w) option" where
  "appCloseHandler peerID request w = returns (None, w)"

definition appHandlers :: "'w Handlers" where
  "appHandlers = \<lparr> ConnectHandler = appConnectHandler, WitnessHandler = appWitnessHandler,
     PeerRequestHandler = appPeerRequestHandler, WitnessNotificationHandler = appWitnessNotificationHandler,
     CloseHandler = appCloseHandler, connectOptions = noOptions, witnessOptions = noOptions,
     peerRequestOptions = noOptions, witnessNotificationOptions = noOptions, closeOptions = noOptions \<rparr>"

subsection \<open>The trust function\<close>

text \<open>The read function appends the value to the captured list.\<close>

definition collect_value :: "(repStore, f64 list \<times> 'w) repReadFunc" where
  "collect_value rep st = (case st of (rs, vals, w) \<Rightarrow> returns (None, (rs, vals @ [Value rep], w)))"

fun collect_values :: "Peer list \<Rightarrow> repStore \<times> (f64 list \<times> 'w) \<Rightarrow> (repStore \<times> (f64 list \<times> 'w)) option" where
  "collect_values [] st = returns st"
| "collect_values (p # ps) st = do { (err, st) \<leftarrow> ReadRep (peer_ID p) collect_value st; collect_values ps st }"

definition float_mean :: "f64 list \<Rightarrow> f64" where
  "float_mean repVals = fdiv (foldl fadd (Fin 0) repVals) (of_count (int (length repVals)))"

definition float_variance :: "f64 list \<Rightarrow> f64 \<Rightarrow> f64" where
  "float_variance repVals mean =
     fdiv (foldl (\<lambda>v rv. fadd v (fsquare (fsub rv mean))) (Fin 0) repVals) (of_count (int (length repVals) - 1))"

definition trusted_value :: "f64 \<Rightarrow> f64 list \<Rightarrow> bool" where
  "trusted_value v repVals =
     (let mean = float_mean repVals; stdev = fsqrt (float_variance repVals mean)
      in fle (fsub mean stdev) v)"

definition trustFunc :: "'w PeerStore \<Rightarrow> proportionalReputation \<Rightarrow> 'w svc \<Rightarrow> ((bool \<times> error option) \<times> 'w svc) option" where
  "trustFunc ps rep s = (case s of (rs, w) \<Rightarrow>
     if fless (Value rep) (Fin (1 / 2)) then returns ((False, None), (rs, w))
     else do {
       r \<leftarrow> AllPeers ps w;
       (case r of
          Inl err \<Rightarrow> returns ((False, Some err), (rs, w))
        | Inr peers \<Rightarrow> do {
            (rs, vals, w) \<leftarrow> collect_values peers (rs, [], w);
            returns ((trusted_value (Value rep) vals, None), (rs, w)) }) })"

subsection \<open>What the statistics come to\<close>

text \<open>
  With one known peer the variance is 0 / 0, so the comparison is with NaN and nobody is
  trusted; with none the mean is already NaN.
\<close>

lemma fle_NaN [simp]: "\<not> fle NaN x" "\<not> fle x NaN"
  by (cases x; simp add: fle_def)+

lemma fadd_NaN [simp]: "fadd x NaN = NaN"
  by (cases x) simp_all

lemma fsub_NaN [simp]: "fsub NaN x = NaN" "fsub x NaN = NaN"
  by (simp_all add: fsub_def)

lemma fdiv_zero_count [simp]: "fdiv (Fin 0) (Fin 0) = NaN"
  by simp

lemma mk_0 [simp]: "mk 0 = Fin 0"
  by (simp add: mk_def)

lemma mk_1 [simp]: "mk 1 = Fin 1"
  using mk_Fin [of 1] by simp

lemma of_count_simps [simp]: "of_count 0 = Fin 0" "of_count 1 = Fin 1"
  by (simp_all add: of_count_def)

end
