(* ===== verification/Node_Laws.thy ===== *)
theory Node_Laws
  imports Handlers
begin

section \<open>How the operations of a node change connections\<close>

text \<open>
  One lemma per step of the witness selection, each saying what connection it returns and
  with what error; then what every write function may do to a stored connection. All of
  them hold for arbitrary collaborators: whatever the transport, the peer store, the trust
  function and the user's handlers do.
\<close>

subsection \<open>Witness selection\<close>

lemma try_candidates_result:
  assumes "writable c" "try_candidates env c o1 o2 ps w = Some ((co, err), w')"
  shows "(err = None \<and> (\<exists>p \<in> set ps. co = Some (conn_as c (Status c) (peer_ID p)))) \<or>
         (err = Some (FailedToFindWitness (ID c)) \<and> co = Some c)"
  using assms(2)
proof (induction ps arbitrary: w)
  case Nil
  then show ?case by simp
next
  case (Cons p ps)
  then obtain e w1 where r: "requestWitness env p c o1 o2 w = Some (e, w1)"
    and k: "(case e of Some e \<Rightarrow> try_candidates env c o1 o2 ps w1
            | None \<Rightarrow> Some (SetWitness c (peer_ID p), w1)) = Some ((co, err), w')"
    by (auto simp: bind_eq_Some_conv)
  show ?case
  proof (cases e)
    case None
    with k assms(1) show ?thesis by auto
  next
    case (Some x)
    with k have "try_candidates env c o1 o2 ps w1 = Some ((co, err), w')" by simp
    from Cons.IH [OF this] show ?thesis by auto
  qed
qed

lemma findWitness_result:
  assumes "writable c" "findWitness env c o1 o2 s = Some ((co, err), s')"
  shows "(err = None \<and> (\<exists>p. co = Some (conn_as c RequestingWitness p))) \<or>
         (err \<noteq> None \<and> co = Some (conn_as c RequestingWitness (Witness c)))"
proof -
  let ?c = "conn_as c RequestingWitness (Witness c)"
  from assms obtain r rs w where
    k: "(case r of Inl e \<Rightarrow> Some ((Some ?c, Some e), (rs, w))
         | Inr cands \<Rightarrow> Option.bind (try_candidates env ?c o1 o2 cands w) (\<lambda>(res, w). Some (res, (rs, w))))
       = Some ((co, err), s')"
    by (auto simp: findWitness_def bind_eq_Some_conv)
  show ?thesis
  proof (cases r)
    case (Inl e)
    with k show ?thesis by auto
  next
    case (Inr cands)
    with k obtain w1 where "try_candidates env ?c o1 o2 cands w = Some ((co, err), w1)"
      by (auto simp: bind_eq_Some_conv)
    from try_candidates_result [OF _ this] show ?thesis by auto
  qed
qed

lemma notification_needs_witness:
  "sendWitnessNotification env c o1 w = Some (None, w') \<Longrightarrow> Witness c \<noteq> None"
  by (cases "Witness c") (simp_all add: sendWitnessNotification_def)

lemma notify_and_open_failed [simp]: "notify_and_open env (c, Some e) o1 s = Some ((c, Some e), s)"
  by (cases c; cases s) (simp_all add: notify_and_open_def)

lemma notify_and_open_result:
  assumes "writable c" "notify_and_open env (Some c, None) o1 s = Some ((co, err), s')"
  shows "(err = None \<and> Witness c \<noteq> None \<and> co = Some (conn_as c Open (Witness c))) \<or>
         (err \<noteq> None \<and> co = Some (conn_as c NotifyingOfWitness (Witness c)))"
proof -
  let ?c = "conn_as c NotifyingOfWitness (Witness c)"
  from assms obtain rs e w w1 where
    send: "sendWitnessNotification env ?c o1 w = Some (e, w1)"
    and k: "(case e of Some e \<Rightarrow> Some ((Some ?c, Some e), (rs, w1)) | None \<Rightarrow> Some (SetStatus ?c Open, (rs, w1)))
       = Some ((co, err), s')"
    by (cases s) (auto simp: notify_and_open_def bind_eq_Some_conv)
  show ?thesis
  proof (cases e)
    case None
    with send have "Witness c \<noteq> None" using notification_needs_witness by fastforce
    with None k show ?thesis by simp
  next
    case (Some x)
    with k show ?thesis by auto
  qed
qed

text \<open>
  The outcomes of a witness selection, for the connection to persist: nothing (the node
  does not know itself), the unchanged connection (no selector), waiting for the other
  side, or a stage of our own selection, of which only the last one has no error.
\<close>

inductive selection_outcome :: "Connection \<Rightarrow> Connection option \<Rightarrow> error option \<Rightarrow> bool" where
  no_self: "selection_outcome c None (Some e)"
| no_selector: "selection_outcome c (Some c) (Some e)"
| other_side: "selection_outcome c (Some (conn_as c AwaitingWitness (Witness c))) None"
| no_witness: "selection_outcome c (Some (conn_as c RequestingWitness (Witness c))) (Some e)"
| not_notified: "selection_outcome c (Some (conn_as c NotifyingOfWitness p)) (Some e)"
| opened: "p \<noteq> None \<Longrightarrow> selection_outcome c (Some (conn_as c Open p)) None"

inductive_cases outcome_okE: "selection_outcome c (Some c') None"
inductive_cases outcome_someE: "selection_outcome c (Some c') e"

lemma select_here_outcome:
  assumes "writable c"
    and "Option.bind (findWitness env c o1 o2 s) (\<lambda>(res, s). notify_and_open env res o2 s) = Some ((co, err), s')"
  shows "selection_outcome c co err"
proof -
  from assms(2) obtain co1 err1 s1 where f: "findWitness env c o1 o2 s = Some ((co1, err1), s1)"
    and n: "notify_and_open env (co1, err1) o2 s1 = Some ((co, err), s')"
    by (auto simp: bind_eq_Some_conv)
  from findWitness_result [OF assms(1) f] show ?thesis
  proof
    assume "err1 = None \<and> (\<exists>p. co1 = Some (conn_as c RequestingWitness p))"
    then obtain p where c1: "co1 = Some (conn_as c RequestingWitness p)" "err1 = None" by blast
    from notify_and_open_result [of "conn_as c RequestingWitness p", OF _ n [unfolded c1]]
    show ?thesis by (auto intro: selection_outcome.intros)
  next
    assume "err1 \<noteq> None \<and> co1 = Some (conn_as c RequestingWitness (Witness c))"
    with n show ?thesis by (auto intro: selection_outcome.intros)
  qed
qed

lemma handleWitnessSelection_outcome:
  assumes "writable c" "handleWitnessSelection env c o1 o2 s = Some ((co, err), s')"
  shows "selection_outcome c co err"
proof -
  from assms(2) obtain self where self: "SelfPeer (peerStore env) (snd s) = Some self"
    by (auto simp: handleWitnessSelection_def bind_eq_Some_conv)
  show ?thesis
  proof (cases self)
    case (Inl e)
    with assms self show ?thesis by (auto simp: handleWitnessSelection_def intro: selection_outcome.intros)
  next
    case (Inr me)
    have here: "selection_outcome c co err"
      if "Option.bind (findWitness env c o1 o2 s) (\<lambda>(res, s). notify_and_open env res o2 s) = Some ((co, err), s')"
      using select_here_outcome [OF assms(1) that] .
    show ?thesis
      using assms self Inr here
      by (auto simp: handleWitnessSelection_def selection_outcome.intros
          split: option.splits WitnessSelector.splits if_splits)
  qed
qed

subsection \<open>The write functions\<close>

lemma connect_write_outcome:
  assumes "writable c" "connect_write env o1 o2 c s = Some ((co, err), s')"
  shows "(co = None \<and> err \<noteq> None) \<or> selection_outcome c co err"
proof (cases s)
  case (Pair rs w)
  with assms(2) obtain r where r: "Find (peerStore env) (Receiver c) w = Some r"
    by (auto simp: connect_write_def bind_eq_Some_conv)
  show ?thesis
  proof (cases r)
    case (Inl e)
    with assms(2) Pair r show ?thesis by (auto simp: connect_write_def)
  next
    case (Inr dest)
    with assms(2) Pair r obtain e w1 where
      "requestConnection env dest c o1 o2 w = Some (e, w1)"
      and k: "(case e of Some e \<Rightarrow> Some ((None, Some e), (rs, w1))
            | None \<Rightarrow> handleWitnessSelection env c o1 o2 (rs, w1)) = Some ((co, err), s')"
      by (auto simp: connect_write_def bind_eq_Some_conv)
    then show ?thesis
      using handleWitnessSelection_outcome [OF assms(1), of env o1 o2 "(rs, w1)" co err s']
      by (cases e) auto
  qed
qed

lemma close_write_outcome:
  assumes "writable c" "close_write env o1 c s = Some ((co, err), s')"
  shows "(co = None \<and> (err = None \<longleftrightarrow> Status c = Closed)) \<or>
         (Status c \<noteq> Closed \<and> co = Some (conn_as c Closing (Witness c)) \<and> err \<noteq> None) \<or>
         (Status c \<noteq> Closed \<and> co = Some (conn_as c Closed (Witness c)) \<and> err = None)"
proof (cases "Status c = Closed")
  case True
  with assms(2) show ?thesis by (cases s) (auto simp: close_write_def)
next
  case False
  obtain rs w where s: "s = (rs, w)" by (cases s)
  with assms(2) False obtain self where self: "SelfPeer (peerStore env) w = Some self"
    by (auto simp: close_write_def bind_eq_Some_conv)
  show ?thesis
  proof (cases self)
    case (Inl e)
    with assms(2) s False self show ?thesis by (auto simp: close_write_def)
  next
    case (Inr me)
    with assms(2) s False self obtain errs w1 where
      "close_participants env me c o1 [Sender c, Witness c, Receiver c] [] w = Some (errs, w1)"
      "(if errs \<noteq> []
        then case SetStatus c Closing of (None, err) \<Rightarrow> None
           | (Some c, err) \<Rightarrow> Some ((Some c, Some (CloseError (ID c) (map Some errs @ [err]))), rs, w1)
        else Some (SetStatus c Closed, rs, w1)) = Some ((co, err), s')"
      by (auto simp: close_write_def bind_eq_Some_conv simp del: close_participants.simps)
    then show ?thesis using False assms(1) by (auto split: if_splits)
  qed
qed

lemma close_request_write_outcome:
  assumes "writable c" "close_request_write h p r c s = Some ((co, err), s')"
  shows "(co = None \<and> err = None \<and> Status c = Closed) \<or>
         (Status c \<noteq> Closed \<and> co = Some (conn_as c Closing (Witness c)) \<and> err \<noteq> None) \<or>
         (Status c \<noteq> Closed \<and> co = Some (conn_as c Closed (Witness c)) \<and> err = None)"
  using assms by (cases s) (auto simp: close_request_write_def bind_eq_Some_conv split: if_splits option.splits)

lemma notification_write_outcome:
  assumes "writable c" "notification_write env h p n c s = Some ((co, err), s')"
  shows "(co = None \<and> err \<noteq> None) \<or>
         (Status c = AwaitingWitness \<and> co = Some (conn_as c Open (wn_Witness n)) \<and> err = None)"
proof (cases "Status c = AwaitingWitness")
  case False
  with assms show ?thesis by (cases s) (auto simp: notification_write_def)
next
  case True
  with assms show ?thesis
    by (cases s) (auto simp: notification_write_def Let_def split: panic_split)
qed

lemma witness_self_write_outcome:
  assumes "writable c" "witness_self_write env c s = Some ((co, err), s')"
  shows "(co = None \<and> err \<noteq> None) \<or> (\<exists>p. co = Some (conn_as c (Status c) p) \<and> err = None)"
  using assms by (auto simp: witness_self_write_def split: panic_split)

subsection \<open>The handlers that accept a connection\<close>

text \<open>A connect request either leaves the store alone or was accepted, with all checks passed.\<close>

definition connect_accepted :: "'w nodeEnv \<Rightarrow> 'w Handlers \<Rightarrow> peer_id option \<Rightarrow> ConnectRequest \<Rightarrow> connStore \<Rightarrow> 'w \<Rightarrow>
    Peer \<Rightarrow> Peer \<Rightarrow> Peer \<Rightarrow> ConnectResponse \<Rightarrow> 'w \<Rightarrow> bool" where
  "connect_accepted env h p req cs w sender receiver self resp w' \<longleftrightarrow>
     Find (peerStore env) (cq_Sender req) w = Some (Inr sender) \<and>
     Find (peerStore env) (cq_Receiver req) w = Some (Inr receiver) \<and>
     SelfPeer (peerStore env) w = Some (Inr self) \<and>
     (peer_ID sender = p \<or> peer_ID receiver = p) \<and>
     (cq_Sender req = peer_ID self \<or> cq_Receiver req = peer_ID self) \<and>
     ConnectHandler h p req w = Some ((resp, None), w') \<and> cr_Errors resp = [] \<and> cr_Accepted resp \<and>
     map_of cs (cq_ConnectionID req) = None"

lemma handle_connect_cases:
  assumes "handle_connect env h p req (cs, rs, w) = Some ((resp, err), t, cs', s')"
  obtains (unchanged) "cs' = cs" "t = None" "err \<noteq> None \<or> cr_Errors resp \<noteq> [] \<or> \<not> cr_Accepted resp"
  | (accepted) sender receiver self w' where
      "connect_accepted env h p req cs w sender receiver self resp w'"
      "cs' = AList.update (cq_ConnectionID req)
         (inMemoryConnection (cq_ConnectionID req) (peer_ID sender) None (peer_ID receiver) AwaitingWitness) cs"
      "t = (if selects_witness req self then Some (cq_ConnectionID req, cq_Options req) else None)"
      "err = None" "s' = (rs, w')"
  using assms
  by (auto simp: handle_connect_def Accept_def connect_error_def connect_reject_def connect_accepted_def Let_def
      split: panic_split)

text \<open>A witness request likewise.\<close>

definition witness_accepted :: "'w nodeEnv \<Rightarrow> 'w Handlers \<Rightarrow> peer_id option \<Rightarrow> WitnessRequest \<Rightarrow> connStore \<Rightarrow> 'w \<Rightarrow>
    Peer \<Rightarrow> Peer \<Rightarrow> Peer \<Rightarrow> WitnessResponse \<Rightarrow> 'w \<Rightarrow> bool" where
  "witness_accepted env h p req cs w sender receiver self resp w' \<longleftrightarrow>
     Find (peerStore env) (wq_Sender req) w = Some (Inr sender) \<and>
     Find (peerStore env) (wq_Receiver req) w = Some (Inr receiver) \<and>
     SelfPeer (peerStore env) w = Some (Inr self) \<and>
     (peer_ID sender = p \<or> peer_ID receiver = p) \<and>
     peer_ID sender \<noteq> peer_ID self \<and> peer_ID receiver \<noteq> peer_ID self \<and>
     WitnessHandler h p req w = Some ((resp, None), w') \<and> wr_Errors resp = [] \<and> wr_Accepted resp \<and>
     map_of cs (wq_ConnectionID req) = None"

lemma handle_witness_cases:
  assumes "handle_witness env h p req (cs, rs, w) = Some ((resp, err), cs', s')"
  obtains (unchanged) "cs' = cs" "err \<noteq> None \<or> wr_Errors resp \<noteq> [] \<or> \<not> wr_Accepted resp"
  | (accepted) sender receiver self uresp w' self' c where
      "witness_accepted env h p req cs w sender receiver self uresp w'"
      "SelfPeer (peerStore env) w' = Some self'"
      "c = inMemoryConnection (wq_ConnectionID req) (peer_ID sender) None (peer_ID receiver) Open"
      "cs' = (case self' of
          Inl e \<Rightarrow> AList.update (wq_ConnectionID req) c cs
        | Inr me \<Rightarrow> AList.update (wq_ConnectionID req) (conn_as c Open (peer_ID me))
                     (AList.update (wq_ConnectionID req) c cs))"
      "resp = (case self' of Inl e \<Rightarrow> witness_error env req e | Inr me \<Rightarrow> uresp)"
      "err = None" "s' = (rs, w')"
  using assms
  by (auto simp: handle_witness_def Accept_def witness_error_def witness_reject_def witness_accepted_def Let_def
      Update_def getConnEntry_def witness_self_write_def SelfOf_def update_conv' conn_as_def
      split: panic_split)

end
