(* ===== verification/Protocol.thy ===== *)
theory Protocol
  imports Node_Laws
begin

section \<open>The connection protocol of one node\<close>

text \<open>
  A node as a state machine: an event is a call of its API, a request from a peer, a witness
  task that an accepted connection started, or anything else, which may change the
  reputations and the world but not the connections. The state is that of the node with the
  tasks that have not run yet. Collaborators are arbitrary, so the results hold whatever the
  peers do. What an event does to a stored connection is the relation \<open>conn_change\<close>, and
  what connection it creates is \<open>conn_new\<close>.
\<close>

datatype event =
  EConnect Peer Options transportOptions
| EClose uuid transportOptions
| EConnectRequest "peer_id option" ConnectRequest
| EWitnessRequest "peer_id option" WitnessRequest
| ENotification "peer_id option" WitnessNotification
| ECloseRequest "peer_id option" CloseRequest
| ETask task
| EOther

type_synonym 'w sysState = "'w nodeState \<times> task list"

abbreviation conns :: "'w sysState \<Rightarrow> connStore" where
  "conns x \<equiv> fst (fst x)"

inductive node_step :: "'w nodeEnv \<Rightarrow> 'w Handlers \<Rightarrow> event \<Rightarrow> 'w sysState \<Rightarrow> 'w sysState \<Rightarrow> bool"
  for env :: "'w nodeEnv" and h :: "'w Handlers" where
  connect: "Connect env p o1 o2 st = Some (r, st') \<Longrightarrow> node_step env h (EConnect p o1 o2) (st, ts) (st', ts)"
| close: "CloseConnection env i o2 st = Some (r, st') \<Longrightarrow> node_step env h (EClose i o2) (st, ts) (st', ts)"
| connect_request: "handle_connect env h p req st = Some (r, t, st') \<Longrightarrow>
     node_step env h (EConnectRequest p req) (st, ts) (st', ts @ (case t of None \<Rightarrow> [] | Some t \<Rightarrow> [t]))"
| witness_request: "handle_witness env h p wreq st = Some (r, st') \<Longrightarrow>
     node_step env h (EWitnessRequest p wreq) (st, ts) (st', ts)"
| notification: "handle_notification env h p n st = Some (r, st') \<Longrightarrow>
     node_step env h (ENotification p n) (st, ts) (st', ts)"
| close_request: "handle_close h p creq st = Some (r, st') \<Longrightarrow>
     node_step env h (ECloseRequest p creq) (st, ts) (st', ts)"
| task: "witness_task env h t st = Some (r, st') \<Longrightarrow>
     node_step env h (ETask t) (st, ts1 @ t # ts2) (st', ts1 @ ts2)"
| other: "node_step env h EOther ((cs, s), ts) ((cs, s'), ts)"

inductive_cases connect_requestE: "node_step env h (EConnectRequest p req) x x'"
inductive_cases taskE: "node_step env h (ETask t) x x'"

text \<open>
  The states a node can reach by events that satisfy \<open>adm\<close>: it starts with an empty
  connection store and no tasks.
\<close>

inductive reachable :: "'w nodeEnv \<Rightarrow> 'w Handlers \<Rightarrow> (event \<Rightarrow> bool) \<Rightarrow> 'w sysState \<Rightarrow> bool"
  for env :: "'w nodeEnv" and h :: "'w Handlers" and adm :: "event \<Rightarrow> bool" where
  start: "reachable env h adm ((NewConnectionStore, s), [])"
| step: "reachable env h adm x \<Longrightarrow> adm ev \<Longrightarrow> node_step env h ev x x' \<Longrightarrow> reachable env h adm x'"

abbreviation any_event :: "event \<Rightarrow> bool" where
  "any_event \<equiv> \<lambda>_. True"

text \<open>How an event may change a connection that is already stored.\<close>

fun conn_change :: "event \<Rightarrow> Connection \<Rightarrow> Connection \<Rightarrow> bool" where
  "conn_change (EClose i o2) c c' \<longleftrightarrow> Status c \<noteq> Closed \<and>
     (c' = conn_as c Closing (Witness c) \<or> c' = conn_as c Closed (Witness c))"
| "conn_change (ECloseRequest p r) c c' \<longleftrightarrow> Status c \<noteq> Closed \<and>
     (c' = conn_as c Closing (Witness c) \<or> c' = conn_as c Closed (Witness c))"
| "conn_change (ENotification p n) c c' \<longleftrightarrow>
     Status c = AwaitingWitness \<and> c' = conn_as c Open (wn_Witness n)"
| "conn_change (ETask t) c c' \<longleftrightarrow> (\<exists>e. selection_outcome c (Some c') e)"
| "conn_change _ c c' \<longleftrightarrow> False"

text \<open>What a connection that an event creates looks like.\<close>

fun conn_new :: "'w nodeEnv \<Rightarrow> event \<Rightarrow> Connection \<Rightarrow> bool" where
  "conn_new env (EConnect p o1 o2) c \<longleftrightarrow>
     (\<exists>c0 e w self. SelfPeer (peerStore env) w = Some (Inr self) \<and>
        c0 = inMemoryConnection (ID c) (peer_ID self) None (peer_ID p) RequestingReceiver \<and>
        (c = c0 \<or> selection_outcome c0 (Some c) e))"
| "conn_new env (EConnectRequest p r) c \<longleftrightarrow> Status c = AwaitingWitness \<and> Witness c = None \<and>
     (\<exists>w sender receiver self.
        Find (peerStore env) (cq_Sender r) w = Some (Inr sender) \<and> Sender c = peer_ID sender \<and>
        Find (peerStore env) (cq_Receiver r) w = Some (Inr receiver) \<and> Receiver c = peer_ID receiver \<and>
        SelfPeer (peerStore env) w = Some (Inr self) \<and>
        (Sender c = p \<or> Receiver c = p) \<and>
        (cq_Sender r = peer_ID self \<or> cq_Receiver r = peer_ID self))"
| "conn_new env (EWitnessRequest p r) c \<longleftrightarrow> Status c = Open \<and> (Sender c = p \<or> Receiver c = p) \<and>
     (\<exists>w self. SelfPeer (peerStore env) w = Some self \<and>
        Witness c = (case self of Inl e \<Rightarrow> None | Inr me \<Rightarrow> peer_ID me))"
| "conn_new env _ c \<longleftrightarrow> False"

text \<open>The event names the connection it changes.\<close>

fun event_conn :: "event \<Rightarrow> uuid option" where
  "event_conn (EClose i o2) = Some i"
| "event_conn (ENotification p n) = Some (wn_ConnectionID n)"
| "event_conn (ECloseRequest p r) = Some (cl_ConnectionID r)"
| "event_conn (ETask t) = Some (fst t)"
| "event_conn (EConnectRequest p r) = Some (cq_ConnectionID r)"
| "event_conn (EWitnessRequest p r) = Some (wq_ConnectionID r)"
| "event_conn _ = None"

definition stored_ok :: "uuid \<Rightarrow> Connection \<Rightarrow> bool" where
  "stored_ok i c \<longleftrightarrow> writable c \<and> ID c = i"

definition store_ok :: "connStore \<Rightarrow> bool" where
  "store_ok cs \<longleftrightarrow> wf_store cs \<and> (\<forall>i c. map_of cs i = Some c \<longrightarrow> stored_ok i c)"

lemma store_okD: "store_ok cs \<Longrightarrow> map_of cs i = Some c \<Longrightarrow> writable c \<and> ID c = i"
  by (simp add: store_ok_def stored_ok_def)

text \<open>
  \<open>evolves env ev cs cs'\<close>: the stores before and after an event. Old connections are kept or
  changed as the event allows, new ones look as the event makes them.
\<close>

definition evolves :: "'w nodeEnv \<Rightarrow> event \<Rightarrow> connStore \<Rightarrow> connStore \<Rightarrow> bool" where
  "evolves env ev cs cs' \<longleftrightarrow> wf_store cs' \<and>
     (\<forall>i c. map_of cs i = Some c \<longrightarrow> (\<exists>c'. map_of cs' i = Some c' \<and>
        (c' = c \<or> event_conn ev = Some i \<and> conn_change ev c c'))) \<and>
     (\<forall>i c'. map_of cs i = None \<longrightarrow> map_of cs' i = Some c' \<longrightarrow> stored_ok i c' \<and> conn_new env ev c')"

lemma evolves_refl: "wf_store cs \<Longrightarrow> evolves env ev cs cs"
  by (simp add: evolves_def)

lemma outcome_fields:
  "selection_outcome c (Some c') e \<Longrightarrow> writable c \<Longrightarrow>
   writable c' \<and> ID c' = ID c \<and> Sender c' = Sender c \<and> Receiver c' = Receiver c"
  by (auto elim!: outcome_someE)

lemma conn_change_fields:
  "conn_change ev c c' \<Longrightarrow> writable c \<Longrightarrow>
   writable c' \<and> ID c' = ID c \<and> Sender c' = Sender c \<and> Receiver c' = Receiver c"
  by (cases ev) (auto dest: outcome_fields)

text \<open>An \<open>Update\<close> of one connection by a write function with a known effect.\<close>

lemma update_evolves:
  assumes ok: "store_ok cs" and upd: "Update i f (cs, s) = Some (err, (cs', s'))"
    and ev: "event_conn ev = Some i"
    and eff: "\<And>c c' e s1. map_of cs i = Some c \<Longrightarrow> writable c \<Longrightarrow> f c s = Some ((Some c', e), s1) \<Longrightarrow>
                c' = c \<or> conn_change ev c c'"
  shows "evolves env ev cs cs'"
  using upd
proof (cases rule: cs.update_cases)
  case missing
  with ok show ?thesis by (simp add: store_ok_def evolves_refl)
next
  case (found c u)
  have wf: "wf_store cs'" using wf_Update [OF _ upd] ok by (simp add: store_ok_def)
  show ?thesis
  proof (cases u)
    case None
    with found wf show ?thesis by (simp add: evolves_def)
  next
    case (Some c')
    have "c' = c \<or> conn_change ev c c'"
      using found Some store_okD [OF ok] by (intro eff) auto
    with Some found wf ev show ?thesis by (auto simp: evolves_def)
  qed
qed

lemma close_evolves:
  assumes "store_ok cs" "CloseConnection env i o2 (cs, s) = Some (r, (cs', s'))"
  shows "evolves env (EClose i o2) cs cs'"
  using assms(2) unfolding CloseConnection_def
  by (rule update_evolves [OF assms(1)]) (auto dest!: close_write_outcome)

lemma handle_close_evolves:
  assumes "store_ok cs" "handle_close h p r (cs, s) = Some (e, (cs', s'))"
  shows "evolves env (ECloseRequest p r) cs cs'"
  using assms(2) unfolding handle_close_def
  by (rule update_evolves [OF assms(1)]) (auto dest!: close_request_write_outcome)

lemma notification_evolves:
  assumes "store_ok cs" "handle_notification env h p n (cs, s) = Some (e, (cs', s'))"
  shows "evolves env (ENotification p n) cs cs'"
  using assms(2) unfolding handle_notification_def
  by (rule update_evolves [OF assms(1)]) (auto dest!: notification_write_outcome)

lemma task_evolves:
  assumes "store_ok cs" "witness_task env h t (cs, s) = Some (e, (cs', s'))"
  shows "evolves env (ETask t) cs cs'"
proof (cases t)
  case (Pair i opts)
  with assms(2) have "Update i (\<lambda>c s. handleWitnessSelection env c opts (connectOptions h) s) (cs, s) = Some (e, (cs', s'))"
    by (simp add: witness_task_def)
  then show ?thesis
    by (rule update_evolves [OF assms(1)]) (auto simp: Pair dest!: handleWitnessSelection_outcome)
qed

lemma new_conn_evolves:
  assumes "store_ok cs" "map_of cs i = None" "wf_store cs'"
    and "map_of cs' = (map_of cs)(i \<mapsto> c)" "stored_ok i c" "conn_new env ev c"
  shows "evolves env ev cs cs'"
  using assms by (auto simp: evolves_def)

lemma wf_update: "wf_store cs \<Longrightarrow> wf_store (AList.update i c cs)"
  by (simp add: wf_store_def distinct_update)

lemma handle_connect_evolves:
  assumes "store_ok cs" "handle_connect env h p req (cs, s) = Some (r, t, (cs', s'))"
  shows "evolves env (EConnectRequest p req) cs cs'"
proof -
  obtain rs w resp err where s: "s = (rs, w)" and r: "r = (resp, err)" by (cases s, cases r)
  have wf: "wf_store cs" using assms(1) by (simp add: store_ok_def)
  from assms(2) [unfolded s r] show ?thesis
  proof (cases rule: handle_connect_cases)
    case unchanged
    with wf show ?thesis by (simp add: evolves_refl)
  next
    case (accepted sender receiver self w')
    then show ?thesis
      using wf by (intro new_conn_evolves [OF assms(1), of "cq_ConnectionID req"])
        (auto simp: connect_accepted_def wf_update update_conv' stored_ok_def intro!: exI [of _ w])
  qed
qed

lemma handle_witness_evolves:
  assumes "store_ok cs" "handle_witness env h p req (cs, s) = Some (r, (cs', s'))"
  shows "evolves env (EWitnessRequest p req) cs cs'"
proof -
  obtain rs w resp err where s: "s = (rs, w)" and r: "r = (resp, err)" by (cases s, cases r)
  have wf: "wf_store cs" using assms(1) by (simp add: store_ok_def)
  from assms(2) [unfolded s r] show ?thesis
  proof (cases rule: handle_witness_cases)
    case unchanged
    with wf show ?thesis by (simp add: evolves_refl)
  next
    case (accepted sender receiver self uresp w' self' c)
    let ?c = "case self' of Inl e \<Rightarrow> c | Inr me \<Rightarrow> conn_as c Open (peer_ID me)"
    have "map_of cs' = (map_of cs)(wq_ConnectionID req \<mapsto> ?c)" "wf_store cs'"
      using accepted(4) wf by (auto simp: update_conv' wf_update split: sum.splits)
    moreover have "stored_ok (wq_ConnectionID req) ?c" "Status ?c = Open"
      "Witness ?c = (case self' of Inl e \<Rightarrow> None | Inr me \<Rightarrow> peer_ID me)"
      "Sender ?c = peer_ID sender" "Receiver ?c = peer_ID receiver"
      using accepted(3) by (auto simp: stored_ok_def split: sum.splits)
    ultimately show ?thesis
      using accepted(1,2) by (intro new_conn_evolves [OF assms(1), of "wq_ConnectionID req"])
        (auto simp: witness_accepted_def)
  qed
qed

text \<open>\<open>Connect\<close> works on the connection it has just created.\<close>

lemma Connect_cases:
  assumes "Connect env p o1 o2 (cs, rs, w) = Some ((i, err), cs', s')"
  obtains (failed) "cs' = cs" "i = 0" "err \<noteq> None"
  | (created) self c0 w1 cs1 where "map_of cs i = None" "SelfPeer (peerStore env) w1 = Some (Inr self)"
      "c0 = inMemoryConnection i (peer_ID self) None (peer_ID p) RequestingReceiver"
      "cs1 = AList.update i c0 cs"
      "\<exists>w2. Update i (connect_write env o1 o2) (cs1, rs, w2) = Some (err, cs', s')"
proof -
  from assms obtain e w1 where u: "UpdatePeer env p w = Some (e, w1)"
    by (auto simp: Connect_def bind_eq_Some_conv)
  show thesis
  proof (cases e)
    case (Some x)
    with assms u failed show thesis by (auto simp: Connect_def)
  next
    case None
    with assms u obtain r where self: "SelfPeer (peerStore env) w1 = Some r"
      by (auto simp: Connect_def bind_eq_Some_conv)
    show thesis
    proof (cases r)
      case (Inl x)
      with assms u None self failed show thesis by (auto simp: Connect_def)
    next
      case (Inr me)
      obtain d de w2 where d: "newRandom env w1 = ((d, de), w2)" by (metis surj_pair)
      let ?c0 = "inMemoryConnection d (peer_ID me) None (peer_ID p) RequestingReceiver"
      show thesis
      proof (cases "de = None \<and> map_of cs d = None")
        case True
        then have "Option.bind (Update d (connect_write env o1 o2) (AList.update d ?c0 cs, rs, w2))
            (\<lambda>(e, st). Some ((d, e), st)) = Some ((i, err), cs', s')"
          using assms u None self Inr d by (simp add: Connect_def Create_def Accept_fresh)
        then have "i = d" "Update d (connect_write env o1 o2) (AList.update d ?c0 cs, rs, w2) = Some (err, cs', s')"
          by (auto simp: bind_eq_Some_conv)
        then show thesis using True self Inr by (intro created [of w1 me ?c0]) auto
      next
        case False
        then have "Create (d, de) me p RequestingReceiver cs =
            ((d, Some (case de of Some x \<Rightarrow> x | None \<Rightarrow> ConnectionExists d)), cs)"
          by (auto simp: Create_def Accept_def split: option.splits)
        then have "i = 0" "cs' = cs" "err \<noteq> None" using assms u None self Inr d by (auto simp: Connect_def)
        then show thesis by (intro failed)
      qed
    qed
  qed
qed

lemma Connect_evolves:
  assumes "store_ok cs" "Connect env p o1 o2 (cs, s) = Some (r, (cs', s'))"
  shows "evolves env (EConnect p o1 o2) cs cs'"
proof -
  obtain rs w i err where s: "s = (rs, w)" and r: "r = (i, err)" by (cases s, cases r)
  have wf: "wf_store cs" using assms(1) by (simp add: store_ok_def)
  from assms(2) [unfolded s r] show ?thesis
  proof (cases rule: Connect_cases)
    case failed
    with wf show ?thesis by (simp add: evolves_refl)
  next
    case (created self c0 w1 cs1)
    then obtain w2 where upd: "Update i (connect_write env o1 o2) (cs1, rs, w2) = Some (err, cs', s')" by blast
    have l1: "map_of cs1 i = Some c0" and wf1: "wf_store cs1"
      using created wf by (simp_all add: update_conv' wf_update)
    from upd obtain c where c: "map_of cs' = (map_of cs)(i \<mapsto> c)"
      and new: "c = c0 \<or> (\<exists>e. selection_outcome c0 (Some c) e)"
    proof (cases rule: cs.update_cases)
      case missing
      with l1 show thesis by simp
    next
      case (found d u)
      with l1 created connect_write_outcome [of c0 env o1 o2 "(rs, w2)" u err s'] show thesis
        by (cases u) (auto simp: update_conv' intro: that)
    qed
    have c0: "writable c0" "ID c0 = i" "Receiver c0 = peer_ID p" "Status c0 = RequestingReceiver" "Witness c0 = None"
      using created(3) by simp_all
    have ok: "stored_ok i c" using new c0 outcome_fields [of c0 c] by (auto simp: stored_ok_def)
    then have "conn_new env (EConnect p o1 o2) c" using new created(2,3) by (auto simp: stored_ok_def)
    with ok show ?thesis
      by (rule new_conn_evolves [OF assms(1) created(1) wf_Update [OF wf1 upd] c])
  qed
qed

subsection \<open>Every step\<close>

lemma node_step_evolves:
  assumes "node_step env h ev x x'" "store_ok (conns x)"
  shows "evolves env ev (conns x) (conns x')"
  using assms
proof (cases rule: node_step.cases)
  case (other cs s ts s')
  with assms(2) show ?thesis by (simp add: store_ok_def evolves_refl)
qed (metis prod.collapse fst_conv Connect_evolves close_evolves handle_connect_evolves handle_witness_evolves
    notification_evolves handle_close_evolves task_evolves)+

lemma evolves_store_ok:
  assumes "evolves env ev cs cs'" "store_ok cs"
  shows "store_ok cs'"
proof -
  have "stored_ok i c'" if l: "map_of cs' i = Some c'" for i c'
  proof (cases "map_of cs i")
    case None
    with assms(1) l show ?thesis by (auto simp: evolves_def)
  next
    case (Some c)
    with assms l have "c' = c \<or> conn_change ev c c'" by (fastforce simp: evolves_def)
    with store_okD [OF assms(2) Some] conn_change_fields [of ev c c'] show ?thesis
      by (auto simp: stored_ok_def)
  qed
  with assms(1) show ?thesis by (simp add: store_ok_def evolves_def)
qed

lemma reachable_store_ok: "reachable env h adm x \<Longrightarrow> store_ok (conns x)"
proof (induction rule: reachable.induct)
  case (start s)
  show ?case by (simp add: store_ok_def) (simp add: NewConnectionStore_def)
next
  case (step x ev x')
  then show ?case using node_step_evolves evolves_store_ok by blast
qed

text \<open>What a step does to one stored connection, and what a new one looks like.\<close>

lemma step_conn:
  assumes "reachable env h adm x" "node_step env h ev x x'" "map_of (conns x) i = Some c"
  obtains c' where "map_of (conns x') i = Some c'" "c' = c \<or> event_conn ev = Some i \<and> conn_change ev c c'"
  using node_step_evolves [OF assms(2) reachable_store_ok [OF assms(1)]] assms(3)
  unfolding evolves_def by blast

lemma step_new:
  assumes "reachable env h adm x" "node_step env h ev x x'" "map_of (conns x) i = None"
    and "map_of (conns x') i = Some c"
  shows "conn_new env ev c" "stored_ok i c"
  using node_step_evolves [OF assms(2) reachable_store_ok [OF assms(1)]] assms(3,4)
  unfolding evolves_def by blast+

text \<open>
  The rule to prove what holds of every stored connection in every reachable state. A
  change may use that the state before it was reachable, and that its tasks had not run.
\<close>

lemma reachable_conn_induct [consumes 2, case_names new change]:
  assumes "reachable env h adm x" "map_of (conns x) i = Some c"
    and new: "\<And>ev c. adm ev \<Longrightarrow> conn_new env ev c \<Longrightarrow> stored_ok i c \<Longrightarrow> P c"
    and change: "\<And>ev c c' x. reachable env h adm x \<Longrightarrow> map_of (conns x) i = Some c \<Longrightarrow>
        adm ev \<Longrightarrow> event_conn ev = Some i \<Longrightarrow> conn_change ev c c' \<Longrightarrow>
        (\<And>t. ev = ETask t \<Longrightarrow> t \<in> set (snd x)) \<Longrightarrow> writable c \<Longrightarrow> P c \<Longrightarrow> P c'"
  shows "P c"
  using assms(1,2)
proof (induction arbitrary: c rule: reachable.induct)
  case (start s)
  then show ?case by (simp add: NewConnectionStore_def)
next
  case (step x ev x')
  show ?case
  proof (cases "map_of (conns x) i")
    case None
    with step new show ?thesis using step_new by blast
  next
    case (Some d)
    have pending: "t \<in> set (snd x)" if "ev = ETask t" for t
      using step.hyps(3) that by (auto elim!: taskE)
    obtain c' where "map_of (conns x') i = Some c'" "c' = d \<or> event_conn ev = Some i \<and> conn_change ev d c'"
      using step_conn [OF step.hyps(1) step.hyps(3) Some] by blast
    with step.prems step.IH [OF Some] change [OF step.hyps(1) Some step.hyps(2) _ _ pending]
      store_okD [OF reachable_store_ok [OF step.hyps(1)] Some]
    show ?thesis by auto
  qed
qed

subsection \<open>Pending tasks\<close>

text \<open>The peer store of a node keeps its contract, for the node with identifier \<open>me\<close>.\<close>

definition steady :: "'w nodeEnv \<Rightarrow> peer_id \<Rightarrow> bool" where
  "steady env me \<longleftrightarrow> peer_store (Find (peerStore env)) (SelfPeer (peerStore env)) me"

lemma steady_iff:
  "steady env me \<longleftrightarrow>
     (\<forall>w r. SelfPeer (peerStore env) w = Some r \<longrightarrow> (\<exists>p. r = Inr p \<and> peer_ID p = Some me)) \<and>
     (\<forall>i w p. Find (peerStore env) i w = Some (Inr p) \<longrightarrow> peer_ID p = i)"
  by (auto simp: steady_def peer_store_def)

lemmas steady_self = steady_def [THEN iffD1, THEN peer_store.self_ID]
  and steady_find = steady_def [THEN iffD1, THEN peer_store.find_ID]
  and steady_lookups = steady_def [THEN iffD1, THEN peer_store.lookups(1)]
    steady_def [THEN iffD1, THEN peer_store.lookups(2)] steady_def [THEN iffD1, THEN peer_store.lookups(3)]

text \<open>This node is the side of the connection that the options let select the witness.\<close>

definition selecting_side :: "peer_id \<Rightarrow> Connection \<Rightarrow> Options \<Rightarrow> bool" where
  "selecting_side me c opts \<longleftrightarrow>
     (WitnessSelector opts = Some WitnessSelectorSender \<and> Sender c = Some me) \<or>
     (WitnessSelector opts = Some WitnessSelectorReceiver \<and> Receiver c = Some me)"

definition task_ok :: "peer_id \<Rightarrow> connStore \<Rightarrow> task \<Rightarrow> bool" where
  "task_ok me cs t \<longleftrightarrow> (\<exists>c. map_of cs (fst t) = Some c \<and> selecting_side me c (snd t))"

text \<open>
  What a step does to the pending tasks: they are run, or left there, and a new one is for
  a connection that the same step created.
\<close>

definition task_started :: "'w nodeEnv \<Rightarrow> connStore \<Rightarrow> connStore \<Rightarrow> task \<Rightarrow> bool" where
  "task_started env cs cs' t \<longleftrightarrow> map_of cs (fst t) = None \<and>
     (\<exists>req w sender receiver self. snd t = cq_Options req \<and> selects_witness req self \<and>
        Find (peerStore env) (cq_Sender req) w = Some (Inr sender) \<and>
        Find (peerStore env) (cq_Receiver req) w = Some (Inr receiver) \<and>
        SelfPeer (peerStore env) w = Some (Inr self) \<and>
        map_of cs' (fst t) =
          Some (inMemoryConnection (fst t) (peer_ID sender) None (peer_ID receiver) AwaitingWitness))"

lemma handle_connect_task:
  assumes "handle_connect env h p req (cs, s) = Some (r, Some t, cs', s')"
  shows "task_started env cs cs' t"
proof -
  obtain rs w resp err where s: "s = (rs, w)" and r: "r = (resp, err)" by (cases s, cases r)
  from assms [unfolded s r] show ?thesis
  proof (cases rule: handle_connect_cases)
    case unchanged
    then show ?thesis by simp
  next
    case (accepted sender receiver self w')
    then have "t = (cq_ConnectionID req, cq_Options req)" "selects_witness req self"
      by (simp_all split: if_splits)
    with accepted(1,2) show ?thesis
      unfolding task_started_def connect_accepted_def by (simp add: update_conv') blast
  qed
qed

lemma step_tasks:
  assumes "node_step env h ev x x'" "t \<in> set (snd x')" "t \<notin> set (snd x)"
  shows "task_started env (conns x) (conns x') t"
  using assms(1)
proof (cases rule: node_step.cases)
  case (connect_request p req st r t0 st' ts)
  with assms(2,3) have "t0 = Some t" by (auto split: option.splits)
  with connect_request show ?thesis
    using handle_connect_task [of env h p req "fst st" "snd st" r t "fst st'" "snd st'"] by simp
qed (use assms(2,3) in auto)

lemma task_ok_kept:
  assumes "reachable env h adm x" "node_step env h ev x x'" "task_ok me (conns x) t"
  shows "task_ok me (conns x') t"
proof -
  from assms(3) obtain c where c: "map_of (conns x) (fst t) = Some c" "selecting_side me c (snd t)"
    by (auto simp: task_ok_def)
  obtain c' where c': "map_of (conns x') (fst t) = Some c'"
      "c' = c \<or> event_conn ev = Some (fst t) \<and> conn_change ev c c'"
    using step_conn [OF assms(1,2) c(1)] by blast
  have "writable c" using store_okD [OF reachable_store_ok [OF assms(1)] c(1)] by simp
  with c' have "Sender c' = Sender c" "Receiver c' = Receiver c" using conn_change_fields [of ev c c'] by blast+
  with c(2) c'(1) show ?thesis by (simp add: task_ok_def selecting_side_def)
qed

lemma task_ok_started:
  assumes "steady env me" "task_started env cs cs' t"
  shows "task_ok me cs' t"
proof -
  from assms(2) obtain req w sender receiver self where t: "snd t = cq_Options req" "selects_witness req self"
    "Find (peerStore env) (cq_Sender req) w = Some (Inr sender)"
    "Find (peerStore env) (cq_Receiver req) w = Some (Inr receiver)"
    "SelfPeer (peerStore env) w = Some (Inr self)"
    "map_of cs' (fst t) =
       Some (inMemoryConnection (fst t) (peer_ID sender) None (peer_ID receiver) AwaitingWitness)"
    unfolding task_started_def by blast
  then show ?thesis using steady_lookups [OF assms(1) t(3-5)] by (auto simp: task_ok_def selecting_side_def selects_witness_def)
qed

lemma reachable_tasks_ok:
  assumes "steady env me"
  shows "reachable env h adm x \<Longrightarrow> \<forall>t \<in> set (snd x). task_ok me (conns x) t"
proof (induction rule: reachable.induct)
  case (start s)
  show ?case by simp
next
  case (step x ev x')
  show ?case
  proof
    fix t assume "t \<in> set (snd x')"
    then show "task_ok me (conns x') t"
      using step.IH task_ok_kept [OF step.hyps(1,3)] step_tasks [OF step.hyps(3)] task_ok_started [OF assms]
      by (cases "t \<in> set (snd x)") blast+
  qed
qed

subsection \<open>Runs\<close>

text \<open>Any number of further steps.\<close>

inductive runs :: "'w nodeEnv \<Rightarrow> 'w Handlers \<Rightarrow> (event \<Rightarrow> bool) \<Rightarrow> 'w sysState \<Rightarrow> 'w sysState \<Rightarrow> bool"
  for env :: "'w nodeEnv" and h :: "'w Handlers" and adm :: "event \<Rightarrow> bool" where
  stay: "runs env h adm x x"
| more: "runs env h adm x x' \<Longrightarrow> adm ev \<Longrightarrow> node_step env h ev x' x'' \<Longrightarrow> runs env h adm x x''"

lemma runs_reachable: "runs env h adm x x' \<Longrightarrow> reachable env h adm x \<Longrightarrow> reachable env h adm x'"
  by (induction rule: runs.induct) (auto intro: reachable.step)

text \<open>A connection that is stored gets no new task.\<close>

lemma step_no_new_task:
  assumes "node_step env h ev x x'" "map_of (conns x) i \<noteq> None" "i \<notin> fst ` set (snd x)"
  shows "i \<notin> fst ` set (snd x')"
proof
  assume "i \<in> fst ` set (snd x')"
  then obtain t where t: "t \<in> set (snd x')" "fst t = i" by auto
  with assms(3) have "t \<notin> set (snd x)" by auto
  from step_tasks [OF assms(1) t(1) this] assms(2) t(2) show False by (auto simp: task_started_def)
qed

end
