(* ===== verification/Base64.thy ===== *)
theory Base64
  imports Errors
begin

section \<open>base64.RawStdEncoding and serde.go's b64enc, b64dec\<close>

text \<open>
  The standard library's unpadded base64, which the wire format and the signed text of
  messages use. The decoder is Go's: it skips line breaks, ignores the unused low bits of
  the last group and reports the offset of the byte it could not read.
\<close>

definition alphabet :: string where
  "alphabet = ''ABCDEFGHIJKLMNOPQRSTUVWXYZabcdefghijklmnopqrstuvwxyz0123456789+/''"

definition encode_sextet :: "nat \<Rightarrow> char" where
  "encode_sextet n = alphabet ! (n mod 64)"

definition decode_sextet :: "char \<Rightarrow> nat option" where
  "decode_sextet c = (let n = (of_char c :: nat) in
     if 65 \<le> n \<and> n \<le> 90 then Some (n - 65)
     else if 97 \<le> n \<and> n \<le> 122 then Some (n - 71)
     else if 48 \<le> n \<and> n \<le> 57 then Some (n + 4)
     else if n = 43 then Some 62
     else if n = 47 then Some 63
     else None)"

abbreviation byte :: "char \<Rightarrow> nat" where
  "byte \<equiv> of_char"

text \<open>Three bytes make four characters; two or one left over make three or two.\<close>

fun EncodeToString :: "string \<Rightarrow> string" where
  "EncodeToString (a # b # c # cs) =
     encode_sextet (byte a div 4) #
     encode_sextet (byte a mod 4 * 16 + byte b div 16) #
     encode_sextet (byte b mod 16 * 4 + byte c div 64) #
     encode_sextet (byte c mod 64) # EncodeToString cs"
| "EncodeToString [a, b] =
     [encode_sextet (byte a div 4),
      encode_sextet (byte a mod 4 * 16 + byte b div 16),
      encode_sextet (byte b mod 16 * 4)]"
| "EncodeToString [a] = [encode_sextet (byte a div 4), encode_sextet (byte a mod 4 * 16)]"
| "EncodeToString [] = []"

text \<open>The bytes of a group of two to four sextets.\<close>

fun quantum :: "nat list \<Rightarrow> string" where
  "quantum [p, q, r, s] =
     [char_of (p * 4 + q div 16), char_of (q mod 16 * 16 + r div 4), char_of (r mod 4 * 64 + s)]"
| "quantum [p, q, r] = [char_of (p * 4 + q div 16), char_of (q mod 16 * 16 + r div 4)]"
| "quantum [p, q] = [char_of (p * 4 + q div 16)]"
| "quantum _ = []"

text \<open>
  \<open>decode_from si buf cs\<close>: at offset \<open>si\<close> with the sextets \<open>buf\<close> of the current group read.
\<close>

fun decode_from :: "nat \<Rightarrow> nat list \<Rightarrow> string \<Rightarrow> error + string" where
  "decode_from si buf [] = (if length buf = 1 then Inl (CorruptInput (si - 1)) else Inr (quantum buf))"
| "decode_from si buf (c # cs) =
     (case decode_sextet c of
        Some v \<Rightarrow>
          (if length buf = 3 then map_sum (\<lambda>e. e) (\<lambda>s. quantum (buf @ [v]) @ s) (decode_from (Suc si) [] cs)
           else decode_from (Suc si) (buf @ [v]) cs)
      | None \<Rightarrow>
          (if c = CHR 0x0A \<or> c = CHR 0x0D then decode_from (Suc si) buf cs
           else Inl (CorruptInput si)))"

definition DecodeString :: "string \<Rightarrow> error + string" where
  "DecodeString s = decode_from 0 [] s"

definition b64enc :: "string \<Rightarrow> string" where
  "b64enc plain = EncodeToString plain"

definition b64dec :: "string \<Rightarrow> error + string" where
  "b64dec enc = (case DecodeString enc of Inl err \<Rightarrow> Inl err | Inr b \<Rightarrow> Inr b)"

subsection \<open>Sextets and bytes\<close>

lemma decode_alphabet: "map decode_sextet alphabet = map Some [0..<64]"
  by code_simp

lemma decode_encode_sextet [simp]: "n < 64 \<Longrightarrow> decode_sextet (encode_sextet n) = Some n"
proof -
  assume n: "n < 64"
  have "length alphabet = 64" by (simp add: alphabet_def)
  then have "decode_sextet (alphabet ! n) = map decode_sextet alphabet ! n" using n by simp
  also have "\<dots> = Some n" using n by (simp only: decode_alphabet) simp
  finally show ?thesis using n by (simp add: encode_sextet_def)
qed

lemma encode_sextet_alphabet [simp]: "encode_sextet n \<in> set alphabet"
proof -
  have "length alphabet = 64" by (simp add: alphabet_def)
  then show ?thesis by (simp add: encode_sextet_def)
qed

lemma byte_lt [simp]: "byte c < 256"
proof -
  have "byte c mod 256 < 256" by simp
  then show ?thesis by simp
qed

lemma byte_shifts [simp]:
  "byte c div 64 < 4" "byte c div 16 < 16" "byte c div 4 < 64"
  using byte_lt [of c] by linarith+

lemma byte_high_zero [simp]:
  "byte c div 16 div 16 = 0" "byte c div 64 div 4 = 0" "byte c div 16 mod 16 = byte c div 16"
  "byte c div 64 mod 4 = byte c div 64"
  by simp_all

lemma sextet_bounds [simp]:
  "byte a mod 4 * 16 + byte b div 16 < 64" "byte b mod 16 * 4 + byte c div 64 < 64"
  "byte a mod 4 * 16 < 64" "byte b mod 16 * 4 < 64"
proof -
  have "byte a mod 4 < 4" "byte b mod 16 < 16" by simp_all
  moreover have "byte b div 16 < 16" "byte c div 64 < 4" by simp_all
  ultimately show "byte a mod 4 * 16 + byte b div 16 < 64" "byte b mod 16 * 4 + byte c div 64 < 64"
    "byte a mod 4 * 16 < 64" "byte b mod 16 * 4 < 64" by linarith+
qed

lemma decode_from_enc: "n < 64 \<Longrightarrow> decode_from si buf (encode_sextet n # cs) =
    (if length buf = 3 then map_sum (\<lambda>e. e) (\<lambda>s. quantum (buf @ [n]) @ s) (decode_from (Suc si) [] cs)
     else decode_from (Suc si) (buf @ [n]) cs)"
  by simp

lemma decode_encode: "decode_from si [] (EncodeToString s) = Inr s"
proof (induction s arbitrary: si rule: EncodeToString.induct)
  case (1 a b c cs)
  then show ?case
    by (simp add: decode_from_enc del: decode_from.simps(2))
qed (simp_all add: decode_from_enc del: decode_from.simps(2))

lemma DecodeString_Encode [wire_simps, simp]: "DecodeString (EncodeToString s) = Inr s"
  by (simp add: DecodeString_def decode_encode)

lemma b64dec_enc [wire_simps, simp]: "b64dec (b64enc s) = Inr s"
  by (simp add: b64dec_def b64enc_def)

lemma b64enc_inject [simp]: "b64enc s = b64enc t \<longleftrightarrow> s = t"
  by (metis Inr_inject b64dec_enc)

lemma b64enc_Nil [simp]: "b64enc [] = []" "b64enc s = [] \<longleftrightarrow> s = []"
  by (simp_all add: b64enc_def, cases s rule: EncodeToString.cases, simp_all)

lemma EncodeToString_alphabet: "set (EncodeToString s) \<subseteq> set alphabet"
  by (induction s rule: EncodeToString.induct) simp_all

lemma b64enc_alphabet: "set (b64enc s) \<subseteq> set alphabet"
  by (simp add: b64enc_def EncodeToString_alphabet)

text \<open>No separator of the wire formats is a base64 character.\<close>

lemma separators_not_in_alphabet:
  "CHR ''.'' \<notin> set alphabet" "CHR '','' \<notin> set alphabet" "CHR '';'' \<notin> set alphabet" "CHR '':'' \<notin> set alphabet"
  by (simp_all add: alphabet_def)

lemma b64enc_no_separator [simp]:
  "CHR ''.'' \<notin> set (b64enc s)" "CHR '','' \<notin> set (b64enc s)" "CHR '';'' \<notin> set (b64enc s)"
  using b64enc_alphabet [of s] separators_not_in_alphabet by blast+

lemma length_EncodeToString: "length (EncodeToString s) = (8 * length s + 5) div 6"
  by (induction s rule: EncodeToString.induct) simp_all

end
