(* ===== verification/Serde.thy ===== *)
theory Serde
  imports Base64
begin

section \<open>The wire format: starterimpl/libp2p/serde.go\<close>

text \<open>
  A message is its fields, separated by dots and ended by a semicolon; peer identifiers and
  the elements of slices are base64, slices are joined by commas. One pair of functions per
  message type, as in the code, then the dispatch on the type. Parsing panics on empty
  input, where \<open>getParts\<close> indexes the last byte. The printed and parsed forms of
  connection and peer identifiers are library code: the record \<open>wire\<close>.
\<close>

record wire = names +
  uuidParse :: "string \<Rightarrow> error + uuid"
  idDecode :: "string \<Rightarrow> error + peer_id"

subsection \<open>Parts, peer identifiers and slices\<close>

definition getParts :: "string \<Rightarrow> nat \<Rightarrow> (error + string list) option" where
  "getParts inp numParts =
     (if inp = [] then panic
      else if last inp \<noteq> CHR '';'' then returns (Inl NoTerminator)
      else let parts = strings_Split (CHR ''.'') (butlast inp) in
        if length parts \<noteq> numParts then returns (Inl (IncorrectParts numParts (length parts)))
        else returns (Inr parts))"

definition encodePeerID :: "('x) wire_scheme \<Rightarrow> peer_id option \<Rightarrow> string" where
  "encodePeerID w peerId = (case peerId of None \<Rightarrow> [] | Some p \<Rightarrow> b64enc (idString w p))"

definition decodePeerID :: "('x) wire_scheme \<Rightarrow> string \<Rightarrow> error + peer_id option" where
  "decodePeerID w s =
     (if s = [] then Inr None
      else tryE (b64dec s) (\<lambda>dec. tryE (idDecode w dec) (\<lambda>p. Inr (Some p))))"

definition serializeSlice :: "string list \<Rightarrow> string" where
  "serializeSlice plain = strings_Join '','' (map b64enc plain)"

fun decode_elements :: "string list \<Rightarrow> error + string list" where
  "decode_elements [] = Inr []"
| "decode_elements (p # ps) =
     (case b64dec p of
        Inl err \<Rightarrow> Inl (DecodeElement p err)
      | Inr s \<Rightarrow> tryE (decode_elements ps) (\<lambda>dec. Inr (s # dec)))"

definition deserializeSlice :: "string \<Rightarrow> error + string list" where
  "deserializeSlice enc =
     (if enc = [] then Inr [] else decode_elements (strings_Split (CHR '','') enc))"

definition parseBool :: "string \<Rightarrow> error + bool" where
  "parseBool s = (case ParseBool s of Inl e \<Rightarrow> Inl (NumError ''ParseBool'' e) | Inr b \<Rightarrow> Inr b)"

definition parseInt :: "string \<Rightarrow> error + go_int" where
  "parseInt s = (case Atoi s of Inl e \<Rightarrow> Inl (NumError ''Atoi'' e) | Inr n \<Rightarrow> Inr n)"

subsection \<open>Requests\<close>

definition serializeConnectRequest :: "('x) wire_scheme \<Rightarrow> ConnectRequest \<Rightarrow> string" where
  "serializeConnectRequest w r =
     uuidString w (cq_ConnectionID r) @ ''.'' @ encodePeerID w (cq_Sender r) @ ''.'' @
     encodePeerID w (cq_Receiver r) @ ''.'' @ fmt_selector (WitnessSelector (cq_Options r)) @ '';''"

definition deserializeConnectRequest :: "('x) wire_scheme \<Rightarrow> string \<Rightarrow> (error + ConnectRequest) option" where
  "deserializeConnectRequest w inp = do {
     r \<leftarrow> getParts inp 4;
     returns (tryE r (\<lambda>parts.
       tryE (uuidParse w (parts ! 0)) (\<lambda>connID.
       tryE (decodePeerID w (parts ! 1)) (\<lambda>sender.
       tryE (decodePeerID w (parts ! 2)) (\<lambda>recvr.
       tryE (ParseWitnessSelector (parts ! 3)) (\<lambda>ws.
         Inr \<lparr> cq_ConnectionID = connID, cq_Sender = sender, cq_Receiver = recvr,
               cq_Options = \<lparr> WitnessSelector = Some ws \<rparr> \<rparr>)))))) }"

definition serializeWitnessRequest :: "('x) wire_scheme \<Rightarrow> WitnessRequest \<Rightarrow> string" where
  "serializeWitnessRequest w r =
     uuidString w (wq_ConnectionID r) @ ''.'' @ encodePeerID w (wq_Sender r) @ ''.'' @
     encodePeerID w (wq_Receiver r) @ ''.'' @ fmt_selector (WitnessSelector (wq_Options r)) @ '';''"

definition deserializeWitnessRequest :: "('x) wire_scheme \<Rightarrow> string \<Rightarrow> (error + WitnessRequest) option" where
  "deserializeWitnessRequest w inp = do {
     r \<leftarrow> getParts inp 4;
     returns (tryE r (\<lambda>parts.
       tryE (uuidParse w (parts ! 0)) (\<lambda>connID.
       tryE (decodePeerID w (parts ! 1)) (\<lambda>sender.
       tryE (decodePeerID w (parts ! 2)) (\<lambda>recvr.
       tryE (ParseWitnessSelector (parts ! 3)) (\<lambda>ws.
         Inr \<lparr> wq_ConnectionID = connID, wq_Sender = sender, wq_Receiver = recvr,
               wq_Options = \<lparr> WitnessSelector = Some ws \<rparr> \<rparr>)))))) }"

definition serializeWitnessNotification :: "('x) wire_scheme \<Rightarrow> WitnessNotification \<Rightarrow> string" where
  "serializeWitnessNotification w n =
     uuidString w (wn_ConnectionID n) @ ''.'' @ encodePeerID w (wn_Witness n) @ '';''"

definition deserializeWitnessNotification ::
  "('x) wire_scheme \<Rightarrow> string \<Rightarrow> (error + WitnessNotification) option" where
  "deserializeWitnessNotification w inp = do {
     r \<leftarrow> getParts inp 2;
     returns (tryE r (\<lambda>parts.
       tryE (uuidParse w (parts ! 0)) (\<lambda>connID.
       tryE (decodePeerID w (parts ! 1)) (\<lambda>wit.
         Inr \<lparr> wn_ConnectionID = connID, wn_Witness = wit \<rparr>)))) }"

definition serializeCloseRequest :: "('x) wire_scheme \<Rightarrow> CloseRequest \<Rightarrow> string" where
  "serializeCloseRequest w r = uuidString w (cl_ConnectionID r) @ '';''"

definition deserializeCloseRequest :: "('x) wire_scheme \<Rightarrow> string \<Rightarrow> (error + CloseRequest) option" where
  "deserializeCloseRequest w inp = do {
     r \<leftarrow> getParts inp 1;
     returns (tryE r (\<lambda>parts.
       tryE (uuidParse w (parts ! 0)) (\<lambda>uid. Inr \<lparr> cl_ConnectionID = uid \<rparr>))) }"

definition serializePeersRequest :: "PeersRequest \<Rightarrow> string" where
  "serializePeersRequest r = Itoa (Num r) @ '';''"

definition deserializePeersRequest :: "string \<Rightarrow> (error + PeersRequest) option" where
  "deserializePeersRequest inp = do {
     r \<leftarrow> getParts inp 1;
     returns (tryE r (\<lambda>parts. tryE (parseInt (parts ! 0)) (\<lambda>num. Inr \<lparr> Num = num \<rparr>))) }"

subsection \<open>Responses\<close>

definition serializeConnectResponse :: "('x) wire_scheme \<Rightarrow> ConnectResponse \<Rightarrow> string" where
  "serializeConnectResponse w r =
     uuidString w (cr_ConnectionID r) @ ''.'' @ serializeSlice (cr_Errors r) @ ''.'' @
     fmt_bool (cr_Accepted r) @ ''.'' @ serializeSlice (cr_RejectReasons r) @ '';''"

definition deserializeConnectResponse :: "('x) wire_scheme \<Rightarrow> string \<Rightarrow> (error + ConnectResponse) option" where
  "deserializeConnectResponse w inp = do {
     r \<leftarrow> getParts inp 4;
     returns (tryE r (\<lambda>parts.
       tryE (uuidParse w (parts ! 0)) (\<lambda>uid.
       tryE (deserializeSlice (parts ! 1)) (\<lambda>errs.
       tryE (parseBool (parts ! 2)) (\<lambda>accepted.
       tryE (deserializeSlice (parts ! 3)) (\<lambda>reasons.
         Inr \<lparr> cr_ConnectionID = uid, cr_Errors = errs, cr_Accepted = accepted,
               cr_RejectReasons = reasons \<rparr>)))))) }"

definition serializeWitnessResponse :: "('x) wire_scheme \<Rightarrow> WitnessResponse \<Rightarrow> string" where
  "serializeWitnessResponse w r =
     uuidString w (wr_ConnectionID r) @ ''.'' @ serializeSlice (wr_Errors r) @ ''.'' @
     fmt_bool (wr_Accepted r) @ ''.'' @ serializeSlice (wr_RejectReasons r) @ '';''"

definition deserializeWitnessResponse :: "('x) wire_scheme \<Rightarrow> string \<Rightarrow> (error + WitnessResponse) option" where
  "deserializeWitnessResponse w inp = do {
     r \<leftarrow> getParts inp 4;
     returns (tryE r (\<lambda>parts.
       tryE (uuidParse w (parts ! 0)) (\<lambda>uid.
       tryE (deserializeSlice (parts ! 1)) (\<lambda>errs.
       tryE (parseBool (parts ! 2)) (\<lambda>accepted.
       tryE (deserializeSlice (parts ! 3)) (\<lambda>reasons.
         Inr \<lparr> wr_ConnectionID = uid, wr_Errors = errs, wr_Accepted = accepted,
               wr_RejectReasons = reasons \<rparr>)))))) }"

text \<open>A peer in a response is itself a text of two parts, ended by a semicolon.\<close>

definition serializePeer :: "('x) wire_scheme \<Rightarrow> Peer \<Rightarrow> string" where
  "serializePeer w p = encodePeerID w (peer_ID p) @ ''.'' @ serializeSlice (Addresses p) @ '';''"

definition serializePeersResponse :: "('x) wire_scheme \<Rightarrow> PeersResponse \<Rightarrow> string" where
  "serializePeersResponse w r = serializeSlice (map (serializePeer w) (Peers r)) @ '';''"

definition deserializePeer :: "('x) wire_scheme \<Rightarrow> string \<Rightarrow> (error + Peer) option" where
  "deserializePeer w pStr = do {
     r \<leftarrow> getParts pStr 2;
     returns (tryE r (\<lambda>parts.
       tryE (decodePeerID w (parts ! 0)) (\<lambda>pid.
       tryE (deserializeSlice (parts ! 1)) (\<lambda>addrStrs.
         Inr \<lparr> peer_ID = pid, Addresses = addrStrs \<rparr>)))) }"

fun deserialize_peers :: "('x) wire_scheme \<Rightarrow> string list \<Rightarrow> (error + Peer list) option" where
  "deserialize_peers w [] = returns (Inr [])"
| "deserialize_peers w (pStr # ps) = do {
     r \<leftarrow> deserializePeer w pStr;
     (case r of
        Inl err \<Rightarrow> returns (Inl err)
      | Inr p \<Rightarrow> do {
          rest \<leftarrow> deserialize_peers w ps;
          returns (tryE rest (\<lambda>peers. Inr (p # peers))) }) }"

definition deserializePeersResponse :: "('x) wire_scheme \<Rightarrow> string \<Rightarrow> (error + PeersResponse) option" where
  "deserializePeersResponse w inp = do {
     r \<leftarrow> getParts inp 1;
     (case tryE r (\<lambda>parts. deserializeSlice (parts ! 0)) of
        Inl err \<Rightarrow> returns (Inl err)
      | Inr peerStrs \<Rightarrow> do {
          rest \<leftarrow> deserialize_peers w peerStrs;
          returns (tryE rest (\<lambda>peers. Inr \<lparr> Peers = peers \<rparr>)) }) }"

subsection \<open>Dispatch on the type\<close>

text \<open>
  The values the transport is given: the eight message types, or any other Go value, known
  by the name of its type.
\<close>

datatype payload =
  PConnectRequest ConnectRequest
| PConnectResponse ConnectResponse
| PWitnessRequest WitnessRequest
| PWitnessResponse WitnessResponse
| PWitnessNotification WitnessNotification
| PCloseRequest CloseRequest
| PPeersRequest PeersRequest
| PPeersResponse PeersResponse
| POther string

fun serialize :: "('x) wire_scheme \<Rightarrow> payload \<Rightarrow> error + string" where
  "serialize w (PConnectRequest v) = Inr (serializeConnectRequest w v)"
| "serialize w (PConnectResponse v) = Inr (serializeConnectResponse w v)"
| "serialize w (PWitnessRequest v) = Inr (serializeWitnessRequest w v)"
| "serialize w (PWitnessResponse v) = Inr (serializeWitnessResponse w v)"
| "serialize w (PWitnessNotification v) = Inr (serializeWitnessNotification w v)"
| "serialize w (PCloseRequest v) = Inr (serializeCloseRequest w v)"
| "serialize w (PPeersRequest v) = Inr (serializePeersRequest v)"
| "serialize w (PPeersResponse v) = Inr (serializePeersResponse w v)"
| "serialize w (POther t) = Inl (CannotSerialize t)"

text \<open>
  \<open>deserialize\<close> fills the variable it is given a pointer to; the result is that variable's
  new value, of the same type.
\<close>

definition filled :: "('a \<Rightarrow> payload) \<Rightarrow> (error + 'a) option \<Rightarrow> (error + payload) option" where
  "filled wrap r = map_option (map_sum (\<lambda>e. e) wrap) r"

fun deserialize :: "('x) wire_scheme \<Rightarrow> string \<Rightarrow> payload \<Rightarrow> (error + payload) option" where
  "deserialize w inp (PConnectRequest v) = filled PConnectRequest (deserializeConnectRequest w inp)"
| "deserialize w inp (PConnectResponse v) = filled PConnectResponse (deserializeConnectResponse w inp)"
| "deserialize w inp (PWitnessRequest v) = filled PWitnessRequest (deserializeWitnessRequest w inp)"
| "deserialize w inp (PWitnessResponse v) = filled PWitnessResponse (deserializeWitnessResponse w inp)"
| "deserialize w inp (PWitnessNotification v) = filled PWitnessNotification (deserializeWitnessNotification w inp)"
| "deserialize w inp (PCloseRequest v) = filled PCloseRequest (deserializeCloseRequest w inp)"
| "deserialize w inp (PPeersRequest v) = filled PPeersRequest (deserializePeersRequest inp)"
| "deserialize w inp (PPeersResponse v) = filled PPeersResponse (deserializePeersResponse w inp)"
| "deserialize w inp (POther t) = returns (Inl (CannotDeserialize t))"

end
