(* ===== verification/Wire_Laws.thy ===== *)
theory Wire_Laws
  imports Serde
begin

section \<open>The laws of the wire format\<close>

text \<open>
  Every message reads back as it was written and is framed: its text has one semicolon, the
  last byte. The locale \<open>wire_codec\<close> is that contract, with what the reader of a stream
  relies on, and every message type is an interpretation of it. The exception is stated
  and not hidden: a slice whose only element is the empty string reads back as empty.
\<close>

subsection \<open>What the libraries promise\<close>

text \<open>
  \<open>uuid_ok\<close>: the printed form of a UUID parses to it and is made of digits, letters and
  dashes, so it has no separator. \<open>id_ok\<close>: a valid libp2p peer identifier has a non-empty
  printed form that decodes to it; nil is written as the empty string.
\<close>

definition uuid_ok :: "('x) wire_scheme \<Rightarrow> bool" where
  "uuid_ok w \<longleftrightarrow> (\<forall>u. uuidParse w (uuidString w u) = Inr u \<and>
     CHR ''.'' \<notin> set (uuidString w u) \<and> CHR '';'' \<notin> set (uuidString w u) \<and> CHR '':'' \<notin> set (uuidString w u))"

definition id_ok :: "('x) wire_scheme \<Rightarrow> peer_id option \<Rightarrow> bool" where
  "id_ok w po = (case po of None \<Rightarrow> True | Some p \<Rightarrow> idString w p \<noteq> [] \<and> idDecode w (idString w p) = Inr p)"

lemma uuid_okD:
  assumes "uuid_ok w"
  shows "uuidParse w (uuidString w u) = Inr u" "CHR ''.'' \<notin> set (uuidString w u)"
    "CHR '';'' \<notin> set (uuidString w u)" "CHR '':'' \<notin> set (uuidString w u)"
  using assms by (simp_all add: uuid_ok_def)

subsection \<open>Parts and slices\<close>

lemma encodePeerID_no_separator [simp]:
  "CHR ''.'' \<notin> set (encodePeerID w p)" "CHR '';'' \<notin> set (encodePeerID w p)"
  by (simp_all add: encodePeerID_def split: option.splits)

lemma decodePeerID_encode [wire_simps]: "id_ok w p \<Longrightarrow> decodePeerID w (encodePeerID w p) = Inr p"
  by (auto simp: decodePeerID_def encodePeerID_def id_ok_def split: option.splits)

lemma serializeSlice_no_separator [simp]:
  "CHR ''.'' \<notin> set (serializeSlice xs)" "CHR '';'' \<notin> set (serializeSlice xs)"
  using set_Join [of "'',''" "map b64enc xs"] by (auto simp: serializeSlice_def)

lemma fmt_selector_no_separator [simp]: "CHR ''.'' \<notin> set (fmt_selector s)" "CHR '';'' \<notin> set (fmt_selector s)"
proof -
  have "CHR ''.'' \<notin> set (selector_String ws) \<and> CHR '';'' \<notin> set (selector_String ws)" for ws
    by (cases ws) simp_all
  then show "CHR ''.'' \<notin> set (fmt_selector s)" "CHR '';'' \<notin> set (fmt_selector s)"
    by (simp_all add: fmt_selector_def split: option.splits)
qed

lemma fmt_bool_no_separator [simp]: "CHR ''.'' \<notin> set (fmt_bool b)" "CHR '';'' \<notin> set (fmt_bool b)"
  by (simp_all add: fmt_bool_def)

lemma Itoa_no_separator [simp]: "CHR ''.'' \<notin> set (Itoa n)" "CHR '';'' \<notin> set (Itoa n)"
  by (auto dest!: Itoa_chars simp: is_digit_def)

lemma decode_elements_enc: "decode_elements (map b64enc xs) = Inr xs"
  by (induction xs) simp_all

lemma deserializeSlice_serialize:
  "deserializeSlice (serializeSlice xs) = Inr (if xs = [[]] then [] else xs)"
proof (cases "xs = [] \<or> xs = [[]]")
  case True
  then show ?thesis by (auto simp: deserializeSlice_def serializeSlice_def)
next
  case False
  then have "serializeSlice xs \<noteq> []"
    by (auto simp: serializeSlice_def Join_eq_Nil_iff map_eq_Cons_conv)
  moreover have "strings_Split (CHR '','') (serializeSlice xs) = map b64enc xs"
    unfolding serializeSlice_def using False by (intro Split_Join) auto
  ultimately show ?thesis using False by (auto simp: deserializeSlice_def decode_elements_enc)
qed

lemma slice_roundtrip [wire_simps]: "xs \<noteq> [[]] \<Longrightarrow> deserializeSlice (serializeSlice xs) = Inr xs"
  by (simp add: deserializeSlice_serialize)

lemma parseBool_fmt [wire_simps]: "parseBool (fmt_bool b) = Inr b"
  by (simp add: parseBool_def)

lemma parseInt_Itoa [wire_simps]: "parseInt (Itoa n) = Inr n"
  by (simp add: parseInt_def)

text \<open>What \<open>getParts\<close> makes of a text written by joining parts with dots.\<close>

lemma getParts_terminated [wire_simps]:
  "getParts (s @ [CHR '';'']) n =
     (let parts = strings_Split (CHR ''.'') s in
      returns (if length parts = n then Inr parts else Inl (IncorrectParts n (length parts))))"
  by (simp add: getParts_def Let_def)

lemma getParts_1: "CHR ''.'' \<notin> set a \<Longrightarrow> getParts (a @ '';'') 1 = Some (Inr [a])"
  by (simp add: getParts_terminated)

lemma getParts_2:
  "CHR ''.'' \<notin> set a \<Longrightarrow> CHR ''.'' \<notin> set b \<Longrightarrow> getParts (a @ ''.'' @ b @ '';'') 2 = Some (Inr [a, b])"
  using getParts_terminated [of "a @ ''.'' @ b" 2] by simp

lemma getParts_4:
  "CHR ''.'' \<notin> set a \<Longrightarrow> CHR ''.'' \<notin> set b \<Longrightarrow> CHR ''.'' \<notin> set c \<Longrightarrow> CHR ''.'' \<notin> set d \<Longrightarrow>
   getParts (a @ ''.'' @ b @ ''.'' @ c @ ''.'' @ d @ '';'') 4 = Some (Inr [a, b, c, d])"
  using getParts_terminated [of "a @ ''.'' @ b @ ''.'' @ c @ ''.'' @ d" 4] by simp

lemma getParts_panic_iff [simp]: "getParts inp n = None \<longleftrightarrow> inp = []"
  by (simp add: getParts_def Let_def)

text \<open>Splitting a text into the frame up to the first semicolon, as \<open>ReadBytes\<close> does.\<close>

definition framed :: "string \<Rightarrow> bool" where
  "framed s \<longleftrightarrow> s \<noteq> [] \<and> last s = CHR '';'' \<and> CHR '';'' \<notin> set (butlast s)"

lemma framedI: "CHR '';'' \<notin> set body \<Longrightarrow> framed (body @ '';'')"
  by (simp add: framed_def)

lemma framedE:
  assumes "framed s" obtains body where "s = body @ '';''" "CHR '';'' \<notin> set body"
  using assms by (metis append_butlast_last_id framed_def)

subsection \<open>The contract of a message format\<close>

locale wire_codec =
  fixes enc :: "'a \<Rightarrow> string"
    and dec :: "string \<Rightarrow> (error + 'a) option"
    and ok :: "'a \<Rightarrow> bool"
  assumes dec_enc: "ok a \<Longrightarrow> dec (enc a) = Some (Inr a)"
    and enc_framed: "ok a \<Longrightarrow> framed (enc a)"
begin

lemma enc_nonempty: "ok a \<Longrightarrow> enc a \<noteq> []"
  using enc_framed by (simp add: framed_def)

lemma enc_inject: "ok a \<Longrightarrow> ok b \<Longrightarrow> enc a = enc b \<Longrightarrow> a = b"
  using dec_enc by (metis Inr_inject option.inject)

text \<open>On a stream, the message ends at the first semicolon whatever follows it.\<close>

lemma enc_frame:
  assumes "ok a"
  shows "takeWhile (\<lambda>c. c \<noteq> CHR '';'') (enc a @ rest) @ '';'' = enc a"
    and "tl (dropWhile (\<lambda>c. c \<noteq> CHR '';'') (enc a @ rest)) = rest"
proof -
  obtain body where e: "enc a = body @ '';''" and n: "CHR '';'' \<notin> set body"
    using enc_framed [OF assms] by (rule framedE)
  have "\<forall>c \<in> set body. c \<noteq> CHR '';''" using n by blast
  then show "takeWhile (\<lambda>c. c \<noteq> CHR '';'') (enc a @ rest) @ '';'' = enc a"
    "tl (dropWhile (\<lambda>c. c \<noteq> CHR '';'') (enc a @ rest)) = rest"
    by (simp_all add: e takeWhile_append2 dropWhile_append2)
qed

end

subsection \<open>Every message type keeps it\<close>

definition ok_Options :: "Options \<Rightarrow> bool" where
  "ok_Options opts \<longleftrightarrow> WitnessSelector opts \<noteq> None"

definition ok_ConnectRequest :: "('x) wire_scheme \<Rightarrow> ConnectRequest \<Rightarrow> bool" where
  "ok_ConnectRequest w r \<longleftrightarrow>
     uuid_ok w \<and> id_ok w (cq_Sender r) \<and> id_ok w (cq_Receiver r) \<and> ok_Options (cq_Options r)"

definition ok_WitnessRequest :: "('x) wire_scheme \<Rightarrow> WitnessRequest \<Rightarrow> bool" where
  "ok_WitnessRequest w r \<longleftrightarrow>
     uuid_ok w \<and> id_ok w (wq_Sender r) \<and> id_ok w (wq_Receiver r) \<and> ok_Options (wq_Options r)"

definition ok_WitnessNotification :: "('x) wire_scheme \<Rightarrow> WitnessNotification \<Rightarrow> bool" where
  "ok_WitnessNotification w n \<longleftrightarrow> uuid_ok w \<and> id_ok w (wn_Witness n)"

definition ok_ConnectResponse :: "('x) wire_scheme \<Rightarrow> ConnectResponse \<Rightarrow> bool" where
  "ok_ConnectResponse w r \<longleftrightarrow> uuid_ok w \<and> cr_Errors r \<noteq> [[]] \<and> cr_RejectReasons r \<noteq> [[]]"

definition ok_WitnessResponse :: "('x) wire_scheme \<Rightarrow> WitnessResponse \<Rightarrow> bool" where
  "ok_WitnessResponse w r \<longleftrightarrow> uuid_ok w \<and> wr_Errors r \<noteq> [[]] \<and> wr_RejectReasons r \<noteq> [[]]"

definition ok_Peer :: "('x) wire_scheme \<Rightarrow> Peer \<Rightarrow> bool" where
  "ok_Peer w p \<longleftrightarrow> id_ok w (peer_ID p) \<and> Addresses p \<noteq> [[]]"

definition ok_PeersResponse :: "('x) wire_scheme \<Rightarrow> PeersResponse \<Rightarrow> bool" where
  "ok_PeersResponse w r \<longleftrightarrow> (\<forall>p \<in> set (Peers r). ok_Peer w p)"

lemmas ok_defs = ok_Options_def ok_ConnectRequest_def ok_WitnessRequest_def ok_WitnessNotification_def
  ok_ConnectResponse_def ok_WitnessResponse_def ok_Peer_def ok_PeersResponse_def

lemma framed4:
  "CHR '';'' \<notin> set a \<Longrightarrow> CHR '';'' \<notin> set b \<Longrightarrow> CHR '';'' \<notin> set c \<Longrightarrow> CHR '';'' \<notin> set d \<Longrightarrow>
   framed (a @ ''.'' @ b @ ''.'' @ c @ ''.'' @ d @ '';'')"
  using framedI [of "a @ ''.'' @ b @ ''.'' @ c @ ''.'' @ d"] by simp

lemma framed2: "CHR '';'' \<notin> set a \<Longrightarrow> CHR '';'' \<notin> set b \<Longrightarrow> framed (a @ ''.'' @ b @ '';'')"
  using framedI [of "a @ ''.'' @ b"] by simp

lemma fmt_selector_parse: "ok_Options opts \<Longrightarrow>
    \<exists>ws. WitnessSelector opts = Some ws \<and> ParseWitnessSelector (fmt_selector (WitnessSelector opts)) = Inr ws"
  by (auto simp: ok_Options_def fmt_selector_def)

interpretation cq: wire_codec "serializeConnectRequest w" "deserializeConnectRequest w" "ok_ConnectRequest w"
  for w :: "('x) wire_scheme"
proof
  fix r assume ok: "ok_ConnectRequest w r"
  then obtain ws where ws: "WitnessSelector (cq_Options r) = Some ws"
    "ParseWitnessSelector (fmt_selector (Some ws)) = Inr ws"
    using fmt_selector_parse [of "cq_Options r"] by (auto simp: ok_ConnectRequest_def)
  have "getParts (serializeConnectRequest w r) 4 = Some (Inr [uuidString w (cq_ConnectionID r),
      encodePeerID w (cq_Sender r), encodePeerID w (cq_Receiver r), fmt_selector (Some ws)])"
    unfolding serializeConnectRequest_def ws(1) using ok by (intro getParts_4) (simp_all add: ok_defs uuid_okD)
  with ok ws show "deserializeConnectRequest w (serializeConnectRequest w r) = Some (Inr r)"
    by (simp add: deserializeConnectRequest_def ok_defs uuid_okD decodePeerID_encode)
  show "framed (serializeConnectRequest w r)"
    unfolding serializeConnectRequest_def using ok by (intro framed4) (simp_all add: ok_defs uuid_okD)
qed

interpretation wq: wire_codec "serializeWitnessRequest w" "deserializeWitnessRequest w" "ok_WitnessRequest w"
  for w :: "('x) wire_scheme"
proof
  fix r assume ok: "ok_WitnessRequest w r"
  then obtain ws where ws: "WitnessSelector (wq_Options r) = Some ws"
    "ParseWitnessSelector (fmt_selector (Some ws)) = Inr ws"
    using fmt_selector_parse [of "wq_Options r"] by (auto simp: ok_WitnessRequest_def)
  have "getParts (serializeWitnessRequest w r) 4 = Some (Inr [uuidString w (wq_ConnectionID r),
      encodePeerID w (wq_Sender r), encodePeerID w (wq_Receiver r), fmt_selector (Some ws)])"
    unfolding serializeWitnessRequest_def ws(1) using ok by (intro getParts_4) (simp_all add: ok_defs uuid_okD)
  with ok ws show "deserializeWitnessRequest w (serializeWitnessRequest w r) = Some (Inr r)"
    by (simp add: deserializeWitnessRequest_def ok_defs uuid_okD decodePeerID_encode)
  show "framed (serializeWitnessRequest w r)"
    unfolding serializeWitnessRequest_def using ok by (intro framed4) (simp_all add: ok_defs uuid_okD)
qed

interpretation cr: wire_codec "serializeConnectResponse w" "deserializeConnectResponse w" "ok_ConnectResponse w"
  for w :: "('x) wire_scheme"
proof
  fix r assume ok: "ok_ConnectResponse w r"
  have "getParts (serializeConnectResponse w r) 4 = Some (Inr [uuidString w (cr_ConnectionID r),
      serializeSlice (cr_Errors r), fmt_bool (cr_Accepted r), serializeSlice (cr_RejectReasons r)])"
    unfolding serializeConnectResponse_def using ok by (intro getParts_4) (simp_all add: ok_defs uuid_okD)
  with ok show "deserializeConnectResponse w (serializeConnectResponse w r) = Some (Inr r)"
    by (simp add: deserializeConnectResponse_def ok_defs uuid_okD slice_roundtrip parseBool_fmt)
  show "framed (serializeConnectResponse w r)"
    unfolding serializeConnectResponse_def using ok by (intro framed4) (simp_all add: ok_defs uuid_okD)
qed

interpretation wr: wire_codec "serializeWitnessResponse w" "deserializeWitnessResponse w" "ok_WitnessResponse w"
  for w :: "('x) wire_scheme"
proof
  fix r assume ok: "ok_WitnessResponse w r"
  have "getParts (serializeWitnessResponse w r) 4 = Some (Inr [uuidString w (wr_ConnectionID r),
      serializeSlice (wr_Errors r), fmt_bool (wr_Accepted r), serializeSlice (wr_RejectReasons r)])"
    unfolding serializeWitnessResponse_def using ok by (intro getParts_4) (simp_all add: ok_defs uuid_okD)
  with ok show "deserializeWitnessResponse w (serializeWitnessResponse w r) = Some (Inr r)"
    by (simp add: deserializeWitnessResponse_def ok_defs uuid_okD slice_roundtrip parseBool_fmt)
  show "framed (serializeWitnessResponse w r)"
    unfolding serializeWitnessResponse_def using ok by (intro framed4) (simp_all add: ok_defs uuid_okD)
qed

interpretation wn: wire_codec "serializeWitnessNotification w" "deserializeWitnessNotification w"
    "ok_WitnessNotification w" for w :: "('x) wire_scheme"
proof
  fix n assume ok: "ok_WitnessNotification w n"
  have "getParts (serializeWitnessNotification w n) 2 =
      Some (Inr [uuidString w (wn_ConnectionID n), encodePeerID w (wn_Witness n)])"
    unfolding serializeWitnessNotification_def using ok by (intro getParts_2) (simp_all add: ok_defs uuid_okD)
  with ok show "deserializeWitnessNotification w (serializeWitnessNotification w n) = Some (Inr n)"
    by (simp add: deserializeWitnessNotification_def ok_defs uuid_okD decodePeerID_encode)
  show "framed (serializeWitnessNotification w n)"
    unfolding serializeWitnessNotification_def using ok by (intro framed2) (simp_all add: ok_defs uuid_okD)
qed

interpretation cl: wire_codec "serializeCloseRequest w" "deserializeCloseRequest w" "\<lambda>_. uuid_ok w"
  for w :: "('x) wire_scheme"
proof
  fix r assume ok: "uuid_ok w"
  have "getParts (serializeCloseRequest w r) 1 = Some (Inr [uuidString w (cl_ConnectionID r)])"
    unfolding serializeCloseRequest_def using ok by (intro getParts_1) (simp_all add: uuid_okD)
  with ok show "deserializeCloseRequest w (serializeCloseRequest w r) = Some (Inr r)"
    by (simp add: deserializeCloseRequest_def uuid_okD)
  show "framed (serializeCloseRequest w r)"
    unfolding serializeCloseRequest_def using ok by (intro framedI) (simp_all add: uuid_okD)
qed

interpretation pq: wire_codec serializePeersRequest deserializePeersRequest "\<lambda>_. True"
proof
  fix r :: PeersRequest
  have "getParts (serializePeersRequest r) 1 = Some (Inr [Itoa (Num r)])"
    unfolding serializePeersRequest_def by (intro getParts_1) simp
  then show "deserializePeersRequest (serializePeersRequest r) = Some (Inr r)"
    by (simp add: deserializePeersRequest_def parseInt_Itoa)
  show "framed (serializePeersRequest r)" unfolding serializePeersRequest_def by (intro framedI) simp
qed

lemma deserializePeer_serialize [wire_simps]:
  assumes "ok_Peer w p" shows "deserializePeer w (serializePeer w p) = Some (Inr p)"
proof -
  have "getParts (serializePeer w p) 2 = Some (Inr [encodePeerID w (peer_ID p), serializeSlice (Addresses p)])"
    unfolding serializePeer_def by (intro getParts_2) simp_all
  with assms show ?thesis
    by (simp add: deserializePeer_def ok_Peer_def decodePeerID_encode slice_roundtrip)
qed

lemma deserialize_peers_serialize:
  "\<forall>p \<in> set ps. ok_Peer w p \<Longrightarrow> deserialize_peers w (map (serializePeer w) ps) = Some (Inr ps)"
  by (induction ps) (simp_all add: deserializePeer_serialize)

interpretation pr: wire_codec "serializePeersResponse w" "deserializePeersResponse w" "ok_PeersResponse w"
  for w :: "('x) wire_scheme"
proof
  fix r assume ok: "ok_PeersResponse w r"
  have ne: "map (serializePeer w) (Peers r) \<noteq> [[]]" by (auto simp: serializePeer_def map_eq_Cons_conv)
  have "getParts (serializePeersResponse w r) 1 = Some (Inr [serializeSlice (map (serializePeer w) (Peers r))])"
    unfolding serializePeersResponse_def by (intro getParts_1) simp
  with ok show "deserializePeersResponse w (serializePeersResponse w r) = Some (Inr r)"
    by (simp add: deserializePeersResponse_def ok_PeersResponse_def slice_roundtrip [OF ne]
        deserialize_peers_serialize)
  show "framed (serializePeersResponse w r)" unfolding serializePeersResponse_def by (intro framedI) simp
qed

text \<open>The contract for the dispatching functions: \<open>serialize\<close> and \<open>deserialize\<close> at any type.\<close>

fun ok_payload :: "('x) wire_scheme \<Rightarrow> payload \<Rightarrow> bool" where
  "ok_payload w (PConnectRequest v) = ok_ConnectRequest w v"
| "ok_payload w (PConnectResponse v) = ok_ConnectResponse w v"
| "ok_payload w (PWitnessRequest v) = ok_WitnessRequest w v"
| "ok_payload w (PWitnessResponse v) = ok_WitnessResponse w v"
| "ok_payload w (PWitnessNotification v) = ok_WitnessNotification w v"
| "ok_payload w (PCloseRequest v) = uuid_ok w"
| "ok_payload w (PPeersRequest v) = True"
| "ok_payload w (PPeersResponse v) = ok_PeersResponse w v"
| "ok_payload w (POther t) = False"

text \<open>The name of a value's Go type, as \<open>%T\<close> prints it; another type is marked.\<close>

fun type_name :: "payload \<Rightarrow> string" where
  "type_name (PConnectRequest _) = ''connection.ConnectRequest''"
| "type_name (PConnectResponse _) = ''connection.ConnectResponse''"
| "type_name (PWitnessRequest _) = ''connection.WitnessRequest''"
| "type_name (PWitnessResponse _) = ''connection.WitnessResponse''"
| "type_name (PWitnessNotification _) = ''connection.WitnessNotification''"
| "type_name (PCloseRequest _) = ''connection.CloseRequest''"
| "type_name (PPeersRequest _) = ''peer.PeersRequest''"
| "type_name (PPeersResponse _) = ''peer.PeersResponse''"
| "type_name (POther t) = ''other '' @ t"

definition same_type :: "payload \<Rightarrow> payload \<Rightarrow> bool" where
  "same_type v out \<longleftrightarrow> type_name v = type_name out"

lemmas codec_dec_enc = cq.dec_enc wq.dec_enc cr.dec_enc wr.dec_enc wn.dec_enc cl.dec_enc pq.dec_enc pr.dec_enc
lemmas codec_framed = cq.enc_framed wq.enc_framed cr.enc_framed wr.enc_framed wn.enc_framed cl.enc_framed
  pq.enc_framed pr.enc_framed

lemma serialize_framed: "ok_payload w v \<Longrightarrow> serialize w v = Inr s \<Longrightarrow> framed s"
  by (cases v) (auto simp: codec_framed)

lemma deserialize_serialize:
  "ok_payload w v \<Longrightarrow> same_type v out \<Longrightarrow> serialize w v = Inr s \<Longrightarrow> deserialize w s out = Some (Inr v)"
  unfolding same_type_def by (cases v; cases out) (auto simp: filled_def codec_dec_enc)

subsection \<open>When parsing panics\<close>

lemma deserialize_peers_panic:
  "[] \<notin> set ss \<Longrightarrow> deserialize_peers w ss \<noteq> None"
  by (induction ss) (auto simp: deserializePeer_def bind_eq_None_conv split: sum.splits)

end
