(* ===== verification/Example.thy ===== *)
theory Example
  imports App Protocol Wire_Laws
begin

section \<open>A small network to run the model on\<close>

text \<open>
  Three nodes, Alice, Bob and Carol, that know one another; every message arrives and every
  request is accepted, and the world is the supply of fresh connection identifiers. The
  sample runs follow one connection at Bob: Alice opens it with Bob to select the witness.
\<close>

definition alice :: peer_id where "alice = ''QmAlice''"
definition bob :: peer_id where "bob = ''QmBob''"
definition carol :: peer_id where "carol = ''QmCarol''"

lemmas demo_ids = alice_def bob_def carol_def

definition demo_peer :: "peer_id \<Rightarrow> Peer" where
  "demo_peer p = \<lparr> peer_ID = Some p, Addresses = [''/ip4/'' @ p] \<rparr>"

lemma demo_peer_ID [simp]: "peer_ID (demo_peer p) = Some p"
  by (simp add: demo_peer_def)

definition demo_store :: "peer_id \<Rightarrow> uuid PeerStore" where
  "demo_store me = \<lparr>
     AddAddr = (\<lambda>p a w. returns (None, w)),
     Find = (\<lambda>p w. returns (case p of None \<Rightarrow> Inl (External ''no peer'') | Some q \<Rightarrow> Inr (demo_peer q))),
     AllPeers = (\<lambda>w. returns (Inr [demo_peer alice, demo_peer bob, demo_peer carol])),
     SelfPeer = (\<lambda>w. returns (Inr (demo_peer me))) \<rparr>"

definition demo_transport :: "uuid Transport" where
  "demo_transport = \<lparr>
     SendNotification = (\<lambda>p o1 n w. returns (None, w)),
     SendClose = (\<lambda>p o1 r w. returns (None, w)),
     ExchangeConnect = (\<lambda>p o1 r w. returns (Inr \<lparr> cr_ConnectionID = cq_ConnectionID r, cr_Errors = [],
        cr_Accepted = True, cr_RejectReasons = [] \<rparr>, w)),
     ExchangeWitness = (\<lambda>p o1 r w. returns (Inr \<lparr> wr_ConnectionID = wq_ConnectionID r, wr_Errors = [],
        wr_Accepted = True, wr_RejectReasons = [] \<rparr>, w)),
     ExchangePeers = (\<lambda>p o1 r w. returns (Inr \<lparr> Peers = [demo_peer carol, demo_peer bob] \<rparr>, w)) \<rparr>"

definition demo_names :: wire where
  "demo_names = \<lparr> uuidString = (\<lambda>u. dec_nat (unat u)), idString = (\<lambda>p. p), quote = (\<lambda>s. s),
     uuidParse = (\<lambda>s. case read_nat s of None \<Rightarrow> Inl (External ''invalid UUID'') | Some n \<Rightarrow> Inr (of_nat n)),
     idDecode = (\<lambda>s. Inr s) \<rparr>"

lemma demo_uuid_ok: "uuid_ok demo_names"
  by (auto simp: uuid_ok_def demo_names_def read_nat_def is_digit_def dest: dec_nat_digits)

lemma demo_id_ok: "p \<noteq> [] \<Longrightarrow> id_ok demo_names (Some p)"
  by (simp add: id_ok_def demo_names_def)

definition demo_env :: "peer_id \<Rightarrow> uuid nodeEnv" where
  "demo_env me = \<lparr> peerStore = demo_store me, transport = demo_transport,
     trusts = (\<lambda>r s. returns ((True, None), s)), logLevel = Info,
     newRandom = (\<lambda>w. ((w, None), w + 1)), mapOrder = (\<lambda>ids. ids),
     envNames = \<lparr> uuidString = (\<lambda>u. dec_nat (unat u)), idString = (\<lambda>p. p), quote = (\<lambda>s. s) \<rparr> \<rparr>"

lemmas demo_defs = demo_env_def demo_store_def demo_transport_def

lemma demo_sel [simp]:
  "SelfPeer (peerStore (demo_env me)) w = Some (Inr (demo_peer me))"
  "Find (peerStore (demo_env me)) (Some p) w = Some (Inr (demo_peer p))"
  "Find (peerStore (demo_env me)) None w = Some (Inl (External ''no peer''))"
  "AllPeers (peerStore (demo_env me)) w = Some (Inr [demo_peer alice, demo_peer bob, demo_peer carol])"
  "trusts (demo_env me) r s = Some ((True, None), s)"
  by (simp_all add: demo_defs)

lemma demo_distinct [simp]:
  "alice \<noteq> bob" "bob \<noteq> alice" "alice \<noteq> carol" "carol \<noteq> alice" "bob \<noteq> carol" "carol \<noteq> bob"
  by (simp_all add: demo_ids)

lemma demo_agrees: "requestWitness (demo_env me) p c o1 o2 w = Some (None, w)"
  by (simp add: requestWitness_def demo_defs)

lemma demo_steady: "steady (demo_env me) me"
  by (auto simp: steady_iff demo_defs split: option.splits)

definition no_reps :: repStore where
  "no_reps = NewReputationStore None"

definition demo_start :: "uuid sysState" where
  "demo_start = ((NewConnectionStore, no_reps, 7), [])"

abbreviation receiver_selects :: Options where
  "receiver_selects \<equiv> \<lparr> WitnessSelector = Some WitnessSelectorReceiver \<rparr>"

abbreviation sender_selects :: Options where
  "sender_selects \<equiv> \<lparr> WitnessSelector = Some WitnessSelectorSender \<rparr>"

subsection \<open>One connection at Bob\<close>

definition demo_request :: ConnectRequest where
  "demo_request = \<lparr> cq_ConnectionID = 7, cq_Sender = Some alice, cq_Receiver = Some bob,
     cq_Options = receiver_selects \<rparr>"

definition demo_conn :: "Status \<Rightarrow> peer_id option \<Rightarrow> Connection" where
  "demo_conn st w = inMemoryConnection 7 (Some alice) w (Some bob) st"

text \<open>Accepted, closed by Alice before its task ran, and then selected a witness for.\<close>

definition demo_state :: "Status \<Rightarrow> peer_id option \<Rightarrow> repStore \<Rightarrow> task list \<Rightarrow> uuid sysState" where
  "demo_state st w rs ts = (([(7, demo_conn st w)], rs, 7), ts)"

definition carol_assessed :: repStore where
  "carol_assessed = no_reps\<lparr>reps := [(Some carol, defaultReputation (Some carol))]\<rparr>"

lemma demo_handle_connect:
  "handle_connect (demo_env bob) appHandlers (Some alice) demo_request (NewConnectionStore, no_reps, 7) =
     Some ((\<lparr> cr_ConnectionID = 7, cr_Errors = [], cr_Accepted = True, cr_RejectReasons = [] \<rparr>, None),
       Some (7, receiver_selects), fst (demo_state AwaitingWitness None no_reps []))"
  by (simp add: handle_connect_def demo_request_def appHandlers_def appConnectHandler_def Accept_def
      NewConnectionStore_def selects_witness_def demo_state_def demo_conn_def demo_ids Let_def)

lemma demo_step_connect:
  "node_step (demo_env bob) appHandlers (EConnectRequest (Some alice) demo_request) demo_start
     (demo_state AwaitingWitness None no_reps [(7, receiver_selects)])"
  using node_step.connect_request [OF demo_handle_connect, of "[]"]
  by (simp add: demo_start_def demo_state_def)

lemma demo_handle_close:
  "handle_close appHandlers (Some p) \<lparr> cl_ConnectionID = 7 \<rparr> (fst (demo_state AwaitingWitness None no_reps [])) =
     Some (None, fst (demo_state Closed None no_reps []))"
  by (simp add: handle_close_def Update_found demo_state_def close_request_write_def appHandlers_def
      appCloseHandler_def demo_conn_def conn_as_def)

lemma demo_step_close:
  "node_step (demo_env bob) appHandlers (ECloseRequest (Some p) \<lparr> cl_ConnectionID = 7 \<rparr>)
     (demo_state AwaitingWitness None no_reps ts) (demo_state Closed None no_reps ts)"
  using node_step.close_request [OF demo_handle_close, of "demo_env bob" p ts]
  by (simp add: demo_state_def)

lemma demo_selection:
  "witness_task (demo_env bob) appHandlers (7, receiver_selects) (fst (demo_state st None no_reps [])) =
     Some (None, fst (demo_state Open (Some carol) carol_assessed []))"
  by (simp add: witness_task_def Update_found demo_state_def handleWitnessSelection_def findWitness_def
      witnessCandidates_def assess_def ReadRep_def ensureRepExists_def requestWitness_def notify_and_open_def
      sendWitnessNotification_def demo_defs demo_conn_def conn_as_def no_reps_def NewReputationStore_def
      carol_assessed_def defaultReputation_def demo_peer_def demo_ids Let_def)

lemma demo_step_task:
  "node_step (demo_env bob) appHandlers (ETask (7, receiver_selects))
     (demo_state st None no_reps [(7, receiver_selects)]) (demo_state Open (Some carol) carol_assessed [])"
  using node_step.task [OF demo_selection, of st "[]" "[]"] by (simp add: demo_state_def)

text \<open>The states reached, with any events admitted that include these three.\<close>

lemma demo_reachable:
  assumes "\<And>p r. adm (EConnectRequest p r)"
  shows "reachable (demo_env bob) appHandlers adm (demo_state AwaitingWitness None no_reps [(7, receiver_selects)])"
  by (rule reachable.step [OF _ _ demo_step_connect]) (simp_all add: demo_start_def assms reachable.start)

lemma demo_reachable_closed:
  "reachable (demo_env bob) appHandlers any_event (demo_state Closed None no_reps [(7, receiver_selects)])"
  by (rule reachable.step [OF demo_reachable _ demo_step_close]) simp_all

lemma demo_reachable_open:
  assumes "\<And>p r. adm (EConnectRequest p r)" "\<And>t. adm (ETask t)"
  shows "reachable (demo_env bob) appHandlers adm (demo_state Open (Some carol) carol_assessed [])"
  by (rule reachable.step [OF demo_reachable _ demo_step_task]) (simp_all add: assms)

end
