(* ===== verification/Protocol_Props.thy ===== *)
theory Protocol_Props
  imports Example
begin

section \<open>What holds of the connections of a node\<close>

text \<open>
  The properties of the state machine of \<open>Protocol\<close>: how the status of a connection may
  change, what never changes, that closed is final but for a pending witness task, and the
  invariants of every reachable state.
\<close>

subsection \<open>Transitions\<close>

text \<open>The statuses that an event may take a stored connection from and to.\<close>

fun may_follow :: "event \<Rightarrow> Status \<Rightarrow> Status \<Rightarrow> bool" where
  "may_follow (EClose i o2) st st' \<longleftrightarrow> st \<noteq> Closed \<and> st' \<in> {Closing, Closed}"
| "may_follow (ECloseRequest p r) st st' \<longleftrightarrow> st \<noteq> Closed \<and> st' \<in> {Closing, Closed}"
| "may_follow (ENotification p n) st st' \<longleftrightarrow> st = AwaitingWitness \<and> st' = Open"
| "may_follow (ETask t) st st' \<longleftrightarrow> st' \<in> {st, AwaitingWitness, RequestingWitness, NotifyingOfWitness, Open}"
| "may_follow _ st st' \<longleftrightarrow> False"

text \<open>Only the events that concern the witness may change the witness.\<close>

fun keeps_witness :: "event \<Rightarrow> bool" where
  "keeps_witness (ENotification p n) = False"
| "keeps_witness (ETask t) = False"
| "keeps_witness _ = True"

lemma conn_change_may_follow:
  "conn_change ev c c' \<Longrightarrow> may_follow ev (Status c) (Status c') \<and> (keeps_witness ev \<longrightarrow> Witness c' = Witness c)"
  by (cases ev) (auto elim!: outcome_someE)

text \<open>C1:
  Every step of a node, whatever its peers, handlers and transport do, leaves each stored
  connection in the store and unchanged, except for the one connection the event names. That one
  keeps its identifier and its participants; a close leads from any status but
  \<open>Closed\<close> to \<open>Closing\<close> or \<open>Closed\<close> and keeps the witness, a witness notification leads from
  \<open>AwaitingWitness\<close> to \<open>Open\<close>, and a witness task to one of its own stages.\<close>

theorem connection_transitions:
  assumes "reachable env h any_event x" and "node_step env h ev x x'" and "map_of (conns x) i = Some c"
  shows "\<exists>c'. map_of (conns x') i = Some c' \<and>
    (c' = c \<or>
     event_conn ev = Some i \<and> may_follow ev (Status c) (Status c') \<and>
     (keeps_witness ev \<longrightarrow> Witness c' = Witness c) \<and>
     ID c' = ID c \<and> Sender c' = Sender c \<and> Receiver c' = Receiver c)"
proof -
  obtain c' where "map_of (conns x') i = Some c'" "c' = c \<or> event_conn ev = Some i \<and> conn_change ev c c'"
    using step_conn [OF assms] by blast
  moreover have "writable c" using store_okD [OF reachable_store_ok [OF assms(1)] assms(3)] by simp
  ultimately show ?thesis using conn_change_may_follow conn_change_fields by blast
qed

theorem connection_transitions_witness:
  "\<exists>c'. map_of (conns (demo_state Closed None no_reps [(7, receiver_selects)])) 7 = Some c' \<and>
    (c' = demo_conn AwaitingWitness None \<or> Status c' = Closed)"
proof -
  have "map_of (conns (demo_state AwaitingWitness None no_reps [(7, receiver_selects)])) 7 =
      Some (demo_conn AwaitingWitness None)"
    by (simp add: demo_state_def)
  from connection_transitions [OF demo_reachable demo_step_close [of alice] this]
  show ?thesis by (auto simp: demo_state_def demo_conn_def)
qed

subsection \<open>Runs\<close>

lemma step_fields:
  assumes "reachable env h adm x" "node_step env h ev x x'" "map_of (conns x) i = Some c"
  shows "\<exists>c'. map_of (conns x') i = Some c' \<and> ID c' = ID c \<and> Sender c' = Sender c \<and> Receiver c' = Receiver c"
proof -
  obtain c' where "map_of (conns x') i = Some c'" "c' = c \<or> event_conn ev = Some i \<and> conn_change ev c c'"
    using step_conn [OF assms] by blast
  moreover have "writable c" using store_okD [OF reachable_store_ok [OF assms(1)] assms(3)] by simp
  ultimately show ?thesis using conn_change_fields by blast
qed

text \<open>
  A connection, once stored, is never dropped and never changes its identifier, sender or
  receiver, in any run of the node from any reachable state.\<close>

theorem participants_fixed:
  assumes "reachable env h any_event x" and "runs env h any_event x x'" and "map_of (conns x) i = Some c"
  shows "\<exists>c'. map_of (conns x') i = Some c' \<and> ID c' = ID c \<and> Sender c' = Sender c \<and> Receiver c' = Receiver c"
  using assms(2,1,3)
proof (induction rule: runs.induct)
  case (stay x)
  then show ?case by blast
next
  case (more x x' ev x'')
  then obtain c1 where c1: "map_of (conns x') i = Some c1"
    "ID c1 = ID c" "Sender c1 = Sender c" "Receiver c1 = Receiver c" by blast
  from step_fields [OF runs_reachable [OF more.hyps(1) more.prems(1)] more.hyps(3) c1(1)] c1(2-4)
  show ?case by metis
qed

theorem participants_fixed_witness:
  "\<exists>c'. map_of (conns (demo_state Closed None no_reps [(7, receiver_selects)])) 7 = Some c' \<and>
    Sender c' = Some alice \<and> Receiver c' = Some bob"
proof -
  have "runs (demo_env bob) appHandlers any_event (demo_state AwaitingWitness None no_reps [(7, receiver_selects)])
      (demo_state Closed None no_reps [(7, receiver_selects)])"
    by (rule runs.more [OF runs.stay _ demo_step_close]) simp
  moreover have "map_of (conns (demo_state AwaitingWitness None no_reps [(7, receiver_selects)])) 7 =
      Some (demo_conn AwaitingWitness None)"
    by (simp add: demo_state_def)
  ultimately show ?thesis
    using participants_fixed [OF demo_reachable] by (fastforce simp: demo_conn_def)
qed

lemma step_closed:
  assumes "reachable env h adm x" "node_step env h ev x x'"
    and "map_of (conns x) i = Some c" "Status c = Closed" "i \<notin> fst ` set (snd x)"
  shows "map_of (conns x') i = Some c"
proof -
  obtain c' where c': "map_of (conns x') i = Some c'" "c' = c \<or> event_conn ev = Some i \<and> conn_change ev c c'"
    using step_conn [OF assms(1-3)] by blast
  have "ev \<noteq> ETask t" if "event_conn ev = Some i" for t
    using assms(2,5) that by (auto elim!: taskE)
  with c' assms(4) show ?thesis by (cases ev) auto
qed


lemma demo_closed_after_open:
  "reachable (demo_env bob) appHandlers any_event (demo_state Closed (Some carol) carol_assessed [])"
proof (rule reachable.step [OF demo_reachable_open])
  show "node_step (demo_env bob) appHandlers (ECloseRequest (Some alice) \<lparr> cl_ConnectionID = 7 \<rparr>)
     (demo_state Open (Some carol) carol_assessed []) (demo_state Closed (Some carol) carol_assessed [])"
    unfolding demo_state_def
    by (rule node_step.close_request) (simp add: handle_close_def Update_found close_request_write_def
        appHandlers_def appCloseHandler_def demo_conn_def conn_as_def)
qed simp_all



subsection \<open>Invariants\<close>

lemma new_by_connect:
  assumes "conn_new env (EConnect p o1 o2) c"
  shows "Status c \<noteq> RequestingSender" "Status c = RequestingReceiver \<Longrightarrow> Witness c = None"
    "Status c = Open \<Longrightarrow> Witness c \<noteq> None"
    "\<exists>w self. SelfPeer (peerStore env) w = Some (Inr self) \<and> Sender c = peer_ID self"
proof -
  from assms obtain c0 e w self where f0: "SelfPeer (peerStore env) w = Some (Inr self)"
    "c0 = inMemoryConnection (ID c) (peer_ID self) None (peer_ID p) RequestingReceiver"
    "c = c0 \<or> selection_outcome c0 (Some c) e"
    unfolding conn_new.simps by blast
  then have f: "SelfPeer (peerStore env) w = Some (Inr self)" "c = c0 \<or> selection_outcome c0 (Some c) e"
    "Sender c0 = peer_ID self" "Status c0 = RequestingReceiver" "Witness c0 = None" by simp_all
  have "(Status c \<noteq> RequestingSender \<and> (Status c = RequestingReceiver \<longrightarrow> Witness c = None) \<and>
    (Status c = Open \<longrightarrow> Witness c \<noteq> None)) \<and> Sender c = Sender c0"
    using f(2)
  proof
    assume "selection_outcome c0 (Some c) e"
    then show ?thesis using f(4,5) by cases auto
  qed (use f(4,5) in simp)
  with f(1,3) show "Status c \<noteq> RequestingSender" "Status c = RequestingReceiver \<Longrightarrow> Witness c = None"
    "Status c = Open \<Longrightarrow> Witness c \<noteq> None"
    "\<exists>w self. SelfPeer (peerStore env) w = Some (Inr self) \<and> Sender c = peer_ID self" by auto
qed

text \<open>
  In every reachable state the store holds each connection once, under its own
  identifier, as a connection that can be written, and never in the status
  \<open>RequestingSender\<close>. Connections waiting for the receiver have no witness yet.\<close>

theorem reachable_store_sound:
  assumes "reachable env h any_event x"
  shows "distinct (map fst (conns x)) \<and>
    (\<forall>i c. map_of (conns x) i = Some c \<longrightarrow> writable c \<and> ID c = i \<and> Status c \<noteq> RequestingSender \<and>
       (Status c = RequestingReceiver \<longrightarrow> Witness c = None))"
proof -
  have "Status c \<noteq> RequestingSender \<and> (Status c = RequestingReceiver \<longrightarrow> Witness c = None)"
    if "map_of (conns x) i = Some c" for i c
    using assms that
  proof (induction rule: reachable_conn_induct)
    case (new ev c)
    then show ?case using new_by_connect(1,2) by (cases ev) (simp_all del: conn_new.simps(1), blast)
  next
    case (change ev c c' x)
    then show ?case by (cases ev) (auto elim!: outcome_someE)
  qed
  with reachable_store_ok [OF assms] show ?thesis
    by (auto simp: store_ok_def stored_ok_def wf_store_def)
qed

theorem reachable_store_sound_witness:
  "writable (demo_conn Closed None)"
  using reachable_store_sound [OF demo_reachable_closed] by (simp add: demo_state_def)

text \<open>This node takes part: as sender or receiver, or as the witness of a connection that is open or was.\<close>

definition takes_part :: "peer_id \<Rightarrow> Connection \<Rightarrow> bool" where
  "takes_part me c \<longleftrightarrow> Sender c = Some me \<or> Receiver c = Some me \<or>
     Witness c = Some me \<and> Status c \<in> {Open, Closing, Closed}"

lemma new_takes_part:
  assumes "steady env me" "conn_new env ev c"
  shows "takes_part me c"
proof (cases ev)
  case (EConnect p o1 o2)
  with assms(2) new_by_connect(4) obtain w self where
    "SelfPeer (peerStore env) w = Some (Inr self)" "Sender c = peer_ID self" by metis
  with assms(1) have "Sender c = Some me" unfolding steady_iff by fastforce
  then show ?thesis by (simp add: takes_part_def)
next
  case (EConnectRequest p r)
  with assms(2) obtain w sender receiver self where f:
    "Find (peerStore env) (cq_Sender r) w = Some (Inr sender)" "Sender c = peer_ID sender"
    "Find (peerStore env) (cq_Receiver r) w = Some (Inr receiver)" "Receiver c = peer_ID receiver"
    "SelfPeer (peerStore env) w = Some (Inr self)" "cq_Sender r = peer_ID self \<or> cq_Receiver r = peer_ID self"
    by auto
  show ?thesis using f(2,4,6) steady_lookups [OF assms(1) f(1,3,5)] by (auto simp: takes_part_def)
next
  case (EWitnessRequest p r)
  with assms(2) obtain w self where "SelfPeer (peerStore env) w = Some self" "Status c = Open"
    "Witness c = (case self of Inl e \<Rightarrow> None | Inr me \<Rightarrow> peer_ID me)" by auto
  with assms(1) show ?thesis unfolding steady_iff takes_part_def by fastforce
qed (use assms(2) in simp_all)

lemma change_takes_part:
  assumes "conn_change ev c c'" "writable c" "takes_part me c"
    and "\<And>t. ev = ETask t \<Longrightarrow> selecting_side me c (snd t)"
  shows "takes_part me c'"
proof (cases "Sender c = Some me \<or> Receiver c = Some me")
  case True
  with conn_change_fields [OF assms(1,2)] show ?thesis by (auto simp: takes_part_def)
next
  case False
  with assms show ?thesis by (cases ev) (auto simp: takes_part_def selecting_side_def)
qed



text \<open>The notifications that name a witness, and every other event.\<close>

fun names_witness :: "event \<Rightarrow> bool" where
  "names_witness (ENotification p n) = (wn_Witness n \<noteq> None)"
| "names_witness _ = True"



end
