(* ===== verification/Connect_Props.thy ===== *)
theory Connect_Props
  imports Example
begin

section \<open>Opening a connection and choosing its witness\<close>

text \<open>
  What \<open>Connect\<close> leaves in the store when it succeeds and when it fails, which peers are
  candidates, and which of them becomes the witness.
\<close>

subsection \<open>Connect\<close>

text \<open>A witness selection that reports no error, by the role of this node.\<close>

lemma selection_ok:
  assumes "steady env me" "writable c" "handleWitnessSelection env c o1 o2 s = Some ((co, None), s')"
  shows "\<exists>c'. co = Some c' \<and> writable c' \<and> ID c' = ID c \<and> Sender c' = Sender c \<and> Receiver c' = Receiver c \<and>
    (if selecting_side me c o1 then Status c' = Open \<and> Witness c' \<noteq> None
     else WitnessSelector o1 \<noteq> None \<and> Status c' = AwaitingWitness \<and> Witness c' = Witness c)"
proof -
  obtain self where self: "SelfPeer (peerStore env) (snd s) = Some (Inr self)" "peer_ID self = Some me"
    using assms(1,3) by (auto simp: handleWitnessSelection_def bind_eq_Some_conv steady_iff) blast
  have here: "\<exists>c'. co = Some c' \<and> Status c' = Open \<and> Witness c' \<noteq> None \<and> writable c' \<and> ID c' = ID c \<and>
      Sender c' = Sender c \<and> Receiver c' = Receiver c"
    if "Option.bind (findWitness env c o1 o2 s) (\<lambda>(res, s). notify_and_open env res o2 s) = Some ((co, None), s')"
  proof -
    from that obtain co1 err1 s1 where f: "findWitness env c o1 o2 s = Some ((co1, err1), s1)"
      and n: "notify_and_open env (co1, err1) o2 s1 = Some ((co, None), s')"
      by (auto simp: bind_eq_Some_conv)
    from findWitness_result [OF assms(2) f] n obtain p where "co1 = Some (conn_as c RequestingWitness p)" "err1 = None"
      by auto
    with notify_and_open_result [of "conn_as c RequestingWitness p" env o2 s1 co None s'] n show ?thesis by auto
  qed
  show ?thesis
    using assms(2,3) self here
    by (auto simp: handleWitnessSelection_def selecting_side_def split: option.splits WitnessSelector.splits if_splits)
qed

lemma connect_write_ok:
  assumes "connect_write env o1 o2 c s = Some ((co, None), s')"
  shows "\<exists>s1. handleWitnessSelection env c o1 o2 s1 = Some ((co, None), s')"
  using assms by (cases s) (auto simp: connect_write_def split: panic_split)

lemma connect_ok:
  assumes "steady env me" and "Connect env p o1 o2 (cs, s) = Some ((i, None), (cs', s'))"
  obtains c where "map_of cs i = None" "map_of cs' = (map_of cs)(i \<mapsto> c)"
    "ID c = i" "Sender c = Some me" "Receiver c = peer_ID p"
    "if selecting_side me c o1 then Status c = Open \<and> Witness c \<noteq> None
     else WitnessSelector o1 \<noteq> None \<and> Status c = AwaitingWitness \<and> Witness c = None"
proof -
  obtain rs w where s: "s = (rs, w)" by (cases s)
  from assms(2) [unfolded s] show thesis
  proof (cases rule: Connect_cases)
    case (created self c0 w1 cs1)
    then obtain w2 where "Update i (connect_write env o1 o2) (cs1, rs, w2) = Some (None, cs', s')" by blast
    then obtain co where w: "connect_write env o1 o2 c0 (rs, w2) = Some ((co, None), s')"
      and cs': "cs' = (case co of None \<Rightarrow> cs1 | Some c' \<Rightarrow> AList.update i c' cs1)"
      using created(4) by (auto simp: Update_found update_conv' bind_eq_Some_conv)
    have me: "peer_ID self = Some me" by (rule steady_self [OF assms(1) created(2)])
    from connect_write_ok [OF w] selection_ok [OF assms(1), of c0 o1 o2] created(3)
    obtain c' where c': "co = Some c'" "ID c' = i" "Sender c' = peer_ID self" "Receiver c' = peer_ID p"
      "if selecting_side me c0 o1 then Status c' = Open \<and> Witness c' \<noteq> None
       else WitnessSelector o1 \<noteq> None \<and> Status c' = AwaitingWitness \<and> Witness c' = None" by fastforce
    moreover have "selecting_side me c' o1 \<longleftrightarrow> selecting_side me c0 o1"
      using c' created(3) by (simp add: selecting_side_def)
    moreover have "map_of cs' = (map_of cs)(i \<mapsto> c')" using cs' c'(1) created(4) by (auto simp: update_conv')
    ultimately show thesis using that [of c'] created(1) me by simp
  qed simp
qed

text \<open>C12:
  When \<open>Connect\<close> reports success, exactly one connection was added, under the
  identifier it returns, from this node to the peer. With the sender as selector it is open with a
  witness; with the receiver as selector it waits for the receiver to name a witness.
  Without a selector \<open>Connect\<close> never succeeds.\<close>

theorem connect_success:
  assumes "steady env me" and "Connect env p o1 o2 (cs, s) = Some ((i, None), (cs', s'))" and "peer_ID p \<noteq> Some me"
  shows "map_of cs i = None \<and>
    (\<exists>c. map_of cs' = (map_of cs)(i \<mapsto> c) \<and> ID c = i \<and> Sender c = Some me \<and> Receiver c = peer_ID p \<and>
       (case WitnessSelector o1 of
          Some WitnessSelectorSender \<Rightarrow> Status c = Open \<and> Witness c \<noteq> None
        | Some WitnessSelectorReceiver \<Rightarrow> Status c = AwaitingWitness \<and> Witness c = None
        | None \<Rightarrow> False))"
proof -
  obtain c where "map_of cs i = None" "map_of cs' = (map_of cs)(i \<mapsto> c)"
    "ID c = i" "Sender c = Some me" "Receiver c = peer_ID p"
    "if selecting_side me c o1 then Status c = Open \<and> Witness c \<noteq> None
     else WitnessSelector o1 \<noteq> None \<and> Status c = AwaitingWitness \<and> Witness c = None"
    by (rule connect_ok [OF assms(1,2)])
  with assms(3) show ?thesis
    by (cases "WitnessSelector o1"; cases "the (WitnessSelector o1)") (auto simp: selecting_side_def)
qed

lemma connect_failed:
  assumes "Connect env p o1 o2 (cs, s) = Some ((i, Some e), (cs', s'))"
  obtains (unstored) "i = 0" "cs' = cs"
  | (stuck) c where "map_of cs i = None" "map_of cs' = (map_of cs)(i \<mapsto> c)" "ID c = i" "Receiver c = peer_ID p"
      "Status c \<in> {RequestingReceiver, RequestingWitness, NotifyingOfWitness}"
proof -
  obtain rs w where s: "s = (rs, w)" by (cases s)
  from assms [unfolded s] show thesis
  proof (cases rule: Connect_cases)
    case failed
    have "i = 0" "cs' = cs" using failed by simp_all
    then show thesis by (rule unstored)
  next
    case (created self c0 w1 cs1)
    then obtain w2 where "Update i (connect_write env o1 o2) (cs1, rs, w2) = Some (Some e, cs', s')" by blast
    then obtain co where w: "connect_write env o1 o2 c0 (rs, w2) = Some ((co, Some e), s')"
      and cs': "cs' = (case co of None \<Rightarrow> cs1 | Some c' \<Rightarrow> AList.update i c' cs1)"
      using created(4) by (auto simp: Update_found update_conv' bind_eq_Some_conv)
    let ?good = "\<lambda>c. ID c = i \<and> Receiver c = peer_ID p \<and>
       Status c \<in> {RequestingReceiver, RequestingWitness, NotifyingOfWitness}"
    have "co = None \<or> (\<exists>c. co = Some c \<and> ?good c)"
      using connect_write_outcome [OF _ w] created(3) by (auto elim!: selection_outcome.cases)
    moreover have "?good c0" using created(3) by simp
    ultimately show thesis
      using cs' created(1,4) stuck by (auto simp: update_conv')
  qed
qed

text \<open>C13:
  When \<open>Connect\<close> fails, either nothing was stored and the identifier returned is zero, or
  the new connection stays behind in the stage that failed. It is then neither open nor waiting
  for a notification, so no later notification can open it, and no other connection
  was touched.\<close>

theorem connect_failure:
  assumes "Connect env p o1 o2 (cs, s) = Some ((i, Some e), (cs', s'))"
  shows "i = 0 \<and> cs' = cs \<or>
    map_of cs i = None \<and> (\<exists>c. map_of cs' = (map_of cs)(i \<mapsto> c) \<and> ID c = i \<and> Receiver c = peer_ID p \<and>
       Status c \<in> {RequestingReceiver, RequestingWitness, NotifyingOfWitness})"
  by (cases rule: connect_failed [OF assms]) auto

subsection \<open>Candidates\<close>

text \<open>
  With a trust function whose verdict depends on the reputations and the world, and which
  changes neither, assessing the peers filters them and leaves every reputation as it is.
\<close>

definition trusts_by ::
  "((peer_id option \<Rightarrow> proportionalReputation) \<Rightarrow> 'w \<Rightarrow> proportionalReputation \<Rightarrow> bool \<times> error option) \<Rightarrow> 'w nodeEnv \<Rightarrow> bool"
where
  "trusts_by verdict env \<longleftrightarrow> (\<forall>r rs w. \<exists>rs'. rep_of rs' = rep_of rs \<and>
     trusts env r (rs, w) = Some (verdict (rep_of rs) w r, (rs', w)))"

lemma assess_peers_filter:
  assumes "trusts_by verdict env"
  shows "\<exists>rs'. rep_of rs' = rep_of rs \<and> assess_peers env c ps (rs, cands, w) =
    Some (rs', cands @ filter (\<lambda>p. peer_ID p \<noteq> Receiver c \<and> peer_ID p \<noteq> Sender c \<and>
      verdict (rep_of rs) w (rep_of rs (peer_ID p)) = (True, None)) ps, w)"
proof (induction ps arbitrary: rs cands)
  case Nil
  then show ?case by auto
next
  case (Cons p ps)
  let ?r = "rep_of rs (peer_ID p)"
  let ?cands = "if verdict (rep_of rs) w ?r = (True, None) then cands @ [p] else cands"
  show ?case
  proof (cases "peer_ID p = Receiver c \<or> peer_ID p = Sender c")
    case True
    with Cons.IH [of rs cands] show ?thesis by auto
  next
    case False
    obtain rs1 where rs1: "rep_of rs1 = rep_of rs"
      "ReadRep (peer_ID p) (assess env p) (rs, cands, w) = assess env p ?r (rs1, cands, w)"
      using rep.read_calls by metis
    obtain rs2 where rs2: "rep_of rs2 = rep_of rs1"
      "trusts env ?r (rs1, w) = Some (verdict (rep_of rs1) w ?r, (rs2, w))"
      using assms unfolding trusts_by_def by metis
    have "\<exists>e. assess env p ?r (rs1, cands, w) = Some (e, rs2, ?cands, w)"
      using rs1(1) rs2 by (cases "verdict (rep_of rs) w ?r") (auto simp: assess_def split: option.splits)
    with Cons.IH [of rs2 ?cands] rs1 rs2 False show ?thesis by auto
  qed
qed

lemma witnessCandidates_filter:
  assumes "trusts_by verdict env" and "AllPeers (peerStore env) w = Some (Inr peers)"
  shows "\<exists>rs'. rep_of rs' = rep_of rs \<and> witnessCandidates env c (rs, w) =
    Some (Inr (filter (\<lambda>p. peer_ID p \<noteq> Receiver c \<and> peer_ID p \<noteq> Sender c \<and>
      verdict (rep_of rs) w (rep_of rs (peer_ID p)) = (True, None)) peers), (rs', w))"
  using assess_peers_filter [OF assms(1), of rs c peers "[]" w] assms(2)
  by (auto simp: witnessCandidates_def)

text \<open>C15:
  The candidates for the witness of a connection are exactly the known peers that are
  neither its sender nor its receiver and whose current reputation the trust function accepts
  without an error, in the order of the peer store. Assessing them changes no reputation.\<close>

theorem witness_candidates_exact:
  assumes "trusts_by verdict env" and "AllPeers (peerStore env) w = Some (Inr peers)"
  shows "\<exists>rs'. rep_of rs' = rep_of rs \<and> witnessCandidates env c (rs, w) =
    Some (Inr (filter (\<lambda>p. peer_ID p \<noteq> Receiver c \<and> peer_ID p \<noteq> Sender c \<and>
      verdict (rep_of rs) w (rep_of rs (peer_ID p)) = (True, None)) peers), (rs', w))"
  using assms by (rule witnessCandidates_filter)

lemma demo_trusts_by: "trusts_by (\<lambda>rho w r. (True, None)) (demo_env me)"
  by (auto simp: trusts_by_def)

theorem witness_candidates_exact_witness:
  "\<exists>rs'. witnessCandidates (demo_env bob) (demo_conn Open None) (no_reps, 7) = Some (Inr [demo_peer carol], (rs', 7))"
  using witness_candidates_exact [OF demo_trusts_by [of bob], of 7
      "[demo_peer alice, demo_peer bob, demo_peer carol]" no_reps "demo_conn Open None"]
  by (auto simp: demo_conn_def)

subsection \<open>The witness\<close>

lemma try_candidates_find:
  assumes "writable c" and "\<And>p w. \<exists>w'. requestWitness env p c o1 o2 w = Some (answer p, w')"
  shows "\<exists>w'. try_candidates env c o1 o2 ps w = Some (
    case find (\<lambda>p. answer p = None) ps of
      Some p \<Rightarrow> (Some (conn_as c (Status c) (peer_ID p)), None)
    | None \<Rightarrow> (Some c, Some (FailedToFindWitness (ID c))), w')"
proof (induction ps arbitrary: w)
  case Nil
  then show ?case by simp
next
  case (Cons p ps)
  obtain w1 where "requestWitness env p c o1 o2 w = Some (answer p, w1)" using assms(2) by blast
  with Cons.IH [of w1] assms(1) show ?case by (cases "answer p") auto
qed

text \<open>C14:
  The witness is the first candidate that agrees when the candidates are asked in the
  order of the peer store, and never the sender or the receiver; those after it are not asked. If none
  agrees, the selection fails and the connection stays in \<open>RequestingWitness\<close> without a
  new witness.\<close>

theorem find_witness_first_to_agree:
  assumes "writable c"
    and "trusts_by verdict env" and "AllPeers (peerStore env) w = Some (Inr peers)"
    and "\<And>p w. \<exists>w'. requestWitness env p (conn_as c RequestingWitness (Witness c)) o1 o2 w = Some (answer p, w')"
  shows "\<exists>s'. findWitness env c o1 o2 (rs, w) = Some (
    case find (\<lambda>p. peer_ID p \<notin> {Sender c, Receiver c} \<and> verdict (rep_of rs) w (rep_of rs (peer_ID p)) = (True, None) \<and>
        answer p = None) peers of
      Some p \<Rightarrow> (Some (conn_as c RequestingWitness (peer_ID p)), None)
    | None \<Rightarrow> (Some (conn_as c RequestingWitness (Witness c)), Some (FailedToFindWitness (ID c))), s')"
proof -
  let ?c = "conn_as c RequestingWitness (Witness c)"
  let ?ok = "\<lambda>p. peer_ID p \<noteq> Receiver c \<and> peer_ID p \<noteq> Sender c \<and> verdict (rep_of rs) w (rep_of rs (peer_ID p)) = (True, None)"
  obtain rs' where cands: "witnessCandidates env ?c (rs, w) = Some (Inr (filter ?ok peers), (rs', w))"
    using assess_peers_filter [OF assms(2), of rs ?c peers "[]" w] assms(3)
    by (auto simp: witnessCandidates_def)
  have "find (\<lambda>p. answer p = None) (filter ?ok peers) =
      find (\<lambda>p. peer_ID p \<notin> {Sender c, Receiver c} \<and> verdict (rep_of rs) w (rep_of rs (peer_ID p)) = (True, None) \<and>
        answer p = None) peers"
    by (induction peers) auto
  moreover obtain w' where "try_candidates env ?c o1 o2 (filter ?ok peers) w = Some (
    case find (\<lambda>p. answer p = None) (filter ?ok peers) of
      Some p \<Rightarrow> (Some (conn_as ?c (Status ?c) (peer_ID p)), None)
    | None \<Rightarrow> (Some ?c, Some (FailedToFindWitness (ID ?c))), w')"
    using try_candidates_find [OF _ assms(4)] by fastforce
  ultimately show ?thesis
    using assms(1) cands by (auto simp: findWitness_def split: option.splits)
qed

theorem find_witness_first_to_agree_witness:
  "\<exists>s'. findWitness (demo_env bob) (demo_conn Open None) receiver_selects noOptions (no_reps, 7) =
    Some ((Some (demo_conn RequestingWitness (Some carol)), None), s')"
  using find_witness_first_to_agree [OF _ demo_trusts_by, of "demo_conn Open None" bob 7
      "[demo_peer alice, demo_peer bob, demo_peer carol]" receiver_selects noOptions "\<lambda>p. None" no_reps]
  by (simp add: demo_agrees demo_conn_def conn_as_def)

text \<open>The runs of \<open>Connect\<close> with either selector.\<close>

lemma demo_connect:
  "\<exists>c s'. Connect (demo_env alice) (demo_peer bob) sender_selects noOptions (NewConnectionStore, no_reps, 7) =
    Some ((7, None), ([(7, c)], s'))"
  by (simp add: Connect_def UpdatePeer_def demo_peer_def Create_def Accept_def NewConnectionStore_def Update_def
      getConnEntry_def connect_write_def requestConnection_def handleWitnessSelection_def findWitness_def
      witnessCandidates_def assess_def ReadRep_def ensureRepExists_def requestWitness_def notify_and_open_def
      sendWitnessNotification_def demo_defs conn_as_def no_reps_def NewReputationStore_def demo_ids Let_def
      AtLeast_def)

theorem connect_success_witness:
  "\<exists>c s'. Connect (demo_env alice) (demo_peer bob) sender_selects noOptions (NewConnectionStore, no_reps, 7) =
    Some ((7, None), ([(7, c)], s')) \<and> Status c = Open \<and> Witness c \<noteq> None"
proof -
  obtain c s' where run: "Connect (demo_env alice) (demo_peer bob) sender_selects noOptions
      (NewConnectionStore, no_reps, 7) = Some ((7, None), ([(7, c)], s'))"
    using demo_connect by blast
  obtain c' where "map_of [(7, c)] = (map_of NewConnectionStore)(7 \<mapsto> c')" "Status c' = Open" "Witness c' \<noteq> None"
    using connect_success [OF demo_steady run] by auto
  moreover from this(1) have "c = c'" by (metis fun_upd_same map_of_Cons_code(2) option.inject)
  ultimately show ?thesis using run by blast
qed

definition deaf_env :: "peer_id \<Rightarrow> uuid nodeEnv" where
  "deaf_env me = (demo_env me)\<lparr>transport := demo_transport
     \<lparr>ExchangeConnect := (\<lambda>p o1 r w. returns (Inl (External ''no route''), w))\<rparr>\<rparr>"

lemma deaf_connect:
  "Connect (deaf_env alice) (demo_peer bob) sender_selects noOptions (NewConnectionStore, no_reps, 7) =
    Some ((7, Some (External ''no route'')),
      ([(7, inMemoryConnection 7 (Some alice) None (Some bob) RequestingReceiver)], (no_reps, 8)))"
  by (simp add: Connect_def UpdatePeer_def demo_peer_def Create_def Accept_def NewConnectionStore_def Update_def
      getConnEntry_def connect_write_def requestConnection_def demo_defs deaf_env_def demo_ids Let_def AtLeast_def)

theorem connect_failure_witness:
  "\<exists>c. map_of [(7, inMemoryConnection 7 (Some alice) None (Some bob) RequestingReceiver)] = [7 \<mapsto> c] \<and>
    Status c \<in> {RequestingReceiver, RequestingWitness, NotifyingOfWitness}"
  using connect_failure [OF deaf_connect] by (auto simp: NewConnectionStore_def)

end
