(* ===== verification/Handler_Props.thy ===== *)
theory Handler_Props
  imports Example
begin

section \<open>Answering requests\<close>

text \<open>
  What the handlers accept, what they refuse, and that the two sides of a request agree: the
  requester takes the response for an acceptance exactly when the handler stored the
  connection.
\<close>

subsection \<open>Connect requests\<close>

text \<open>C20:
  A connect request for a new identifier adds a connection exactly when both participants
  are known, the request comes from one of them, one of them is this node, and the user's handler
  accepts without an error. The stored connection has the participants of the request, no witness,
  and waits for one; otherwise the store is as before and no witness task starts.\<close>

theorem connect_request_accepted_iff:
  assumes "steady env me" and "map_of cs (cq_ConnectionID req) = None"
    and "handle_connect env h p req (cs, rs, w) = Some ((resp, err), t, (cs', s'))"
  shows "(if (\<exists>q. Find (peerStore env) (cq_Sender req) w = Some (Inr q)) \<and>
             (\<exists>q. Find (peerStore env) (cq_Receiver req) w = Some (Inr q)) \<and>
             (\<exists>q. SelfPeer (peerStore env) w = Some (Inr q)) \<and>
             p \<in> {cq_Sender req, cq_Receiver req} \<and> Some me \<in> {cq_Sender req, cq_Receiver req} \<and>
             (\<exists>r w'. ConnectHandler h p req w = Some ((r, None), w') \<and> cr_Errors r = [] \<and> cr_Accepted r)
          then map_of cs' = (map_of cs)(cq_ConnectionID req \<mapsto>
             inMemoryConnection (cq_ConnectionID req) (cq_Sender req) None (cq_Receiver req) AwaitingWitness)
          else cs' = cs \<and> t = None)"
  using assms(3)
proof (cases rule: handle_connect_cases)
  case (accepted sender receiver self w')
  then have f: "Find (peerStore env) (cq_Sender req) w = Some (Inr sender)"
    "Find (peerStore env) (cq_Receiver req) w = Some (Inr receiver)"
    "SelfPeer (peerStore env) w = Some (Inr self)"
    by (simp_all add: connect_accepted_def)
  have ids: "peer_ID sender = cq_Sender req" "peer_ID receiver = cq_Receiver req" "peer_ID self = Some me"
    using steady_lookups [OF assms(1) f] by simp_all
  with accepted f show ?thesis by (auto simp: connect_accepted_def update_conv')
next
  case unchanged
  show ?thesis
  proof (cases "(\<exists>q. Find (peerStore env) (cq_Sender req) w = Some (Inr q)) \<and>
             (\<exists>q. Find (peerStore env) (cq_Receiver req) w = Some (Inr q)) \<and>
             (\<exists>q. SelfPeer (peerStore env) w = Some (Inr q)) \<and>
             p \<in> {cq_Sender req, cq_Receiver req} \<and> Some me \<in> {cq_Sender req, cq_Receiver req} \<and>
             (\<exists>r w'. ConnectHandler h p req w = Some ((r, None), w') \<and> cr_Errors r = [] \<and> cr_Accepted r)")
    case False
    show ?thesis unfolding if_not_P [OF False] using unchanged by simp
  next
    case True
    then obtain sender receiver self where f: "Find (peerStore env) (cq_Sender req) w = Some (Inr sender)"
      "Find (peerStore env) (cq_Receiver req) w = Some (Inr receiver)"
      "SelfPeer (peerStore env) w = Some (Inr self)" by blast
    have ids: "peer_ID sender = cq_Sender req" "peer_ID receiver = cq_Receiver req" "peer_ID self = Some me"
      using steady_lookups [OF assms(1) f] by simp_all
    have False
      using assms(2,3) True f ids unchanged
      by (auto simp: handle_connect_def Accept_fresh)
    then show ?thesis ..
  qed
qed

theorem connect_request_accepted_iff_witness:
  "map_of [(7 :: uuid, demo_conn AwaitingWitness None)] = [7 \<mapsto>
     inMemoryConnection 7 (Some alice) None (Some bob) AwaitingWitness]"
  using connect_request_accepted_iff [OF demo_steady _ demo_handle_connect [unfolded demo_state_def fst_conv]]
  by (simp add: NewConnectionStore_def demo_request_def appHandlers_def appConnectHandler_def)

text \<open>What a requester concludes from a response.\<close>

lemma requestConnection_verdict:
  assumes "ExchangeConnect (transport env) dest o2 \<lparr> cq_ConnectionID = ID c, cq_Sender = Sender c,
      cq_Receiver = Receiver c, cq_Options = o1 \<rparr> w = Some (Inr resp, w')"
    and "cr_ConnectionID resp = ID c"
  shows "\<exists>err. requestConnection env dest c o1 o2 w = Some (err, w') \<and>
    (err = None \<longleftrightarrow> cr_Errors resp = [] \<and> cr_Accepted resp)"
  using assms by (auto simp: requestConnection_def)

text \<open>C21:
  The two ends of a connect request agree: when the requester gets the response that the
  other node's handler gave to its request, it goes on exactly when that node now stores the
  connection, with the same participants. The user's handler is only required to answer
  under the identifier of the request.\<close>

theorem connect_request_agreement:
  assumes "steady env' b" and "map_of cs (ID c) = None"
    and "\<And>p r w resp e w'. ConnectHandler h p r w = Some ((resp, e), w') \<Longrightarrow> cr_ConnectionID resp = cq_ConnectionID r"
    and "handle_connect env' h p \<lparr> cq_ConnectionID = ID c, cq_Sender = Sender c, cq_Receiver = Receiver c,
           cq_Options = o1 \<rparr> (cs, s) = Some ((resp, None), t, (cs', s'))"
    and "ExchangeConnect (transport env) dest o2 \<lparr> cq_ConnectionID = ID c, cq_Sender = Sender c,
           cq_Receiver = Receiver c, cq_Options = o1 \<rparr> w = Some (Inr resp, w')"
  shows "\<exists>err. requestConnection env dest c o1 o2 w = Some (err, w') \<and>
    (if err = None
     then map_of cs' (ID c) = Some (inMemoryConnection (ID c) (Sender c) None (Receiver c) AwaitingWitness)
     else map_of cs' (ID c) = None)"
proof -
  let ?req = "\<lparr> cq_ConnectionID = ID c, cq_Sender = Sender c, cq_Receiver = Receiver c, cq_Options = o1 \<rparr>"
  obtain rs v where s: "s = (rs, v)" by (cases s)
  have cid: "cr_ConnectionID resp = ID c"
    using assms(4) s
    by (auto simp: handle_connect_def connect_error_def connect_reject_def split: panic_split dest!: assms(3))
  obtain err where err: "requestConnection env dest c o1 o2 w = Some (err, w')"
    "err = None \<longleftrightarrow> cr_Errors resp = [] \<and> cr_Accepted resp"
    using requestConnection_verdict [OF assms(5) cid] by blast
  from assms(4) [unfolded s] show ?thesis
  proof (cases rule: handle_connect_cases)
    case unchanged
    with err assms(2) show ?thesis by auto
  next
    case (accepted sender receiver self w'')
    then have "peer_ID sender = Sender c" "peer_ID receiver = Receiver c"
      using assms(1) unfolding steady_iff connect_accepted_def by (metis ConnectRequest.simps(2,3))+
    with accepted err show ?thesis by (auto simp: connect_accepted_def update_conv')
  qed
qed

theorem connect_request_agreement_witness:
  "requestConnection (demo_env alice) (demo_peer bob) (demo_conn RequestingReceiver None)
     receiver_selects noOptions 7 = Some (None, 7)"
proof -
  let ?c = "demo_conn RequestingReceiver None"
  have req: "\<lparr> cq_ConnectionID = ID ?c, cq_Sender = Sender ?c, cq_Receiver = Receiver ?c,
      cq_Options = receiver_selects \<rparr> = demo_request"
    by (simp add: demo_conn_def demo_request_def)
  have exch: "ExchangeConnect (transport (demo_env alice)) (demo_peer bob) noOptions demo_request 7 =
    Some (Inr \<lparr> cr_ConnectionID = 7, cr_Errors = [], cr_Accepted = True, cr_RejectReasons = [] \<rparr>, 7)"
    by (simp add: demo_defs demo_request_def)
  from connect_request_agreement [OF demo_steady _ _ demo_handle_connect [unfolded demo_state_def fst_conv, folded req]
      exch [folded req]]
  obtain err where "requestConnection (demo_env alice) (demo_peer bob) ?c receiver_selects noOptions 7 = Some (err, 7)"
    "err \<noteq> None \<longrightarrow> map_of [(7, demo_conn AwaitingWitness None)] (ID ?c) = None"
    by (auto simp: NewConnectionStore_def appHandlers_def appConnectHandler_def split: if_splits)
  then show ?thesis by (simp add: demo_conn_def)
qed

subsection \<open>Witness requests\<close>

text \<open>C22:
  A witness request for a new identifier is granted exactly when both participants are
  known, the request comes from one of them, neither of them is this node, and the user's handler
  accepts without an error. The connection is then stored as open, with this node as its witness;
  otherwise the store is as before.\<close>

theorem witness_request_accepted_iff:
  assumes "steady env me" and "\<And>w. SelfPeer (peerStore env) w \<noteq> None" and "map_of cs (wq_ConnectionID req) = None"
    and "handle_witness env h p req (cs, rs, w) = Some ((resp, err), (cs', s'))"
  shows "(if (\<exists>q. Find (peerStore env) (wq_Sender req) w = Some (Inr q)) \<and>
             (\<exists>q. Find (peerStore env) (wq_Receiver req) w = Some (Inr q)) \<and>
             p \<in> {wq_Sender req, wq_Receiver req} \<and> Some me \<notin> {wq_Sender req, wq_Receiver req} \<and>
             (\<exists>r w'. WitnessHandler h p req w = Some ((r, None), w') \<and> wr_Errors r = [] \<and> wr_Accepted r)
          then map_of cs' = (map_of cs)(wq_ConnectionID req \<mapsto>
             inMemoryConnection (wq_ConnectionID req) (wq_Sender req) (Some me) (wq_Receiver req) Open)
          else cs' = cs)"
proof -
  have self: "\<exists>q. SelfPeer (peerStore env) w = Some (Inr q) \<and> peer_ID q = Some me" for w
    using assms(1) assms(2) [of w] unfolding steady_iff by blast
  have find: "Find (peerStore env) i w = Some (Inr q) \<Longrightarrow> peer_ID q = i" for i q
    using assms(1) unfolding steady_iff by blast
  from assms(4) show ?thesis
  proof (cases rule: handle_witness_cases)
    case (accepted sender receiver self uresp w' self' c)
    then have f: "Find (peerStore env) (wq_Sender req) w = Some (Inr sender)"
      "Find (peerStore env) (wq_Receiver req) w = Some (Inr receiver)"
      "SelfPeer (peerStore env) w = Some (Inr self)"
      by (simp_all add: witness_accepted_def)
    from self [of w] self [of w'] f accepted obtain q where "peer_ID self = Some me" "self' = Inr q" "peer_ID q = Some me"
      by auto
    with find [OF f(1)] find [OF f(2)] accepted f show ?thesis by (auto simp: witness_accepted_def update_conv' conn_as_def)
  next
    case unchanged
    from self [of w] obtain q where q: "SelfPeer (peerStore env) w = Some (Inr q)" "peer_ID q = Some me" by blast
    have False
      if c: "Find (peerStore env) (wq_Sender req) w = Some (Inr sender)"
        "Find (peerStore env) (wq_Receiver req) w = Some (Inr receiver)"
        "p \<in> {wq_Sender req, wq_Receiver req}" "Some me \<notin> {wq_Sender req, wq_Receiver req}"
        "WitnessHandler h p req w = Some ((r, None), w')" "wr_Errors r = []" "wr_Accepted r" for sender receiver r w'
    proof -
      from self [of w'] obtain q' where "SelfPeer (peerStore env) w' = Some (Inr q')" by blast
      with c q find [OF c(1)] find [OF c(2)] assms(3,4) unchanged show False
        by (auto simp: handle_witness_def SelfOf_def Accept_fresh Update_found update_conv' witness_self_write_def)
    qed
    with unchanged show ?thesis by auto
  qed
qed

lemma demo_handle_witness:
  "handle_witness (demo_env carol) appHandlers (Some bob) \<lparr> wq_ConnectionID = 7, wq_Sender = Some alice,
     wq_Receiver = Some bob, wq_Options = receiver_selects \<rparr> (NewConnectionStore, no_reps, 7) =
   Some ((\<lparr> wr_ConnectionID = 7, wr_Errors = [], wr_Accepted = True, wr_RejectReasons = [] \<rparr>, None),
     ([(7, demo_conn Open (Some carol))], no_reps, 7))"
  by (simp add: handle_witness_def SelfOf_def appHandlers_def appWitnessHandler_def Accept_def NewConnectionStore_def
      Update_def getConnEntry_def witness_self_write_def demo_conn_def Let_def conn_as_def)

theorem witness_request_accepted_iff_witness:
  "map_of [(7 :: uuid, demo_conn Open (Some carol))] = [7 \<mapsto>
     inMemoryConnection 7 (Some alice) (Some carol) (Some bob) Open]"
  using witness_request_accepted_iff [OF demo_steady _ _ demo_handle_witness]
  by (simp add: NewConnectionStore_def appHandlers_def appWitnessHandler_def)

subsection \<open>Witness notifications\<close>

text \<open>C23:
  A witness notification takes effect exactly when the connection is stored and waits for a
  witness, the message comes from the other participant, and the user's handler accepts it. The
  connection is then open with the witness the notification names, whatever that is; in every
  other case the store is as before and an error is reported.\<close>

theorem notification_accepted_iff:
  assumes "steady env me" and "store_ok cs"
    and "handle_notification env h p n (cs, rs, w) = Some (err, (cs', s'))"
  shows "(if \<exists>c w'. map_of cs (wn_ConnectionID n) = Some c \<and> Status c = AwaitingWitness \<and>
             p = (if Sender c = Some me then Receiver c else Sender c) \<and> SelfPeer (peerStore env) w \<noteq> None \<and>
             WitnessNotificationHandler h p n w = Some (None, w')
          then err = None \<and> (\<exists>c. map_of cs (wn_ConnectionID n) = Some c \<and>
             map_of cs' = (map_of cs)(wn_ConnectionID n \<mapsto> conn_as c Open (wn_Witness n)))
          else err \<noteq> None \<and> cs' = cs)"
proof (cases "map_of cs (wn_ConnectionID n)")
  case None
  with assms(3) show ?thesis by (auto simp: handle_notification_def Update_missing)
next
  case (Some c)
  have wr: "writable c" using store_okD [OF assms(2) Some] by simp
  from assms(3) Some obtain u where u: "notification_write env h p n c (rs, w) = Some ((u, err), s')"
    "cs' = (case u of None \<Rightarrow> cs | Some c' \<Rightarrow> AList.update (wn_ConnectionID n) c' cs)"
    by (auto simp: handle_notification_def Update_found bind_eq_Some_conv)
  show ?thesis
  proof (cases "Status c = AwaitingWitness")
    case False
    with u Some show ?thesis by (auto simp: notification_write_def)
  next
    case True
    with u(1) obtain q where q: "SelfPeer (peerStore env) w = Some (Inr q)" "peer_ID q = Some me"
      using assms(1) by (auto simp: notification_write_def bind_eq_Some_conv steady_iff) metis
    show ?thesis
    proof (cases "p = (if Sender c = Some me then Receiver c else Sender c)")
      case False
      with u Some True q show ?thesis by (auto simp: notification_write_def Let_def split: if_splits)
    next
      case mine: True
      with u(1) True q obtain e w' where e: "WitnessNotificationHandler h p n w = Some (e, w')"
        by (auto simp: notification_write_def Let_def bind_eq_Some_conv split: if_splits)
      have "(u, err) = (case e of Some e \<Rightarrow> (None, Some e) | None \<Rightarrow> (Some (conn_as c Open (wn_Witness n)), None))"
        using u(1) True q mine e wr by (cases e) (auto simp: notification_write_def Let_def)
      with u(2) Some True q mine e show ?thesis by (cases e) (auto simp: update_conv')
    qed
  qed
qed

lemma demo_notification:
  "handle_notification (demo_env alice) appHandlers (Some bob) \<lparr> wn_ConnectionID = 7, wn_Witness = Some carol \<rparr>
     ([(7, demo_conn AwaitingWitness None)], no_reps, 7) =
   Some (None, ([(7, demo_conn Open (Some carol))], no_reps, 7))"
  by (simp add: handle_notification_def Update_found notification_write_def appHandlers_def
      appWitnessNotificationHandler_def demo_conn_def conn_as_def Let_def)

theorem notification_accepted_iff_witness:
  "map_of [(7 :: uuid, demo_conn Open (Some carol))] = [7 \<mapsto> demo_conn Open (Some carol)]"
proof -
  have "store_ok [(7, demo_conn AwaitingWitness None)]"
    by (simp add: store_ok_def stored_ok_def wf_store_def demo_conn_def)
  from notification_accepted_iff [OF demo_steady this demo_notification]
  show ?thesis by (simp add: demo_conn_def appHandlers_def appWitnessNotificationHandler_def conn_as_def)
qed

subsection \<open>Close requests\<close>

text \<open>C25:
  A close request takes effect for any peer that sends it, participant or not: if the user's
  handler accepts it, a stored connection that is not closed becomes closed; if the handler
  returns an error, it becomes \<open>Closing\<close> and the error is returned. A closed
  connection stays as it is without calling the handler, and an unknown one is an error.\<close>

theorem close_request_outcome:
  assumes "store_ok cs" and "CloseHandler h p r w = Some (e, w')"
  shows "handle_close h p r (cs, rs, w) = Some (case map_of cs (cl_ConnectionID r) of
      None \<Rightarrow> (Some (NoConnection (cl_ConnectionID r)), (cs, rs, w))
    | Some c \<Rightarrow>
        if Status c = Closed then (None, (cs, rs, w))
        else (e, (AList.update (cl_ConnectionID r)
               (conn_as c (if e = None then Closed else Closing) (Witness c)) cs, rs, w')))"
proof (cases "map_of cs (cl_ConnectionID r)")
  case None
  then show ?thesis by (simp add: handle_close_def Update_missing)
next
  case (Some c)
  with store_okD [OF assms(1) Some] assms(2) show ?thesis
    by (cases e) (auto simp: handle_close_def Update_found close_request_write_def)
qed

theorem close_request_outcome_witness:
  "handle_close appHandlers (Some ''QmMallory'') \<lparr> cl_ConnectionID = 7 \<rparr>
     ([(7, demo_conn Open (Some carol))], no_reps, 7) =
   Some (None, ([(7, demo_conn Closed (Some carol))], no_reps, 7))"
proof -
  have "store_ok [(7, demo_conn Open (Some carol))]"
    by (simp add: store_ok_def stored_ok_def wf_store_def demo_conn_def)
  from close_request_outcome [OF this, of appHandlers "Some ''QmMallory''" "\<lparr> cl_ConnectionID = 7 \<rparr>" 7 None 7 no_reps]
  show ?thesis by (simp add: appHandlers_def appCloseHandler_def demo_conn_def conn_as_def)
qed

end
