(* ===== verification/Peer_Props.thy ===== *)
theory Peer_Props
  imports Example "HOL-Library.Sublist" "HOL-Library.Multiset"
begin

section \<open>Closing, viewing and exchanging peers\<close>

subsection \<open>Closing\<close>

text \<open>
  Whom a close contacts, and the errors it collects, when every peer is found and the fate
  of a close request depends on the peer alone. \<open>sent\<close> reads the peers contacted so far off
  the world.
\<close>

definition to_contact :: "peer_id \<Rightarrow> Connection \<Rightarrow> peer_id option list" where
  "to_contact me c = filter (\<lambda>p. p \<noteq> Some me \<and> p \<noteq> None) [Sender c, Witness c, Receiver c]"

definition failures :: "(peer_id option \<Rightarrow> error option) \<Rightarrow> peer_id option list \<Rightarrow> error list" where
  "failures fate ids = List.map_filter (\<lambda>p. map_option (CloseRequestFailed p) (fate p)) ids"

lemma failures_simps [simp]:
  "failures fate [] = []"
  "failures fate (p # ps) = (case fate p of None \<Rightarrow> [] | Some e \<Rightarrow> [CloseRequestFailed p e]) @ failures fate ps"
  by (simp_all add: failures_def List.map_filter_def split: option.splits)

lemma failures_empty [simp]: "failures fate ids = [] \<longleftrightarrow> (\<forall>p \<in> set ids. fate p = None)"
  by (induction ids) (auto split: option.splits)

lemma close_participants_contacts:
  assumes "\<And>i w. i \<noteq> None \<Longrightarrow> \<exists>q. Find (peerStore env) i w = Some (Inr q) \<and> peer_ID q = i"
    and "\<And>q w. \<exists>w'. SendClose (transport env) q o2 \<lparr> cl_ConnectionID = ID c \<rparr> w = Some (fate (peer_ID q), w') \<and>
           sent w' = sent w @ [peer_ID q]"
    and "peer_ID self = Some me"
  shows "\<exists>w'. close_participants env self c o2 ids errs w =
      Some (errs @ failures fate (filter (\<lambda>p. p \<noteq> Some me \<and> p \<noteq> None) ids), w') \<and>
    sent w' = sent w @ filter (\<lambda>p. p \<noteq> Some me \<and> p \<noteq> None) ids"
proof (induction ids arbitrary: errs w)
  case Nil
  then show ?case by simp
next
  case (Cons i ids)
  show ?case
  proof (cases "i = Some me \<or> i = None")
    case True
    with Cons assms(3) show ?thesis by auto
  next
    case False
    then obtain q where q: "Find (peerStore env) i w = Some (Inr q)" "peer_ID q = i" using assms(1) by blast
    obtain w1 where w1: "SendClose (transport env) q o2 \<lparr> cl_ConnectionID = ID c \<rparr> w = Some (fate i, w1)"
      "sent w1 = sent w @ [i]" using assms(2) [of q w] q(2) by auto
    from Cons.IH [where w = w1] obtain w' where
      "close_participants env self c o2 ids (errs @ (case fate i of None \<Rightarrow> [] | Some e \<Rightarrow> [CloseRequestFailed i e])) w1 =
        Some ((errs @ (case fate i of None \<Rightarrow> [] | Some e \<Rightarrow> [CloseRequestFailed i e])) @
          failures fate (filter (\<lambda>p. p \<noteq> Some me \<and> p \<noteq> None) ids), w')"
      "sent w' = sent w1 @ filter (\<lambda>p. p \<noteq> Some me \<and> p \<noteq> None) ids" by blast
    with False q w1 assms(3) show ?thesis by (cases "fate i") (auto simp: requestClose_def)
  qed
qed

text \<open>C24:
  \<open>CloseConnection\<close> on a connection that is not closed sends a close request to each
  other participant, in the order sender, witness, receiver, leaving out this node and a missing
  witness. If all requests succeed, the connection is closed and there is no error; otherwise it is
  left in \<open>Closing\<close> and the error lists the failures, in order, followed by a nil error.\<close>

theorem close_connection_contacts:
  assumes "steady env me" and "\<And>w. SelfPeer (peerStore env) w \<noteq> None"
    and "\<And>i w. i \<noteq> None \<Longrightarrow> \<exists>q. Find (peerStore env) i w = Some (Inr q)"
    and "\<And>q w. \<exists>w'. SendClose (transport env) q o2 \<lparr> cl_ConnectionID = i \<rparr> w = Some (fate (peer_ID q), w') \<and>
           sent w' = sent w @ [peer_ID q]"
    and "store_ok cs" and "map_of cs i = Some c" and "Status c \<noteq> Closed"
  shows "\<exists>w'. sent w' = sent w @ to_contact me c \<and>
    CloseConnection env i o2 (cs, rs, w) = Some (
      if \<forall>p \<in> set (to_contact me c). fate p = None
      then (None, (AList.update i (conn_as c Closed (Witness c)) cs, rs, w'))
      else (Some (CloseError i (map Some (failures fate (to_contact me c)) @ [None])),
        (AList.update i (conn_as c Closing (Witness c)) cs, rs, w')))"
proof -
  have wr: "writable c" and cid: "ID c = i" using store_okD [OF assms(5,6)] by simp_all
  obtain self where self: "SelfPeer (peerStore env) w = Some (Inr self)" "peer_ID self = Some me"
    using assms(1) assms(2) [of w] unfolding steady_iff by blast
  have found: "\<exists>q. Find (peerStore env) i w = Some (Inr q) \<and> peer_ID q = i" if "i \<noteq> None" for i w
    using assms(1) assms(3) [OF that] unfolding steady_iff by blast
  obtain w' where w': "close_participants env self c o2 [Sender c, Witness c, Receiver c] [] w =
      Some (failures fate (to_contact me c), w')" "sent w' = sent w @ to_contact me c"
    using close_participants_contacts [of env o2 c fate sent self me "[Sender c, Witness c, Receiver c]" "[]" w,
        OF found assms(4) [folded cid] self(2)]
    unfolding to_contact_def by auto
  have "close_write env o2 c (rs, w) = Some (
      if \<forall>p \<in> set (to_contact me c). fate p = None then ((Some (conn_as c Closed (Witness c)), None), (rs, w'))
      else ((Some (conn_as c Closing (Witness c)),
        Some (CloseError i (map Some (failures fate (to_contact me c)) @ [None]))), (rs, w')))"
    using assms(7) self wr cid w'(1) by (simp add: close_write_def del: close_participants.simps)
  with w'(2) assms(6) show ?thesis by (auto simp: CloseConnection_def Update_found)
qed

text \<open>A node whose close requests are recorded; the one to Carol does not get through.\<close>

definition recording_env :: "peer_id option list nodeEnv" where
  "recording_env = \<lparr>
     peerStore = \<lparr> AddAddr = (\<lambda>p a w. returns (None, w)),
       Find = (\<lambda>p w. returns (case p of None \<Rightarrow> Inl (External ''no peer'') | Some q \<Rightarrow> Inr (demo_peer q))),
       AllPeers = (\<lambda>w. returns (Inr [])), SelfPeer = (\<lambda>w. returns (Inr (demo_peer bob))) \<rparr>,
     transport = \<lparr> SendNotification = (\<lambda>p o1 n w. returns (None, w)),
       SendClose = (\<lambda>p o1 r w. returns (if peer_ID p = Some carol then Some (External ''lost'') else None, w @ [peer_ID p])),
       ExchangeConnect = (\<lambda>p o1 r w. panic), ExchangeWitness = (\<lambda>p o1 r w. panic),
       ExchangePeers = (\<lambda>p o1 r w. panic) \<rparr>,
     trusts = (\<lambda>r s. returns ((True, None), s)), logLevel = Info, newRandom = (\<lambda>w. ((0, None), w)),
     mapOrder = (\<lambda>ids. ids), envNames = envNames (demo_env bob) \<rparr>"

definition lost_to_carol :: "peer_id option \<Rightarrow> error option" where
  "lost_to_carol p = (if p = Some carol then Some (External ''lost'') else None)"

lemma recording_laws:
  "steady recording_env bob"
  "SelfPeer (peerStore recording_env) w \<noteq> None"
  "i \<noteq> None \<Longrightarrow> \<exists>q. Find (peerStore recording_env) i w = Some (Inr q)"
  "\<exists>w'. SendClose (transport recording_env) q o2 r w = Some (lost_to_carol (peer_ID q), w') \<and> w' = w @ [peer_ID q]"
  by (auto simp: steady_iff recording_env_def lost_to_carol_def split: option.splits)

lemma demo_store_ok: "store_ok [(7, demo_conn st w)]"
  by (simp add: store_ok_def stored_ok_def wf_store_def demo_conn_def)

theorem close_connection_contacts_witness:
  "CloseConnection recording_env 7 noOptions ([(7, demo_conn Open (Some carol))], no_reps, []) =
   Some (Some (CloseError 7 [Some (CloseRequestFailed (Some carol) (External ''lost'')), None]),
     ([(7, demo_conn Closing (Some carol))], no_reps, [Some alice, Some carol]))"
proof -
  have "to_contact bob (demo_conn Open (Some carol)) = [Some alice, Some carol]"
    by (simp add: to_contact_def demo_conn_def)
  moreover have "\<exists>w'. w' = [] @ to_contact bob (demo_conn Open (Some carol)) \<and>
    CloseConnection recording_env 7 noOptions ([(7, demo_conn Open (Some carol))], no_reps, []) = Some (
      if \<forall>p \<in> set (to_contact bob (demo_conn Open (Some carol))). lost_to_carol p = None
      then (None, (AList.update 7 (conn_as (demo_conn Open (Some carol)) Closed (Witness (demo_conn Open (Some carol))))
        [(7, demo_conn Open (Some carol))], no_reps, w'))
      else (Some (CloseError 7 (map Some (failures lost_to_carol (to_contact bob (demo_conn Open (Some carol)))) @ [None])),
        (AList.update 7 (conn_as (demo_conn Open (Some carol)) Closing (Witness (demo_conn Open (Some carol))))
        [(7, demo_conn Open (Some carol))], no_reps, w')))"
    by (rule close_connection_contacts [OF recording_laws demo_store_ok])
      (simp_all add: demo_conn_def)
  ultimately show ?thesis by (simp add: lost_to_carol_def demo_conn_def conn_as_def)
qed

subsection \<open>Viewing the connections\<close>

definition view_of :: "Connection \<Rightarrow> Connection" where
  "view_of c = readOnlyConnection (ID c) (Sender c) (Witness c) (Receiver c) (Status c)"

lemma read_views_all:
  "set ids \<subseteq> dom (map_of cs) \<Longrightarrow>
   read_views ids (cs, vs) = Some (cs, vs @ map (\<lambda>i. view_of (the (map_of cs i))) ids)"
  by (induction ids arbitrary: vs) (auto simp: Read_found view_read_def view_of_def)

lemma all_views:
  "distinct (map fst cs) \<Longrightarrow> map (\<lambda>i. f (the (map_of cs i))) (map fst cs) = map (f \<circ> snd) cs"
  by (auto simp: map_of_is_SomeI)

lemma connections_views:
  assumes "store_ok cs" and "mset (mapOrder env (map fst cs)) = mset (map fst cs)"
  obtains views where "Connections env (cs, s) = Some views" "mset views = image_mset (view_of \<circ> snd) (mset cs)"
proof -
  let ?f = "\<lambda>i. view_of (the (map_of cs i))"
  have "set (mapOrder env (map fst cs)) \<subseteq> dom (map_of cs)"
    using mset_eq_setD [OF assms(2)] by (simp add: dom_map_of_conv_image_fst)
  then have run: "Connections env (cs, s) = Some (map ?f (mapOrder env (map fst cs)))"
    by (simp add: Connections_def All_def read_views_all)
  have "distinct (map fst cs)" using assms(1) by (simp add: store_ok_def wf_store_def)
  then have "mset (map ?f (mapOrder env (map fst cs))) = image_mset (view_of \<circ> snd) (mset cs)"
    using assms(2) all_views [of cs view_of] by (metis mset_map)
  with run show thesis by (rule that)
qed

text \<open>
  \<open>Connections\<close> shows every stored connection exactly once, in whatever order Go ranges
  over the map, as a read-only view with the same fields: setting the status or the witness of a view
  fails and yields no connection.\<close>

theorem connections_complete_views:
  assumes "store_ok cs" and "mset (mapOrder env (map fst cs)) = mset (map fst cs)"
  shows "\<exists>views. Connections env (cs, s) = Some views \<and> mset views = image_mset (view_of \<circ> snd) (mset cs) \<and>
    (\<forall>v \<in> set views. \<forall>st p. SetStatus v st = (None, Some ErrUnsupported) \<and> SetWitness v p = (None, Some ErrUnsupported))"
proof -
  obtain views where v: "Connections env (cs, s) = Some views" "mset views = image_mset (view_of \<circ> snd) (mset cs)"
    by (rule connections_views [OF assms])
  have "set views = (view_of \<circ> snd) ` set cs" using arg_cong [OF v(2), of set_mset] by simp
  with v show ?thesis by (auto simp: view_of_def)
qed

theorem connections_complete_views_witness:
  "\<exists>views. Connections (demo_env bob) ([(7, demo_conn Open None)], (no_reps, 7)) = Some views \<and>
    mset views = {# readOnlyConnection 7 (Some alice) None (Some bob) Open #}"
  using connections_complete_views [OF demo_store_ok, of "demo_env bob" Open None "(no_reps, 7)"]
  by (auto simp: demo_defs view_of_def demo_conn_def)

subsection \<open>Requesting peers\<close>

lemma add_received_prefix: "add_received env q as es v = Some (es', v') \<Longrightarrow> prefix es es'"
proof (induction as arbitrary: es v)
  case (Cons a as)
  then obtain e v1 where "add_received env q as
      (case e of Some x \<Rightarrow> es @ [AddAddrFailed a (peer_ID q) x] | None \<Rightarrow> es) v1 = Some (es', v')"
    by (auto simp: bind_eq_Some_conv)
  from Cons.IH [OF this] show ?case by (cases e) (auto dest: append_prefixD)
qed simp

lemma received_errors_kept: "add_received_peers env qs es v = Some (es', v') \<Longrightarrow> prefix es es'"
proof (induction qs arbitrary: es v)
  case (Cons q qs)
  then obtain es1 v1 where "add_received env q (Addresses q) es v = Some (es1, v1)"
    "add_received_peers env qs es1 v1 = Some (es', v')"
    by (auto simp: bind_eq_Some_conv)
  with Cons.IH add_received_prefix show ?case by (metis prefix_order.trans)
qed simp

text \<open>
  \<open>RequestPeers\<close> never returns more peers than it asked for, and none when the number is
  below one. What it returns is the beginning of the response, and when that had more peers an error
  says so.\<close>

theorem request_peers_bounded:
  assumes "RequestPeers env p r o2 w = Some ((ps, err), w')"
  shows "int (length ps) \<le> max 0 (sint (Num r)) \<and>
    (ps \<noteq> [] \<longrightarrow> (\<exists>w1 w2 resp. ExchangePeers (transport env) p o2 r w1 = Some (Inr resp, w2) \<and>
       prefix ps (Peers resp) \<and> (ps \<noteq> Peers resp \<longrightarrow> err \<noteq> None)))"
proof -
  obtain e w1 where u: "UpdatePeer env p w = Some (e, w1)"
    using assms by (auto simp: RequestPeers_def bind_eq_Some_conv)
  show ?thesis
  proof (cases "e \<noteq> None \<or> sint (Num r) < 1")
    case True
    with assms u show ?thesis by (auto simp: RequestPeers_def split: option.splits if_splits)
  next
    case False
    with assms u obtain x w2 where x: "ExchangePeers (transport env) p o2 r w1 = Some (x, w2)"
      by (auto simp: RequestPeers_def bind_eq_Some_conv)
    show ?thesis
    proof (cases x)
      case (Inl e')
      with assms u False x show ?thesis by (auto simp: RequestPeers_def)
    next
      case (Inr resp)
      let ?cut = "int (length (Peers resp)) > sint (Num r)"
      from assms u False x Inr have "ps = (if ?cut then take (nat (sint (Num r))) (Peers resp) else Peers resp)"
        "?cut \<longrightarrow> err \<noteq> None"
        by (auto simp: RequestPeers_def bind_eq_Some_conv dest!: received_errors_kept split: if_splits)
      then have "prefix ps (Peers resp)" "ps \<noteq> Peers resp \<longrightarrow> err \<noteq> None"
        "int (length ps) \<le> max 0 (sint (Num r))" using False by (auto simp: take_is_prefix)
      with x Inr show ?thesis by blast
    qed
  qed
qed

theorem request_peers_bounded_witness:
  "int (length [demo_peer carol]) \<le> max 0 (sint (Num \<lparr> Num = 1 \<rparr>))"
proof -
  have "RequestPeers (demo_env alice) (demo_peer bob) \<lparr> Num = 1 \<rparr> noOptions 7 =
      Some (([demo_peer carol], Some (CollectiveError [TooManyPeers])), 7)"
    by (simp add: RequestPeers_def UpdatePeer_def demo_defs demo_peer_def AtLeast_def)
  from request_peers_bounded [OF this] show ?thesis by blast
qed

subsection \<open>Answering a peer request\<close>

lemma remove_at_split:
  assumes "i < length xs"
  obtains ys zs where "xs = ys @ xs ! i # zs" "remove_at i xs = ys @ zs"
  using id_take_nth_drop [OF assms] by (auto simp: remove_at_def)

definition others :: "peer_id option \<Rightarrow> Peer list \<Rightarrow> Peer list" where
  "others self peers = filter (\<lambda>p. peer_ID p \<noteq> self) peers"

lemma others_simps [simp]:
  "others self [] = []" "others self (xs @ ys) = others self xs @ others self ys"
  "others self (p # ps) = (if peer_ID p = self then others self ps else p # others self ps)"
  by (simp_all add: others_def)

lemma others_absent: "self \<notin> peer_ID ` set ps \<Longrightarrow> others self ps = ps"
  by (induction ps) auto

text \<open>A draw from a non-empty list of distinct peers.\<close>

lemma draw:
  assumes "peers \<noteq> []" "distinct (map peer_ID peers)"
  obtains i p rest where "rand_Intn rnd k (length peers) = Some i" "peers ! i = p" "remove_at i peers = rest"
    "p \<in> set peers" "set rest \<subseteq> set peers" "distinct (map peer_ID rest)" "peer_ID p \<notin> peer_ID ` set rest"
    "length (others self peers) = length (others self rest) + (if peer_ID p = self then 0 else 1)"
    "Suc (length rest) = length peers"
proof -
  let ?i = "rnd k mod length peers"
  have i: "?i < length peers" using assms(1) by simp
  obtain ys zs where "peers = ys @ peers ! ?i # zs" "remove_at ?i peers = ys @ zs" by (rule remove_at_split [OF i])
  moreover define p where "p = peers ! ?i"
  ultimately have e: "peers = ys @ p # zs" "remove_at ?i peers = ys @ zs" by simp_all
  show thesis
  proof (rule that [of ?i p "ys @ zs"])
    show "rand_Intn rnd k (length peers) = Some ?i" using assms(1) by (simp add: rand_Intn_def)
    show "peers ! ?i = p" by (simp add: p_def)
  qed (use e assms(2) in auto)
qed

lemma select_peers_result:
  assumes "distinct (map peer_ID peers)" "select_peers rnd self k n peers acc = Some ps"
  shows "\<exists>qs. ps = acc @ qs \<and> distinct (map peer_ID qs) \<and> set qs \<subseteq> set peers \<and> self \<notin> peer_ID ` set qs \<and>
    length qs = min n (length (others self peers))"
  using assms
proof (induction n arbitrary: k peers acc)
  case 0
  then show ?case by simp
next
  case (Suc n)
  show ?case
  proof (cases "peers = []")
    case True
    with Suc.prems show ?thesis by simp
  next
    case False
    obtain i p rest where d: "rand_Intn rnd k (length peers) = Some i" "peers ! i = p" "remove_at i peers = rest"
      "p \<in> set peers" "set rest \<subseteq> set peers" "distinct (map peer_ID rest)" "peer_ID p \<notin> peer_ID ` set rest"
      "length (others self peers) = length (others self rest) + (if peer_ID p = self then 0 else 1)"
      by (rule draw [OF False Suc.prems(1)]) blast
    show ?thesis
    proof (cases "peer_ID p = self")
      case False
      with Suc.prems(2) \<open>peers \<noteq> []\<close> d have "select_peers rnd self (Suc k) n rest (acc @ [p]) = Some ps" by simp
      from Suc.IH [OF d(6) this] obtain qs where "ps = acc @ p # qs" "distinct (map peer_ID qs)" "set qs \<subseteq> set rest"
        "self \<notin> peer_ID ` set qs" "length qs = min n (length (others self rest))" by auto
      with d False show ?thesis by (intro exI [of _ "p # qs"]) auto
    next
      case True
      with Suc.prems(2) \<open>peers \<noteq> []\<close> d have rest: "rest \<noteq> []" by (auto simp: rand_Intn_def bind_eq_Some_conv)
      obtain j q rest2 where d2: "rand_Intn rnd (Suc k) (length rest) = Some j" "rest ! j = q" "remove_at j rest = rest2"
        "q \<in> set rest" "set rest2 \<subseteq> set rest" "distinct (map peer_ID rest2)" "peer_ID q \<notin> peer_ID ` set rest2"
        "length (others self rest) = length (others self rest2) + (if peer_ID q = self then 0 else 1)"
        by (rule draw [OF rest d(6)]) blast
      have q: "peer_ID q \<noteq> self" using d(7) d2(4) True by (metis imageI)
      from Suc.prems(2) \<open>peers \<noteq> []\<close> d d2 True have "select_peers rnd self (Suc (Suc k)) n rest2 (acc @ [q]) = Some ps"
        by simp
      from Suc.IH [OF d2(6) this] obtain qs where "ps = acc @ q # qs" "distinct (map peer_ID qs)" "set qs \<subseteq> set rest2"
        "self \<notin> peer_ID ` set qs" "length qs = min n (length (others self rest2))" by auto
      with d d2 q True show ?thesis by (intro exI [of _ "q # qs"]) auto
    qed
  qed
qed

lemma select_peers_returns:
  assumes "distinct (map peer_ID peers)" "n \<le> length (others self peers) \<or> self \<notin> peer_ID ` set peers"
  shows "select_peers rnd self k n peers acc \<noteq> None"
  using assms
proof (induction n arbitrary: k peers acc)
  case 0
  then show ?case by simp
next
  case (Suc n)
  show ?case
  proof (cases "peers = []")
    case False
    obtain i p rest where d: "rand_Intn rnd k (length peers) = Some i" "peers ! i = p" "remove_at i peers = rest"
      "p \<in> set peers" "set rest \<subseteq> set peers" "distinct (map peer_ID rest)" "peer_ID p \<notin> peer_ID ` set rest"
      "length (others self peers) = length (others self rest) + (if peer_ID p = self then 0 else 1)"
      by (rule draw [OF False Suc.prems(1)]) blast
    show ?thesis
    proof (cases "peer_ID p = self")
      case False
      from Suc.prems(2) have "n \<le> length (others self rest) \<or> self \<notin> peer_ID ` set rest"
        using d(5,8) False by auto
      from Suc.IH [OF d(6) this] False \<open>peers \<noteq> []\<close> d show ?thesis by simp
    next
      case True
      with d(4) Suc.prems(2) have n: "Suc n \<le> length (others self peers)" by auto
      with d(8) True have rest: "rest \<noteq> []" by auto
      obtain j q rest2 where d2: "rand_Intn rnd (Suc k) (length rest) = Some j" "rest ! j = q" "remove_at j rest = rest2"
        "q \<in> set rest" "set rest2 \<subseteq> set rest" "distinct (map peer_ID rest2)" "peer_ID q \<notin> peer_ID ` set rest2"
        "length (others self rest) = length (others self rest2) + (if peer_ID q = self then 0 else 1)"
        by (rule draw [OF rest d(6)]) blast
      from n d(8) d2(8) True have "n \<le> length (others self rest2)" by (auto split: if_splits)
      with Suc.IH [OF d2(6)] True \<open>peers \<noteq> []\<close> d d2 show ?thesis by simp
    qed
  qed simp
qed

text \<open>C33:
  When the user's handler leaves the answer to the library, a peer request is answered with
  different peers of the peer store, never with this node itself, and with as many as were
  asked for or as there are besides this node.\<close>

theorem peer_request_answer:
  assumes "PeerRequestHandler h p req w = Some ((None, None), w')"
    and "AllPeers (peerStore env) w' = Some (Inr peers)" and "SelfPeer (peerStore env) w' = Some (Inr self)"
    and "distinct (map peer_ID peers)" and "handle_peer_request env h rnd p req w = Some ((resp, err), w'')"
  shows "err = None \<and> (\<exists>qs. resp = Some \<lparr> Peers = qs \<rparr> \<and> distinct (map peer_ID qs) \<and> set qs \<subseteq> set peers \<and>
    peer_ID self \<notin> peer_ID ` set qs \<and> length qs = min (nat (sint (Num req))) (length (others (peer_ID self) peers)))"
  using assms select_peers_result [OF assms(4)]
  by (fastforce simp: handle_peer_request_def PeersOf_def SelfOf_def bind_eq_Some_conv)

text \<open>C34:
  A peer request is answered, without a panic, whenever it asks for at most as many
  peers as there are besides this node, or this node is not in the peer store.\<close>

theorem peer_request_returns:
  assumes "PeerRequestHandler h p req w = Some ((None, None), w')"
    and "AllPeers (peerStore env) w' = Some (Inr peers)" and "SelfPeer (peerStore env) w' = Some (Inr self)"
    and "distinct (map peer_ID peers)"
    and "sint (Num req) \<le> int (length (others (peer_ID self) peers)) \<or> peer_ID self \<notin> peer_ID ` set peers"
  shows "handle_peer_request env h rnd p req w \<noteq> None"
proof -
  have "nat (sint (Num req)) \<le> length (others (peer_ID self) peers) \<or> peer_ID self \<notin> peer_ID ` set peers"
    using assms(5) by auto
  from select_peers_returns [OF assms(4) this, of rnd 0 "[]"] assms(1-3)
  show ?thesis by (auto simp: handle_peer_request_def PeersOf_def SelfOf_def)
qed

text \<open>C38:
  A node that knows no peer but itself panics on any peer request for at least one
  peer: having drawn itself, it draws again from an empty list.\<close>

theorem peer_request_panics:
  assumes "PeerRequestHandler h p req w = Some ((None, None), w')"
    and "AllPeers (peerStore env) w' = Some (Inr [q])" and "SelfPeer (peerStore env) w' = Some (Inr self)"
    and "peer_ID q = peer_ID self" and "sint (Num req) \<ge> 1"
  shows "handle_peer_request env h rnd p req w = None"
proof -
  obtain n where "nat (sint (Num req)) = Suc n" using assms(5) by (metis int_one_le_iff_zero_less not0_implies_Suc zero_less_nat_eq not_less0)
  with assms(1-4) show ?thesis
    by (simp add: handle_peer_request_def PeersOf_def SelfOf_def rand_Intn_def remove_at_def)
qed

lemma demo_selection_of_peers:
  "select_peers (\<lambda>k. 1 - k) (Some bob) 0 5 [demo_peer alice, demo_peer bob, demo_peer carol] [] =
     Some [demo_peer alice, demo_peer carol]"
  by code_simp

lemma demo_peer_request:
  "handle_peer_request (demo_env bob) appHandlers (\<lambda>k. 1 - k) (Some alice) \<lparr> Num = 5 \<rparr> 7 =
     Some ((Some \<lparr> Peers = [demo_peer alice, demo_peer carol] \<rparr>, None), 7)"
  by (simp add: handle_peer_request_def PeersOf_def SelfOf_def appHandlers_def appPeerRequestHandler_def
      demo_selection_of_peers [simplified])

theorem peer_request_answer_witness:
  "length [demo_peer alice, demo_peer carol] =
     min (nat (sint (Num \<lparr> Num = 5 \<rparr>))) (length (others (Some bob) [demo_peer alice, demo_peer bob, demo_peer carol]))"
  using peer_request_answer [OF _ _ _ _ demo_peer_request, of 7 "[demo_peer alice, demo_peer bob, demo_peer carol]" "demo_peer bob"]
  by (auto simp: appHandlers_def appPeerRequestHandler_def)

theorem peer_request_returns_witness:
  "handle_peer_request (demo_env bob) appHandlers (\<lambda>k. k) (Some alice) \<lparr> Num = 2 \<rparr> 7 \<noteq> None"
  by (rule peer_request_returns [of _ _ _ _ 7 _ "[demo_peer alice, demo_peer bob, demo_peer carol]" "demo_peer bob"])
    (simp_all add: appHandlers_def appPeerRequestHandler_def)

text \<open>Bob alone.\<close>

definition lonely_env :: "uuid nodeEnv" where
  "lonely_env = (demo_env bob)\<lparr>peerStore := (demo_store bob)\<lparr>AllPeers := (\<lambda>w. returns (Inr [demo_peer bob]))\<rparr>\<rparr>"

theorem peer_request_panics_witness:
  "handle_peer_request lonely_env appHandlers (\<lambda>k. k) (Some alice) \<lparr> Num = 1 \<rparr> 7 = None"
  by (rule peer_request_panics [of _ _ _ _ 7 _ "demo_peer bob" "demo_peer bob"])
    (simp_all add: appHandlers_def appPeerRequestHandler_def lonely_env_def demo_defs)

end
