(* ===== verification/Inmem_Messages.thy ===== *)
theory Inmem_Messages
  imports Wire_Laws "HOL-Library.AList"
begin

section \<open>Messages: starterimpl/inmem/inmem.go, interfaces data.Message and data.MessageStore\<close>

text \<open>
  A message is signed by its sender over the connection, the sequence number and the data,
  and by the witness over these and the sender's signature. Keys are the two interfaces of
  package \<open>crypto\<close>: functions the caller supplies. The store is a Go map; the map that
  \<open>NewMessageStore\<close> leaves in it is nil, here \<open>None\<close>, and writing to a nil map panics.
\<close>

type_synonym PrivateKey = "string \<Rightarrow> string \<times> error option"
type_synonym PublicKey = "string \<Rightarrow> string \<Rightarrow> bool \<times> error option"

record inMemoryMessage =
  connectionID :: uuid
  sequenceNumber :: go_int
  data :: string
  senderSig :: string
  witnessSig :: string

definition senderSegs :: "('x) names_scheme \<Rightarrow> inMemoryMessage \<Rightarrow> string" where
  "senderSegs n m =
     uuidString n (connectionID m) @ ''.'' @ Itoa (sequenceNumber m) @ ''.'' @ EncodeToString (data m)"

definition witnessSegs :: "('x) names_scheme \<Rightarrow> inMemoryMessage \<Rightarrow> string" where
  "witnessSegs n m =
     uuidString n (connectionID m) @ ''.'' @ Itoa (sequenceNumber m) @ ''.'' @
     EncodeToString (data m) @ ''.'' @ EncodeToString (senderSig m)"

definition SenderSign :: "('x) names_scheme \<Rightarrow> PrivateKey \<Rightarrow> inMemoryMessage \<Rightarrow> inMemoryMessage \<times> error option" where
  "SenderSign n privateKey m = (case privateKey (senderSegs n m) of (sig, err) \<Rightarrow>
     (\<lparr> connectionID = connectionID m, sequenceNumber = sequenceNumber m, data = data m,
        senderSig = sig, witnessSig = witnessSig m \<rparr>, err))"

definition VerifySender :: "('x) names_scheme \<Rightarrow> PublicKey \<Rightarrow> inMemoryMessage \<Rightarrow> bool \<times> error option" where
  "VerifySender n publicKey m = publicKey (senderSegs n m) (senderSig m)"

definition WitnessSign :: "('x) names_scheme \<Rightarrow> PrivateKey \<Rightarrow> inMemoryMessage \<Rightarrow> inMemoryMessage \<times> error option" where
  "WitnessSign n privateKey m = (case privateKey (witnessSegs n m) of (sig, err) \<Rightarrow>
     (\<lparr> connectionID = connectionID m, sequenceNumber = sequenceNumber m, data = data m,
        senderSig = senderSig m, witnessSig = sig \<rparr>, err))"

definition VerifyWitness :: "('x) names_scheme \<Rightarrow> PublicKey \<Rightarrow> inMemoryMessage \<Rightarrow> bool \<times> error option" where
  "VerifyWitness n publicKey m = publicKey (witnessSegs n m) (witnessSig m)"

subsection \<open>The signed text determines what was signed\<close>

lemma EncodeToString_no_dot [simp]: "CHR ''.'' \<notin> set (EncodeToString s)"
  using EncodeToString_alphabet [of s] separators_not_in_alphabet by blast

lemma EncodeToString_inject [simp]: "EncodeToString s = EncodeToString t \<longleftrightarrow> s = t"
  by (metis DecodeString_Encode Inr_inject)

lemma senderSegs_parts:
  fixes w :: "('x) wire_scheme"
  assumes "uuid_ok w"
  shows "strings_Split (CHR ''.'') (senderSegs w m) =
     [uuidString w (connectionID m), Itoa (sequenceNumber m), EncodeToString (data m)]"
  using uuid_okD(2) [OF assms] by (simp add: senderSegs_def)

lemma witnessSegs_parts:
  fixes w :: "('x) wire_scheme"
  assumes "uuid_ok w"
  shows "strings_Split (CHR ''.'') (witnessSegs w m) =
     [uuidString w (connectionID m), Itoa (sequenceNumber m), EncodeToString (data m), EncodeToString (senderSig m)]"
  using uuid_okD(2) [OF assms] by (simp add: witnessSegs_def)

lemma uuidString_inject: "uuid_ok w \<Longrightarrow> uuidString w u = uuidString w v \<longleftrightarrow> u = v"
  using uuid_okD(1) by (metis Inr_inject)

subsection \<open>The store\<close>

type_synonym messageMap = "(string \<times> inMemoryMessage) list"

record inMemoryMessageStore =
  messages :: "messageMap option"

definition NewMessageStore :: inMemoryMessageStore where
  "NewMessageStore = \<lparr> messages = None \<rparr>"

text \<open>Reading a nil map finds nothing.\<close>

definition entries :: "inMemoryMessageStore \<Rightarrow> messageMap" where
  "entries ms = (case messages ms of None \<Rightarrow> [] | Some m \<Rightarrow> m)"

definition genKey :: "('x) names_scheme \<Rightarrow> uuid \<Rightarrow> go_int \<Rightarrow> string" where
  "genKey n connID seqNo = uuidString n connID @ '':'' @ Itoa seqNo"

definition AddMessage ::
  "('x) names_scheme \<Rightarrow> inMemoryMessage \<Rightarrow> inMemoryMessageStore \<Rightarrow> (error option \<times> inMemoryMessageStore) option" where
  "AddMessage n message ms =
     (let key = genKey n (connectionID message) (sequenceNumber message) in
      case map_of (entries ms) key of
        Some _ \<Rightarrow> returns (Some (MessageExists key), ms)
      | None \<Rightarrow> (case messages ms of
            None \<Rightarrow> panic
          | Some m \<Rightarrow> returns (None, ms\<lparr>messages := Some (AList.update key message m)\<rparr>)))"

definition AllMessages :: "(inMemoryMessage list \<Rightarrow> inMemoryMessage list) \<Rightarrow> inMemoryMessageStore \<Rightarrow> inMemoryMessage list" where
  "AllMessages order ms = order (map snd (entries ms))"

definition FindMessage ::
  "('x) names_scheme \<Rightarrow> uuid \<Rightarrow> go_int \<Rightarrow> inMemoryMessageStore \<Rightarrow> error + inMemoryMessage" where
  "FindMessage n connID seqNo ms =
     (let key = genKey n connID seqNo in
      case map_of (entries ms) key of
        None \<Rightarrow> Inl (NoMessage key)
      | Some m \<Rightarrow> Inr m)"

lemma genKey_inject:
  fixes w :: "('x) wire_scheme"
  assumes "uuid_ok w"
  shows "genKey w i s = genKey w j t \<longleftrightarrow> i = j \<and> s = t"
proof -
  have "strings_Split (CHR '':'') (genKey w i s) = [uuidString w i, Itoa s]" for i s
  proof -
    have "CHR '':'' \<notin> set (Itoa s)" by (auto dest!: Itoa_chars simp: is_digit_def)
    then show ?thesis using uuid_okD(4) [OF assms] by (simp add: genKey_def)
  qed
  then show ?thesis using uuidString_inject [OF assms] by (metis Itoa_inject list.inject)
qed

lemma AddMessage_nil: "messages ms = None \<Longrightarrow> AddMessage n m ms = None"
  by (simp add: AddMessage_def entries_def)

lemma AddMessage_fresh:
  "messages ms = Some es \<Longrightarrow> map_of es (genKey n (connectionID m) (sequenceNumber m)) = None \<Longrightarrow>
   AddMessage n m ms = Some (None,
     ms\<lparr>messages := Some (AList.update (genKey n (connectionID m) (sequenceNumber m)) m es)\<rparr>)"
  by (simp add: AddMessage_def entries_def Let_def)

lemma AddMessage_taken:
  "map_of (entries ms) (genKey n (connectionID m) (sequenceNumber m)) = Some m' \<Longrightarrow>
   AddMessage n m ms = Some (Some (MessageExists (genKey n (connectionID m) (sequenceNumber m))), ms)"
  by (simp add: AddMessage_def Let_def)

end
