(* ===== verification/Inmem_Locks.thy ===== *)
theory Inmem_Locks
  imports Inmem_Connections
begin

section \<open>The locks of the connection store: starterimpl/inmem/inmem.go\<close>

text \<open>
  Elsewhere an operation of the connection store is one step. Here it is what the code does,
  a sequence of steps that take and release locks, and goroutines interleave: the store's
  lock guards the map, the lock of an entry its connection, and a write function runs under
  the latter. The end of this theory states what an atomic store is; that the code is one
  is shown in \<open>Locks_Props\<close>.
\<close>

subsection \<open>Read-write locks\<close>

text \<open>
  \<open>sync.RWMutex\<close>: a writer announces itself, which keeps new readers and writers out, and
  then waits for the readers that hold the lock.
\<close>

record rwmutex =
  writer :: "nat option"
  readers :: "nat set"

definition newMutex :: rwmutex where
  "newMutex = \<lparr> writer = None, readers = {} \<rparr>"

definition announce :: "nat \<Rightarrow> rwmutex \<Rightarrow> rwmutex option" where
  "announce t l = (if writer l = None then Some (l\<lparr>writer := Some t\<rparr>) else None)"

definition drained :: "rwmutex \<Rightarrow> bool" where
  "drained l \<longleftrightarrow> readers l = {}"

definition Unlock :: "rwmutex \<Rightarrow> rwmutex" where
  "Unlock l = l\<lparr>writer := None\<rparr>"

definition RLock :: "nat \<Rightarrow> rwmutex \<Rightarrow> rwmutex option" where
  "RLock t l = (if writer l = None then Some (l\<lparr>readers := insert t (readers l)\<rparr>) else None)"

definition RUnlock :: "nat \<Rightarrow> rwmutex \<Rightarrow> rwmutex" where
  "RUnlock t l = l\<lparr>readers := readers l - {t}\<rparr>"

lemmas mutex_defs = announce_def drained_def Unlock_def RLock_def RUnlock_def

subsection \<open>The store and the goroutines\<close>

record 's lockedStore =
  globalLock :: rwmutex
  entryLock :: "uuid \<Rightarrow> rwmutex"
  connEntries :: "uuid \<rightharpoonup> Connection"
  outside :: 's

definition newLockedStore :: "'s \<Rightarrow> 's lockedStore" where
  "newLockedStore s = \<lparr> globalLock = newMutex, entryLock = (\<lambda>i. newMutex), connEntries = Map.empty, outside = s \<rparr>"

text \<open>What \<open>Update\<close> and \<open>Read\<close> do with the entry they looked up.\<close>

datatype 's entryOp = Updating "'s writeFunc" | Reading "'s readFunc"

datatype 's storeOp =
  OAccept uuid Peer Peer Status
| OEntry uuid "'s entryOp"
| OAll

datatype result = Err "error option" | Ids "uuid set"

text \<open>
  Where a goroutine stands. \<open>Get\<close> is the part of \<open>Update\<close> and \<open>Read\<close> in \<open>getConnEntry\<close>, with
  the flag of what it found; \<open>EntryStore\<close> is after the write function has returned, with
  what it returned; the flag of \<open>EntryUnlock\<close> says whether the entry is locked for writing.
\<close>

datatype 's pc =
  Idle
| AcceptLock uuid Peer Peer Status
| AcceptWait uuid Peer Peer Status
| AcceptBody uuid Peer Peer Status
| AcceptUnlock "error option"
| GetRLock uuid "'s entryOp"
| GetFind uuid "'s entryOp"
| GetRUnlock uuid "'s entryOp" bool
| EntryLock uuid "'s entryOp"
| EntryWait uuid "'s writeFunc"
| EntryCall uuid "'s entryOp"
| EntryStore uuid "Connection option" "error option"
| EntryUnlock uuid bool "error option"
| AllRange
| Returned result

fun called :: "'s storeOp \<Rightarrow> 's pc" where
  "called (OAccept i p q st) = AcceptLock i p q st"
| "called (OEntry i k) = GetRLock i k"
| "called OAll = AllRange"

definition set_entryLock :: "uuid \<Rightarrow> rwmutex \<Rightarrow> 's lockedStore \<Rightarrow> 's lockedStore" where
  "set_entryLock i l sh = sh\<lparr>entryLock := (entryLock sh)(i := l)\<rparr>"

text \<open>
  The next step of goroutine \<open>t\<close>; none while it waits for a lock, after its write function
  panicked, and when it has nothing to do.
\<close>

fun thread_step :: "nat \<Rightarrow> 's pc \<Rightarrow> 's lockedStore \<Rightarrow> ('s pc \<times> 's lockedStore) option" where
  "thread_step t (AcceptLock i p q st) sh = do {
     l \<leftarrow> announce t (globalLock sh); Some (AcceptWait i p q st, sh\<lparr>globalLock := l\<rparr>) }"
| "thread_step t (AcceptWait i p q st) sh =
     (if drained (globalLock sh) then Some (AcceptBody i p q st, sh) else None)"
| "thread_step t (AcceptBody i p q st) sh = (case connEntries sh i of
       Some existing \<Rightarrow> Some (AcceptUnlock (Some (ConnectionExists i)), sh)
     | None \<Rightarrow> Some (AcceptUnlock None,
         sh\<lparr>connEntries := (connEntries sh)(i \<mapsto> inMemoryConnection i (peer_ID p) None (peer_ID q) st)\<rparr>))"
| "thread_step t (AcceptUnlock err) sh = Some (Returned (Err err), sh\<lparr>globalLock := Unlock (globalLock sh)\<rparr>)"
| "thread_step t (GetRLock i k) sh = do {
     l \<leftarrow> RLock t (globalLock sh); Some (GetFind i k, sh\<lparr>globalLock := l\<rparr>) }"
| "thread_step t (GetFind i k) sh = Some (GetRUnlock i k (connEntries sh i \<noteq> None), sh)"
| "thread_step t (GetRUnlock i k found) sh =
     Some (if found then EntryLock i k else Returned (Err (Some (NoConnection i))),
           sh\<lparr>globalLock := RUnlock t (globalLock sh)\<rparr>)"
| "thread_step t (EntryLock i (Updating f)) sh = do {
     l \<leftarrow> announce t (entryLock sh i); Some (EntryWait i f, set_entryLock i l sh) }"
| "thread_step t (EntryLock i (Reading f)) sh = do {
     l \<leftarrow> RLock t (entryLock sh i); Some (EntryCall i (Reading f), set_entryLock i l sh) }"
| "thread_step t (EntryWait i f) sh =
     (if drained (entryLock sh i) then Some (EntryCall i (Updating f), sh) else None)"
| "thread_step t (EntryCall i (Updating f)) sh = do {
     c \<leftarrow> connEntries sh i; ((updated, err), s) \<leftarrow> f c (outside sh);
     Some (EntryStore i updated err, sh\<lparr>outside := s\<rparr>) }"
| "thread_step t (EntryCall i (Reading f)) sh = do {
     c \<leftarrow> connEntries sh i; (err, s) \<leftarrow> f c (outside sh);
     Some (EntryUnlock i False err, sh\<lparr>outside := s\<rparr>) }"
| "thread_step t (EntryStore i updated err) sh = Some (EntryUnlock i True err,
     (case updated of None \<Rightarrow> sh | Some c \<Rightarrow> sh\<lparr>connEntries := (connEntries sh)(i \<mapsto> c)\<rparr>))"
| "thread_step t (EntryUnlock i exclusive err) sh = Some (Returned (Err err),
     set_entryLock i (if exclusive then Unlock (entryLock sh i) else RUnlock t (entryLock sh i)) sh)"
| "thread_step t AllRange sh = Some (Returned (Ids (dom (connEntries sh))), sh)"
| "thread_step t Idle sh = None"
| "thread_step t (Returned r) sh = None"

text \<open>
  What goroutines and store do together, with the history of calls and returns. A goroutine
  that has returned may call again.
\<close>

datatype 's storeEvent = Call nat "'s storeOp" | Return nat result

inductive interleaved :: "'s \<Rightarrow> 's storeEvent list \<Rightarrow> 's lockedStore \<Rightarrow> (nat \<Rightarrow> 's pc) \<Rightarrow> bool" for s0 :: 's where
  start: "interleaved s0 [] (newLockedStore s0) (\<lambda>t. Idle)"
| call: "interleaved s0 h sh pcs \<Longrightarrow> pcs t = Idle \<Longrightarrow> interleaved s0 (h @ [Call t op]) sh (pcs(t := called op))"
| step: "interleaved s0 h sh pcs \<Longrightarrow> thread_step t (pcs t) sh = Some (p', sh') \<Longrightarrow>
    interleaved s0 h sh' (pcs(t := p'))"
| return: "interleaved s0 h sh pcs \<Longrightarrow> pcs t = Returned r \<Longrightarrow> interleaved s0 (h @ [Return t r]) sh (pcs(t := Idle))"

subsection \<open>An atomic store\<close>

text \<open>The contract of a connection store, over a map from identifiers to connections.\<close>

definition spec_accept :: "uuid \<Rightarrow> Peer \<Rightarrow> Peer \<Rightarrow> Status \<Rightarrow> (uuid \<rightharpoonup> Connection) \<Rightarrow> error option \<times> (uuid \<rightharpoonup> Connection)" where
  "spec_accept i p q st m =
     (if i \<in> dom m then (Some (ConnectionExists i), m)
      else (None, m(i \<mapsto> inMemoryConnection i (peer_ID p) None (peer_ID q) st)))"

definition spec_update ::
  "uuid \<Rightarrow> 's writeFunc \<Rightarrow> (uuid \<rightharpoonup> Connection) \<times> 's \<Rightarrow> (error option \<times> ((uuid \<rightharpoonup> Connection) \<times> 's)) option" where
  "spec_update i f st = (case st of (m, s) \<Rightarrow> (case m i of
       None \<Rightarrow> Some (Some (NoConnection i), (m, s))
     | Some c \<Rightarrow> Option.bind (f c s) (\<lambda>((u, e), s'). Some (e, (if u = None then m else m(i := u), s')))))"

definition spec_read ::
  "uuid \<Rightarrow> 's readFunc \<Rightarrow> (uuid \<rightharpoonup> Connection) \<times> 's \<Rightarrow> (error option \<times> ((uuid \<rightharpoonup> Connection) \<times> 's)) option" where
  "spec_read i f st = (case st of (m, s) \<Rightarrow> (case m i of
       None \<Rightarrow> Some (Some (NoConnection i), (m, s))
     | Some c \<Rightarrow> Option.bind (f c s) (\<lambda>(e, s'). Some (e, (m, s')))))"

fun perform :: "'s storeOp \<Rightarrow> (uuid \<rightharpoonup> Connection) \<times> 's \<Rightarrow> (result \<times> ((uuid \<rightharpoonup> Connection) \<times> 's)) option" where
  "perform (OAccept i p q st) (m, s) = (case spec_accept i p q st m of (err, m) \<Rightarrow> Some (Err err, (m, s)))"
| "perform (OEntry i (Updating f)) x = do { (err, x) \<leftarrow> spec_update i f x; Some (Err err, x) }"
| "perform (OEntry i (Reading f)) x = do { (err, x) \<leftarrow> spec_read i f x; Some (Err err, x) }"
| "perform OAll (m, s) = Some (Ids (dom m), (m, s))"

text \<open>
  Every call takes effect at one moment between the call and its return. These are the
  histories of a store whose operations are single steps.
\<close>

datatype 's status = Ready | Called "'s storeOp" | Finished result

inductive atomic :: "'s \<Rightarrow> 's storeEvent list \<Rightarrow> (uuid \<rightharpoonup> Connection) \<times> 's \<Rightarrow> (nat \<Rightarrow> 's status) \<Rightarrow> bool" for s0 :: 's where
  start: "atomic s0 [] (Map.empty, s0) (\<lambda>t. Ready)"
| call: "atomic s0 h x sts \<Longrightarrow> sts t = Ready \<Longrightarrow> atomic s0 (h @ [Call t op]) x (sts(t := Called op))"
| act: "atomic s0 h x sts \<Longrightarrow> sts t = Called op \<Longrightarrow> perform op x = Some (r, x') \<Longrightarrow>
    atomic s0 h x' (sts(t := Finished r))"
| return: "atomic s0 h x sts \<Longrightarrow> sts t = Finished r \<Longrightarrow> atomic s0 (h @ [Return t r]) x (sts(t := Ready))"

end
