(* ===== verification/Store_Props.thy ===== *)
theory Store_Props
  imports Example Inmem_Messages Inmem_Locks
begin

section \<open>The in-memory stores\<close>

subsection \<open>Connections\<close>


subsection \<open>Reputations\<close>

definition rewards :: "rep_event list \<Rightarrow> nat" where
  "rewards es = length (filter (\<lambda>e. e = Rewarded) es)"

definition weight :: "rep_event list \<Rightarrow> nat" where
  "weight es = length es + 2 * length (filter (\<lambda>e. e = StronglyPenalized) es)"

lemma weights [simp]:
  "rewards [] = 0" "weight [] = 0"
  "rewards (es @ [e]) = rewards es + (if e = Rewarded then 1 else 0)"
  "weight (es @ [e]) = weight es + (if e = StronglyPenalized then 3 else 1)"
  by (simp_all add: rewards_def weight_def)

lemma rewards_le: "rewards es \<le> weight es"
  by (simp add: rewards_def weight_def trans_le_add1)

lemma weight_le: "weight es \<le> 3 * length es"
proof -
  have "length (filter (\<lambda>e. e = StronglyPenalized) es) \<le> length es" by (rule length_filter_le)
  then show ?thesis by (simp add: weight_def)
qed

lemma weight_small:
  assumes "length es \<le> 2 ^ 51"
  shows "weight es + 3 \<le> 2 ^ 53" "weight es \<le> 2 ^ 53 - 3"
proof -
  have "3 * length es \<le> 3 * 2 ^ 51" using assms by simp
  with weight_le [of es] have "weight es \<le> 3 * 2 ^ 51" by (rule le_trans)
  then show "weight es + 3 \<le> 2 ^ 53" "weight es \<le> 2 ^ 53 - 3" by simp_all
qed

lemma fle_Fin: "fle (Fin a) (Fin b) \<longleftrightarrow> a \<le> b"
  by (auto simp: fle_def)

lemma weight_0 [simp]: "weight es = 0 \<longleftrightarrow> es = []"
  by (auto simp: weight_def)

lemma rep_history_snoc: "rep_history (es @ [e]) r = rep_apply e (rep_history es r)"
  by (simp add: rep_history_def)

lemma fadd_of_nat: "n + k \<le> 2 ^ 53 \<Longrightarrow> fadd (Fin (of_nat n)) (Fin (of_nat k)) = Fin (of_nat (n + k))"
proof -
  assume le: "n + k \<le> 2 ^ 53"
  then have "(of_nat (n + k) :: rat) \<le> 2 ^ 53" by (metis of_nat_le_iff of_nat_numeral of_nat_power)
  also have "\<dots> \<le> (2 :: rat) ^ 1023" by (rule power_increasing) simp_all
  finally have "mk (of_nat (n + k)) = Fin (fl (of_nat (n + k)))" by (intro mk_Fin) simp_all
  with fl_of_nat [OF le] show ?thesis by simp
qed

lemma rep_apply_counts:
  assumes "good r = Fin (of_nat g)" "total r = Fin (of_nat t)" "g \<le> t" "t + 3 \<le> 2 ^ 53"
  shows "rep_apply e r = \<lparr> rep_peerID = rep_peerID r,
    good = Fin (of_nat (g + (if e = Rewarded then 1 else 0))),
    total = Fin (of_nat (t + (if e = StronglyPenalized then 3 else 1))) \<rparr>"
  using assms fadd_of_nat [of g 1] fadd_of_nat [of t 1] fadd_of_nat [of t 3]
  by (cases e) (simp_all add: Reward_def WeakPenalize_def StrongPenalize_def del: fadd.simps)

lemma rep_history_counts:
  "weight es \<le> 2 ^ 53 - 3 \<Longrightarrow> rep_history es (defaultReputation p) =
     \<lparr> rep_peerID = p, good = Fin (of_nat (rewards es)), total = Fin (of_nat (weight es)) \<rparr>"
proof (induction es rule: rev_induct)
  case Nil
  then show ?case by (simp add: rep_history_def defaultReputation_def)
next
  case (snoc e es)
  then have "weight es + 3 \<le> 2 ^ 53" "weight es \<le> 2 ^ 53 - 3" by (simp_all split: if_splits)
  with snoc.IH rep_apply_counts [OF _ _ rewards_le, of _ es e] show ?case
    by (simp add: rep_history_snoc)
qed

lemma reputation_exact_counts:
  assumes "length es \<le> 2 ^ 51"
  shows "Value (rep_history es (defaultReputation p)) =
    (if es = [] then Fin 1 else Fin (fl (of_nat (rewards es) / of_nat (weight es))))"
proof -
  from rep_history_counts [OF weight_small(2) [OF assms]] Value_sound(1) [of "rep_history es (defaultReputation p)"
      "of_nat (rewards es)" "of_nat (weight es)"] rewards_le [of es]
  show ?thesis by simp
qed

text \<open>C30:
  As long as there are at most 2^51 interactions, the \<open>float64\<close> counts of a
  reputation are exact: its value is the number of rewards divided by the weight of all
  interactions, a strong penalty weighing three times as much as any other, rounded once; a peer without
  interactions has value 1.\<close>

theorem reputation_exact:
  assumes "length es \<le> 2 ^ 51"
  shows "Value (rep_history es (defaultReputation p)) =
    (if es = [] then Fin 1 else Fin (fl (of_nat (rewards es) / of_nat (weight es))))"
  using assms by (rule reputation_exact_counts)

theorem reputation_exact_witness:
  "Value (rep_history [Rewarded, StronglyPenalized] (defaultReputation (Some carol))) = Fin (1 / 4)"
proof -
  have "fl (1 / 4) = 1 / 4" using fl_powi [of "- 2"] by (simp add: power_int_minus)
  with reputation_exact [of "[Rewarded, StronglyPenalized]" "Some carol"] show ?thesis
    by (simp add: rewards_def weight_def)
qed

text \<open>C31:
  After any history of interactions, however long, the value of a reputation is a
  number between 0 and 1, never an infinity or NaN, in spite of the rounding of \<open>float64\<close>.\<close>

theorem reputation_value_bounded:
  "\<exists>v. Value (rep_history es (defaultReputation p)) = Fin v \<and> 0 \<le> v \<and> v \<le> 1"
proof -
  let ?r = "rep_history es (defaultReputation p)"
  obtain g t where h: "good ?r = Fin g" "total ?r = Fin t" "0 \<le> g" "g \<le> t"
    using sound_history [OF sound_default, of es p] by (auto elim: sound_repE)
  show ?thesis
  proof (cases "t = 0")
    case True
    with Value_sound(1) [OF h] show ?thesis by simp
  next
    case False
    with Value_sound(2) [OF h] have q: "0 \<le> g / t" "g / t \<le> 1" by simp_all
    have "fl (g / t) \<le> fl 1" using q by (intro fl_mono)
    with False q Value_sound(1) [OF h] show ?thesis by (auto intro: fl_nonneg)
  qed
qed

text \<open>The order of values, for counts in the exact range.\<close>

lemma Value_le:
  assumes "good r = Fin (of_nat g)" "total r = Fin (of_nat t)" "g \<le> t"
    and "good r' = Fin (of_nat g')" "total r' = Fin (of_nat t')" "g' \<le> t'"
    and "t = 0 \<Longrightarrow> t' = 0" "t' \<noteq> 0 \<Longrightarrow> g * t' \<le> g' * t"
  shows "fle (Value r) (Value r')"
proof (cases "t' = 0")
  case True
  with assms(1-3) have "fle (Value r) (Fin 1)"
  proof (cases "t = 0")
    case False
    have "fl (of_nat g / of_nat t) \<le> fl 1" using assms(3) False by (intro fl_mono) (simp_all add: divide_le_eq)
    with False Value_sound(1) [OF assms(1,2)] assms(3) show ?thesis by (simp add: fle_Fin)
  qed (use Value_sound(1) [OF assms(1,2)] in \<open>simp add: fle_Fin\<close>)
  with True Value_sound(1) [OF assms(4,5)] assms(6) show ?thesis by simp
next
  case False
  with assms(7) have t: "t \<noteq> 0" by blast
  have "of_nat g * (of_nat t' :: rat) \<le> of_nat g' * of_nat t"
    using assms(8) [OF False] by (metis of_nat_le_iff of_nat_mult)
  then have "(of_nat g / of_nat t :: rat) \<le> of_nat g' / of_nat t'" using t False by (simp add: field_simps)
  then have "fl (of_nat g / of_nat t) \<le> fl (of_nat g' / of_nat t')" by (intro fl_mono) simp_all
  with t False Value_sound(1) [OF assms(1,2)] Value_sound(1) [OF assms(4,5)] assms(3,6) show ?thesis
    by (simp add: fle_Fin)
qed



lemma fl_sticks: "fl (2 ^ 53 + 1) = 2 ^ 53"
  by code_simp

text \<open>
  The counts saturate: a reputation whose total has reached 2^55 keeps it, whatever happens,
  and one whose rewards have reached 2^53 gains none by a further reward. From then on
  neither penalties nor rewards change the value.\<close>

theorem reputation_saturates:
  assumes "total r = Fin (2 ^ 55)"
  shows "total (rep_apply e r) = Fin (2 ^ 55) \<and>
    (e \<noteq> Rewarded \<or> good r = Fin (2 ^ 53) \<longrightarrow> Value (rep_apply e r) = Value r)"
proof -
  have t: "fadd (total r) (Fin 1) = total r" "fadd (total r) (Fin 3) = total r"
    unfolding assms by (simp_all only: add_count(1) fl_saturates zero_le_power zero_le_numeral order_refl simp_thms)
  have g: "fadd (Fin (2 ^ 53)) (Fin 1) = Fin (2 ^ 53)"
    by (rule trans [OF add_count(1)]) (simp_all add: fl_sticks [simplified])
  have tot: "total (rep_apply e r) = total r"
    using t by (cases e) (simp_all add: Reward_def WeakPenalize_def StrongPenalize_def del: fadd.simps)
  have "Value (rep_apply e r) = Value r" if "e \<noteq> Rewarded \<or> good r = Fin (2 ^ 53)"
  proof -
    from that have "good (rep_apply e r) = good r"
      using g by (cases e) (simp_all add: Reward_def WeakPenalize_def StrongPenalize_def del: fadd.simps)
    with tot show ?thesis by (simp add: Value_def)
  qed
  with trans [OF tot assms] show ?thesis by blast
qed

theorem reputation_saturates_witness:
  "Value (StrongPenalize \<lparr> rep_peerID = None, good = Fin (2 ^ 54), total = Fin (2 ^ 55) \<rparr>) =
   Value \<lparr> rep_peerID = None, good = Fin (2 ^ 54), total = Fin (2 ^ 55) \<rparr>"
  using reputation_saturates [of "\<lparr> rep_peerID = None, good = Fin (2 ^ 54), total = Fin (2 ^ 55) \<rparr>" StronglyPenalized]
  by simp

text \<open>
  Every peer has a reputation at all times: an update applies its write function to the
  current reputation of the peer, the default one if there was no entry, and what it returns is what
  reads see from then on; the reputation of every other peer, known or not, is unchanged.\<close>

theorem reputation_store_read_after_update:
  fixes g :: "proportionalReputation \<Rightarrow> proportionalReputation" and w :: 'w
  shows "\<exists>rs'. UpdateRep p (\<lambda>r st. Some ((Some (g r), None), st)) (rs, w) = Some (None, (rs', w)) \<and>
    (\<forall>q f. \<exists>rs''. rep_of rs'' = rep_of rs' \<and>
       ReadRep q f (rs', w) = f (if q = p then g (rep_of rs p) else rep_of rs q) (rs'', w))"
proof -
  obtain rs' where u: "UpdateRep p (\<lambda>r st. Some ((Some (g r), None), st)) (rs, w) = Some (None, (rs', w))"
    and v: "rep_of rs' = (rep_of rs)(p := g (rep_of rs p))"
    using rep.update_sets [where f = "\<lambda>r st. Some ((Some (g r), None), st)" and rs = rs and p = p and w = w
        and w' = w and r = "g (rep_of rs p)" and err = None, OF HOL.refl] by blast
  have "\<exists>rs''. rep_of rs'' = rep_of rs' \<and> ReadRep q f (rs', w) = f (rep_of rs' q) (rs'', w)"
    for q and f :: "(repStore, 'w) repReadFunc"
    using rep.read_calls by metis
  with u v show ?thesis by auto
qed

subsection \<open>Messages\<close>

text \<open>
  A message added to an initialised store is found under its connection and sequence
  number, and no other message changes; adding another message under the same two is refused and leaves the
  store as it is. The keys never collide, given that printed UUIDs parse and contain no
  separator.\<close>

theorem message_store_find_after_add:
  fixes n :: "('x) wire_scheme"
  assumes "uuid_ok n" and "messages ms = Some es" and "AddMessage n m ms = Some (err, ms')"
  shows "if \<exists>m'. FindMessage n (connectionID m) (sequenceNumber m) ms = Inr m' then err \<noteq> None \<and> ms' = ms
    else err = None \<and> (\<forall>i s. FindMessage n i s ms' =
      (if i = connectionID m \<and> s = sequenceNumber m then Inr m else FindMessage n i s ms))"
proof (cases "map_of es (genKey n (connectionID m) (sequenceNumber m))")
  case None
  then show ?thesis
    using assms AddMessage_fresh [OF assms(2) None]
    by (auto simp: FindMessage_def entries_def update_conv' genKey_inject Let_def)
next
  case (Some m')
  then show ?thesis
    using assms AddMessage_taken [of ms n m m'] by (auto simp: FindMessage_def entries_def Let_def)
qed

definition demo_message :: inMemoryMessage where
  "demo_message = \<lparr> connectionID = 7, sequenceNumber = 1, data = ''hi'', senderSig = [], witnessSig = [] \<rparr>"

theorem message_store_find_after_add_witness:
  "\<exists>ms'. AddMessage demo_names demo_message \<lparr> messages = Some [] \<rparr> = Some (None, ms') \<and>
    FindMessage demo_names 7 1 ms' = Inr demo_message"
proof -
  obtain ms' where run: "AddMessage demo_names demo_message \<lparr> messages = Some [] \<rparr> = Some (None, ms')"
    by (simp add: AddMessage_fresh)
  have "FindMessage demo_names (connectionID demo_message) (sequenceNumber demo_message) \<lparr> messages = Some [] \<rparr> =
      Inl (NoMessage (genKey demo_names (connectionID demo_message) (sequenceNumber demo_message)))"
    by (simp add: FindMessage_def entries_def Let_def)
  with message_store_find_after_add [OF demo_uuid_ok _ run]
  have "FindMessage demo_names (connectionID demo_message) (sequenceNumber demo_message) ms' = Inr demo_message" by simp
  with run show ?thesis by (simp add: demo_message_def)
qed

text \<open>
  The store that \<open>NewMessageStore\<close> returns cannot be used: its map is nil, so adding any
  message panics.\<close>

theorem new_message_store_panics:
  "AddMessage n m NewMessageStore = None"
  by (simp add: AddMessage_nil NewMessageStore_def)

text \<open>
  Signing and verifying agree for any key pair that does: a message signed by the
  sender verifies against the sender's public key, and still does after the witness has signed it,
  when the witness signature verifies too; signing changes nothing but the signature.\<close>

theorem sign_then_verify:
  assumes "\<And>text sig. sk text = (sig, None) \<Longrightarrow> pk text sig = (True, None)"
    and "\<And>text sig. sk' text = (sig, None) \<Longrightarrow> pk' text sig = (True, None)"
    and "SenderSign n sk m = (m1, None)" and "WitnessSign n sk' m1 = (m2, None)"
  shows "VerifySender n pk m1 = (True, None) \<and> VerifySender n pk m2 = (True, None) \<and>
    VerifyWitness n pk' m2 = (True, None) \<and>
    connectionID m2 = connectionID m \<and> sequenceNumber m2 = sequenceNumber m \<and> data m2 = data m"
proof -
  obtain sig e where s: "sk (senderSegs n m) = (sig, e)" by (metis surj_pair)
  with assms(3) have e: "e = None" and m1: "m1 = m\<lparr>senderSig := sig\<rparr>"
    by (auto simp: SenderSign_def intro: inMemoryMessage.equality)
  obtain sig' e' where s': "sk' (witnessSegs n m1) = (sig', e')" by (metis surj_pair)
  with assms(4) have e': "e' = None" and m2: "m2 = m1\<lparr>witnessSig := sig'\<rparr>"
    by (auto simp: WitnessSign_def intro: inMemoryMessage.equality)
  note m = m1 m2
  have "senderSegs n m1 = senderSegs n m" "senderSegs n m2 = senderSegs n m" "witnessSegs n m2 = witnessSegs n m1"
    using m by (simp_all add: senderSegs_def witnessSegs_def)
  with assms(1) [OF s [unfolded e]] assms(2) [OF s' [unfolded e']] m show ?thesis
    by (simp add: VerifySender_def VerifyWitness_def)
qed

theorem sign_then_verify_witness:
  "VerifyWitness demo_names (\<lambda>text sig. (sig = CHR ''w'' # text, None))
     (fst (WitnessSign demo_names (\<lambda>text. (CHR ''w'' # text, None))
       (fst (SenderSign demo_names (\<lambda>text. (CHR ''s'' # text, None)) demo_message)))) = (True, None)"
proof -
  let ?m1 = "fst (SenderSign demo_names (\<lambda>text. (CHR ''s'' # text, None)) demo_message)"
  have s: "SenderSign demo_names (\<lambda>text. (CHR ''s'' # text, None)) demo_message = (?m1, None)"
    "WitnessSign demo_names (\<lambda>text. (CHR ''w'' # text, None)) ?m1 =
      (fst (WitnessSign demo_names (\<lambda>text. (CHR ''w'' # text, None)) ?m1), None)"
    by (simp_all add: SenderSign_def WitnessSign_def)
  show ?thesis
    using sign_then_verify [OF _ _ s, of "\<lambda>text sig. (sig = CHR ''s'' # text, None)"
        "\<lambda>text sig. (sig = CHR ''w'' # text, None)"] by simp
qed

text \<open>C35:
  What is signed determines what it says: two messages with the same sender text agree
  in connection, sequence number and data, two with the same witness text also in the sender's
  signature, and a sender text is never a witness text, so that a signature of one kind cannot
  be passed off as the other.\<close>

theorem signed_texts_determine_messages:
  fixes n :: "('x) wire_scheme"
  assumes "uuid_ok n"
  shows "(senderSegs n m = senderSegs n m' \<longleftrightarrow>
      connectionID m = connectionID m' \<and> sequenceNumber m = sequenceNumber m' \<and> data m = data m') \<and>
    (witnessSegs n m = witnessSegs n m' \<longleftrightarrow>
      connectionID m = connectionID m' \<and> sequenceNumber m = sequenceNumber m' \<and> data m = data m' \<and>
      senderSig m = senderSig m') \<and>
    senderSegs n m \<noteq> witnessSegs n m'"
proof -
  note parts = senderSegs_parts [OF assms] witnessSegs_parts [OF assms] uuidString_inject [OF assms]
    EncodeToString_inject Itoa_inject
  have "senderSegs n m = senderSegs n m' \<Longrightarrow>
      connectionID m = connectionID m' \<and> sequenceNumber m = sequenceNumber m' \<and> data m = data m'"
    using parts by (metis list.inject)
  moreover have "witnessSegs n m = witnessSegs n m' \<Longrightarrow>
      connectionID m = connectionID m' \<and> sequenceNumber m = sequenceNumber m' \<and> data m = data m' \<and>
      senderSig m = senderSig m'"
    using parts by (metis list.inject)
  moreover have "senderSegs n m \<noteq> witnessSegs n m'"
    using parts(1) [of m] parts(2) [of m'] by auto
  moreover have "connectionID m = connectionID m' \<Longrightarrow> sequenceNumber m = sequenceNumber m' \<Longrightarrow>
      data m = data m' \<Longrightarrow> senderSegs n m = senderSegs n m' \<and>
      (senderSig m = senderSig m' \<longrightarrow> witnessSegs n m = witnessSegs n m')"
    by (simp add: senderSegs_def witnessSegs_def)
  ultimately show ?thesis by blast
qed

theorem signed_texts_determine_messages_witness:
  "senderSegs demo_names demo_message \<noteq> witnessSegs demo_names demo_message"
  using signed_texts_determine_messages [OF demo_uuid_ok] by blast

end
