(* ===== verification/Wire_Props.thy ===== *)
theory Wire_Props
  imports Example
begin

section \<open>Messages on the wire\<close>

text \<open>
  That what one node writes the other reads: for all message types, one after the other on
  a stream, and the cases where reading goes wrong.
\<close>

text \<open>C28:
  Every message survives the wire: whatever message of the eight types is serialized,
  deserializing the bytes into a variable of its type gives it back. This asks that peer identifiers print to
  something that decodes to them, that a witness selector is set, and that no list is the
  one-element list of the empty string.\<close>

theorem message_roundtrip:
  assumes "ok_payload w v" and "same_type v out"
  shows "\<exists>s. serialize w v = Inr s \<and> deserialize w s out = Some (Inr v)"
proof -
  obtain s where s: "serialize w v = Inr s" using assms(1) by (cases v) simp_all
  with deserialize_serialize [OF assms s] show ?thesis by blast
qed

theorem message_roundtrip_witness:
  "\<exists>s. serialize demo_names (PConnectRequest demo_request) = Inr s \<and>
    deserialize demo_names s (PConnectRequest demo_request) = Some (Inr (PConnectRequest demo_request))"
  by (rule message_roundtrip)
    (simp_all add: same_type_def ok_ConnectRequest_def demo_uuid_ok demo_id_ok ok_Options_def demo_request_def demo_ids)

text \<open>
  Messages are self-delimiting: reading a stream up to the first semicolon yields exactly
  the message that was written first, and leaves exactly what follows it.\<close>

theorem message_framing:
  assumes "ok_payload w v" and "serialize w v = Inr s"
  shows "takeWhile (\<lambda>c. c \<noteq> CHR '';'') (s @ rest) @ '';'' = s \<and> tl (dropWhile (\<lambda>c. c \<noteq> CHR '';'') (s @ rest)) = rest"
proof -
  obtain body where "s = body @ '';''" "CHR '';'' \<notin> set body"
    using serialize_framed [OF assms] by (rule framedE)
  moreover from this(2) have "\<forall>c \<in> set body. c \<noteq> CHR '';''" by blast
  ultimately show ?thesis by (simp add: takeWhile_append2 dropWhile_append2)
qed

theorem message_framing_witness:
  "takeWhile (\<lambda>c. c \<noteq> CHR '';'') (serializePeersRequest \<lparr> Num = 3 \<rparr> @ ''4;'') @ '';'' =
    serializePeersRequest \<lparr> Num = 3 \<rparr>"
  using message_framing [of demo_names "PPeersRequest \<lparr> Num = 3 \<rparr>"] by simp

text \<open>
  A list of strings survives the wire unless it is the one-element list of the empty
  string, which reads back as the empty list.\<close>

theorem slice_roundtrip_exactly:
  "deserializeSlice (serializeSlice xs) = Inr (if xs = [[]] then [] else xs)"
  by (rule deserializeSlice_serialize)

text \<open>
  Because of that, a response that reports an error with an empty text arrives without
  an error: a connect response that was accepted, with the error list of one empty string, makes
  the requester believe that the connection was accepted.\<close>

theorem empty_error_is_lost:
  fixes w :: "('x) wire_scheme"
  assumes "uuid_ok w" and "cr_Errors resp = [[]]" and "cr_RejectReasons resp = []" and "cr_Accepted resp"
    and "cr_ConnectionID resp = ID c"
    and "ExchangeConnect (transport env) dest o2 \<lparr> cq_ConnectionID = ID c, cq_Sender = Sender c,
           cq_Receiver = Receiver c, cq_Options = o1 \<rparr> v =
         map_option (\<lambda>r. (r, v')) (deserializeConnectResponse w (serializeConnectResponse w resp))"
  shows "requestConnection env dest c o1 o2 v = Some (None, v')"
proof -
  have "serializeConnectResponse w resp = serializeConnectResponse w (resp\<lparr>cr_Errors := []\<rparr>)"
    using assms(2) by (simp add: serializeConnectResponse_def serializeSlice_def)
  also have "deserializeConnectResponse w \<dots> = Some (Inr (resp\<lparr>cr_Errors := []\<rparr>))"
    using assms(1,3) by (intro cr.dec_enc) (simp add: ok_ConnectResponse_def)
  finally show ?thesis using assms(4-6) by (simp add: requestConnection_def)
qed

text \<open>Bob's answer, as it comes off the wire.\<close>

definition wire_env :: "uuid nodeEnv" where
  "wire_env = (demo_env alice)\<lparr>transport := demo_transport\<lparr>ExchangeConnect := (\<lambda>p o1 r w.
     map_option (\<lambda>r. (r, w)) (deserializeConnectResponse demo_names (serializeConnectResponse demo_names
       \<lparr> cr_ConnectionID = 7, cr_Errors = [[]], cr_Accepted = True, cr_RejectReasons = [] \<rparr>)))\<rparr>\<rparr>"

theorem empty_error_is_lost_witness:
  "requestConnection wire_env (demo_peer bob) (demo_conn RequestingReceiver None) sender_selects noOptions 7 = Some (None, 7)"
  by (rule empty_error_is_lost [OF demo_uuid_ok, of "\<lparr> cr_ConnectionID = 7, cr_Errors = [[]], cr_Accepted = True, cr_RejectReasons = [] \<rparr>"])
    (simp_all add: wire_env_def demo_conn_def)

lemma deserializePeer_panic_iff: "deserializePeer w s = None \<longleftrightarrow> s = []"
  by (auto simp: deserializePeer_def bind_eq_None_conv)

lemma deserialize_peers_panic_iff:
  "deserialize_peers w xs = None \<longleftrightarrow> (\<exists>ys zs ps. xs = ys @ [] # zs \<and> deserialize_peers w ys = Some (Inr ps))"
proof (induction xs)
  case Nil
  then show ?case by simp
next
  case (Cons x xs)
  show ?case
  proof (cases "deserializePeer w x")
    case None
    then have "x = []" by (simp add: deserializePeer_panic_iff)
    then have "x # xs = [] @ [] # xs" "deserialize_peers w [] = Some (Inr [])" by simp_all
    moreover have "deserialize_peers w (x # xs) = None" using None by simp
    ultimately show ?thesis by blast
  next
    case (Some r)
    then have x: "x \<noteq> []" using deserializePeer_panic_iff [of w x] by simp
    show ?thesis
    proof (cases r)
      case (Inl e)
      with Some x show ?thesis by (auto simp: Cons_eq_append_conv)
    next
      case (Inr p)
      have "deserialize_peers w (x # ys) = Some (Inr qs) \<longleftrightarrow>
          (\<exists>ps. deserialize_peers w ys = Some (Inr ps) \<and> qs = p # ps)" for ys qs
        using Some Inr by (auto simp: bind_eq_Some_conv tryE_eq_Inr_iff)
      moreover have "x # xs = ys @ [] # zs \<longleftrightarrow> (\<exists>ys'. ys = x # ys' \<and> xs = ys' @ [] # zs)" for ys zs
        using x by (auto simp: Cons_eq_append_conv)
      ultimately have "(\<exists>ys zs ps. x # xs = ys @ [] # zs \<and> deserialize_peers w ys = Some (Inr ps)) \<longleftrightarrow>
          (\<exists>ys zs ps. xs = ys @ [] # zs \<and> deserialize_peers w ys = Some (Inr ps))" by metis
      moreover have "deserialize_peers w (x # xs) = None \<longleftrightarrow> deserialize_peers w xs = None"
        using Some Inr by (simp add: bind_eq_None_conv)
      ultimately show ?thesis using Cons.IH by simp
    qed
  qed
qed

text \<open>C37:
  Reading a message panics exactly on empty input, for every type but the list of peers;
  that one also panics when its list holds an empty element, after peers that could be read. On any other
  input reading returns a message or an error.\<close>

theorem deserialize_panics_iff:
  "deserialize w inp out = None \<longleftrightarrow> (case out of
      POther t \<Rightarrow> False
    | PPeersResponse r \<Rightarrow> inp = [] \<or> (\<exists>parts ys zs ps. getParts inp 1 = Some (Inr parts) \<and>
        deserializeSlice (parts ! 0) = Inr (ys @ [] # zs) \<and> deserialize_peers w ys = Some (Inr ps))
    | _ \<Rightarrow> inp = [])"
proof (cases out)
  case (PPeersResponse r)
  show ?thesis
  proof (cases "getParts inp 1")
    case None
    then have "inp = []" using getParts_panic_iff by blast
    with None PPeersResponse show ?thesis by (simp add: filled_def deserializePeersResponse_def getParts_def)
  next
    case (Some g)
    then have "inp \<noteq> []" using getParts_panic_iff [of inp 1] by auto
    with Some PPeersResponse show ?thesis
      by (cases g) (auto simp: filled_def deserializePeersResponse_def bind_eq_None_conv
          deserialize_peers_panic_iff split: sum.splits)
  qed
qed (auto simp: filled_def bind_eq_None_conv deserializeConnectRequest_def deserializeConnectResponse_def
    deserializeWitnessRequest_def deserializeWitnessResponse_def deserializeWitnessNotification_def
    deserializeCloseRequest_def deserializePeersRequest_def)

subsection \<open>Base64\<close>

text \<open>
  The base64 encoding of the wire and of the signed texts is unpadded and exact: any
  bytes decode back from it, its length is four thirds of theirs, rounded up, and it contains none
  of the separators.\<close>

theorem base64_roundtrip:
  "b64dec (b64enc s) = Inr s \<and> length (b64enc s) = (4 * length s + 2) div 3 \<and>
   set (b64enc s) \<inter> {CHR ''.'', CHR '','', CHR '';'', CHR '':''} = {}"
proof -
  have "(8 * length s + 5) div 6 = (4 * length s + 2) div 3" by presburger
  moreover have "CHR '':'' \<notin> set (b64enc s)" using b64enc_alphabet [of s] separators_not_in_alphabet by blast
  ultimately show ?thesis by (simp add: b64enc_def [of s] length_EncodeToString) (simp add: b64enc_def [of s, symmetric])
qed

end
