(* ===== verification/Libp2p.thy ===== *)
theory Libp2p
  imports Handlers Wire_Laws
begin

section \<open>The libp2p transport and peer store: starterimpl/libp2p/libp2p.go\<close>

text \<open>
  The transport opens a libp2p stream per message, writes the message on it and, for an
  exchange, reads the response; the same file registers the node's handlers as stream
  handlers and adapts the host's peer store. The libp2p host and its streams are a library:
  the record \<open>host\<close>, operations on the world \<open>'w\<close>. Durations are in nanoseconds from now;
  the errors of setting deadlines and of the calls marked so are ignored by the code.
\<close>

type_synonym stream = nat

record 'w host =
  hostID :: peer_id
  hostAddrs :: "'w \<Rightarrow> Address list"
  hostAddAddr :: "peer_id \<Rightarrow> Address \<Rightarrow> 'w \<Rightarrow> 'w"
  hostPeerAddrs :: "peer_id \<Rightarrow> 'w \<Rightarrow> Address list"
  hostPeers :: "'w \<Rightarrow> peer_id list"
  NewMultiaddr :: "string \<Rightarrow> error + Address"
  NewStream :: "int \<Rightarrow> peer_id \<Rightarrow> string \<Rightarrow> 'w \<Rightarrow> (stream option \<times> error option) \<times> 'w"
  SetDeadline :: "stream \<Rightarrow> int \<Rightarrow> 'w \<Rightarrow> 'w"
  SetReadDeadline :: "stream \<Rightarrow> int \<Rightarrow> 'w \<Rightarrow> 'w"
  SetWriteDeadline :: "stream \<Rightarrow> int \<Rightarrow> 'w \<Rightarrow> 'w"
  ReadBytes :: "stream \<Rightarrow> char \<Rightarrow> 'w \<Rightarrow> (string \<times> error option) \<times> 'w"
  ReadAll :: "stream \<Rightarrow> 'w \<Rightarrow> (string \<times> error option) \<times> 'w"
  StreamWrite :: "stream \<Rightarrow> string \<Rightarrow> 'w \<Rightarrow> (nat \<times> error option) \<times> 'w"
  StreamClose :: "stream \<Rightarrow> 'w \<Rightarrow> error option \<times> 'w"
  StreamReset :: "stream \<Rightarrow> 'w \<Rightarrow> error option \<times> 'w"
  RemotePeer :: "stream \<Rightarrow> peer_id"

record 'w libp2pTransport =
  trptHost :: "'w host"
  trptWire :: wire

subsection \<open>Sending\<close>

definition or_ten_seconds :: "int option \<Rightarrow> int" where
  "or_ten_seconds t = (case t of None \<Rightarrow> 10 * 10 ^ 9 | Some d \<Rightarrow> d)"

text \<open>The printed form of a nil identifier is a method call on nil.\<close>

definition openStream :: "'w libp2pTransport \<Rightarrow> Peer \<Rightarrow> string \<Rightarrow> transportOptions \<Rightarrow> 'w \<Rightarrow>
    ((stream option \<times> error option) \<times> 'w) option" where
  "openStream t p protocolId options w = (case peer_ID p of
       None \<Rightarrow> panic
     | Some pid \<Rightarrow> (case idDecode (trptWire t) (idString (trptWire t) pid) of
           Inl err \<Rightarrow> returns ((None, Some err), w)
         | Inr lid \<Rightarrow> returns (NewStream (trptHost t) (or_ten_seconds (Timeout options)) lid protocolId w)))"

fun protocol_ID :: "payload \<Rightarrow> error + string" where
  "protocol_ID (PConnectRequest _) = Inr ''/connect''"
| "protocol_ID (PWitnessRequest _) = Inr ''/witness''"
| "protocol_ID (PCloseRequest _) = Inr ''/close''"
| "protocol_ID (PWitnessNotification _) = Inr ''/witness-notification''"
| "protocol_ID (PPeersRequest _) = Inr ''/peers''"
| "protocol_ID v = Inl (UnsupportedData (type_name v))"

text \<open>A nil stream with no error would be dereferenced.\<close>

definition sendInternal :: "'w libp2pTransport \<Rightarrow> Peer \<Rightarrow> transportOptions \<Rightarrow> payload \<Rightarrow> 'w \<Rightarrow>
    ((stream option \<times> error option) \<times> 'w) option" where
  "sendInternal t p options v w = (case protocol_ID v of
       Inl err \<Rightarrow> returns ((None, Some err), w)
     | Inr protocolId \<Rightarrow> do {
         ((s, err), w) \<leftarrow> openStream t p protocolId options w;
         (case err of
            Some e \<Rightarrow> returns ((s, Some e), w)
          | None \<Rightarrow> (case s of
              None \<Rightarrow> panic
            | Some st \<Rightarrow>
                let w = SetWriteDeadline (trptHost t) st (or_ten_seconds (WriteTimeout options)) w in
                (case serialize (trptWire t) v of
                   Inl e \<Rightarrow> returns ((Some st, Some (EncodeData e)), w)
                 | Inr enc \<Rightarrow>
                     (case StreamWrite (trptHost t) st enc w of ((n, err), w) \<Rightarrow>
                        returns ((Some st, err), w))))) })"

definition reset_if_open :: "'w host \<Rightarrow> stream option \<Rightarrow> 'w \<Rightarrow> 'w" where
  "reset_if_open h s w = (case s of None \<Rightarrow> w | Some st \<Rightarrow> snd (StreamReset h st w))"

definition Send :: "'w libp2pTransport \<Rightarrow> Peer \<Rightarrow> transportOptions \<Rightarrow> payload \<Rightarrow> 'w \<Rightarrow> (error option \<times> 'w) option" where
  "Send t p options v w = do {
     ((s, err), w) \<leftarrow> sendInternal t p options v w;
     (case err of
        Some e \<Rightarrow> returns (Some e, reset_if_open (trptHost t) s w)
      | None \<Rightarrow> (case s of
          None \<Rightarrow> panic
        | Some st \<Rightarrow> returns (None, snd (StreamClose (trptHost t) st w)))) }"

text \<open>
  \<open>Exchange\<close> also returns the number of bytes received, which no caller uses; the response
  variable \<open>out\<close> is given by its type, and the result is its new value.
\<close>

definition Exchange :: "'w libp2pTransport \<Rightarrow> Peer \<Rightarrow> transportOptions \<Rightarrow> payload \<Rightarrow> payload \<Rightarrow> 'w \<Rightarrow>
    ((nat \<times> (error + payload)) \<times> 'w) option" where
  "Exchange t p options v out w = do {
     ((s, err), w) \<leftarrow> sendInternal t p options v w;
     (case err of
        Some e \<Rightarrow> returns ((0, Inl e), reset_if_open (trptHost t) s w)
      | None \<Rightarrow> (case s of
          None \<Rightarrow> panic
        | Some st \<Rightarrow>
            let w = SetReadDeadline (trptHost t) st (or_ten_seconds (ReadTimeout options)) w in
            (case ReadAll (trptHost t) st w of ((recv, err), w) \<Rightarrow>
              (case err of
                 Some e \<Rightarrow> returns ((length recv, Inl e), snd (StreamReset (trptHost t) st w))
               | None \<Rightarrow>
                   let w = snd (StreamClose (trptHost t) st w) in do {
                     r \<leftarrow> deserialize (trptWire t) recv out;
                     (case r of
                        Inl e \<Rightarrow> returns ((length recv, Inl (DecodeResponse e)), w)
                      | Inr resp \<Rightarrow> returns ((length recv, Inr resp), w)) })))) }"

text \<open>The transport the node is given: the two methods at the types the node uses.\<close>

definition zero_ConnectResponse :: ConnectResponse where
  "zero_ConnectResponse = \<lparr> cr_ConnectionID = 0, cr_Errors = [], cr_Accepted = False, cr_RejectReasons = [] \<rparr>"

definition zero_WitnessResponse :: WitnessResponse where
  "zero_WitnessResponse = \<lparr> wr_ConnectionID = 0, wr_Errors = [], wr_Accepted = False, wr_RejectReasons = [] \<rparr>"

text \<open>
  The response a caller finds in its variable. \<open>deserialize\<close> keeps the type of the variable,
  so the last case of each function below does not arise.
\<close>

definition got :: "(payload \<Rightarrow> 'a option) \<Rightarrow> ((nat \<times> (error + payload)) \<times> 'w) option \<Rightarrow> ((error + 'a) \<times> 'w) option" where
  "got sel r = Option.bind r (\<lambda>((n, r), w). (case r of
       Inl e \<Rightarrow> returns (Inl e, w)
     | Inr v \<Rightarrow> (case sel v of None \<Rightarrow> panic | Some a \<Rightarrow> returns (Inr a, w))))"

definition as_ConnectResponse :: "payload \<Rightarrow> ConnectResponse option" where
  "as_ConnectResponse v = (case v of PConnectResponse r \<Rightarrow> Some r | _ \<Rightarrow> None)"

definition as_WitnessResponse :: "payload \<Rightarrow> WitnessResponse option" where
  "as_WitnessResponse v = (case v of PWitnessResponse r \<Rightarrow> Some r | _ \<Rightarrow> None)"

definition as_PeersResponse :: "payload \<Rightarrow> PeersResponse option" where
  "as_PeersResponse v = (case v of PPeersResponse r \<Rightarrow> Some r | _ \<Rightarrow> None)"

definition NewTransport :: "'w libp2pTransport \<Rightarrow> 'w Transport" where
  "NewTransport t = \<lparr>
     SendNotification = (\<lambda>p opts n w. Send t p opts (PWitnessNotification n) w),
     SendClose = (\<lambda>p opts r w. Send t p opts (PCloseRequest r) w),
     ExchangeConnect = (\<lambda>p opts r w. got as_ConnectResponse
        (Exchange t p opts (PConnectRequest r) (PConnectResponse zero_ConnectResponse) w)),
     ExchangeWitness = (\<lambda>p opts r w. got as_WitnessResponse
        (Exchange t p opts (PWitnessRequest r) (PWitnessResponse zero_WitnessResponse) w)),
     ExchangePeers = (\<lambda>p opts r w. got as_PeersResponse
        (Exchange t p opts (PPeersRequest r) (PPeersResponse \<lparr> Peers = [] \<rparr>) w)) \<rparr>"

subsection \<open>Receiving\<close>

text \<open>
  The state a stream handler works on: the node with its pending tasks. Host operations
  change the world inside it.
\<close>

type_synonym 'w served = "'w nodeState \<times> task list"

definition world :: "'w served \<Rightarrow> 'w" where
  "world x = snd (snd (fst x))"

definition with_world :: "'w \<Rightarrow> 'w served \<Rightarrow> 'w served" where
  "with_world w x = ((fst (fst x), fst (snd (fst x)), w), snd x)"

text \<open>
  A handler of the generic interface: peer, request and state to response and error. A nil
  response pointer is \<open>None\<close>.
\<close>

type_synonym 'w handlerFunc =
  "peer_id option \<Rightarrow> payload \<Rightarrow> 'w served \<Rightarrow> ((payload option \<times> error option) \<times> 'w served) option"

definition write_response :: "'w libp2pTransport \<Rightarrow> transportOptions \<Rightarrow> stream \<Rightarrow> payload option \<Rightarrow> 'w served \<Rightarrow>
    (error option \<times> 'w served) option" where
  "write_response t options s resp x = (case resp of
       None \<Rightarrow> panic
     | Some v \<Rightarrow> (case serialize (trptWire t) v of
           Inl e \<Rightarrow> returns (Some e, x)
         | Inr enc \<Rightarrow>
             let w = SetWriteDeadline (trptHost t) s (or_ten_seconds (WriteTimeout options)) (world x) in
             (case StreamWrite (trptHost t) s enc w of ((written, err), w) \<Rightarrow>
                returns (if err \<noteq> None then err
                  else if written \<noteq> length enc then Some (ShortWrite (length enc) written) else None,
                  with_world w x))))"

definition readWriteWrapper :: "'w libp2pTransport \<Rightarrow> payload \<Rightarrow> transportOptions \<Rightarrow> 'w handlerFunc \<Rightarrow> bool \<Rightarrow>
    stream \<Rightarrow> 'w served \<Rightarrow> (error option \<times> 'w served) option" where
  "readWriteWrapper t req options handler hasResp s x =
     (let h = trptHost t;
          w = (case Timeout options of None \<Rightarrow> world x | Some d \<Rightarrow> SetDeadline h s d (world x));
          w = SetReadDeadline h s (or_ten_seconds (ReadTimeout options)) w
      in (case ReadBytes h s (CHR '';'') w of ((raw, err), w) \<Rightarrow>
       (case err of
          Some e \<Rightarrow> returns (Some e, with_world w x)
        | None \<Rightarrow> do {
            r \<leftarrow> deserialize (trptWire t) raw req;
            (case r of
               Inl e \<Rightarrow> returns (Some e, with_world w x)
             | Inr req \<Rightarrow> do {
                 ((resp, err), x) \<leftarrow> handler (Some (RemotePeer h s)) req (with_world w x);
                 (case err of
                    Some e \<Rightarrow> returns (Some e, x)
                  | None \<Rightarrow> if \<not> hasResp then returns (None, x) else write_response t options s resp x) }) })))"

text \<open>The errors of \<open>Reset\<close> and \<open>Close\<close> are only logged.\<close>

definition streamCleanupWrapper :: "'w host \<Rightarrow> (stream \<Rightarrow> 'w served \<Rightarrow> (error option \<times> 'w served) option) \<Rightarrow>
    stream \<Rightarrow> 'w served \<Rightarrow> 'w served option" where
  "streamCleanupWrapper h handler s x = do {
     (err, x) \<leftarrow> handler s x;
     returns (with_world (snd (if err \<noteq> None then StreamReset h s (world x) else StreamClose h s (world x))) x) }"

subsection \<open>Registering the handlers of a node\<close>

text \<open>
  The adapters of \<open>handlers.go\<close> as handlers of the generic interface. A request of another
  type does not arise: the wrapper reads the type it was registered with. A witness task that
  a connect request starts joins the pending ones. \<open>handlerAdapter\<close> gives one-way handlers
  a nil response.
\<close>

definition connect_adapter :: "'w nodeEnv \<Rightarrow> 'w Handlers \<Rightarrow> 'w handlerFunc" where
  "connect_adapter env h p v x = (case v of
       PConnectRequest r \<Rightarrow> do {
         ((resp, err), t, st) \<leftarrow> handle_connect env h p r (fst x);
         returns ((Some (PConnectResponse resp), err), (st, snd x @ (case t of None \<Rightarrow> [] | Some t \<Rightarrow> [t]))) }
     | _ \<Rightarrow> panic)"

definition witness_adapter :: "'w nodeEnv \<Rightarrow> 'w Handlers \<Rightarrow> 'w handlerFunc" where
  "witness_adapter env h p v x = (case v of
       PWitnessRequest r \<Rightarrow> do {
         ((resp, err), st) \<leftarrow> handle_witness env h p r (fst x);
         returns ((Some (PWitnessResponse resp), err), (st, snd x)) }
     | _ \<Rightarrow> panic)"

definition peers_adapter :: "'w nodeEnv \<Rightarrow> 'w Handlers \<Rightarrow> (nat \<Rightarrow> nat) \<Rightarrow> 'w handlerFunc" where
  "peers_adapter env h rnd p v x = (case v of
       PPeersRequest r \<Rightarrow> do {
         ((resp, err), w) \<leftarrow> handle_peer_request env h rnd p r (world x);
         returns ((map_option PPeersResponse resp, err), with_world w x) }
     | _ \<Rightarrow> panic)"

definition notification_adapter :: "'w nodeEnv \<Rightarrow> 'w Handlers \<Rightarrow> 'w handlerFunc" where
  "notification_adapter env h p v x = (case v of
       PWitnessNotification n \<Rightarrow> do {
         (err, st) \<leftarrow> handle_notification env h p n (fst x);
         returns ((None, err), (st, snd x)) }
     | _ \<Rightarrow> panic)"

definition close_adapter :: "'w Handlers \<Rightarrow> 'w handlerFunc" where
  "close_adapter h p v x = (case v of
       PCloseRequest r \<Rightarrow> do {
         (err, st) \<leftarrow> handle_close h p r (fst x);
         returns ((None, err), (st, snd x)) }
     | _ \<Rightarrow> panic)"

text \<open>The requests of zero values that the wrapper gives \<open>deserialize\<close>.\<close>

definition zero_ConnectRequest :: ConnectRequest where
  "zero_ConnectRequest = \<lparr> cq_ConnectionID = 0, cq_Sender = None, cq_Receiver = None, cq_Options = \<lparr> WitnessSelector = None \<rparr> \<rparr>"

definition zero_WitnessRequest :: WitnessRequest where
  "zero_WitnessRequest = \<lparr> wq_ConnectionID = 0, wq_Sender = None, wq_Receiver = None, wq_Options = \<lparr> WitnessSelector = None \<rparr> \<rparr>"

type_synonym 'w registration = "transportOptions \<times> 'w handlerFunc"

text \<open>The stream handlers of the host, by protocol.\<close>

definition RegisterHandlers :: "'w libp2pTransport \<Rightarrow> 'w registration \<Rightarrow> 'w registration \<Rightarrow> 'w registration \<Rightarrow>
    'w registration \<Rightarrow> 'w registration \<Rightarrow> string \<rightharpoonup> (stream \<Rightarrow> 'w served \<Rightarrow> 'w served option)" where
  "RegisterHandlers t connectHandler witnessHandler peerRequestHandler witnessNotificationHandler closeHandler =
     (let wrap = (\<lambda>req (options, handler) hasResp. streamCleanupWrapper (trptHost t) (readWriteWrapper t req options handler hasResp))
      in [''/connect'' \<mapsto> wrap (PConnectRequest zero_ConnectRequest) connectHandler True,
          ''/witness'' \<mapsto> wrap (PWitnessRequest zero_WitnessRequest) witnessHandler True,
          ''/peers'' \<mapsto> wrap (PPeersRequest \<lparr> Num = 0 \<rparr>) peerRequestHandler True,
          ''/witness-notification'' \<mapsto>
             wrap (PWitnessNotification \<lparr> wn_ConnectionID = 0, wn_Witness = None \<rparr>) witnessNotificationHandler False,
          ''/close'' \<mapsto> wrap (PCloseRequest \<lparr> cl_ConnectionID = 0 \<rparr>) closeHandler False])"

text \<open>\<open>NewNode\<close> registers the adapters, each with the options of the user's handler; this never fails.\<close>

definition NewNode :: "'w libp2pTransport \<Rightarrow> 'w nodeEnv \<Rightarrow> 'w Handlers \<Rightarrow> (nat \<Rightarrow> nat) \<Rightarrow>
    string \<rightharpoonup> (stream \<Rightarrow> 'w served \<Rightarrow> 'w served option)" where
  "NewNode t env h rnd = RegisterHandlers t
     (connectOptions h, connect_adapter env h) (witnessOptions h, witness_adapter env h)
     (peerRequestOptions h, peers_adapter env h rnd)
     (witnessNotificationOptions h, notification_adapter env h) (closeOptions h, close_adapter h)"

subsection \<open>The peer store\<close>

definition ParsePeerID :: "wire \<Rightarrow> string \<Rightarrow> error + peer_id" where
  "ParsePeerID wr s = idDecode wr s"

definition NewPeer :: "peer_id option \<Rightarrow> Address list \<Rightarrow> Peer" where
  "NewPeer pid addresses = \<lparr> peer_ID = pid, Addresses = addresses \<rparr>"

definition libp2p_AddAddr :: "'w host \<Rightarrow> wire \<Rightarrow> peer_id option \<Rightarrow> Address \<Rightarrow> 'w \<Rightarrow> (error option \<times> 'w) option" where
  "libp2p_AddAddr h wr pid addr w = (case NewMultiaddr h addr of
       Inl err \<Rightarrow> returns (Some err, w)
     | Inr maddr \<Rightarrow> (case pid of
         None \<Rightarrow> panic
       | Some i \<Rightarrow> (case idDecode wr (idString wr i) of
             Inl err \<Rightarrow> returns (Some err, w)
           | Inr lid \<Rightarrow> returns (None, hostAddAddr h lid maddr w))))"

definition libp2p_Find :: "'w host \<Rightarrow> wire \<Rightarrow> peer_id option \<Rightarrow> 'w \<Rightarrow> (error + Peer) option" where
  "libp2p_Find h wr pid w =
     (if pid = Some (hostID h) then returns (Inr \<lparr> peer_ID = pid, Addresses = hostAddrs h w \<rparr>)
      else (case pid of
          None \<Rightarrow> panic
        | Some i \<Rightarrow> (case idDecode wr (idString wr i) of
              Inl err \<Rightarrow> returns (Inl err)
            | Inr lid \<Rightarrow> returns (Inr \<lparr> peer_ID = pid, Addresses = hostPeerAddrs h lid w \<rparr>))))"

fun find_peers :: "'w host \<Rightarrow> wire \<Rightarrow> peer_id list \<Rightarrow> Peer list \<Rightarrow> 'w \<Rightarrow> (error + Peer list) option" where
  "find_peers h wr [] peers w = returns (Inr peers)"
| "find_peers h wr (i # ids) peers w = do {
     r \<leftarrow> libp2p_Find h wr (Some i) w;
     (case r of Inl err \<Rightarrow> returns (Inl err) | Inr p \<Rightarrow> find_peers h wr ids (peers @ [p]) w) }"

definition NewPeerStore :: "'w host \<Rightarrow> wire \<Rightarrow> 'w PeerStore" where
  "NewPeerStore h wr = \<lparr>
     AddAddr = libp2p_AddAddr h wr,
     Find = libp2p_Find h wr,
     AllPeers = (\<lambda>w. find_peers h wr (hostPeers h w) [] w),
     SelfPeer = libp2p_Find h wr (Some (hostID h)) \<rparr>"

text \<open>It keeps the contract of a peer store, for the node whose identifier is the host's.\<close>

interpretation lp: peer_store "libp2p_Find h wr" "libp2p_Find h wr (Some (hostID h))" "hostID h"
  for h :: "'w host" and wr :: wire
  by unfold_locales (auto simp: libp2p_Find_def split: option.splits sum.splits if_splits)

end
