(* ===== verification/Libp2p_Props.thy ===== *)
theory Libp2p_Props
  imports Libp2p Example
begin

section \<open>What the libp2p transport and peer store guarantee\<close>

subsection \<open>Streams are given back\<close>

text \<open>
  \<open>accounts h live\<close>: \<open>live\<close> reads the open streams off the world. Opening adds the stream it
  returns, closing or resetting takes it away, and nothing else changes them.
\<close>

definition accounts :: "'w host \<Rightarrow> ('w \<Rightarrow> stream set) \<Rightarrow> bool" where
  "accounts h live \<longleftrightarrow>
     (\<forall>d i pr w s e w'. NewStream h d i pr w = ((s, e), w') \<longrightarrow>
        live w' = live w \<union> set_option s \<and> live w \<inter> set_option s = {}) \<and>
     (\<forall>s d w. live (SetReadDeadline h s d w) = live w \<and> live (SetWriteDeadline h s d w) = live w) \<and>
     (\<forall>s w. live (snd (ReadAll h s w)) = live w) \<and>
     (\<forall>s b w. live (snd (StreamWrite h s b w)) = live w) \<and>
     (\<forall>s w. live (snd (StreamClose h s w)) = live w - {s} \<and> live (snd (StreamReset h s w)) = live w - {s})"

lemma accountsD:
  assumes "accounts h live"
  shows "NewStream h d i pr w = ((s, e), w') \<Longrightarrow> live w' = live w \<union> set_option s \<and> live w \<inter> set_option s = {}"
    "live (SetReadDeadline h s' d w) = live w" "live (SetWriteDeadline h s' d w) = live w"
    "live (snd (ReadAll h s' w)) = live w" "live (snd (StreamWrite h s' b w)) = live w"
    "live (snd (StreamClose h s' w)) = live w - {s'}" "live (snd (StreamReset h s' w)) = live w - {s'}"
proof -
  note a = assms [unfolded accounts_def]
  show "NewStream h d i pr w = ((s, e), w') \<Longrightarrow> live w' = live w \<union> set_option s \<and> live w \<inter> set_option s = {}"
    using conjunct1 [OF a] by blast
  show "live (SetReadDeadline h s' d w) = live w" "live (SetWriteDeadline h s' d w) = live w"
    "live (snd (ReadAll h s' w)) = live w" "live (snd (StreamWrite h s' b w)) = live w"
    "live (snd (StreamClose h s' w)) = live w - {s'}" "live (snd (StreamReset h s' w)) = live w - {s'}"
    using conjunct2 [OF a] by simp_all
qed

lemma sendInternal_live:
  assumes "accounts (trptHost t) live" "sendInternal t p opts v w = Some ((s, e), w')"
  shows "live w' = live w \<union> set_option s \<and> live w \<inter> set_option s = {} \<and> (e = None \<longrightarrow> s \<noteq> None)"
proof -
  consider err where "protocol_ID v = Inl err" "s = None" "e = Some err" "w' = w"
    | pr s1 e1 w1 where "openStream t p pr opts w = Some ((s1, e1), w1)"
      "(case e1 of Some e \<Rightarrow> Some ((s1, Some e), w1)
        | None \<Rightarrow> (case s1 of None \<Rightarrow> None | Some st \<Rightarrow>
            let w = SetWriteDeadline (trptHost t) st (or_ten_seconds (WriteTimeout opts)) w1 in
            (case serialize (trptWire t) v of
               Inl e \<Rightarrow> Some ((Some st, Some (EncodeData e)), w)
             | Inr enc \<Rightarrow> (case StreamWrite (trptHost t) st enc w of ((n, err), w) \<Rightarrow> Some ((Some st, err), w)))))
       = Some ((s, e), w')"
    using assms(2) by (cases "protocol_ID v") (auto simp: sendInternal_def bind_eq_Some_conv)
  then show ?thesis
  proof cases
    case 2
    have opened: "live w1 = live w \<union> set_option s1 \<and> live w \<inter> set_option s1 = {}"
      using 2(1) accountsD(1) [OF assms(1)]
      by (auto simp: openStream_def split: option.splits sum.splits)
    show ?thesis
    proof (cases e1)
      case (Some x)
      with 2(2) opened show ?thesis by auto
    next
      case None
      with 2(2) obtain st where st: "s1 = Some st" by (cases s1) simp_all
      let ?w = "SetWriteDeadline (trptHost t) st (or_ten_seconds (WriteTimeout opts)) w1"
      have "live ?w = live w1" by (rule accountsD(3) [OF assms(1)])
      moreover have "live (snd (StreamWrite (trptHost t) st enc ?w)) = live ?w" for enc
        by (rule accountsD(5) [OF assms(1)])
      ultimately have live: "live ?w = live w1" "\<And>enc. live (snd (StreamWrite (trptHost t) st enc ?w)) = live w1"
        by simp_all
      show ?thesis
      proof (cases "serialize (trptWire t) v")
        case (Inl x)
        with 2(2) None st opened live(1) show ?thesis by (auto simp: Let_def)
      next
        case (Inr enc)
        obtain n err v2 where "StreamWrite (trptHost t) st enc ?w = ((n, err), v2)" by (metis surj_pair)
        with 2(2) None st opened live(2) [of enc] Inr show ?thesis by (auto simp: Let_def)
      qed
    qed
  qed simp
qed

lemma reset_if_open_live:
  "accounts h live \<Longrightarrow> live (reset_if_open h s w) = live w - set_option s"
  by (cases s) (simp_all add: reset_if_open_def accountsD(7))

lemma Send_live:
  assumes "accounts (trptHost t) live" "Send t p opts v w = Some (e, w1)"
  shows "live w1 = live w"
proof -
  from assms(2) obtain s e1 v1 where "sendInternal t p opts v w = Some ((s, e1), v1)"
    "(case e1 of Some e \<Rightarrow> Some (Some e, reset_if_open (trptHost t) s v1)
      | None \<Rightarrow> (case s of None \<Rightarrow> None | Some st \<Rightarrow> Some (None, snd (StreamClose (trptHost t) st v1)))) = Some (e, w1)"
    by (auto simp: Send_def bind_eq_Some_conv)
  with sendInternal_live [OF assms(1), of p opts v w s e1 v1] show ?thesis
    by (auto simp: reset_if_open_live [OF assms(1)] accountsD(6) [OF assms(1)] split: option.splits)
qed

lemma Exchange_live:
  assumes "accounts (trptHost t) live" "Exchange t p opts v out w = Some (r, w2)"
  shows "live w2 = live w"
proof -
  from assms(2) obtain s e1 v1 where i: "sendInternal t p opts v w = Some ((s, e1), v1)"
    and k: "(case e1 of Some e \<Rightarrow> Some ((0, Inl e), reset_if_open (trptHost t) s v1)
      | None \<Rightarrow> (case s of None \<Rightarrow> None | Some st \<Rightarrow>
          let w = SetReadDeadline (trptHost t) st (or_ten_seconds (ReadTimeout opts)) v1 in
          (case ReadAll (trptHost t) st w of ((recv, err), w) \<Rightarrow>
            (case err of
               Some e \<Rightarrow> Some ((length recv, Inl e), snd (StreamReset (trptHost t) st w))
             | None \<Rightarrow> let w = snd (StreamClose (trptHost t) st w) in do {
                   r \<leftarrow> deserialize (trptWire t) recv out;
                   (case r of Inl e \<Rightarrow> Some ((length recv, Inl (DecodeResponse e)), w)
                    | Inr resp \<Rightarrow> Some ((length recv, Inr resp), w)) })))) = Some (r, w2)"
    by (auto simp: Exchange_def bind_eq_Some_conv)
  note live = sendInternal_live [OF assms(1) i]
  show ?thesis
  proof (cases e1)
    case (Some x)
    with k live show ?thesis by (auto simp: reset_if_open_live [OF assms(1)])
  next
    case None
    with live obtain st where st: "s = Some st" by blast
    let ?w = "SetReadDeadline (trptHost t) st (or_ten_seconds (ReadTimeout opts)) v1"
    obtain recv err v2 where rd: "ReadAll (trptHost t) st ?w = ((recv, err), v2)" by (metis surj_pair)
    have "live v2 = live v1"
      using accountsD(4) [OF assms(1), of st ?w] accountsD(2) [OF assms(1), of st _ v1] rd by simp
    moreover have "w2 = snd (StreamReset (trptHost t) st v2) \<or> w2 = snd (StreamClose (trptHost t) st v2)"
    proof (cases err)
      case (Some x)
      with k None st rd show ?thesis by (simp add: Let_def)
    next
      case no_err: None
      with k None st rd obtain r' where "(case r' of Inl e \<Rightarrow>
            Some ((length recv, Inl (DecodeResponse e)), snd (StreamClose (trptHost t) st v2))
          | Inr resp \<Rightarrow> Some ((length recv, Inr resp), snd (StreamClose (trptHost t) st v2))) = Some (r, w2)"
        by (auto simp: Let_def bind_eq_Some_conv)
      then show ?thesis by (cases r') auto
    qed
    ultimately show ?thesis using live st accountsD(6,7) [OF assms(1)] by auto
  qed
qed

text \<open>C27:
  Sending and exchanging messages leaks no stream: on every path that returns, whatever
  fails, the stream that was opened has been closed or reset, and all other streams are still open.\<close>

theorem no_stream_leaks:
  assumes "accounts (trptHost t) live"
  shows "(Send t p opts v w = Some (e, w1) \<longrightarrow> live w1 = live w) \<and>
    (Exchange t p opts v out w = Some (r, w2) \<longrightarrow> live w2 = live w)"
  using Send_live [OF assms] Exchange_live [OF assms] by blast

subsection \<open>A request and its response\<close>

text \<open>
  \<open>serves t answer\<close>: streams open, messages can be written on them, and the other end of a
  stream answers what was written, by protocol, with the bytes \<open>answer\<close> gives.
\<close>

definition serves :: "'w libp2pTransport \<Rightarrow> (string \<Rightarrow> string \<Rightarrow> string) \<Rightarrow> bool" where
  "serves t answer \<longleftrightarrow> (\<forall>d i pr w. \<exists>s w1. NewStream (trptHost t) d i pr w = ((Some s, None), w1) \<and>
     (\<forall>d1 enc. \<exists>n w2. StreamWrite (trptHost t) s enc (SetWriteDeadline (trptHost t) s d1 w1) = ((n, None), w2) \<and>
        (\<forall>d2. \<exists>w3. ReadAll (trptHost t) s (SetReadDeadline (trptHost t) s d2 w2) = ((answer pr enc, None), w3))))"

lemma Exchange_served:
  assumes "serves t answer" "peer_ID p = Some i" "id_ok (trptWire t) (Some i)"
    and "protocol_ID v = Inr pr" "serialize (trptWire t) v = Inr enc"
  shows "\<exists>w'. Exchange t p opts v out w = Option.bind (deserialize (trptWire t) (answer pr enc) out)
    (\<lambda>r. Some ((length (answer pr enc), case r of Inl e \<Rightarrow> Inl (DecodeResponse e) | Inr resp \<Rightarrow> Inr resp), w'))"
proof -
  let ?h = "trptHost t"
  obtain s w1 where s: "NewStream ?h (or_ten_seconds (Timeout opts)) i pr w = ((Some s, None), w1)"
    and wr: "\<forall>d1 enc. \<exists>n w2. StreamWrite ?h s enc (SetWriteDeadline ?h s d1 w1) = ((n, None), w2) \<and>
        (\<forall>d2. \<exists>w3. ReadAll ?h s (SetReadDeadline ?h s d2 w2) = ((answer pr enc, None), w3))"
    using assms(1) unfolding serves_def by meson
  obtain n w2 where w2: "StreamWrite ?h s enc (SetWriteDeadline ?h s (or_ten_seconds (WriteTimeout opts)) w1) = ((n, None), w2)"
    and rd: "\<forall>d2. \<exists>w3. ReadAll ?h s (SetReadDeadline ?h s d2 w2) = ((answer pr enc, None), w3)"
    using wr by meson
  obtain w3 where w3: "ReadAll ?h s (SetReadDeadline ?h s (or_ten_seconds (ReadTimeout opts)) w2) = ((answer pr enc, None), w3)"
    using rd by meson
  have "idDecode (trptWire t) (idString (trptWire t) i) = Inr i" using assms(3) by (simp add: id_ok_def)
  then have send: "sendInternal t p opts v w = Some ((Some s, None), w2)"
    using assms(2,4,5) s w2 by (simp add: sendInternal_def openStream_def Let_def)
  show ?thesis
    by (rule exI [of _ "snd (StreamClose ?h s w3)"])
      (auto simp: Exchange_def send w3 Let_def split: sum.splits intro!: arg_cong [where f = "Option.bind _"])
qed

text \<open>The server side: what the wrapper writes for a request it can read and the handler answers.\<close>

lemma wrapper_serves:
  assumes "ok_payload (trptWire t) v" "serialize (trptWire t) v = Inr enc" "same_type v req"
    and "\<And>w. \<exists>w'. ReadBytes (trptHost t) s (CHR '';'') w = ((enc, None), w')"
    and "\<And>y. \<exists>y'. handler (Some (RemotePeer (trptHost t) s)) v y = Some ((Some resp, None), y')"
    and "serialize (trptWire t) resp = Inr bytes"
    and "\<And>w b. \<exists>w'. StreamWrite (trptHost t) s b w = ((length b, None), w') \<and> written w' = b"
  shows "\<exists>x'. readWriteWrapper t req opts handler True s x = Some (None, x') \<and> written (world x') = bytes"
proof -
  let ?h = "trptHost t"
  let ?w = "SetReadDeadline ?h s (or_ten_seconds (ReadTimeout opts))
      (case Timeout opts of None \<Rightarrow> world x | Some d \<Rightarrow> SetDeadline ?h s d (world x))"
  obtain w1 where w1: "ReadBytes ?h s (CHR '';'') ?w = ((enc, None), w1)" using assms(4) by blast
  obtain y where y: "handler (Some (RemotePeer ?h s)) v (with_world w1 x) = Some ((Some resp, None), y)"
    using assms(5) by blast
  let ?w2 = "SetWriteDeadline ?h s (or_ten_seconds (WriteTimeout opts)) (world y)"
  obtain w3 where w3: "StreamWrite ?h s bytes ?w2 = ((length bytes, None), w3)" "written w3 = bytes"
    using assms(7) by meson
  have "deserialize (trptWire t) enc req = Some (Inr v)"
    using deserialize_serialize [OF assms(1,3,2)] .
  then have "readWriteWrapper t req opts handler True s x = Some (None, with_world w3 y)"
    using w1 y w3(1) assms(6) by (simp add: readWriteWrapper_def write_response_def Let_def)
  moreover have "world (with_world w3 y) = w3" by (simp add: world_def with_world_def)
  ultimately show ?thesis using w3(2) by auto
qed

text \<open>C26:
  A remote call over libp2p returns what the handler on the other node answered: when the
  client's stream answers with what the server's stream handler wrote for the bytes it got, the client's
  \<open>Exchange\<close> yields exactly the response of the server's handler, for any two message types that can be
  written.\<close>

theorem remote_call:
  fixes t :: "'w libp2pTransport" and t' :: "'v libp2pTransport"
  assumes "serves t answer" and "peer_ID p = Some i" and "id_ok (trptWire t) (Some i)"
    and "protocol_ID v = Inr pr" and "trptWire t' = trptWire t"
    and "ok_payload (trptWire t) v" and "ok_payload (trptWire t) resp"
    and "same_type v req" and "same_type resp out"
    and "\<And>enc w. serialize (trptWire t) v = Inr enc \<Longrightarrow> \<exists>w'. ReadBytes (trptHost t') s (CHR '';'') w = ((enc, None), w')"
    and "\<And>y. \<exists>y'. handler (Some (RemotePeer (trptHost t') s)) v y = Some ((Some resp, None), y')"
    and "\<And>w b. \<exists>w'. StreamWrite (trptHost t') s b w = ((length b, None), w') \<and> written w' = b"
    and "\<And>enc x'. serialize (trptWire t) v = Inr enc \<Longrightarrow>
           readWriteWrapper t' req opts' handler True s x = Some (None, x') \<Longrightarrow> answer pr enc = written (world x')"
  shows "\<exists>n w'. Exchange t p opts v out w = Some ((n, Inr resp), w')"
proof -
  obtain enc where enc: "serialize (trptWire t) v = Inr enc" using assms(6) by (cases v) simp_all
  obtain bytes where bytes: "serialize (trptWire t) resp = Inr bytes" using assms(7) by (cases resp) simp_all
  obtain x' where "readWriteWrapper t' req opts' handler True s x = Some (None, x')" "written (world x') = bytes"
    using wrapper_serves [of t' v enc req s handler resp bytes written opts' x, unfolded assms(5),
        OF assms(6) enc assms(8) assms(10) [OF enc] assms(11) bytes assms(12)] by blast
  with assms(13) [OF enc] have "answer pr enc = bytes" by simp
  with Exchange_served [OF assms(1-4) enc, of opts out w] deserialize_serialize [OF assms(7,9) bytes]
  show ?thesis by auto
qed

subsection \<open>The peer store\<close>

text \<open>
  The libp2p peer store keeps the promise the node's properties rest on: it knows the
  node itself, always under the host's identifier, and a peer it finds has the
  identifier that was looked up.\<close>

theorem libp2p_store_steady:
  assumes "peerStore env = NewPeerStore h wr"
  shows "steady env (hostID h)"
  by (simp add: steady_def assms NewPeerStore_def lp.peer_store_axioms)

text \<open>
  Looking up the nil identifier in the libp2p peer store panics, and so does adding a valid
  address to it. A peer can send a request with no sender, since the empty part reads as the nil
  identifier, and then the connect handler panics.\<close>

theorem nil_identifier_panics:
  assumes "peerStore env = NewPeerStore h wr"
  shows "Find (peerStore env) None w = None \<and>
    (NewMultiaddr h addr = Inr a \<longrightarrow> AddAddr (peerStore env) None addr w = None) \<and>
    decodePeerID wr [] = Inr None \<and>
    handle_connect env hs p (req\<lparr>cq_Sender := None\<rparr>) (cs, rs, w) = None"
  by (simp add: assms NewPeerStore_def libp2p_Find_def libp2p_AddAddr_def decodePeerID_def handle_connect_def)

subsection \<open>A host to run it on\<close>

text \<open>
  The world of this host is its open streams and the last bytes written; a stream that is
  read up to a delimiter yields \<open>inp\<close>, and one that is read to its end what \<open>answer\<close> makes of
  the bytes written.
\<close>

type_synonym wires = "stream list \<times> string"

definition demo_host :: "string \<Rightarrow> (string \<Rightarrow> string) \<Rightarrow> wires host" where
  "demo_host inp answer = \<lparr>
     hostID = bob, hostAddrs = (\<lambda>w. [''/ip4/bob'']), hostAddAddr = (\<lambda>i a w. w),
     hostPeerAddrs = (\<lambda>i w. [''/ip4/'' @ i]), hostPeers = (\<lambda>w. [alice, bob, carol]),
     NewMultiaddr = (\<lambda>a. Inr a),
     NewStream = (\<lambda>d i pr (ss, b). let s = Suc (foldr max ss 0) in ((Some s, None), (s # ss, b))),
     SetDeadline = (\<lambda>s d w. w), SetReadDeadline = (\<lambda>s d w. w), SetWriteDeadline = (\<lambda>s d w. w),
     ReadBytes = (\<lambda>s c w. ((inp, None), w)),
     ReadAll = (\<lambda>s w. ((answer (snd w), None), w)),
     StreamWrite = (\<lambda>s b (ss, _). ((length b, None), (ss, b))),
     StreamClose = (\<lambda>s (ss, b). (None, (removeAll s ss, b))),
     StreamReset = (\<lambda>s (ss, b). (None, (removeAll s ss, b))),
     RemotePeer = (\<lambda>s. alice) \<rparr>"

definition demo_trpt :: "string \<Rightarrow> (string \<Rightarrow> string) \<Rightarrow> wires libp2pTransport" where
  "demo_trpt inp answer = \<lparr> trptHost = demo_host inp answer, trptWire = demo_names \<rparr>"

lemma fresh_stream: "x \<in> set ss \<Longrightarrow> x < Suc (foldr max ss (0 :: nat))"
  by (induction ss) (auto simp: less_Suc_eq_le le_max_iff_disj)

lemma demo_accounts: "accounts (demo_host inp answer) (\<lambda>w. set (fst w))"
  unfolding accounts_def demo_host_def using fresh_stream by (fastforce simp: Let_def)

lemma demo_serves: "serves (demo_trpt inp answer) (\<lambda>pr enc. answer enc)"
  by (simp add: serves_def demo_trpt_def demo_host_def split_beta Let_def)

theorem no_stream_leaks_witness:
  "\<exists>e w1. Send (demo_trpt [] (\<lambda>b. b)) (demo_peer carol) noOptions (PCloseRequest \<lparr> cl_ConnectionID = 7 \<rparr>) ([3], []) =
     Some (e, w1) \<and> set (fst w1) = {3}"
proof -
  let ?t = "demo_trpt [] (\<lambda>b. b)"
  have "\<exists>r. Send ?t (demo_peer carol) noOptions (PCloseRequest \<lparr> cl_ConnectionID = 7 \<rparr>) ([3], []) = Some r"
    by (simp add: Send_def sendInternal_def openStream_def demo_trpt_def demo_host_def demo_names_def Let_def)
  then obtain e w1 where run: "Send ?t (demo_peer carol) noOptions (PCloseRequest \<lparr> cl_ConnectionID = 7 \<rparr>) ([3], []) = Some (e, w1)"
    by auto
  have "accounts (trptHost ?t) (\<lambda>w. set (fst w))" using demo_accounts by (simp add: demo_trpt_def)
  from no_stream_leaks [OF this, of "demo_peer carol" noOptions "PCloseRequest \<lparr> cl_ConnectionID = 7 \<rparr>" "([3], [])" e w1] run
  show ?thesis by auto
qed

definition three_peers :: payload where
  "three_peers = PPeersRequest \<lparr> Num = 3 \<rparr>"

definition only_carol :: payload where
  "only_carol = PPeersResponse \<lparr> Peers = [demo_peer carol] \<rparr>"

lemma only_carol_ok: "ok_payload demo_names only_carol" "ok_payload demo_names three_peers"
  by (simp_all add: only_carol_def three_peers_def ok_PeersResponse_def ok_Peer_def demo_id_ok demo_peer_def demo_ids)

theorem remote_call_witness:
  "\<exists>bytes n w'. serialize demo_names only_carol = Inr bytes \<and>
    Exchange (demo_trpt [] (\<lambda>_. bytes)) (demo_peer bob) noOptions three_peers (PPeersResponse \<lparr> Peers = [] \<rparr>) ([], []) =
      Some ((n, Inr only_carol), w')"
proof -
  obtain bytes where bytes: "serialize demo_names only_carol = Inr bytes" by (simp add: only_carol_def)
  obtain enc where enc: "serialize demo_names three_peers = Inr enc" by (simp add: three_peers_def)
  let ?t = "demo_trpt [] (\<lambda>_. bytes)" and ?t' = "demo_trpt enc (\<lambda>_. [])"
  let ?handler = "\<lambda>p v y. Some ((Some only_carol, None), y)"
  have wire: "trptWire ?t = demo_names" "trptWire ?t' = demo_names" by (simp_all add: demo_trpt_def)
  have rd: "ReadBytes (trptHost ?t') s c w = ((enc, None), w)" for s c w
    by (simp add: demo_trpt_def demo_host_def)
  have wr: "\<exists>w'. StreamWrite (trptHost ?t') s b w = ((length b, None), w') \<and> snd w' = b" for s b w
    by (cases w) (simp add: demo_trpt_def demo_host_def)
  have types: "same_type three_peers (PPeersRequest \<lparr> Num = 0 \<rparr>)" "same_type only_carol (PPeersResponse \<lparr> Peers = [] \<rparr>)"
    "protocol_ID three_peers = Inr ''/peers''"
    by (simp_all add: same_type_def three_peers_def only_carol_def)
  obtain x0 where x0: "readWriteWrapper ?t' (PPeersRequest \<lparr> Num = 0 \<rparr>) noOptions ?handler True 0 (([], no_reps, ([], [])), []) =
      Some (None, x0)" "snd (world x0) = bytes"
    using wrapper_serves [of ?t' three_peers enc "PPeersRequest \<lparr> Num = 0 \<rparr>" 0 ?handler only_carol bytes snd noOptions
        "(([], no_reps, ([], [])), [])"] only_carol_ok enc types rd wr bytes
    unfolding wire by blast
  have "\<exists>n w'. Exchange ?t (demo_peer bob) noOptions three_peers (PPeersResponse \<lparr> Peers = [] \<rparr>) ([], []) =
      Some ((n, Inr only_carol), w')"
  proof (rule remote_call [OF demo_serves, where i = bob and t' = ?t' and req = "PPeersRequest \<lparr> Num = 0 \<rparr>" and s = 0
        and handler = ?handler and written = snd and x = "(([], no_reps, ([], [])), [])" and opts' = noOptions])
    fix enc' x'
    assume "readWriteWrapper ?t' (PPeersRequest \<lparr> Num = 0 \<rparr>) noOptions ?handler True 0 (([], no_reps, ([], [])), []) = Some (None, x')"
    with x0 show "bytes = snd (world x')" by simp
  next
    fix enc' w
    assume "serialize (trptWire ?t) three_peers = Inr enc'"
    then show "\<exists>w'. ReadBytes (trptHost ?t') 0 (CHR '';'') w = ((enc', None), w')" using rd enc wire by simp
  qed (use only_carol_ok types wire wr in \<open>simp_all add: demo_id_ok demo_ids\<close>)
  with bytes show ?thesis by blast
qed

definition lp2p_env :: "wires nodeEnv" where
  "lp2p_env = \<lparr> peerStore = NewPeerStore (demo_host [] (\<lambda>b. b)) demo_names, transport = NewTransport (demo_trpt [] (\<lambda>b. b)),
     trusts = (\<lambda>r s. returns ((True, None), s)), logLevel = Info, newRandom = (\<lambda>w. ((0, None), w)),
     mapOrder = (\<lambda>ids. ids), envNames = envNames (demo_env bob) \<rparr>"

lemma lp2p_env_store: "peerStore lp2p_env = NewPeerStore (demo_host [] (\<lambda>b. b)) demo_names"
  by (simp add: lp2p_env_def)

theorem libp2p_store_steady_witness: "steady lp2p_env bob"
  using libp2p_store_steady [OF lp2p_env_store] by (simp add: demo_host_def)

theorem nil_identifier_panics_witness:
  "handle_connect lp2p_env appHandlers (Some alice) (demo_request\<lparr>cq_Sender := None\<rparr>) ([], no_reps, ([], [])) = None"
  using nil_identifier_panics [OF lp2p_env_store] by blast

end
