(* ===== verification/App_Props.thy ===== *)
theory App_Props
  imports Connect_Props Store_Props
begin

section \<open>The application: whom it trusts and what it logs\<close>

subsection \<open>The trust function\<close>

lemma collect_values_all:
  "\<exists>rs'. rep_of rs' = rep_of rs \<and> collect_values ps (rs, vals, w) =
     Some (rs', vals @ map (\<lambda>p. Value (rep_of rs (peer_ID p))) ps, w)"
proof (induction ps arbitrary: rs vals)
  case Nil
  then show ?case by auto
next
  case (Cons p ps)
  obtain rs1 where rs1: "rep_of rs1 = rep_of rs"
    "ReadRep (peer_ID p) collect_value (rs, vals, w) = collect_value (rep_of rs (peer_ID p)) (rs1, vals, w)"
    using rep.read_calls by metis
  with Cons.IH [of rs1 "vals @ [Value (rep_of rs (peer_ID p))]"] show ?case
    by (auto simp: collect_value_def)
qed

definition app_verdict :: "Peer list \<Rightarrow> (peer_id option \<Rightarrow> proportionalReputation) \<Rightarrow> proportionalReputation \<Rightarrow> bool" where
  "app_verdict peers rho r \<longleftrightarrow> \<not> fless (Value r) (Fin (1 / 2)) \<and>
     trusted_value (Value r) (map (\<lambda>p. Value (rho (peer_ID p))) peers)"

lemma trustFunc_verdict:
  assumes "AllPeers ps w = Some (Inr peers)"
  shows "\<exists>rs'. rep_of rs' = rep_of rs \<and> trustFunc ps r (rs, w) = Some ((app_verdict peers (rep_of rs) r, None), (rs', w))"
  using collect_values_all [of rs peers "[]" w] assms by (auto simp: trustFunc_def app_verdict_def)


text \<open>Among values that are all 1, only 1 is trusted.\<close>

lemma of_count_nat: "n \<le> 2 ^ 53 \<Longrightarrow> of_count (int n) = Fin (of_nat n)"
proof -
  assume le: "n \<le> 2 ^ 53"
  from fadd_of_nat [of 0 n] le show ?thesis by (simp add: of_count_def)
qed

lemma sum_of_ones: "n \<le> 2 ^ 53 \<Longrightarrow> foldl fadd (Fin 0) (replicate n (Fin 1)) = Fin (of_nat n)"
proof (induction n)
  case (Suc n)
  have "replicate (Suc n) (Fin 1) = replicate n (Fin 1) @ [Fin 1]" by (simp add: replicate_append_same)
  with Suc fadd_of_nat [of n 1] show ?case by (simp del: replicate.simps fadd.simps add: add.commute)
qed simp

lemma no_deviation: "foldl (\<lambda>v rv. fadd v (fsquare (fsub rv (Fin 1)))) (Fin 0) (replicate n (Fin 1)) = Fin 0"
  by (induction n) (simp_all add: fsub_def)

lemma trusted_among_ones:
  assumes "2 \<le> n" "n \<le> 2 ^ 53"
  shows "trusted_value v (replicate n (Fin 1)) \<longleftrightarrow> fle (Fin 1) v"
proof -
  have mean: "float_mean (replicate n (Fin 1)) = Fin 1"
    using assms sum_of_ones [of n] of_count_nat [of n] by (simp add: float_mean_def)
  have "of_count (int n - 1) = Fin (of_nat (n - 1))"
    using assms of_count_nat [of "n - 1"] by (simp add: of_nat_diff)
  then have "float_variance (replicate n (Fin 1)) (Fin 1) = Fin 0"
    using assms by (simp add: float_variance_def no_deviation)
  with mean show ?thesis by (simp add: trusted_value_def fsub_def)
qed

lemma no_reps_default: "rep_of no_reps p = defaultReputation p"
  by (simp add: rep_of_def no_reps_def NewReputationStore_def)

definition app_env :: "uuid nodeEnv" where
  "app_env = (demo_env bob)\<lparr>trusts := trustFunc (demo_store bob)\<rparr>"

lemma app_env_sel [simp]:
  "trusts app_env = trustFunc (peerStore app_env)"
  "AllPeers (peerStore app_env) w = Some (Inr [demo_peer alice, demo_peer bob, demo_peer carol])"
  by (simp_all add: app_env_def demo_defs)


text \<open>The value of a sound reputation is a \<open>float64\<close> number.\<close>

lemma Value_representable: "sound_rep r \<Longrightarrow> \<exists>x. Value r = Fin x \<and> fl x = x \<and> 0 \<le> x \<and> x \<le> 1"
proof (elim sound_repE)
  fix g t
  assume h: "good r = Fin g" "total r = Fin t" "0 \<le> g" "g \<le> t"
  show ?thesis
  proof (cases "t = 0")
    case True
    with Value_sound(1) [OF h] show ?thesis by simp
  next
    case False
    with Value_sound(2) [OF h] have q: "0 \<le> g / t" "g / t \<le> 1" by simp_all
    have "fl (g / t) \<le> fl 1" using q by (intro fl_mono)
    with False q Value_sound(1) [OF h] show ?thesis by (auto intro: fl_nonneg fl_idem)
  qed
qed

lemma mk_unit: "fl x = x \<Longrightarrow> 0 \<le> x \<Longrightarrow> x \<le> 1 \<Longrightarrow> mk x = Fin x"
  using mk_Fin [of x] order_trans [of x 1 "2 ^ 1023"] by (simp add: one_le_power)

lemma few_values_untrusted:
  assumes "length vals \<le> 1" "\<And>v. v \<in> set vals \<Longrightarrow> \<exists>x. v = Fin x \<and> fl x = x \<and> 0 \<le> x \<and> x \<le> 1"
  shows "\<not> trusted_value v vals"
proof (cases vals)
  case Nil
  then show ?thesis by (simp add: trusted_value_def float_mean_def)
next
  case (Cons a as)
  with assms obtain x where x: "vals = [Fin x]" "fl x = x" "0 \<le> x" "x \<le> 1" by auto
  then have "float_mean vals = Fin x" by (simp add: float_mean_def mk_unit)
  moreover from this x have "float_variance vals (Fin x) = NaN"
    by (simp add: float_variance_def fsub_def)
  ultimately show ?thesis by (simp add: trusted_value_def)
qed

text \<open>
  A node that knows at most one peer (its own peer store always holds itself) trusts nobody,
  whatever the reputations: the variance of at most one value is NaN in \<open>float64\<close>, and no value is at
  least NaN.\<close>

theorem lone_node_trusts_nobody:
  assumes "AllPeers ps w = Some (Inr peers)" and "length peers \<le> 1" and "\<And>p. sound_rep (rep_of rs p)"
  shows "\<exists>s'. trustFunc ps r (rs, w) = Some ((False, None), s')"
proof -
  have "\<not> app_verdict peers (rep_of rs) r"
    using few_values_untrusted [of "map (\<lambda>p. Value (rep_of rs (peer_ID p))) peers"] assms(2) Value_representable assms(3)
    unfolding app_verdict_def by force
  with trustFunc_verdict [OF assms(1), of rs r] show ?thesis by auto
qed

theorem lone_node_trusts_nobody_witness:
  "\<exists>s'. trustFunc ((demo_store bob)\<lparr>AllPeers := (\<lambda>w. returns (Inr [demo_peer bob]))\<rparr>)
     (defaultReputation (Some carol)) (no_reps, 7) = Some ((False, None), s')"
  by (rule lone_node_trusts_nobody [where peers = "[demo_peer bob]"])
    (simp_all add: no_reps_default sound_default)

text \<open>
  In a fresh network, where at least two peers are known and none has lost reputation,
  a peer is trusted exactly when its own reputation is still perfect.\<close>

theorem fresh_network_trusts_perfect:
  assumes "AllPeers ps w = Some (Inr peers)" and "2 \<le> length peers" and "length peers \<le> 2 ^ 53"
    and "\<And>p. p \<in> set peers \<Longrightarrow> Value (rep_of rs (peer_ID p)) = Fin 1" and "sound_rep r"
  shows "\<exists>s'. trustFunc ps r (rs, w) = Some ((Value r = Fin 1, None), s')"
proof -
  have "map (\<lambda>p. Value (rep_of rs (peer_ID p))) peers = map (\<lambda>p. Fin 1) peers"
    using assms(4) by (intro map_cong) auto
  then have vals: "map (\<lambda>p. Value (rep_of rs (peer_ID p))) peers = replicate (length peers) (Fin 1)"
    by (simp add: map_replicate_const)
  obtain x where x: "Value r = Fin x" "x \<le> 1" using Value_representable [OF assms(5)] by blast
  have "app_verdict peers (rep_of rs) r \<longleftrightarrow> Value r = Fin 1"
    unfolding app_verdict_def vals trusted_among_ones [OF assms(2,3)] x(1) using x(2) by (auto simp: fle_Fin)
  with trustFunc_verdict [OF assms(1), of rs r] show ?thesis by auto
qed

theorem fresh_network_trusts_perfect_witness:
  "\<exists>s'. trustFunc (demo_store bob) (rep_history [WeaklyPenalized] (defaultReputation (Some carol))) (no_reps, 7) =
     Some ((False, None), s')"
proof -
  let ?r = "rep_history [WeaklyPenalized] (defaultReputation (Some carol))"
  have ne: "Value ?r \<noteq> Fin 1"
    using reputation_exact_counts [of "[WeaklyPenalized]" "Some carol"] by (simp add: rewards_def weight_def)
  have all: "AllPeers (demo_store bob) w = Some (Inr [demo_peer alice, demo_peer bob, demo_peer carol])" for w
    by (simp add: demo_store_def)
  have one: "Value (rep_of no_reps p) = Fin 1" for p
    by (simp add: no_reps_default Value_def defaultReputation_def)
  from fresh_network_trusts_perfect [OF all [of 7] _ _ one sound_history [OF sound_default], of "[WeaklyPenalized]" "Some carol"] ne
  show ?thesis by simp
qed

subsection \<open>Logging\<close>

text \<open>How zap orders its levels; a logger built for a level drops what is below it.\<close>

fun zap_rank :: "zap_level \<Rightarrow> int" where
  "zap_rank DebugLevel = - 1" | "zap_rank InfoLevel = 0" | "zap_rank WarnLevel = 1" | "zap_rank ErrorLevel = 2"

definition zap_emits :: "Level \<Rightarrow> zap_level \<times> string \<Rightarrow> bool" where
  "zap_emits configured entry \<longleftrightarrow> zap_rank (toZapLevel configured) \<le> zap_rank (fst entry)"

text \<open>
  The zap adapter writes a message exactly when the configured level is at least the
  level of the message, although zap has no trace level and shares one with debug: an enabled call
  reaches zap, and zap's own filter lets it through, precisely then.\<close>

theorem zap_logs_at_least:
  "(\<exists>entry. zap_call configured level msg = Some entry \<and> zap_emits configured entry) \<longleftrightarrow> AtLeast configured level"
  by (cases configured; cases level) (simp_all add: zap_emits_def AtLeast_def del: AtLeast_iff)

text \<open>
  Levels parse from their names in any mixture of cases of ASCII letters, each level from
  exactly the texts whose lower-case form is its name, and are linearly ordered by
  \<open>AtLeast\<close>, with trace above all.\<close>

theorem levels_parse_and_order:
  "ParseLevel (level_String l) = Inr l \<and>
   (ParseLevel s = Inr l \<longleftrightarrow> strings_ToLower s = strings_ToLower (level_String l)) \<and>
   (AtLeast a b \<or> AtLeast b a) \<and> (AtLeast a b \<and> AtLeast b a \<longleftrightarrow> a = b) \<and> AtLeast Trace a"
proof -
  have "strings_ToLower (level_String l) = (case l of Trace \<Rightarrow> ''trace'' | Debug \<Rightarrow> ''debug'' | Info \<Rightarrow> ''info''
      | Warn \<Rightarrow> ''warn'' | Error \<Rightarrow> ''error'')"
    by (cases l; hypsubst) code_simp+
  then have "ParseLevel s = Inr l \<longleftrightarrow> strings_ToLower s = strings_ToLower (level_String l)"
    by (cases l) (simp_all add: ParseLevel_def Let_def)
  with ParseLevel_name show ?thesis by auto
qed

end
