(* ===== verification/Json.thy ===== *)
theory Json
  imports Prelude
begin

section \<open>JSON: what main.go uses of encoding/json and unicode/utf8\<close>

text \<open>
  JSON values, their compact text as \<open>json.Marshal\<close> writes it, and the scanner that
  \<open>json.Unmarshal\<close> runs over its input before it stores anything. As in the library the
  scanner is a pushdown automaton that takes one byte at a time: a mode, and a stack with a
  frame for every array and object that is open. A Go string is a sequence of bytes, so the
  UTF-8 rules of both directions are part of the model.
\<close>

datatype json =
  JNull | JBool bool | JNum string | JStr string | JArr "json list" | JObj "(string \<times> json) list"

subsection \<open>UTF-8\<close>

abbreviation byte :: "char \<Rightarrow> nat" where
  "byte c \<equiv> of_char c"

definition is_cont :: "char \<Rightarrow> bool" where
  "is_cont c \<longleftrightarrow> 0x80 \<le> byte c \<and> byte c \<le> 0xBF"

text \<open>
  \<open>utf8.DecodeRune\<close>: the number of bytes of the well-formed sequence that the text starts
  with, or \<open>None\<close> for \<open>RuneError\<close> of width one. The second byte is restricted after the
  four leading bytes that would otherwise start an overlong form, a surrogate or a rune
  that is too large.
\<close>

definition second_ok :: "nat \<Rightarrow> char \<Rightarrow> bool" where
  "second_ok b c \<longleftrightarrow> is_cont c \<and> (b = 0xE0 \<longrightarrow> 0xA0 \<le> byte c) \<and> (b = 0xED \<longrightarrow> byte c \<le> 0x9F) \<and>
     (b = 0xF0 \<longrightarrow> 0x90 \<le> byte c) \<and> (b = 0xF4 \<longrightarrow> byte c \<le> 0x8F)"

fun rune_width :: "string \<Rightarrow> nat option" where
  "rune_width [] = None"
| "rune_width (c # cs) =
     (let b = byte c in
      if b < 0x80 then Some 1
      else if 0xC2 \<le> b \<and> b \<le> 0xDF then
        (case cs of c1 # _ \<Rightarrow> if is_cont c1 then Some 2 else None | _ \<Rightarrow> None)
      else if 0xE0 \<le> b \<and> b \<le> 0xEF then
        (case cs of c1 # c2 # _ \<Rightarrow> if second_ok b c1 \<and> is_cont c2 then Some 3 else None | _ \<Rightarrow> None)
      else if 0xF0 \<le> b \<and> b \<le> 0xF4 then
        (case cs of c1 # c2 # c3 # _ \<Rightarrow> if second_ok b c1 \<and> is_cont c2 \<and> is_cont c3 then Some 4 else None
         | _ \<Rightarrow> None)
      else None)"

declare rune_width.simps(2) [simp del]

definition rune_error :: string where
  "rune_error = [CHR 0xEF, CHR 0xBF, CHR 0xBD]"

text \<open>\<open>utf8.EncodeRune\<close>, for a rune that is not a surrogate.\<close>

definition encode_rune :: "nat \<Rightarrow> string" where
  "encode_rune r =
     (if r < 0x80 then [char_of r]
      else if r < 0x800 then [char_of (0xC0 + r div 64), char_of (0x80 + r mod 64)]
      else if r < 0x10000 then
        [char_of (0xE0 + r div 4096), char_of (0x80 + r div 64 mod 64), char_of (0x80 + r mod 64)]
      else [char_of (0xF0 + r div 262144), char_of (0x80 + r div 4096 mod 64),
        char_of (0x80 + r div 64 mod 64), char_of (0x80 + r mod 64)])"

text \<open>A text with every byte that is not part of a well-formed sequence replaced.\<close>

function to_valid :: "string \<Rightarrow> string" where
  "to_valid s = (case s of [] \<Rightarrow> [] | c # cs \<Rightarrow>
     (case rune_width s of
        None \<Rightarrow> rune_error @ to_valid cs
      | Some n \<Rightarrow> c # take (n - 1) cs @ to_valid (drop (n - 1) cs)))"
  by pat_completeness auto
termination by (relation "measure length") auto

declare to_valid.simps [simp del]

function valid_utf8 :: "string \<Rightarrow> bool" where
  "valid_utf8 s = (case s of [] \<Rightarrow> True | c # cs \<Rightarrow>
     (case rune_width s of None \<Rightarrow> False | Some n \<Rightarrow> valid_utf8 (drop (n - 1) cs)))"
  by pat_completeness auto
termination by (relation "measure length") auto

declare valid_utf8.simps [simp del]

subsection \<open>Strings\<close>

definition hex_char :: "nat \<Rightarrow> char" where
  "hex_char d = (if d < 10 then char_of (48 + d) else char_of (87 + d))"

definition hex_digit :: "char \<Rightarrow> nat option" where
  "hex_digit c = (let b = byte c in
     if 48 \<le> b \<and> b \<le> 57 then Some (b - 48)
     else if 97 \<le> b \<and> b \<le> 102 then Some (b - 87)
     else if 65 \<le> b \<and> b \<le> 70 then Some (b - 55)
     else None)"

definition html_safe :: "char \<Rightarrow> bool" where
  "html_safe c \<longleftrightarrow> 0x20 \<le> byte c \<and> byte c < 0x80 \<and> c \<notin> {CHR 0x22, CHR 0x5C, CHR ''<'', CHR ''>'', CHR ''&''}"

text \<open>The escape of an ASCII byte that is not safe.\<close>

definition escape :: "char \<Rightarrow> string" where
  "escape c =
     (if c = CHR 0x5C \<or> c = CHR 0x22 then [CHR 0x5C, c]
      else if c = CHR 0x0A then [CHR 0x5C, CHR ''n'']
      else if c = CHR 0x0D then [CHR 0x5C, CHR ''r'']
      else if c = CHR 0x09 then [CHR 0x5C, CHR ''t'']
      else [CHR 0x5C, CHR ''u'', CHR ''0'', CHR ''0'', hex_char (byte c div 16), hex_char (byte c mod 16)])"

text \<open>The line and paragraph separators U+2028 and U+2029 are escaped as well.\<close>

definition line_separator :: "string \<Rightarrow> char option" where
  "line_separator s =
     (if take 3 s = [CHR 0xE2, CHR 0x80, CHR 0xA8] then Some CHR ''8''
      else if take 3 s = [CHR 0xE2, CHR 0x80, CHR 0xA9] then Some CHR ''9''
      else None)"

function escape_string :: "string \<Rightarrow> string" where
  "escape_string s = (case s of [] \<Rightarrow> [] | c # cs \<Rightarrow>
     (if byte c < 0x80 then (if html_safe c then [c] else escape c) @ escape_string cs
      else (case rune_width s of
          None \<Rightarrow> [CHR 0x5C] @ ''ufffd'' @ escape_string cs
        | Some n \<Rightarrow> (case line_separator s of
              Some d \<Rightarrow> [CHR 0x5C] @ ''u202'' @ [d]
            | None \<Rightarrow> c # take (n - 1) cs) @ escape_string (drop (n - 1) cs))))"
  by pat_completeness auto
termination by (relation "measure length") auto

declare escape_string.simps [simp del]

text \<open>
  Reading a literal back: four hexadecimal digits, UTF-16 surrogate pairs, the other escapes
  and the bytes as they are, where malformed UTF-8 is replaced.
\<close>

fun getu4 :: "string \<Rightarrow> nat option" where
  "getu4 (a # b # c # d # e # f # s) =
     (if a = CHR 0x5C \<and> b = CHR ''u'' then
        (case (hex_digit c, hex_digit d, hex_digit e, hex_digit f) of
           (Some w, Some x, Some y, Some z) \<Rightarrow> Some (4096 * w + 256 * x + 16 * y + z)
         | _ \<Rightarrow> None)
      else None)"
| "getu4 _ = None"

definition is_surrogate :: "nat \<Rightarrow> bool" where
  "is_surrogate r \<longleftrightarrow> 0xD800 \<le> r \<and> r < 0xE000"

definition utf16_pair :: "nat \<Rightarrow> nat option \<Rightarrow> nat option" where
  "utf16_pair r1 r2 = (case r2 of None \<Rightarrow> None | Some r2 \<Rightarrow>
     if 0xD800 \<le> r1 \<and> r1 < 0xDC00 \<and> 0xDC00 \<le> r2 \<and> r2 < 0xE000
     then Some (0x10000 + 1024 * (r1 - 0xD800) + (r2 - 0xDC00)) else None)"

definition simple_escape :: "char \<Rightarrow> char option" where
  "simple_escape c =
     (if c = CHR 0x22 \<or> c = CHR 0x5C \<or> c = CHR ''/'' \<or> c = CHR 0x27 then Some c
      else if c = CHR ''b'' then Some CHR 0x08
      else if c = CHR ''f'' then Some CHR 0x0C
      else if c = CHR ''n'' then Some CHR 0x0A
      else if c = CHR ''r'' then Some CHR 0x0D
      else if c = CHR ''t'' then Some CHR 0x09
      else None)"

function unquote :: "string \<Rightarrow> string option" where
  "unquote s = (case s of [] \<Rightarrow> Some [] | c # cs \<Rightarrow>
     (if c = CHR 0x5C then
        (case cs of [] \<Rightarrow> None | e # es \<Rightarrow>
           if e = CHR ''u'' then
             (case getu4 s of None \<Rightarrow> None | Some r \<Rightarrow>
                if is_surrogate r then
                  (case utf16_pair r (getu4 (drop 6 s)) of
                     Some q \<Rightarrow> map_option ((@) (encode_rune q)) (unquote (drop 12 s))
                   | None \<Rightarrow> map_option ((@) rune_error) (unquote (drop 6 s)))
                else map_option ((@) (encode_rune r)) (unquote (drop 6 s)))
           else (case simple_escape e of None \<Rightarrow> None | Some x \<Rightarrow> map_option ((#) x) (unquote es)))
      else (case rune_width s of
          None \<Rightarrow> map_option ((@) rune_error) (unquote cs)
        | Some n \<Rightarrow> map_option (\<lambda>t. c # take (n - 1) cs @ t) (unquote (drop (n - 1) cs)))))"
  by pat_completeness auto
termination by (relation "measure length") auto

declare unquote.simps [simp del]

subsection \<open>Writing a value\<close>

definition quoted :: "string \<Rightarrow> string" where
  "quoted s = CHR 0x22 # escape_string s @ [CHR 0x22]"

fun Marshal :: "json \<Rightarrow> string" where
  "Marshal JNull = ''null''"
| "Marshal (JBool b) = (if b then ''true'' else ''false'')"
| "Marshal (JNum n) = n"
| "Marshal (JStr s) = quoted s"
| "Marshal (JArr vs) = ''['' @ strings_Join '','' (map Marshal vs) @ '']''"
| "Marshal (JObj ms) = ''{'' @ strings_Join '','' (map (\<lambda>(k, v). quoted k @ '':'' @ Marshal v) ms) @ ''}''"

subsection \<open>The scanner\<close>

text \<open>Where a number literal can be, and which bytes continue it.\<close>

datatype numState = NNeg | NZero | NInt | NDot | NFrac | NE | NESign | NExp

definition is_dec :: "char \<Rightarrow> bool" where
  "is_dec c \<longleftrightarrow> 48 \<le> byte c \<and> byte c \<le> 57"

fun num_step :: "numState \<Rightarrow> char \<Rightarrow> numState option" where
  "num_step NNeg c = (if c = CHR ''0'' then Some NZero else if is_dec c then Some NInt else None)"
| "num_step NZero c = (if c = CHR ''.'' then Some NDot else if c = CHR ''e'' \<or> c = CHR ''E'' then Some NE else None)"
| "num_step NInt c = (if is_dec c then Some NInt else if c = CHR ''.'' then Some NDot
     else if c = CHR ''e'' \<or> c = CHR ''E'' then Some NE else None)"
| "num_step NDot c = (if is_dec c then Some NFrac else None)"
| "num_step NFrac c = (if is_dec c then Some NFrac else if c = CHR ''e'' \<or> c = CHR ''E'' then Some NE else None)"
| "num_step NE c = (if c = CHR ''+'' \<or> c = CHR ''-'' then Some NESign else if is_dec c then Some NExp else None)"
| "num_step NESign c = (if is_dec c then Some NExp else None)"
| "num_step NExp c = (if is_dec c then Some NExp else None)"

definition num_ends :: "numState \<Rightarrow> bool" where
  "num_ends n \<longleftrightarrow> n = NZero \<or> n = NInt \<or> n = NFrac \<or> n = NExp"

text \<open>
  A frame is an open array with its elements, or an open object with its members and the
  key read last. Literals are collected byte by byte, strings with the escape they are in.
\<close>

datatype frame = FArr "json list" | FObj "(string \<times> json) list" string

datatype escState = Plain | Escaped | Hex nat

datatype mode =
  Begin | BeginOrEnd | BeginKeyOrEnd | BeginKey | Colon
| InString bool string escState | InNum string numState | InLit string json
| After | Done json

type_synonym scanner = "mode \<times> frame list"

definition is_space :: "char \<Rightarrow> bool" where
  "is_space c \<longleftrightarrow> c = CHR '' '' \<or> c = CHR 0x09 \<or> c = CHR 0x0D \<or> c = CHR 0x0A"

fun deliver :: "json \<Rightarrow> frame list \<Rightarrow> scanner" where
  "deliver v [] = (Done v, [])"
| "deliver v (FArr vs # st) = (After, FArr (vs @ [v]) # st)"
| "deliver v (FObj ms k # st) = (After, FObj (ms @ [(k, v)]) k # st)"

text \<open>The nesting depth the library allows.\<close>

definition maxNestingDepth :: nat where
  "maxNestingDepth = 10000"

definition push_frame :: "mode \<Rightarrow> frame \<Rightarrow> frame list \<Rightarrow> scanner option" where
  "push_frame m f st = (if length st < maxNestingDepth then Some (m, f # st) else None)"

definition begin_value :: "char \<Rightarrow> frame list \<Rightarrow> scanner option" where
  "begin_value c st =
     (if c = CHR ''{'' then push_frame BeginKeyOrEnd (FObj [] []) st
      else if c = CHR ''['' then push_frame BeginOrEnd (FArr []) st
      else if c = CHR 0x22 then Some (InString False [] Plain, st)
      else if c = CHR ''-'' then Some (InNum [c] NNeg, st)
      else if c = CHR ''0'' then Some (InNum [c] NZero, st)
      else if is_dec c then Some (InNum [c] NInt, st)
      else if c = CHR ''t'' then Some (InLit ''rue'' (JBool True), st)
      else if c = CHR ''f'' then Some (InLit ''alse'' (JBool False), st)
      else if c = CHR ''n'' then Some (InLit ''ull'' JNull, st)
      else None)"

definition after_value :: "char \<Rightarrow> scanner \<Rightarrow> scanner option" where
  "after_value c x = (case x of
       (After, FArr vs # st) \<Rightarrow>
         if is_space c then Some x else if c = CHR '','' then Some (Begin, FArr vs # st)
         else if c = CHR '']'' then Some (deliver (JArr vs) st) else None
     | (After, FObj ms k # st) \<Rightarrow>
         if is_space c then Some x else if c = CHR '','' then Some (BeginKey, FObj ms k # st)
         else if c = CHR ''}'' then Some (deliver (JObj ms) st) else None
     | (Done v, st) \<Rightarrow> if is_space c then Some x else None
     | _ \<Rightarrow> None)"

definition end_string :: "bool \<Rightarrow> string \<Rightarrow> frame list \<Rightarrow> scanner option" where
  "end_string is_key raw st = (case unquote raw of None \<Rightarrow> None | Some s \<Rightarrow>
     if is_key then (case st of FObj ms k # st \<Rightarrow> Some (Colon, FObj ms s # st) | _ \<Rightarrow> None)
     else Some (deliver (JStr s) st))"

definition string_step :: "bool \<Rightarrow> string \<Rightarrow> escState \<Rightarrow> char \<Rightarrow> frame list \<Rightarrow> scanner option" where
  "string_step is_key raw e c st = (case e of
       Plain \<Rightarrow>
         if c = CHR 0x22 then end_string is_key raw st
         else if c = CHR 0x5C then Some (InString is_key (raw @ [c]) Escaped, st)
         else if byte c < 0x20 then None
         else Some (InString is_key (raw @ [c]) Plain, st)
     | Escaped \<Rightarrow>
         if c = CHR ''u'' then Some (InString is_key (raw @ [c]) (Hex 3), st)
         else if c \<noteq> CHR 0x27 \<and> simple_escape c \<noteq> None then Some (InString is_key (raw @ [c]) Plain, st)
         else None
     | Hex n \<Rightarrow>
         if hex_digit c = None then None
         else Some (InString is_key (raw @ [c]) (if n = 0 then Plain else Hex (n - 1)), st))"

fun scan :: "char \<Rightarrow> scanner \<Rightarrow> scanner option" where
  "scan c (Begin, st) = (if is_space c then Some (Begin, st) else begin_value c st)"
| "scan c (BeginOrEnd, st) =
     (if is_space c then Some (BeginOrEnd, st)
      else if c = CHR '']'' then after_value c (After, st) else begin_value c st)"
| "scan c (BeginKeyOrEnd, st) =
     (if is_space c then Some (BeginKeyOrEnd, st)
      else if c = CHR ''}'' then after_value c (After, st)
      else if c = CHR 0x22 then Some (InString True [] Plain, st) else None)"
| "scan c (BeginKey, st) =
     (if is_space c then Some (BeginKey, st)
      else if c = CHR 0x22 then Some (InString True [] Plain, st) else None)"
| "scan c (Colon, st) =
     (if is_space c then Some (Colon, st) else if c = CHR '':'' then Some (Begin, st) else None)"
| "scan c (InString is_key raw e, st) = string_step is_key raw e c st"
| "scan c (InNum raw n, st) = (case num_step n c of
       Some n' \<Rightarrow> Some (InNum (raw @ [c]) n', st)
     | None \<Rightarrow> if num_ends n then after_value c (deliver (JNum raw) st) else None)"
| "scan c (InLit [] v, st) = None"
| "scan c (InLit (x # xs) v, st) =
     (if c \<noteq> x then None else if xs = [] then Some (deliver v st) else Some (InLit xs v, st))"
| "scan c (After, st) = after_value c (After, st)"
| "scan c (Done v, st) = after_value c (Done v, st)"

fun scan_all :: "string \<Rightarrow> scanner \<Rightarrow> scanner option" where
  "scan_all [] x = Some x"
| "scan_all (c # cs) x = (case scan c x of None \<Rightarrow> None | Some x \<Rightarrow> scan_all cs x)"

text \<open>The end of the input acts as a space. \<open>None\<close> is a syntax error.\<close>

definition parse_json :: "string \<Rightarrow> json option" where
  "parse_json s = (case scan_all (s @ '' '') (Begin, []) of Some (Done v, st) \<Rightarrow> Some v | _ \<Rightarrow> None)"

subsection \<open>Decoding into a struct\<close>

fun json_kind :: "json \<Rightarrow> string" where
  "json_kind JNull = ''null''"
| "json_kind (JBool b) = ''bool''"
| "json_kind (JNum n) = ''number''"
| "json_kind (JStr s) = ''string''"
| "json_kind (JArr vs) = ''array''"
| "json_kind (JObj ms) = ''object''"

text \<open>
  A field is decoded into its old value, which a null leaves as it is. The result has the
  kind of the value and the type of the field when they do not fit.
\<close>

type_synonym mismatch = "(string \<times> string) option"

fun decode_text :: "json \<Rightarrow> string \<Rightarrow> string \<times> mismatch" where
  "decode_text JNull old = (old, None)"
| "decode_text (JStr s) old = (s, None)"
| "decode_text v old = (old, Some (json_kind v, ''string''))"

fun decode_texts :: "json list \<Rightarrow> string list \<Rightarrow> string list \<times> mismatch" where
  "decode_texts [] old = ([], None)"
| "decode_texts (v # vs) old =
     (let (x, e) = decode_text v (case old of [] \<Rightarrow> [] | o1 # _ \<Rightarrow> o1); (xs, es) = decode_texts vs (tl old)
      in (x # xs, case e of None \<Rightarrow> es | Some k \<Rightarrow> Some k))"

fun decode_int :: "json \<Rightarrow> go_int \<Rightarrow> go_int \<times> mismatch" where
  "decode_int JNull old = (old, None)"
| "decode_int (JNum n) old = (case Atoi n of Inr i \<Rightarrow> (i, None) | Inl e \<Rightarrow> (old, Some (''number '' @ n, ''int'')))"
| "decode_int v old = (old, Some (json_kind v, ''int''))"

text \<open>
  Keys match field names up to case folding, where the long s (U+017F) folds to s. No other
  rune outside ASCII folds to a letter of the names in use.
\<close>

definition fold_char :: "char \<Rightarrow> char" where
  "fold_char c = (if 65 \<le> byte c \<and> byte c \<le> 90 then char_of (byte c + 32) else c)"

fun fold_name :: "string \<Rightarrow> string" where
  "fold_name (a # b # s) =
     (if a = CHR 0xC5 \<and> b = CHR 0xBF then CHR ''s'' # fold_name s else fold_char a # fold_name (b # s))"
| "fold_name [a] = [fold_char a]"
| "fold_name [] = []"

declare fold_name.simps [simp del]

text \<open>The fields of a struct: folded name, name, decoder.\<close>

type_synonym 'r fields = "(string \<times> string \<times> (json \<Rightarrow> 'r \<Rightarrow> 'r \<times> mismatch)) list"

definition field_error :: "string \<Rightarrow> string \<Rightarrow> mismatch \<Rightarrow> string option" where
  "field_error struct field e = (case e of None \<Rightarrow> None | Some (kind, type) \<Rightarrow> Some
     (''json: cannot unmarshal '' @ kind @ '' into Go struct field '' @ struct @ ''.'' @ field @ '' of type '' @ type))"

definition decode_member :: "string \<Rightarrow> 'r fields \<Rightarrow> string \<times> json \<Rightarrow> 'r \<Rightarrow> 'r \<times> string option" where
  "decode_member struct fields m r = (case map_of fields (fold_name (fst m)) of
       None \<Rightarrow> (r, None)
     | Some (field, dec) \<Rightarrow> (case dec (snd m) r of (r, e) \<Rightarrow> (r, field_error struct field e)))"

text \<open>The members in order, an unknown key is skipped; the first mismatch is the error.\<close>

fun decode_members :: "string \<Rightarrow> 'r fields \<Rightarrow> (string \<times> json) list \<Rightarrow> 'r \<Rightarrow> string option \<Rightarrow> 'r \<times> string option" where
  "decode_members struct fields [] r err = (r, err)"
| "decode_members struct fields (m # ms) r err = (case decode_member struct fields m r of (r, e) \<Rightarrow>
     decode_members struct fields ms r (case err of None \<Rightarrow> e | Some x \<Rightarrow> Some x))"

text \<open>
  \<open>json.Unmarshal\<close> into a variable of a struct type of package main: its new value and the
  text of the error. The text of a syntax error is the library's, the argument \<open>syntax\<close>.
\<close>

definition unmarshal_struct :: "(string \<Rightarrow> string) \<Rightarrow> string \<Rightarrow> 'r fields \<Rightarrow> string \<Rightarrow> 'r \<Rightarrow> 'r \<times> string option" where
  "unmarshal_struct syntax struct fields body r = (case parse_json body of
       None \<Rightarrow> (r, Some (syntax body))
     | Some (JObj ms) \<Rightarrow> decode_members struct fields ms r None
     | Some JNull \<Rightarrow> (r, None)
     | Some v \<Rightarrow> (r, Some (''json: cannot unmarshal '' @ json_kind v @ '' into Go value of type main.'' @ struct)))"

end
