(* ===== verification/Admin.thy ===== *)
theory Admin
  imports App Libp2p Json
begin

section \<open>The administration endpoints: main.go, from startHttpServer on\<close>

text \<open>
  Five HTTP endpoints let an administrator drive the node: a JSON request is decoded, one
  method of the node is called, and its result or error is the JSON reply. The endpoints are
  the composition the code has: a handler for each, \<open>adapt\<close> and \<open>getAdapt\<close> around it, and
  the dispatch on the path. From the libraries, \<open>adminLib\<close> adds to the identifier texts how
  a peer identifier marshals itself and the text of a syntax error.
\<close>

record adminLib = wire +
  idMarshal :: "peer_id \<Rightarrow> error + json"
  syntaxText :: "string \<Rightarrow> string"

subsection \<open>Decoding a request\<close>

text \<open>
  \<open>spare\<close> is the part of the array behind \<open>Addresses\<close> that lies beyond the length of the
  slice and has been written before: decoding into a slice that grows again shows these
  elements to the decoder, which keeps the old value of an element for a JSON null.
\<close>

record req =
  PeerID :: string
  req_Addresses :: "string list"
  spare :: "string list"

definition zero_req :: req where
  "zero_req = \<lparr> PeerID = [], req_Addresses = [], spare = [] \<rparr>"

fun decode_Addresses :: "json \<Rightarrow> req \<Rightarrow> req \<times> mismatch" where
  "decode_Addresses JNull r = (r\<lparr>req_Addresses := [], spare := []\<rparr>, None)"
| "decode_Addresses (JArr vs) r =
     (if vs = [] then (r\<lparr>req_Addresses := [], spare := []\<rparr>, None)
      else let old = req_Addresses r @ spare r; (xs, e) = decode_texts vs old
        in (r\<lparr>req_Addresses := xs, spare := drop (length vs) old\<rparr>, e))"
| "decode_Addresses v r = (r, Some (json_kind v, ''[]string''))"

definition decode_PeerID :: "json \<Rightarrow> req \<Rightarrow> req \<times> mismatch" where
  "decode_PeerID v r = (case decode_text v (PeerID r) of (s, e) \<Rightarrow> (r\<lparr>PeerID := s\<rparr>, e))"

definition req_fields :: "req fields" where
  "req_fields = [(''peerid'', ''PeerID'', decode_PeerID), (''addresses'', ''Addresses'', decode_Addresses)]"

text \<open>\<open>json.Unmarshal\<close> into a variable of type \<open>req\<close>: its new value and the error.\<close>

definition Unmarshal :: "adminLib \<Rightarrow> string \<Rightarrow> req \<Rightarrow> req \<times> error option" where
  "Unmarshal lib body r = apsnd (map_option External) (unmarshal_struct (syntaxText lib) ''req'' req_fields body r)"

subsection \<open>Replies\<close>

text \<open>
  What is handed to the \<open>http.ResponseWriter\<close>; the status is \<open>None\<close> until it is written.
  Whether the bytes reach the client the code only prints.
\<close>

record responseWriter =
  rwHeader :: "(string \<times> string) list"
  rwStatus :: "nat option"
  rwBody :: string

definition newWriter :: responseWriter where
  "newWriter = \<lparr> rwHeader = [], rwStatus = None, rwBody = [] \<rparr>"

definition WriteHeader :: "nat \<Rightarrow> responseWriter \<Rightarrow> responseWriter" where
  "WriteHeader status w = (if rwStatus w = None then w\<lparr>rwStatus := Some status\<rparr> else w)"

definition WriteBody :: "string \<Rightarrow> responseWriter \<Rightarrow> responseWriter" where
  "WriteBody b w = (let w = WriteHeader 200 w in w\<lparr>rwBody := rwBody w @ b\<rparr>)"

text \<open>The bodies given to \<open>writeResponse\<close> are error replies, which always marshal.\<close>

definition writeResponse :: "nat \<Rightarrow> (string \<times> string) list \<Rightarrow> json option \<Rightarrow> responseWriter \<Rightarrow> responseWriter" where
  "writeResponse status headers jsonBody w =
     (let w = w\<lparr>rwHeader := rwHeader w @ headers\<rparr>;
          w = (if jsonBody \<noteq> None then w\<lparr>rwHeader := rwHeader w @ [(''Content-Type'', ''application/json'')]\<rparr> else w);
          w = WriteHeader status w
      in case jsonBody of None \<Rightarrow> w | Some v \<Rightarrow> WriteBody (Marshal v) w)"

definition errResp :: "string \<Rightarrow> string \<Rightarrow> json" where
  "errResp msg err = JObj [(''Message'', JStr msg), (''Error'', JStr err)]"

subsection \<open>The adapters\<close>

record httpRequest =
  Method :: string
  Body :: "string \<times> error option"

text \<open>A handler: its argument and the state to a response or error and the new state.\<close>

type_synonym ('i, 'o, 's) endpoint = "'i \<Rightarrow> 's \<Rightarrow> ((error + 'o) \<times> 's) option"

text \<open>\<open>marshal\<close> is \<open>json.Marshal\<close> at the type of the response.\<close>

definition handleAndReply :: "('x) names_scheme \<Rightarrow> ('o \<Rightarrow> error + json) \<Rightarrow> ('i, 'o, 's) endpoint \<Rightarrow> 'i \<Rightarrow>
    responseWriter \<Rightarrow> 's \<Rightarrow> (responseWriter \<times> 's) option" where
  "handleAndReply lib marshal h reqType w s = do {
     (resp, s) \<leftarrow> h reqType s;
     returns (case resp of
         Inl err \<Rightarrow> writeResponse 500 [] (Some (errResp ''Error during processing.'' (error_text (names.truncate lib) err))) w
       | Inr resp \<Rightarrow> (case marshal resp of
           Inl err \<Rightarrow> writeResponse 500 []
             (Some (errResp ''Failed to serialize response as json.'' (error_text (names.truncate lib) err))) w
         | Inr jsonResp \<Rightarrow> WriteBody (Marshal jsonResp) w), s) }"

text \<open>
  The function that \<open>adapt\<close> returns keeps the variable \<open>reqType\<close> from one request to the
  next: it is part of the state.
\<close>

definition adapt :: "adminLib \<Rightarrow> ('o \<Rightarrow> error + json) \<Rightarrow> (req, 'o, 's) endpoint \<Rightarrow> httpRequest \<Rightarrow>
    req \<times> 's \<Rightarrow> (responseWriter \<times> (req \<times> 's)) option" where
  "adapt lib marshal h rq st = (case st of (reqType, s) \<Rightarrow>
     (if Method rq \<noteq> ''POST'' then returns (writeResponse 405 [(''Allow'', ''POST'')] None newWriter, st)
      else case Body rq of
        (body, Some err) \<Rightarrow> returns (writeResponse 500 []
          (Some (errResp ''Failed to read request body.'' (error_text (names.truncate lib) err))) newWriter, st)
      | (body, None) \<Rightarrow> (case Unmarshal lib body reqType of
          (reqType, Some err) \<Rightarrow> returns (writeResponse 400 []
            (Some (errResp ''Unable to parse request as JSON.'' (error_text (names.truncate lib) err))) newWriter, (reqType, s))
        | (reqType, None) \<Rightarrow> do {
            (w, s) \<leftarrow> handleAndReply lib marshal h reqType newWriter s;
            returns (w, (reqType, s)) })))"

definition getAdapt :: "('x) names_scheme \<Rightarrow> ('o \<Rightarrow> error + json) \<Rightarrow> (req, 'o, 's) endpoint \<Rightarrow> httpRequest \<Rightarrow>
    's \<Rightarrow> (responseWriter \<times> 's) option" where
  "getAdapt lib marshal h rq s =
     (if Method rq \<noteq> ''GET'' then returns (writeResponse 405 [(''Allow'', ''GET'')] None newWriter, s)
      else handleAndReply lib marshal h zero_req newWriter s)"

subsection \<open>The handlers\<close>

text \<open>A response is a Go map with one key, or the list that is its value.\<close>

definition marshal_strings :: "(string \<times> string) list \<Rightarrow> error + json" where
  "marshal_strings m = Inr (JObj (map (\<lambda>(k, v). (k, JStr v)) m))"

definition connectHttpHandler :: "'w nodeEnv \<Rightarrow> adminLib \<Rightarrow> (req, (string \<times> string) list, 'w nodeState) endpoint" where
  "connectHttpHandler env lib r st = (case ParsePeerID (wire.truncate lib) (PeerID r) of
       Inl err \<Rightarrow> returns (Inl err, st)
     | Inr pid \<Rightarrow> do {
         ((connID, err), st) \<leftarrow> Connect env (NewPeer (Some pid) (req_Addresses r))
            \<lparr> WitnessSelector = Some WitnessSelectorSender \<rparr> noOptions st;
         returns (case err of Some e \<Rightarrow> Inl e | None \<Rightarrow> Inr [(''connectionId'', uuidString lib connID)], st) })"

text \<open>The methods of the node that leave its stores alone, on the whole state.\<close>

definition on_world :: "('w \<Rightarrow> ('r \<times> 'w) option) \<Rightarrow> 'w nodeState \<Rightarrow> ('r \<times> 'w nodeState) option" where
  "on_world f st = (case st of (cs, rs, w) \<Rightarrow> do { (r, w) \<leftarrow> f w; returns (r, (cs, rs, w)) })"

definition updatePeerHandler :: "'w nodeEnv \<Rightarrow> adminLib \<Rightarrow> (req, (string \<times> string) list, 'w nodeState) endpoint" where
  "updatePeerHandler env lib r st = (case ParsePeerID (wire.truncate lib) (PeerID r) of
       Inl err \<Rightarrow> returns (Inl err, st)
     | Inr pid \<Rightarrow> do {
         (err, st) \<leftarrow> on_world (UpdatePeer env (NewPeer (Some pid) (req_Addresses r))) st;
         returns (case err of
             Some e \<Rightarrow> Inl e
           | None \<Rightarrow> Inr [(''message'', ''Successfully added peer '' @ PeerID r @ '' with addresses '' @ fmt_slice (req_Addresses r))], st) })"

text \<open>A nil slice is \<open>None\<close>: it marshals as null.\<close>

record peerResp =
  pr_ID :: "peer_id option"
  pr_Addresses :: "Address list option"

definition marshal_slice :: "json list option \<Rightarrow> json" where
  "marshal_slice xs = (case xs of None \<Rightarrow> JNull | Some xs \<Rightarrow> JArr xs)"

definition marshal_id :: "adminLib \<Rightarrow> peer_id option \<Rightarrow> error + json" where
  "marshal_id lib p = (case p of None \<Rightarrow> Inr JNull
     | Some i \<Rightarrow> (case idMarshal lib i of
         Inl e \<Rightarrow> Inl (External (''json: error calling MarshalJSON for type peer.ID: '' @ error_text (names.truncate lib) e))
       | Inr v \<Rightarrow> Inr v))"

definition marshal_peerResp :: "adminLib \<Rightarrow> peerResp \<Rightarrow> error + json" where
  "marshal_peerResp lib p = tryE (marshal_id lib (pr_ID p)) (\<lambda>v.
     Inr (JObj [(''id'', v), (''addresses'', marshal_slice (map_option (map JStr) (pr_Addresses p)))]))"

fun marshal_each :: "('a \<Rightarrow> error + json) \<Rightarrow> 'a list \<Rightarrow> error + json list" where
  "marshal_each f [] = Inr []"
| "marshal_each f (x # xs) = tryE (f x) (\<lambda>v. tryE (marshal_each f xs) (\<lambda>vs. Inr (v # vs)))"

definition marshal_peers :: "adminLib \<Rightarrow> peerResp list option \<Rightarrow> error + json" where
  "marshal_peers lib ps = (case ps of
       None \<Rightarrow> Inr (JObj [(''peers'', JNull)])
     | Some ps \<Rightarrow> tryE (marshal_each (marshal_peerResp lib) ps) (\<lambda>vs. Inr (JObj [(''peers'', JArr vs)])))"

definition listPeerHandler :: "'w nodeEnv \<Rightarrow> (req, peerResp list option, 'w nodeState) endpoint" where
  "listPeerHandler env r st = do {
     peers \<leftarrow> PeersOf env (snd (snd st));
     returns (case peers of
         Inl err \<Rightarrow> Inl err
       | Inr peers \<Rightarrow> Inr (Some (map (\<lambda>p. \<lparr> pr_ID = peer_ID p, pr_Addresses = Some (Addresses p) \<rparr>) peers)), st) }"

record connResp =
  cnr_ID :: string
  cnr_Sender :: string
  cnr_Witness :: string
  cnr_Receiver :: string
  cnr_Status :: string

definition marshal_connections :: "connResp list \<Rightarrow> error + json" where
  "marshal_connections cs = Inr (JObj [(''connections'', JArr (map (\<lambda>c. JObj
     [(''ID'', JStr (cnr_ID c)), (''Sender'', JStr (cnr_Sender c)), (''Witness'', JStr (cnr_Witness c)),
      (''Receiver'', JStr (cnr_Receiver c)), (''Status'', JStr (cnr_Status c))]) cs))])"

definition connResp_of :: "names \<Rightarrow> Connection \<Rightarrow> connResp" where
  "connResp_of n c = \<lparr> cnr_ID = uuidString n (ID c), cnr_Sender = fmt_id n (Sender c),
     cnr_Witness = fmt_id n (Witness c), cnr_Receiver = fmt_id n (Receiver c),
     cnr_Status = status_String (Status c) \<rparr>"

definition listConnectionsHandler :: "'w nodeEnv \<Rightarrow> adminLib \<Rightarrow> (req, connResp list, 'w nodeState) endpoint" where
  "listConnectionsHandler env lib r st = do {
     connections \<leftarrow> Connections env st;
     returns (Inr (map (connResp_of (names.truncate lib)) connections), st) }"

text \<open>
  The response list is declared nil and stays so without peers. The addresses of a received
  peer are nil when there are none.
\<close>

definition received_peerResp :: "Peer \<Rightarrow> peerResp" where
  "received_peerResp p = \<lparr> pr_ID = peer_ID p,
     pr_Addresses = (if Addresses p = [] then None else Some (Addresses p)) \<rparr>"

definition requestPeerHandler :: "'w nodeEnv \<Rightarrow> adminLib \<Rightarrow> (req, peerResp list option, 'w nodeState) endpoint" where
  "requestPeerHandler env lib r st = (case ParsePeerID (wire.truncate lib) (PeerID r) of
       Inl err \<Rightarrow> returns (Inl err, st)
     | Inr pid \<Rightarrow> do {
         ((peers, err), st) \<leftarrow> on_world (RequestPeers env (NewPeer (Some pid) (req_Addresses r)) \<lparr> Num = 1 \<rparr> noOptions) st;
         returns (case err of
             Some e \<Rightarrow> Inl e
           | None \<Rightarrow> Inr (if peers = [] then None else Some (map received_peerResp peers)), st) })"

subsection \<open>The server\<close>

text \<open>One variable \<open>reqType\<close> for each endpoint that decodes a request.\<close>

record adminVars =
  connectReq :: req
  peerReq :: req
  requestPeersReq :: req

definition newAdmin :: adminVars where
  "newAdmin = \<lparr> connectReq = zero_req, peerReq = zero_req, requestPeersReq = zero_req \<rparr>"

text \<open>A path without a handler is answered by the library.\<close>

definition notFound :: responseWriter where
  "notFound = \<lparr> rwHeader = [(''Content-Type'', ''text/plain; charset=utf-8''), (''X-Content-Type-Options'', ''nosniff'')],
     rwStatus = Some 404, rwBody = ''404 page not found'' @ [CHR 0x0A] \<rparr>"

definition startHttpServer :: "'w nodeEnv \<Rightarrow> adminLib \<Rightarrow> string \<Rightarrow> httpRequest \<Rightarrow> adminVars \<times> 'w nodeState \<Rightarrow>
    (responseWriter \<times> (adminVars \<times> 'w nodeState)) option" where
  "startHttpServer env lib path rq x = (case x of (a, st) \<Rightarrow>
     if path = ''/connect'' then do {
       (w, r, st) \<leftarrow> adapt lib marshal_strings (connectHttpHandler env lib) rq (connectReq a, st);
       returns (w, (a\<lparr>connectReq := r\<rparr>, st)) }
     else if path = ''/peer'' then do {
       (w, r, st) \<leftarrow> adapt lib marshal_strings (updatePeerHandler env lib) rq (peerReq a, st);
       returns (w, (a\<lparr>peerReq := r\<rparr>, st)) }
     else if path = ''/peers'' then do {
       (w, st) \<leftarrow> getAdapt lib (marshal_peers lib) (listPeerHandler env) rq st;
       returns (w, (a, st)) }
     else if path = ''/connections'' then do {
       (w, st) \<leftarrow> getAdapt lib marshal_connections (listConnectionsHandler env lib) rq st;
       returns (w, (a, st)) }
     else if path = ''/requestpeers'' then do {
       (w, r, st) \<leftarrow> adapt lib (marshal_peers lib) (requestPeerHandler env lib) rq (requestPeersReq a, st);
       returns (w, (a\<lparr>requestPeersReq := r\<rparr>, st)) }
     else returns (notFound, (a, st)))"

end
