(* ===== verification/Json_Laws.thy ===== *)
theory Json_Laws
  imports Json
begin

section \<open>Reading back what was written\<close>

text \<open>
  The scanner reads every text that \<open>Marshal\<close> writes and delivers the value it was written
  from, up to the replacement of malformed UTF-8 inside strings.
\<close>

subsection \<open>Well-formed byte sequences\<close>

lemma rune_width_ascii [simp]: "byte c < 0x80 \<Longrightarrow> rune_width (c # cs) = Some 1"
  by (simp add: rune_width.simps)

lemma rune_width_bounds:
  assumes "rune_width s = Some n"
  shows "0 < n \<and> n \<le> length s"
  using assms by (cases s) (auto simp: rune_width.simps Let_def split: if_split_asm list.split_asm)

text \<open>A sequence of more than one byte: none of its bytes is ASCII, and what follows does not matter.\<close>

lemma rune_width_long:
  assumes "rune_width (c # cs) = Some (Suc m)" "0x80 \<le> byte c"
  shows "\<forall>x \<in> set (c # take m cs). 0x80 \<le> byte x"
    and "rune_width (c # take m cs @ t) = Some (Suc m)"
  using assms
  by (auto simp: rune_width.simps Let_def is_cont_def second_ok_def split: if_split_asm list.split_asm)

lemma rune_cases:
  obtains (empty) "s = []"
  | (ascii) c cs where "s = c # cs" "byte c < 0x80"
  | (bad) c cs where "s = c # cs" "0x80 \<le> byte c" "rune_width s = None"
  | (rune) c cs m where "s = c # cs" "0x80 \<le> byte c" "rune_width s = Some (Suc m)" "m \<le> length cs"
proof (cases s)
  case (Cons c cs)
  then show thesis
    using ascii bad rune rune_width_bounds [of s]
    by (cases "byte c < 0x80"; cases "rune_width s"; cases "the (rune_width s)") (auto simp: not_less)
qed (rule empty)

subsection \<open>Escapes\<close>

lemma hex_digit_char [simp]: "d < 16 \<Longrightarrow> hex_digit (hex_char d) = Some d"
  by (auto simp: hex_digit_def hex_char_def Let_def)

lemma hex_0 [simp]: "hex_char 0 = CHR ''0''" "hex_digit CHR ''0'' = Some 0"
  by code_simp+

lemma encode_runes [simp]:
  "encode_rune 0xFFFD = rune_error" "encode_rune 0x2028 = [CHR 0xE2, CHR 0x80, CHR 0xA8]"
  "encode_rune 0x2029 = [CHR 0xE2, CHR 0x80, CHR 0xA9]"
  by (simp_all add: encode_rune_def rune_error_def char_of_eq_iff)

lemma unquote_Nil [simp]: "unquote [] = Some []"
  by (simp add: unquote.simps)

lemma unquote_ascii [simp]:
  "byte c < 0x80 \<Longrightarrow> c \<noteq> CHR 0x5C \<Longrightarrow> unquote (c # cs) = map_option ((#) c) (unquote cs)"
  by (subst unquote.simps) simp

lemma unquote_simple:
  "simple_escape e = Some x \<Longrightarrow> unquote (CHR 0x5C # e # es) = map_option ((#) x) (unquote es)"
  by (subst unquote.simps) (auto simp: simple_escape_def)

lemma getu4_hex:
  "w < 16 \<Longrightarrow> x < 16 \<Longrightarrow> y < 16 \<Longrightarrow> z < 16 \<Longrightarrow>
   getu4 (CHR 0x5C # CHR ''u'' # hex_char w # hex_char x # hex_char y # hex_char z # s) =
     Some (4096 * w + 256 * x + 16 * y + z)"
  by simp

lemma unquote_u4:
  assumes "getu4 (CHR 0x5C # CHR ''u'' # a # b # c # d # s) = Some r" "\<not> is_surrogate r"
  shows "unquote (CHR 0x5C # CHR ''u'' # a # b # c # d # s) = map_option ((@) (encode_rune r)) (unquote s)"
  using assms by (subst unquote.simps) simp

lemma encode_ascii: "r < 0x80 \<Longrightarrow> encode_rune r = [char_of r]"
  by (simp add: encode_rune_def)

lemma unquote_escape:
  assumes "byte c < 0x80" "\<not> html_safe c"
  shows "unquote (escape c @ s) = map_option ((#) c) (unquote s)"
proof -
  have "unquote (CHR 0x5C # CHR ''u'' # CHR ''0'' # CHR ''0'' # hex_char (byte c div 16) # hex_char (byte c mod 16) # s) =
      map_option ((#) c) (unquote s)"
  proof (subst unquote_u4 [where r = "byte c"])
    show "getu4 (CHR 0x5C # CHR ''u'' # CHR ''0'' # CHR ''0'' # hex_char (byte c div 16) # hex_char (byte c mod 16) # s) =
        Some (byte c)"
      using getu4_hex [of 0 0 "byte c div 16" "byte c mod 16" s] assms(1) by (simp del: getu4.simps)
  qed (use assms(1) in \<open>auto simp: is_surrogate_def encode_ascii intro: option.map_cong0\<close>)
  then show ?thesis
    by (simp add: escape_def unquote_simple simple_escape_def)
qed

lemma to_valid_simps [simp]:
  "to_valid [] = []"
  "byte c < 0x80 \<Longrightarrow> to_valid (c # cs) = c # to_valid cs"
  by (subst to_valid.simps, simp)+

lemma to_valid_bad: "rune_width (c # cs) = None \<Longrightarrow> to_valid (c # cs) = rune_error @ to_valid cs"
  by (subst to_valid.simps) simp

lemma to_valid_rune:
  "rune_width (c # cs) = Some (Suc m) \<Longrightarrow> to_valid (c # cs) = c # take m cs @ to_valid (drop m cs)"
  by (subst to_valid.simps) simp

lemma escape_string_simps [simp]:
  "escape_string [] = []"
  "byte c < 0x80 \<Longrightarrow> escape_string (c # cs) = (if html_safe c then [c] else escape c) @ escape_string cs"
  by (subst escape_string.simps, simp)+

lemma escape_string_bad:
  "0x80 \<le> byte c \<Longrightarrow> rune_width (c # cs) = None \<Longrightarrow> escape_string (c # cs) = CHR 0x5C # ''ufffd'' @ escape_string cs"
  by (subst escape_string.simps) simp

lemma escape_string_rune:
  "0x80 \<le> byte c \<Longrightarrow> rune_width (c # cs) = Some (Suc m) \<Longrightarrow> escape_string (c # cs) =
     (case line_separator (c # cs) of Some d \<Rightarrow> CHR 0x5C # ''u202'' @ [d] | None \<Rightarrow> c # take m cs) @
     escape_string (drop m cs)"
  by (subst escape_string.simps) (simp split: option.split)

lemma line_separator_cases:
  assumes "line_separator (c # cs) = Some d" "rune_width (c # cs) = Some (Suc m)"
  shows "m = 2 \<and> (d = CHR ''8'' \<and> c # take m cs = encode_rune 0x2028 \<or>
    d = CHR ''9'' \<and> c # take m cs = encode_rune 0x2029)"
proof -
  obtain c1 c2 ds where cs: "cs = c1 # c2 # ds"
    using assms(1) by (cases cs; cases "tl cs") (auto simp: line_separator_def split: if_split_asm)
  with assms show ?thesis
    by (auto simp: line_separator_def rune_width.simps second_ok_def is_cont_def split: if_split_asm)
qed

text \<open>The chunk that stands for one sequence of the text reads back as that sequence.\<close>

lemma unquote_rune:
  assumes "0x80 \<le> byte c" "rune_width (c # cs) = Some (Suc m)"
  shows "unquote (c # take m cs @ t) = map_option (\<lambda>u. c # take m cs @ u) (unquote t)"
proof -
  have m: "m \<le> length cs" using rune_width_bounds [OF assms(2)] by simp
  have "c \<noteq> CHR 0x5C" using assms(1) by auto
  moreover have "rune_width (c # take m cs @ t) = Some (Suc m)" by (rule rune_width_long(2) [OF assms(2,1)])
  moreover have "min (length cs) m = m" using m by simp
  ultimately show ?thesis by (subst unquote.simps) simp
qed

lemma unquote_escape_string: "unquote (escape_string s) = Some (to_valid s)"
proof (induction s rule: length_induct)
  case (1 s)
  show ?case
  proof (cases rule: rune_cases [of s])
    case (ascii c cs)
    have "unquote (escape_string cs) = Some (to_valid cs)" using 1 ascii by simp
    with ascii show ?thesis by (auto simp: unquote_escape html_safe_def)
  next
    case (bad c cs)
    have "unquote (escape_string cs) = Some (to_valid cs)" using 1 bad by simp
    moreover have "getu4 (CHR 0x5C # ''ufffd'' @ t) = Some 0xFFFD" for t
      by (simp add: hex_digit_def)
    ultimately show ?thesis
      using bad unquote_u4 [of "CHR ''f''" "CHR ''f''" "CHR ''f''" "CHR ''d''" "escape_string cs" "0xFFFD"]
      by (simp add: escape_string_bad to_valid_bad is_surrogate_def)
  next
    case (rune c cs m)
    let ?t = "escape_string (drop m cs)"
    have ih: "unquote ?t = Some (to_valid (drop m cs))" using 1 rune by simp
    show ?thesis
    proof (cases "line_separator (c # cs)")
      case None
      with rune ih show ?thesis by (simp add: escape_string_rune to_valid_rune unquote_rune)
    next
      case (Some d)
      have u: "unquote (CHR 0x5C # ''u202'' @ [d] @ ?t) = Some (c # take m cs @ to_valid (drop m cs))"
      proof -
        from line_separator_cases [OF Some] rune(1,3)
        obtain r where r: "r = 0x2028 \<or> r = 0x2029" "c # take m cs = encode_rune r"
          "getu4 (CHR 0x5C # ''u202'' @ [d] @ ?t) = Some r"
          by (auto simp: hex_digit_def)
        then have "unquote (CHR 0x5C # ''u202'' @ [d] @ ?t) = map_option ((@) (encode_rune r)) (unquote ?t)"
          using unquote_u4 [of "CHR ''2''" "CHR ''0''" "CHR ''2''" d ?t r] by (auto simp: is_surrogate_def)
        with ih r(2) show ?thesis by (metis append_Cons option.map(2))
      qed
      with Some rune show ?thesis by (simp add: escape_string_rune to_valid_rune)
    qed
  qed (simp add: to_valid.simps)
qed

subsection \<open>Scanning\<close>

lemma scan_all_append: "scan_all (s @ t) x = (case scan_all s x of None \<Rightarrow> None | Some y \<Rightarrow> scan_all t y)"
  by (induction s x rule: scan_all.induct) (auto split: option.split)

text \<open>Bytes that a string literal contains as they are.\<close>

definition literal_byte :: "char \<Rightarrow> bool" where
  "literal_byte c \<longleftrightarrow> 0x20 \<le> byte c \<and> c \<noteq> CHR 0x22 \<and> c \<noteq> CHR 0x5C"

lemma scan_literal:
  "\<forall>c \<in> set s. literal_byte c \<Longrightarrow>
   scan_all (s @ t) (InString k raw Plain, st) = scan_all t (InString k (raw @ s) Plain, st)"
  by (induction s arbitrary: raw) (auto simp: string_step_def literal_byte_def)

lemma hex_chars: "hex_digit c \<noteq> None \<Longrightarrow> literal_byte c"
  by (auto simp: hex_digit_def literal_byte_def Let_def split: if_split_asm)

lemma scan_u4:
  assumes "hex_digit a \<noteq> None" "hex_digit b \<noteq> None" "hex_digit c \<noteq> None" "hex_digit d \<noteq> None"
  shows "scan_all (CHR 0x5C # CHR ''u'' # a # b # c # d # t) (InString k raw Plain, st) =
    scan_all t (InString k (raw @ [CHR 0x5C, CHR ''u'', a, b, c, d]) Plain, st)"
  using assms by (auto simp: string_step_def)

lemma scan_simple:
  "simple_escape e \<noteq> None \<Longrightarrow> e \<noteq> CHR 0x27 \<Longrightarrow> e \<noteq> CHR ''u'' \<Longrightarrow>
   scan_all (CHR 0x5C # e # t) (InString k raw Plain, st) = scan_all t (InString k (raw @ [CHR 0x5C, e]) Plain, st)"
  by (simp add: string_step_def)

lemma scan_escape:
  "byte c < 0x80 \<Longrightarrow> scan_all (escape c @ t) (InString k raw Plain, st) =
     scan_all t (InString k (raw @ escape c) Plain, st)"
  by (simp add: escape_def scan_simple scan_u4 simple_escape_def del: scan_all.simps)

lemma html_safe_literal: "html_safe c \<Longrightarrow> literal_byte c"
  by (simp add: html_safe_def literal_byte_def)

lemma high_literal: "0x80 \<le> byte c \<Longrightarrow> literal_byte c"
  by (auto simp: literal_byte_def)

lemma scan_escape_string:
  "scan_all (escape_string s @ t) (InString k raw Plain, st) =
   scan_all t (InString k (raw @ escape_string s) Plain, st)"
proof (induction s arbitrary: raw rule: length_induct)
  case (1 s)
  show ?case
  proof (cases rule: rune_cases [of s])
    case (ascii c cs)
    with 1 show ?thesis
      using scan_literal [of "[c]"] by (simp add: scan_escape html_safe_literal del: scan_all.simps)
  next
    case (bad c cs)
    have "scan_all (CHR 0x5C # ''ufffd'' @ u) (InString k raw Plain, st) =
        scan_all u (InString k (raw @ CHR 0x5C # ''ufffd'') Plain, st)" for u
      by (simp add: scan_u4 hex_digit_def del: scan_all.simps)
    with 1 bad show ?thesis by (simp add: escape_string_bad del: scan_all.simps)
  next
    case (rune c cs m)
    have "scan_all (CHR 0x5C # ''u202'' @ [d] @ u) (InString k raw Plain, st) =
        scan_all u (InString k (raw @ CHR 0x5C # ''u202'' @ [d]) Plain, st)" if "line_separator (c # cs) = Some d" for d u
      using line_separator_cases [OF that rune(3) [unfolded rune(1)]] by (auto simp: scan_u4 hex_digit_def simp del: scan_all.simps)
    moreover have "scan_all ((c # take m cs) @ u) (InString k raw Plain, st) =
        scan_all u (InString k (raw @ c # take m cs) Plain, st)" for u
      using rune rune_width_long(1) [of c cs m] by (intro scan_literal) (auto simp: high_literal)
    ultimately have "scan_all (escape_string (c # cs) @ t) (InString k raw Plain, st) =
        scan_all (escape_string (drop m cs) @ t) (InString k (raw @ (case line_separator (c # cs) of
          Some d \<Rightarrow> CHR 0x5C # ''u202'' @ [d] | None \<Rightarrow> c # take m cs)) Plain, st)"
      using rune by (cases "line_separator (c # cs)") (simp_all add: escape_string_rune del: scan_all.simps)
    with 1 rune show ?thesis by (simp add: escape_string_rune del: scan_all.simps)
  qed simp
qed

lemma scan_value_string:
  "scan_all (escape_string s @ CHR 0x22 # t) (InString False [] Plain, st) = scan_all t (deliver (JStr (to_valid s)) st)"
  by (simp add: scan_escape_string string_step_def end_string_def unquote_escape_string)

lemma scan_key_string:
  "scan_all (escape_string s @ CHR 0x22 # t) (InString True [] Plain, FObj ms k # st) =
   scan_all t (Colon, FObj ms (to_valid s) # st)"
  by (simp add: scan_escape_string string_step_def end_string_def unquote_escape_string)


subsection \<open>Values\<close>

text \<open>
  What a value reads back as, and when its text is well-formed: numbers are number literals
  and the nesting is within the bound, \<open>d\<close> being the depth that is left.
\<close>

fun clean :: "json \<Rightarrow> json" where
  "clean (JStr s) = JStr (to_valid s)"
| "clean (JArr vs) = JArr (map clean vs)"
| "clean (JObj ms) = JObj (map (\<lambda>(k, v). (to_valid k, clean v)) ms)"
| "clean v = v"

fun num_run :: "numState \<Rightarrow> string \<Rightarrow> bool" where
  "num_run n [] \<longleftrightarrow> num_ends n"
| "num_run n (c # cs) \<longleftrightarrow> (case num_step n c of None \<Rightarrow> False | Some n \<Rightarrow> num_run n cs)"

fun number_ok :: "string \<Rightarrow> bool" where
  "number_ok [] \<longleftrightarrow> False"
| "number_ok (c # cs) \<longleftrightarrow>
     (if c = CHR ''-'' then num_run NNeg cs else if c = CHR ''0'' then num_run NZero cs
      else is_dec c \<and> num_run NInt cs)"

fun json_ok :: "nat \<Rightarrow> json \<Rightarrow> bool" where
  "json_ok d (JNum n) \<longleftrightarrow> number_ok n"
| "json_ok d (JArr vs) \<longleftrightarrow> 0 < d \<and> (\<forall>v \<in> set vs. json_ok (d - 1) v)"
| "json_ok d (JObj ms) \<longleftrightarrow> 0 < d \<and> (\<forall>(k, v) \<in> set ms. json_ok (d - 1) v)"
| "json_ok d JNull \<longleftrightarrow> True"
| "json_ok d (JBool b) \<longleftrightarrow> True"
| "json_ok d (JStr s) \<longleftrightarrow> True"

text \<open>The bytes that end a number.\<close>

definition delimiter :: "char \<Rightarrow> bool" where
  "delimiter c \<longleftrightarrow> c = CHR '','' \<or> c = CHR '']'' \<or> c = CHR ''}'' \<or> c = CHR '' ''"

lemma delimiter_ends: "delimiter c \<Longrightarrow> num_step n c = None"
  by (cases n) (auto simp: delimiter_def is_dec_def)

lemma after_deliver: "after_value c (deliver v st) = scan c (deliver v st)"
  by (cases "(v, st)" rule: deliver.cases) simp_all

lemma scan_number:
  assumes "delimiter c"
  shows "num_run n s \<Longrightarrow> scan_all (s @ c # t) (InNum raw n, st) = scan_all (c # t) (deliver (JNum (raw @ s)) st)"
proof (induction s arbitrary: n raw)
  case Nil
  with assms show ?case by (simp add: delimiter_ends after_deliver)
qed (auto split: option.splits)

lemma scan_keyword:
  "xs \<noteq> [] \<Longrightarrow> scan_all (xs @ t) (InLit xs v, st) = scan_all t (deliver v st)"
proof (induction xs)
  case (Cons x xs)
  then show ?case by (cases xs) auto
qed simp

text \<open>The first byte of a value, which opens it in either mode that expects one.\<close>

lemma Marshal_first:
  assumes "json_ok d v"
  obtains c cs where "Marshal v = c # cs" "\<not> is_space c" "c \<noteq> CHR '']''"
proof -
  have "Marshal v \<noteq> [] \<and> \<not> is_space (hd (Marshal v)) \<and> hd (Marshal v) \<noteq> CHR '']''"
  proof (cases v)
    case (JNum n)
    with assms show ?thesis by (cases n) (auto simp: is_space_def is_dec_def split: if_split_asm)
  qed (simp_all add: is_space_def quoted_def)
  then show thesis by (cases "Marshal v") (auto intro: that)
qed

text \<open>\<open>reads v\<close>: wherever a value is expected, the scanner reads the text of \<open>v\<close> and delivers it.\<close>

definition reads :: "json \<Rightarrow> nat \<Rightarrow> bool" where
  "reads v d \<longleftrightarrow> (\<forall>st c t. length st + d \<le> maxNestingDepth \<longrightarrow> delimiter c \<longrightarrow>
     scan_all (Marshal v @ c # t) (Begin, st) = scan_all (c # t) (deliver (clean v) st))"

lemma readsD:
  "reads v d \<Longrightarrow> length st + d \<le> maxNestingDepth \<Longrightarrow> delimiter c \<Longrightarrow>
   scan_all (Marshal v @ c # t) (Begin, st) = scan_all (c # t) (deliver (clean v) st)"
  by (simp add: reads_def)

lemma delimiters [simp]: "delimiter CHR '','' " "delimiter CHR '']''" "delimiter CHR ''}''" "delimiter CHR '' ''"
  by (simp_all add: delimiter_def)

lemma scan_separators [simp]:
  "scan CHR '','' (After, FArr vs # st) = Some (Begin, FArr vs # st)"
  "scan CHR '']'' (After, FArr vs # st) = Some (deliver (JArr vs) st)"
  "scan CHR '','' (After, FObj ms k # st) = Some (BeginKey, FObj ms k # st)"
  "scan CHR ''}'' (After, FObj ms k # st) = Some (deliver (JObj ms) st)"
  "scan CHR '':'' (Colon, st) = Some (Begin, st)"
  by (simp_all add: after_value_def is_space_def)

lemma scan_elements:
  assumes "\<forall>v \<in> set vs. reads v d" "Suc (length st) + d \<le> maxNestingDepth" "vs \<noteq> []"
  shows "scan_all (strings_Join '','' (map Marshal vs) @ CHR '']'' # t) (Begin, FArr us # st) =
    scan_all t (deliver (JArr (us @ map clean vs)) st)"
  using assms
proof (induction vs arbitrary: us)
  case (Cons v vs)
  have v: "scan_all (Marshal v @ c # t) (Begin, FArr us # st) = scan_all (c # t) (After, FArr (us @ [clean v]) # st)"
    if "delimiter c" for c t
    using readsD [of v d "FArr us # st" c t] Cons.prems that by simp
  show ?case
  proof (cases vs)
    case Nil
    then show ?thesis using v [of "CHR '']''" t] by (simp del: scan.simps)
  next
    case (Cons v2 ws)
    with Cons.IH [of "us @ [clean v]"] Cons.prems
    have "scan_all (strings_Join '','' (map Marshal vs) @ CHR '']'' # t) (Begin, FArr (us @ [clean v]) # st) =
        scan_all t (deliver (JArr (us @ clean v # map clean vs)) st)" by simp
    with v [of "CHR '','' " "strings_Join '','' (map Marshal vs) @ CHR '']'' # t"] Cons show ?thesis
      by (simp del: scan.simps)
  qed
qed simp

abbreviation Marshal_member :: "string \<times> json \<Rightarrow> string" where
  "Marshal_member \<equiv> \<lambda>(k, v). quoted k @ '':'' @ Marshal v"

lemma scan_member:
  assumes "reads v d" "Suc (length st) + d \<le> maxNestingDepth" "delimiter c" "m \<in> {BeginKey, BeginKeyOrEnd}"
  shows "scan_all (Marshal_member (k, v) @ c # t) (m, FObj ms k0 # st) =
    scan_all (c # t) (After, FObj (ms @ [(to_valid k, clean v)]) (to_valid k) # st)"
proof -
  have "scan_all (Marshal_member (k, v) @ c # t) (m, FObj ms k0 # st) =
      scan_all (escape_string k @ CHR 0x22 # CHR '':'' # Marshal v @ c # t) (InString True [] Plain, FObj ms k0 # st)"
    using assms(4) by (auto simp: quoted_def is_space_def)
  also have "\<dots> = scan_all (Marshal v @ c # t) (Begin, FObj ms (to_valid k) # st)"
    by (simp add: scan_key_string del: scan.simps)
  also have "\<dots> = scan_all (c # t) (After, FObj (ms @ [(to_valid k, clean v)]) (to_valid k) # st)"
    using readsD [OF assms(1), of "FObj ms (to_valid k) # st" c t] assms(2,3) by simp
  finally show ?thesis .
qed

lemma scan_members:
  assumes "\<forall>(k, v) \<in> set ms. reads v d" "Suc (length st) + d \<le> maxNestingDepth" "ms \<noteq> []"
    and "m \<in> {BeginKey, BeginKeyOrEnd}"
  shows "scan_all (strings_Join '','' (map Marshal_member ms) @ CHR ''}'' # t) (m, FObj ns k0 # st) =
    scan_all t (deliver (JObj (ns @ map (\<lambda>(k, v). (to_valid k, clean v)) ms)) st)"
  using assms
proof (induction ms arbitrary: ns k0 m)
  case (Cons kv ms)
  obtain k v where kv: "kv = (k, v)" by (cases kv)
  have v: "scan_all (Marshal_member kv @ c # t) (m, FObj ns k0 # st) =
      scan_all (c # t) (After, FObj (ns @ [(to_valid k, clean v)]) (to_valid k) # st)" if "delimiter c" for c t
    unfolding kv using Cons.prems kv that by (intro scan_member) auto
  show ?case
  proof (cases ms)
    case Nil
    then show ?thesis using v [of "CHR ''}''" t] kv by (simp del: scan.simps)
  next
    case (Cons m2 ms2)
    with Cons.IH [of BeginKey "ns @ [(to_valid k, clean v)]" "to_valid k"] Cons.prems
    have "scan_all (strings_Join '','' (map Marshal_member ms) @ CHR ''}'' # t)
          (BeginKey, FObj (ns @ [(to_valid k, clean v)]) (to_valid k) # st) =
        scan_all t (deliver (JObj (ns @ (to_valid k, clean v) # map (\<lambda>(k, v). (to_valid k, clean v)) ms)) st)" by simp
    with v [of "CHR '','' " "strings_Join '','' (map Marshal_member ms) @ CHR ''}'' # t"] Cons kv show ?thesis
      by (simp del: scan.simps)
  qed
qed simp

lemma number_begins:
  assumes "number_ok (x # xs)"
  shows "\<exists>ns. num_run ns xs \<and> scan x (Begin, st) = Some (InNum [x] ns, st)"
proof (cases "x = CHR ''-'' \<or> x = CHR ''0''")
  case True
  with assms show ?thesis by (elim disjE) (simp_all add: begin_value_def is_space_def)
next
  case False
  with assms have x: "is_dec x" "num_run NInt xs" by simp_all
  have "x \<noteq> d" if "\<not> is_dec d" for d using x that by blast
  then have "\<not> is_space x" "x \<noteq> CHR ''{''" "x \<noteq> CHR ''[''" "x \<noteq> CHR 0x22"
    by (simp_all add: is_space_def is_dec_def)
  with x False show ?thesis by (simp add: begin_value_def)
qed

lemma reads_JNum:
  assumes "number_ok n"
  shows "reads (JNum n) d"
  unfolding reads_def
proof (intro allI impI)
  fix st c t assume "delimiter c"
  obtain x xs where n: "n = x # xs" using assms by (cases n) auto
  then obtain ns where "num_run ns xs" "scan x (Begin, st) = Some (InNum [x] ns, st)"
    using assms number_begins [of x xs st] by auto
  then show "scan_all (Marshal (JNum n) @ c # t) (Begin, st) = scan_all (c # t) (deliver (clean (JNum n)) st)"
    using scan_number [OF \<open>delimiter c\<close>, of ns xs t "[x]" st] n by simp
qed

lemma reads_JArr:
  assumes "\<forall>v \<in> set vs. reads v (d - 1) \<and> json_ok (d - 1) v" "0 < d"
  shows "reads (JArr vs) d"
  unfolding reads_def
proof (intro allI impI)
  fix st :: "frame list" and c t assume d: "length st + d \<le> maxNestingDepth" "delimiter c"
  have push: "push_frame BeginOrEnd (FArr []) st = Some (BeginOrEnd, FArr [] # st)"
    using d assms(2) by (simp add: push_frame_def)
  have "scan_all (strings_Join '','' (map Marshal vs) @ CHR '']'' # c # t) (BeginOrEnd, FArr [] # st) =
      scan_all (c # t) (deliver (JArr (map clean vs)) st)"
  proof (cases vs)
    case Nil
    then show ?thesis by (simp add: is_space_def after_value_def)
  next
    case (Cons v ws)
    then obtain x xs where x: "Marshal v = x # xs" "\<not> is_space x" "x \<noteq> CHR '']''"
      using assms(1) Marshal_first [of "d - 1" v] by auto
    then have first: "scan x (BeginOrEnd, FArr [] # st) = scan x (Begin, FArr [] # st)" by simp
    have "strings_Join '','' (map Marshal vs) = x # xs @ (if ws = [] then [] else '','' @ strings_Join '','' (map Marshal ws))"
      using Cons x(1) by (cases ws) simp_all
    with first have "scan_all (strings_Join '','' (map Marshal vs) @ CHR '']'' # c # t) (BeginOrEnd, FArr [] # st) =
        scan_all (strings_Join '','' (map Marshal vs) @ CHR '']'' # c # t) (Begin, FArr [] # st)"
      by (simp del: scan.simps)
    then show ?thesis using scan_elements [of vs "d - 1" st "c # t" "[]"] assms d Cons by simp
  qed
  then show "scan_all (Marshal (JArr vs) @ c # t) (Begin, st) = scan_all (c # t) (deliver (clean (JArr vs)) st)"
    using push by (simp add: begin_value_def is_space_def)
qed

lemma reads_JObj:
  assumes "\<forall>(k, v) \<in> set ms. reads v (d - 1)" "0 < d"
  shows "reads (JObj ms) d"
  unfolding reads_def
proof (intro allI impI)
  fix st :: "frame list" and c t assume d: "length st + d \<le> maxNestingDepth" "delimiter c"
  have push: "push_frame BeginKeyOrEnd (FObj [] []) st = Some (BeginKeyOrEnd, FObj [] [] # st)"
    using d assms(2) by (simp add: push_frame_def)
  have "scan_all (strings_Join '','' (map Marshal_member ms) @ CHR ''}'' # c # t) (BeginKeyOrEnd, FObj [] [] # st) =
      scan_all (c # t) (deliver (JObj (map (\<lambda>(k, v). (to_valid k, clean v)) ms)) st)"
  proof (cases "ms = []")
    case True
    then show ?thesis by (simp add: is_space_def after_value_def)
  next
    case False
    then show ?thesis
      using scan_members [OF assms(1), of st BeginKeyOrEnd "c # t" "[]" "[]"] assms(2) d(1) by simp
  qed
  then show "scan_all (Marshal (JObj ms) @ c # t) (Begin, st) = scan_all (c # t) (deliver (clean (JObj ms)) st)"
    using push by (simp add: begin_value_def is_space_def)
qed

lemma reads_Marshal: "json_ok d v \<Longrightarrow> reads v d"
proof (induction d v rule: json_ok.induct)
  case (1 d n)
  then show ?case by (simp add: reads_JNum)
next
  case (2 d vs)
  then show ?case by (intro reads_JArr) auto
next
  case (3 d ms)
  then show ?case by (intro reads_JObj) fastforce+
next
  case (4 d)
  show ?case by (simp add: reads_def begin_value_def is_space_def is_dec_def scan_keyword)
next
  case (5 d b)
  have "scan_all (''rue'' @ t) (InLit ''rue'' (JBool True), st) = scan_all t (deliver (JBool True) st)"
    "scan_all (''alse'' @ t) (InLit ''alse'' (JBool False), st) = scan_all t (deliver (JBool False) st)" for t st
    by (rule scan_keyword, simp)+
  then show ?case by (auto simp: reads_def begin_value_def is_space_def is_dec_def)
next
  case (6 d s)
  show ?case
    by (simp add: reads_def quoted_def begin_value_def is_space_def scan_value_string)
qed

lemma parse_Marshal: "json_ok maxNestingDepth v \<Longrightarrow> parse_json (Marshal v) = Some (clean v)"
  using readsD [OF reads_Marshal, of maxNestingDepth v "[]" "CHR '' ''" "[]"]
  by (simp add: parse_json_def after_value_def is_space_def)

subsection \<open>What the text consists of\<close>

lemma valid_utf8_simps [simp]:
  "valid_utf8 []" "byte c < 0x80 \<Longrightarrow> valid_utf8 (c # cs) \<longleftrightarrow> valid_utf8 cs"
  by (subst valid_utf8.simps, simp)+

lemma to_valid_id: "valid_utf8 s \<Longrightarrow> to_valid s = s"
proof (induction s rule: length_induct)
  case (1 s)
  show ?case
  proof (cases rule: rune_cases [of s])
    case (bad c cs)
    with 1 show ?thesis by (simp add: valid_utf8.simps)
  next
    case (rune c cs m)
    with 1 have "valid_utf8 (drop m cs)" by (subst (asm) (2) valid_utf8.simps) simp
    with 1 rune show ?thesis by (simp add: to_valid_rune)
  qed (use 1 in simp_all)
qed

fun texts_valid :: "json \<Rightarrow> bool" where
  "texts_valid (JStr s) \<longleftrightarrow> valid_utf8 s"
| "texts_valid (JArr vs) \<longleftrightarrow> (\<forall>v \<in> set vs. texts_valid v)"
| "texts_valid (JObj ms) \<longleftrightarrow> (\<forall>(k, v) \<in> set ms. valid_utf8 k \<and> texts_valid v)"
| "texts_valid v \<longleftrightarrow> True"

lemma clean_id: "texts_valid v \<Longrightarrow> clean v = v"
proof (induction v rule: texts_valid.induct)
  case (2 vs)
  then show ?case by (simp add: map_idI)
next
  case (3 ms)
  then show ?case by (fastforce simp: to_valid_id intro!: map_idI)
qed (simp_all add: to_valid_id)

lemma valid_utf8_rune:
  "0x80 \<le> byte c \<Longrightarrow> rune_width (c # cs) = Some (Suc m) \<Longrightarrow> valid_utf8 (c # cs) \<longleftrightarrow> valid_utf8 (drop m cs)"
  by (subst valid_utf8.simps) simp

lemma valid_utf8_append:
  "valid_utf8 s \<Longrightarrow> valid_utf8 (s @ t) \<longleftrightarrow> valid_utf8 t"
proof (induction s rule: length_induct)
  case (1 s)
  show ?case
  proof (cases rule: rune_cases [of s])
    case (bad c cs)
    with 1 show ?thesis by (simp add: valid_utf8.simps)
  next
    case (rune c cs m)
    have "take m cs @ drop m cs @ t = cs @ t" by (metis append_assoc append_take_drop_id)
    with rune_width_long(2) [of c cs m "drop m cs @ t"] rune have "rune_width (c # cs @ t) = Some (Suc m)" by simp
    with 1 rune show ?thesis by (simp add: valid_utf8_rune)
  qed (use 1 in simp_all)
qed

lemma valid_utf8_ascii: "\<forall>c \<in> set s. byte c < 0x80 \<Longrightarrow> valid_utf8 s"
  by (induction s) simp_all

text \<open>Bytes that may occur in a JSON text: no control characters and none that HTML treats specially.\<close>

definition plain_byte :: "char \<Rightarrow> bool" where
  "plain_byte c \<longleftrightarrow> 0x20 \<le> byte c \<and> byte c \<noteq> byte CHR ''<'' \<and> byte c \<noteq> byte CHR ''>'' \<and> byte c \<noteq> byte CHR ''&''"

definition plain :: "string \<Rightarrow> bool" where
  "plain s \<longleftrightarrow> valid_utf8 s \<and> (\<forall>c \<in> set s. plain_byte c)"

lemma html_safe_plain: "html_safe c \<Longrightarrow> plain_byte c"
  unfolding html_safe_def plain_byte_def of_char_eq_iff by simp

lemma plain_append: "plain s \<Longrightarrow> plain t \<Longrightarrow> plain (s @ t)"
  by (auto simp: plain_def valid_utf8_append)

lemma plain_Cons: "byte c < 0x80 \<Longrightarrow> plain_byte c \<Longrightarrow> plain s \<Longrightarrow> plain (c # s)"
  by (simp add: plain_def)

lemma plain_Nil [simp]: "plain []"
  by (simp add: plain_def)

lemma hex_char_plain: "d < 16 \<Longrightarrow> byte (hex_char d) < 0x80 \<and> plain_byte (hex_char d)"
  by (simp add: hex_char_def plain_byte_def)

lemma escape_plain:
  assumes "byte c < 0x80"
  shows "plain (escape c)"
proof -
  have "plain [hex_char (byte c div 16), hex_char (byte c mod 16)]"
    using assms hex_char_plain [of "byte c div 16"] hex_char_plain [of "byte c mod 16"] by (intro plain_Cons) simp_all
  then have "plain ([CHR 0x5C, CHR ''u'', CHR ''0'', CHR ''0''] @ [hex_char (byte c div 16), hex_char (byte c mod 16)])"
    by (intro plain_append) (simp_all add: plain_def plain_byte_def)
  then show ?thesis by (simp add: escape_def) (simp add: plain_def plain_byte_def)
qed

lemma escape_string_plain: "plain (escape_string s)"
proof (induction s rule: length_induct)
  case (1 s)
  show ?case
  proof (cases rule: rune_cases [of s])
    case (ascii c cs)
    have "plain [c]" if "html_safe c" using that ascii by (simp add: plain_def html_safe_plain)
    then have "plain (if html_safe c then [c] else escape c)" using ascii escape_plain by simp
    moreover have "plain (escape_string cs)" using 1 ascii by simp
    ultimately show ?thesis using plain_append ascii by simp
  next
    case (bad c cs)
    with 1 have "plain (CHR 0x5C # ''ufffd'')" "plain (escape_string cs)"
      by (auto simp: plain_def plain_byte_def)
    from plain_append [OF this] bad show ?thesis by (simp add: escape_string_bad)
  next
    case (rune c cs m)
    have "plain (c # take m cs)"
      using rune rune_width_long [of c cs m] rune_width_long(2) [of c cs m "[]"]
      by (auto simp: plain_def plain_byte_def valid_utf8_rune)
    moreover have "plain (CHR 0x5C # ''u202'' @ [d])" if "line_separator (c # cs) = Some d" for d
      using line_separator_cases [OF that] rune by (auto simp: plain_def plain_byte_def)
    moreover have "plain (escape_string (drop m cs))" using 1 rune by simp
    ultimately have "plain ((case line_separator (c # cs) of
        Some d \<Rightarrow> CHR 0x5C # ''u202'' @ [d] | None \<Rightarrow> c # take m cs) @ escape_string (drop m cs))"
      by (intro plain_append) (auto split: option.split)
    with rune show ?thesis by (simp add: escape_string_rune)
  qed simp
qed

lemma quoted_plain: "plain (quoted s)"
  unfolding quoted_def using plain_append [OF escape_string_plain, of "[CHR 0x22]" s]
  by (intro plain_Cons) (simp_all add: plain_byte_def plain_def)

lemma Join_plain: "\<forall>s \<in> set ss. plain s \<Longrightarrow> plain (strings_Join '','' ss)"
  by (induction "'','' " ss rule: strings_Join.induct) (auto intro!: plain_append plain_Cons simp: plain_byte_def)

lemma num_step_ascii: "num_step n c = Some n' \<Longrightarrow> byte c < 0x80 \<and> plain_byte c"
  by (cases n) (auto simp: is_dec_def plain_byte_def split: if_split_asm)

lemma num_run_plain: "num_run n s \<Longrightarrow> plain s"
  by (induction s arbitrary: n) (auto split: option.split_asm dest: num_step_ascii intro!: plain_Cons)

lemma number_plain: "number_ok n \<Longrightarrow> plain n"
  by (cases n) (auto split: if_split_asm simp: is_dec_def plain_byte_def intro!: plain_Cons dest: num_run_plain)

lemma Marshal_plain: "json_ok d v \<Longrightarrow> plain (Marshal v)"
proof (induction d v rule: json_ok.induct)
  case (2 d vs)
  then have "plain (strings_Join '','' (map Marshal vs))" by (intro Join_plain) auto
  then have "plain (strings_Join '','' (map Marshal vs) @ '']'')"
    by (intro plain_append) (simp_all add: plain_def plain_byte_def)
  then show ?case by (auto intro!: plain_Cons simp: plain_byte_def)
next
  case (3 d ms)
  have "plain (quoted k @ '':'' @ Marshal v)" if "(k, v) \<in> set ms" for k v
    using 3 that by (auto intro!: plain_append quoted_plain plain_Cons simp: plain_byte_def)
  then have "plain (strings_Join '','' (map Marshal_member ms))" by (intro Join_plain) auto
  then have "plain (strings_Join '','' (map Marshal_member ms) @ ''}'')"
    by (intro plain_append) (simp_all add: plain_def plain_byte_def)
  then show ?case by (auto intro!: plain_Cons simp: plain_byte_def)
qed (auto simp: quoted_plain number_plain intro!: plain_Cons simp: plain_byte_def)

end
