(* ===== verification/Admin_Laws.thy ===== *)
theory Admin_Laws
  imports Admin Json_Laws Protocol
begin

section \<open>What the administration endpoints share\<close>

text \<open>
  The interface between the adapters and the handlers of \<open>main.go\<close> as a locale, with an
  invariant that every handler keeps and a promise on what its responses marshal to; it is
  interpreted on the five handlers. The invariant is that the node is in a state that its
  own protocol reaches. Then the decoding of requests, field by field.
\<close>

subsection \<open>Replies\<close>

lemma writeResponse_sel [simp]:
  "rwStatus (writeResponse st hs b newWriter) = Some st"
  "rwBody (writeResponse st hs b newWriter) = (case b of None \<Rightarrow> [] | Some v \<Rightarrow> Marshal v)"
  "rwHeader (writeResponse st hs b newWriter) =
     hs @ (if b = None then [] else [(''Content-Type'', ''application/json'')])"
  by (simp_all add: writeResponse_def newWriter_def WriteHeader_def WriteBody_def Let_def split: option.split)

lemma WriteBody_sel [simp]:
  "rwStatus (WriteBody b newWriter) = Some 200" "rwBody (WriteBody b newWriter) = b"
  by (simp_all add: newWriter_def WriteHeader_def WriteBody_def Let_def)

text \<open>A reply whose body is the text of a JSON object.\<close>

definition json_reply :: "responseWriter \<Rightarrow> bool" where
  "json_reply w \<longleftrightarrow> (\<exists>ms. rwBody w = Marshal (JObj ms) \<and> json_ok maxNestingDepth (JObj ms))"

lemma json_replyD:
  assumes "json_reply w"
  shows "plain (rwBody w) \<and> (\<exists>ms. parse_json (rwBody w) = Some (JObj ms))"
  using assms Marshal_plain parse_Marshal unfolding json_reply_def by fastforce

lemma deep [simp]: "0 < maxNestingDepth" "Suc 0 < maxNestingDepth" "3 < maxNestingDepth"
  by (simp_all add: maxNestingDepth_def)

lemma error_reply [simp]: "json_reply (writeResponse st hs (Some (errResp m e)) newWriter)"
  unfolding json_reply_def errResp_def writeResponse_sel option.case
  by (intro exI conjI) (rule HOL.refl, simp)

subsection \<open>The interface of the handlers\<close>

locale http_handler =
  fixes handle :: "(req, 'o, 's) endpoint"
    and marshal :: "'o \<Rightarrow> error + json"
    and inv :: "'s \<Rightarrow> bool"
    and promise :: bool
  assumes keeps_inv: "inv s \<Longrightarrow> handle r s = Some (resp, s') \<Longrightarrow> inv s'"
    and marshals_object: "promise \<Longrightarrow> marshal out = Inr v \<Longrightarrow> \<exists>ms. v = JObj ms \<and> json_ok maxNestingDepth v"
begin

lemma reply:
  assumes "handleAndReply lib marshal handle r newWriter s = Some (w, s')"
  shows "rwStatus w \<in> {Some 200, Some 500} \<and> (promise \<longrightarrow> json_reply w) \<and> (inv s \<longrightarrow> inv s')"
proof -
  from assms obtain resp where h: "handle r s = Some (resp, s')"
    by (auto simp: handleAndReply_def bind_eq_Some_conv)
  show ?thesis
  proof (cases resp)
    case (Inl e)
    with assms h keeps_inv show ?thesis by (auto simp: handleAndReply_def)
  next
    case (Inr out)
    show ?thesis
    proof (cases "marshal out")
      case (Inl e)
      with assms h Inr keeps_inv show ?thesis by (auto simp: handleAndReply_def)
    next
      case v: (Inr v)
      have w: "w = WriteBody (Marshal v) newWriter" "s' = s''" if "handle r s = Some (resp, s'')" for s''
        using assms that Inr v by (simp_all add: handleAndReply_def)
      have "promise \<longrightarrow> json_reply w"
        using marshals_object [OF _ v] w [OF h] unfolding json_reply_def by (metis WriteBody_sel(2))
      with w [OF h] h keeps_inv show ?thesis by auto
    qed
  qed
qed

lemma post:
  assumes "adapt lib marshal handle rq (r, s) = Some (w, (r', s'))"
  shows "(rwStatus w = Some 405 \<or> rwStatus w \<in> {Some 200, Some 400, Some 500} \<and> (promise \<longrightarrow> json_reply w)) \<and>
    (inv s \<longrightarrow> inv s')"
proof -
  obtain body err where b: "Body rq = (body, err)" by (cases "Body rq")
  obtain r1 e where u: "Unmarshal lib body r = (r1, e)" by (cases "Unmarshal lib body r")
  show ?thesis
  proof (cases "Method rq = ''POST'' \<and> err = None \<and> e = None")
    case True
    with assms b u have "handleAndReply lib marshal handle r1 newWriter s = Some (w, s')"
      by (auto simp: adapt_def bind_eq_Some_conv)
    from reply [OF this] show ?thesis by auto
  next
    case False
    with assms b u show ?thesis by (auto simp: adapt_def split: if_split_asm option.split_asm)
  qed
qed

lemma get:
  assumes "getAdapt lib marshal handle rq s = Some (w, s')"
  shows "(rwStatus w = Some 405 \<or> rwStatus w \<in> {Some 200, Some 400, Some 500} \<and> (promise \<longrightarrow> json_reply w)) \<and>
    (inv s \<longrightarrow> inv s')"
proof (cases "Method rq = ''GET''")
  case True
  with assms have "handleAndReply lib marshal handle zero_req newWriter s = Some (w, s')" by (simp add: getAdapt_def)
  from reply [OF this] show ?thesis by auto
next
  case False
  with assms show ?thesis by (auto simp: getAdapt_def)
qed

end

subsection \<open>The handlers provide it\<close>

text \<open>
  A node is live when its protocol reaches its state with some pending tasks: a request is a
  call of \<open>Connect\<close> or changes only the world outside.
\<close>

definition live_node :: "'w nodeEnv \<Rightarrow> 'w Handlers \<Rightarrow> task list \<Rightarrow> 'w nodeState \<Rightarrow> bool" where
  "live_node env h ts st \<longleftrightarrow> reachable env h any_event (st, ts)"

lemma live_Connect:
  "live_node env h ts st \<Longrightarrow> Connect env p o1 o2 st = Some (r, st') \<Longrightarrow> live_node env h ts st'"
  unfolding live_node_def by (rule reachable.step [OF _ _ node_step.connect]) simp_all

lemma live_world: "live_node env h ts (cs, s) \<Longrightarrow> live_node env h ts (cs, s')"
  unfolding live_node_def by (rule reachable.step [OF _ _ node_step.other]) simp_all

lemma live_on_world: "live_node env h ts st \<Longrightarrow> on_world f st = Some (r, st') \<Longrightarrow> live_node env h ts st'"
  by (cases st) (auto simp: on_world_def bind_eq_Some_conv intro: live_world)

lemma marshal_strings_ok: "marshal_strings m = Inr v \<Longrightarrow> \<exists>ms. v = JObj ms \<and> json_ok maxNestingDepth v"
  by (auto simp: marshal_strings_def)

lemma marshal_connections_ok: "marshal_connections cs = Inr v \<Longrightarrow> \<exists>ms. v = JObj ms \<and> json_ok maxNestingDepth v"
  by (auto simp: marshal_connections_def maxNestingDepth_def)

text \<open>The library's promise: a peer identifier marshals as a JSON string.\<close>

definition ids_are_strings :: "adminLib \<Rightarrow> bool" where
  "ids_are_strings lib \<longleftrightarrow> (\<forall>i v. idMarshal lib i = Inr v \<longrightarrow> (\<exists>s. v = JStr s))"

lemma marshal_each_set: "marshal_each f xs = Inr vs \<Longrightarrow> v \<in> set vs \<Longrightarrow> \<exists>x \<in> set xs. f x = Inr v"
  by (induction xs arbitrary: vs) (auto simp: tryE_eq_Inr_iff)

lemma marshal_peerResp_ok:
  assumes "ids_are_strings lib" "marshal_peerResp lib p = Inr v" "1 < d"
  shows "json_ok d v"
proof -
  have "json_ok d' u" if "marshal_id lib (pr_ID p) = Inr u" for u d'
    using that assms(1) by (cases u) (auto simp: marshal_id_def ids_are_strings_def split: option.splits sum.splits)
  with assms(2,3) show ?thesis
    by (auto simp: marshal_peerResp_def tryE_eq_Inr_iff marshal_slice_def split: option.split)
qed

lemma marshal_peers_ok:
  assumes "ids_are_strings lib" "marshal_peers lib ps = Inr v"
  shows "\<exists>ms. v = JObj ms \<and> json_ok maxNestingDepth v"
proof (cases ps)
  case None
  with assms(2) show ?thesis by (auto simp: marshal_peers_def)
next
  case (Some qs)
  with assms(2) obtain vs where vs: "marshal_each (marshal_peerResp lib) qs = Inr vs" "v = JObj [(''peers'', JArr vs)]"
    by (auto simp: marshal_peers_def tryE_eq_Inr_iff)
  have "json_ok (maxNestingDepth - 2) u" if "u \<in> set vs" for u
    using marshal_each_set [OF vs(1) that] marshal_peerResp_ok [OF assms(1)] by (auto simp: maxNestingDepth_def)
  with vs(2) show ?thesis by (auto simp: maxNestingDepth_def numeral_2_eq_2)
qed

lemmas live_intros = live_Connect live_on_world

interpretation connect_ep: http_handler "connectHttpHandler env lib" marshal_strings "live_node env h ts" True
  for env lib h ts
  by unfold_locales
    (auto simp: connectHttpHandler_def bind_eq_Some_conv split: sum.split_asm dest: marshal_strings_ok intro: live_intros)

interpretation peer_ep: http_handler "updatePeerHandler env lib" marshal_strings "live_node env h ts" True
  for env lib h ts
  by unfold_locales
    (auto simp: updatePeerHandler_def bind_eq_Some_conv split: sum.split_asm dest: marshal_strings_ok intro: live_intros)

interpretation connections_ep: http_handler "listConnectionsHandler env lib" marshal_connections "live_node env h ts" True
  for env lib h ts
  by unfold_locales (auto simp: listConnectionsHandler_def bind_eq_Some_conv dest: marshal_connections_ok)

interpretation peers_ep: http_handler "listPeerHandler env" "marshal_peers lib" "live_node env h ts" "ids_are_strings lib"
  for env lib h ts
  by unfold_locales (auto simp: listPeerHandler_def bind_eq_Some_conv dest: marshal_peers_ok)

interpretation requestpeers_ep: http_handler "requestPeerHandler env lib" "marshal_peers lib" "live_node env h ts"
    "ids_are_strings lib"
  for env lib h ts
  by unfold_locales
    (auto simp: requestPeerHandler_def bind_eq_Some_conv split: sum.split_asm dest: marshal_peers_ok intro: live_intros)

text \<open>Every request.\<close>

lemma admin_reply:
  assumes "startHttpServer env lib path rq (a, st) = Some (w, (a', st'))"
  shows "(rwStatus w \<in> {Some 404, Some 405} \<or>
      rwStatus w \<in> {Some 200, Some 400, Some 500} \<and> (ids_are_strings lib \<longrightarrow> json_reply w)) \<and>
    (live_node env h ts st \<longrightarrow> live_node env h ts st')"
  using assms
  by (auto simp: startHttpServer_def bind_eq_Some_conv notFound_def split: if_split_asm
      dest!: connect_ep.post [where h = h and ts = ts] peer_ep.post [where h = h and ts = ts]
        peers_ep.get [where h = h and ts = ts] connections_ep.get [where h = h and ts = ts]
        requestpeers_ep.post [where h = h and ts = ts])

subsection \<open>Decoding\<close>

lemma decode_texts_strings: "decode_texts (map JStr xs) old = (xs, None)"
  by (induction xs arbitrary: old) simp_all

lemma field_names [simp]: "fold_name ''PeerID'' = ''peerid''" "fold_name ''Addresses'' = ''addresses''"
  by code_simp+

lemmas decode_defs = Unmarshal_def unmarshal_struct_def decode_member_def req_fields_def decode_PeerID_def field_error_def

text \<open>The text of a request, and its decoding.\<close>

definition request_text :: "string \<Rightarrow> string list \<Rightarrow> string" where
  "request_text p as = Marshal (JObj [(''PeerID'', JStr p), (''Addresses'', JArr (map JStr as))])"

lemma Unmarshal_request:
  assumes "valid_utf8 p" "\<forall>a \<in> set as. valid_utf8 a"
  shows "\<exists>sp. Unmarshal lib (request_text p as) r = (\<lparr> PeerID = p, req_Addresses = as, spare = sp \<rparr>, None)"
proof -
  let ?v = "JObj [(''PeerID'', JStr p), (''Addresses'', JArr (map JStr as))]"
  have "json_ok maxNestingDepth ?v" by (simp add: maxNestingDepth_def)
  moreover have "texts_valid ?v" using assms by (simp add: valid_utf8_ascii)
  ultimately have "parse_json (request_text p as) = Some ?v"
    using parse_Marshal clean_id unfolding request_text_def by metis
  then show ?thesis
    by (cases r) (simp add: decode_defs decode_texts_strings Let_def)
qed

end
