(* ===== verification/Admin_Props.thy ===== *)
theory Admin_Props
  imports Admin_Laws Connect_Props Peer_Props
begin

section \<open>The administration endpoints\<close>

text \<open>
  What an administrator can rely on: every reply is JSON, a request drives the node only
  through its protocol, refused requests change nothing, and what the replies of the single
  endpoints say about the node.
\<close>



text \<open>
  A request that does not decode never reaches the node: with another method than POST the
  reply is 405 and names the allowed one, with a body that cannot be read 500, with a body that
  is not JSON 400, and the node and what the endpoints keep are unchanged.\<close>

theorem admin_refuses:
  assumes "path \<in> {''/connect'', ''/peer'', ''/requestpeers''}"
  shows "(Method rq \<noteq> ''POST'' \<longrightarrow> (\<exists>w. startHttpServer env lib path rq x = Some (w, x) \<and>
      rwStatus w = Some 405 \<and> rwHeader w = [(''Allow'', ''POST'')] \<and> rwBody w = [])) \<and>
    (Method rq = ''POST'' \<and> snd (Body rq) \<noteq> None \<longrightarrow>
      (\<exists>w. startHttpServer env lib path rq x = Some (w, x) \<and> rwStatus w = Some 500)) \<and>
    (Method rq = ''POST'' \<and> snd (Body rq) = None \<and> parse_json (fst (Body rq)) = None \<longrightarrow>
      (\<exists>w. startHttpServer env lib path rq x = Some (w, x) \<and> rwStatus w = Some 400))"
proof -
  obtain b e where b: "Body rq = (b, e)" by (cases "Body rq")
  obtain a st where "x = (a, st)" by (cases x)
  with assms show ?thesis
    by (cases "Method rq = ''POST''"; cases e; cases "parse_json b")
      (auto simp: startHttpServer_def adapt_def decode_defs b)
qed

text \<open>
  A request that names both fields is decoded to exactly these fields, whatever the endpoint
  decoded before.\<close>

theorem admin_request_reads_back:
  assumes "valid_utf8 p" and "\<forall>a \<in> set as. valid_utf8 a"
  shows "\<exists>sp. Unmarshal lib (request_text p as) r = (\<lparr> PeerID = p, req_Addresses = as, spare = sp \<rparr>, None)"
  by (rule Unmarshal_request [OF assms])

text \<open>What a decoded request makes an endpoint do.\<close>

lemma post_decoded:
  assumes "adapt lib marshal h rq (r, s) = Some (w, (r1, s'))" "Method rq = ''POST''" "Body rq = (b, None)"
    "Unmarshal lib b r = (r', None)"
  obtains (failed) e where "h r' s = Some (Inl e, s')" "r1 = r'" "rwStatus w = Some 500"
  | (unmarshalled) out e where "h r' s = Some (Inr out, s')" "r1 = r'" "marshal out = Inl e" "rwStatus w = Some 500"
  | (replied) out v where "h r' s = Some (Inr out, s')" "r1 = r'" "marshal out = Inr v" "rwStatus w = Some 200"
      "rwBody w = Marshal v"
proof -
  from assms obtain resp where h: "h r' s = Some (resp, s')" "r1 = r'"
    and w: "handleAndReply lib marshal h r' newWriter s = Some (w, s')"
    by (auto simp: adapt_def handleAndReply_def bind_eq_Some_conv)
  show thesis
  proof (cases resp)
    case (Inl e)
    with h w show thesis by (intro failed) (auto simp: handleAndReply_def)
  next
    case (Inr out)
    show thesis
    proof (cases "marshal out")
      case (Inl e)
      with h w Inr show thesis by (intro unmarshalled) (auto simp: handleAndReply_def)
    next
      case v: (Inr v)
      with h w Inr show thesis by (intro replied) (auto simp: handleAndReply_def)
    qed
  qed
qed

lemma connectHttpHandler_run:
  assumes "connectHttpHandler env lib r st = Some (resp, st')" "idDecode lib (PeerID r) = Inr pid"
  obtains i err where "Connect env (NewPeer (Some pid) (req_Addresses r)) \<lparr> WitnessSelector = Some WitnessSelectorSender \<rparr>
      noOptions st = Some ((i, err), st')"
    "resp = (case err of None \<Rightarrow> Inr [(''connectionId'', uuidString lib i)] | Some e \<Rightarrow> Inl e)"
  using assms by (auto simp: connectHttpHandler_def ParsePeerID_def wire.defs bind_eq_Some_conv)

text \<open>C17:
  The connect endpoint: a reply of status 200 names a connection that is now stored, open,
  from this node to the requested peer, and witnessed, and nothing else in the store has
  changed. With status 500 at most one connection was added, and it is not open.\<close>

theorem admin_connect:
  assumes "steady env me" and "Method rq = ''POST''" and "Body rq = (request_text p as, None)"
    and "valid_utf8 p" and "\<forall>a \<in> set as. valid_utf8 a" and "idDecode lib p = Inr pid"
    and "startHttpServer env lib ''/connect'' rq (a, (cs, s)) = Some (w, (a', (cs', s')))"
  shows "rwStatus w = Some 200 \<and> (\<exists>i c. rwBody w = Marshal (JObj [(''connectionId'', JStr (uuidString lib i))]) \<and>
      map_of cs i = None \<and> map_of cs' = (map_of cs)(i \<mapsto> c) \<and> ID c = i \<and> Sender c = Some me \<and>
      Receiver c = Some pid \<and> Status c = Open \<and> Witness c \<noteq> None) \<or>
    rwStatus w = Some 500 \<and> (cs' = cs \<or> (\<exists>i c. map_of cs i = None \<and> map_of cs' = (map_of cs)(i \<mapsto> c) \<and> Status c \<noteq> Open))"
proof -
  let ?p = "NewPeer (Some pid) as"
  let ?o = "\<lparr> WitnessSelector = Some WitnessSelectorSender \<rparr>"
  obtain sp where u: "Unmarshal lib (request_text p as) (connectReq a) = (\<lparr> PeerID = p, req_Addresses = as, spare = sp \<rparr>, None)"
    using Unmarshal_request [OF assms(4,5)] by blast
  obtain r where "adapt lib marshal_strings (connectHttpHandler env lib) rq (connectReq a, (cs, s)) = Some (w, (r, (cs', s')))"
    using assms(7) by (auto simp: startHttpServer_def bind_eq_Some_conv)
  from this assms(2,3) u show ?thesis
  proof (cases rule: post_decoded)
    case (failed e)
    from failed(1) assms(6) obtain i where run: "Connect env ?p ?o noOptions (cs, s) = Some ((i, Some e), (cs', s'))"
      by (auto elim!: connectHttpHandler_run split: option.split_asm)
    from run have "cs' = cs \<or> (\<exists>i c. map_of cs i = None \<and> map_of cs' = (map_of cs)(i \<mapsto> c) \<and> Status c \<noteq> Open)"
    proof (cases rule: connect_failed)
      case (stuck c)
      then have "Status c \<noteq> Open" by auto
      with stuck show ?thesis by blast
    qed simp
    with failed show ?thesis by simp
  next
    case (replied out v)
    from replied(1) assms(6) obtain i where run: "Connect env ?p ?o noOptions (cs, s) = Some ((i, None), (cs', s'))"
      and out: "out = [(''connectionId'', uuidString lib i)]"
      by (auto elim!: connectHttpHandler_run split: option.split_asm)
    obtain c where c: "map_of cs i = None" "map_of cs' = (map_of cs)(i \<mapsto> c)"
      "ID c = i" "Sender c = Some me" "Receiver c = Some pid" "Status c = Open \<and> Witness c \<noteq> None"
      by (rule connect_ok [OF assms(1) run]) (auto simp: NewPeer_def selecting_side_def)
    have "rwBody w = Marshal (JObj [(''connectionId'', JStr (uuidString lib i))])"
      using replied(3,5) out by (simp add: marshal_strings_def)
    with c replied(4) show ?thesis by blast
  qed (simp add: marshal_strings_def)
qed

text \<open>C19:
  The connections endpoint lists every stored connection exactly once, with its participants
  and status in words, and changes nothing. A connection without a witness shows the text
  that package fmt prints for nil.\<close>

theorem admin_lists_connections:
  assumes "reachable env h any_event ((cs, s), ts)" and "mset (mapOrder env (map fst cs)) = mset (map fst cs)"
    and "Method rq = ''GET''"
  shows "\<exists>w rows v. startHttpServer env lib ''/connections'' rq (a, (cs, s)) = Some (w, (a, (cs, s))) \<and>
    rwStatus w = Some 200 \<and> mset rows = image_mset (connResp_of (names.truncate lib) \<circ> snd) (mset cs) \<and>
    marshal_connections rows = Inr v \<and> rwBody w = Marshal v"
proof -
  have "store_ok cs" using reachable_store_ok [OF assms(1)] by simp
  then obtain views where v: "Connections env (cs, s) = Some views" "mset views = image_mset (view_of \<circ> snd) (mset cs)"
    by (rule connections_views [OF _ assms(2)])
  let ?f = "connResp_of (names.truncate lib)"
  have "?f \<circ> (view_of \<circ> snd) = ?f \<circ> snd" by (simp add: fun_eq_iff connResp_of_def view_of_def)
  then have "mset (map ?f views) = image_mset (?f \<circ> snd) (mset cs)"
    unfolding mset_map v(2) multiset.map_comp by (rule arg_cong)
  moreover obtain j where "marshal_connections (map ?f views) = Inr j" by (simp add: marshal_connections_def)
  ultimately show ?thesis
    using v(1) assms(3)
    by (intro exI [of _ "WriteBody (Marshal j) newWriter"] exI [of _ "map ?f views"] exI [of _ j])
      (simp add: startHttpServer_def getAdapt_def handleAndReply_def listConnectionsHandler_def)
qed

text \<open>C39:
  The endpoints share one request variable between requests: a request that names only a
  peer is taken to repeat the addresses of the request before it, so after a peer was added with
  its addresses, adding a second peer without addresses records those of the first for it.\<close>

theorem admin_addresses_leak:
  assumes "Method rq1 = ''POST''" and "Body rq1 = (request_text p as, None)"
    and "valid_utf8 p" and "\<forall>a \<in> set as. valid_utf8 a"
    and "startHttpServer env lib ''/peer'' rq1 x = Some (w1, (a1, (cs, rs, v)))"
    and "Method rq2 = ''POST''" and "Body rq2 = (Marshal (JObj [(''PeerID'', JStr q)]), None)" and "valid_utf8 q"
    and "idDecode lib q = Inr qid" and "UpdatePeer env (NewPeer (Some qid) as) v = Some (None, v')"
  shows "\<exists>w2 a2. startHttpServer env lib ''/peer'' rq2 (a1, (cs, rs, v)) = Some (w2, (a2, (cs, rs, v'))) \<and>
    rwStatus w2 = Some 200"
proof -
  obtain a0 st0 where x: "x = (a0, st0)" by (cases x)
  obtain sp where u1: "Unmarshal lib (request_text p as) (peerReq a0) = (\<lparr> PeerID = p, req_Addresses = as, spare = sp \<rparr>, None)"
    using Unmarshal_request [OF assms(3,4)] by blast
  obtain r where "adapt lib marshal_strings (updatePeerHandler env lib) rq1 (peerReq a0, st0) = Some (w1, (r, (cs, rs, v)))"
    "peerReq a1 = r"
    using assms(5) x by (auto simp: startHttpServer_def bind_eq_Some_conv)
  with assms(1,2) u1 have r: "peerReq a1 = \<lparr> PeerID = p, req_Addresses = as, spare = sp \<rparr>"
    by (auto simp: adapt_def bind_eq_Some_conv)
  have "parse_json (Marshal (JObj [(''PeerID'', JStr q)])) = Some (JObj [(''PeerID'', JStr q)])"
    using parse_Marshal [of "JObj [(''PeerID'', JStr q)]"] clean_id [of "JObj [(''PeerID'', JStr q)]"] assms(8)
    by (simp add: valid_utf8_ascii)
  then have "Unmarshal lib (Marshal (JObj [(''PeerID'', JStr q)])) (peerReq a1) =
      (\<lparr> PeerID = q, req_Addresses = as, spare = sp \<rparr>, None)"
    by (simp add: decode_defs r)
  with assms(6,7,9,10) show ?thesis
    by (simp add: startHttpServer_def adapt_def handleAndReply_def updatePeerHandler_def ParsePeerID_def wire.defs
        on_world_def marshal_strings_def del: Marshal.simps)
qed

subsection \<open>Requests to the sample node\<close>

definition demo_lib :: adminLib where
  "demo_lib = wire.extend demo_names \<lparr> idMarshal = (\<lambda>i. Inr (JStr i)), syntaxText = (\<lambda>s. ''invalid character'') \<rparr>"

lemma demo_lib_sel [simp]:
  "idDecode demo_lib s = Inr s" "idMarshal demo_lib i = Inr (JStr i)" "idString demo_lib i = i"
  "uuidString demo_lib u = dec_nat (unat u)"
  by (simp_all add: demo_lib_def demo_names_def wire.defs)

lemma demo_quiet [simp]: "\<not> Trace \<le> Info"
  by code_simp

lemma demo_UpdatePeer [simp]: "UpdatePeer (demo_env me) q w = Some (None, w)"
proof -
  have "add_addresses (demo_env me) q as w = Some (None, w)" for as
    by (induction as) (simp_all add: demo_defs)
  then show ?thesis by (simp add: UpdatePeer_def)
qed

lemma demo_lib_strings: "ids_are_strings demo_lib"
  by (simp add: ids_are_strings_def)

abbreviation get :: httpRequest where
  "get \<equiv> \<lparr> Method = ''GET'', Body = ([], None) \<rparr>"

abbreviation post :: "string \<Rightarrow> httpRequest" where
  "post b \<equiv> \<lparr> Method = ''POST'', Body = (b, None) \<rparr>"

lemma demo_peers_get:
  "\<exists>w. startHttpServer (demo_env bob) demo_lib ''/peers'' get (newAdmin, st) = Some (w, (newAdmin, st)) \<and> rwStatus w = Some 200"
  by (simp add: startHttpServer_def getAdapt_def handleAndReply_def listPeerHandler_def PeersOf_def demo_peer_def
      marshal_peers_def marshal_peerResp_def marshal_id_def)


lemma demo_add_peer:
  assumes "idDecode demo_lib p = Inr pid" "valid_utf8 p" "\<forall>a \<in> set as. valid_utf8 a"
  shows "\<exists>w sp. startHttpServer (demo_env bob) demo_lib ''/peer'' (post (request_text p as)) (newAdmin, st) =
    Some (w, (newAdmin\<lparr>peerReq := \<lparr> PeerID = p, req_Addresses = as, spare = sp \<rparr>\<rparr>, st))"
proof -
  obtain sp where "Unmarshal demo_lib (request_text p as) zero_req = (\<lparr> PeerID = p, req_Addresses = as, spare = sp \<rparr>, None)"
    using Unmarshal_request [OF assms(2,3)] by blast
  then show ?thesis
    by (cases st) (simp add: startHttpServer_def adapt_def newAdmin_def handleAndReply_def updatePeerHandler_def
      ParsePeerID_def wire.defs on_world_def marshal_strings_def del: Marshal.simps)
qed

lemma demo_admin_connect:
  "\<exists>w a' c s'. startHttpServer (demo_env alice) demo_lib ''/connect'' (post (request_text bob [''/ip4/'' @ bob]))
    (newAdmin, (NewConnectionStore, no_reps, 7)) = Some (w, (a', ([(7, c)], s'))) \<and> rwStatus w = Some 200"
proof -
  obtain c s' where run: "Connect (demo_env alice) (demo_peer bob) sender_selects noOptions (NewConnectionStore, no_reps, 7) =
      Some ((7, None), ([(7, c)], s'))"
    using demo_connect by blast
  obtain sp where "Unmarshal demo_lib (request_text bob [''/ip4/'' @ bob]) zero_req =
      (\<lparr> PeerID = bob, req_Addresses = [''/ip4/'' @ bob], spare = sp \<rparr>, None)"
    using Unmarshal_request [of bob "[''/ip4/'' @ bob]"] by (auto simp: demo_ids valid_utf8_ascii)
  moreover have "connectHttpHandler (demo_env alice) demo_lib \<lparr> PeerID = bob, req_Addresses = [''/ip4/'' @ bob], spare = sp \<rparr>
      (NewConnectionStore, no_reps, 7) = Some (Inr [(''connectionId'', dec_nat (unat (7 :: uuid)))], ([(7, c)], s'))"
    using run by (simp add: connectHttpHandler_def ParsePeerID_def wire.defs NewPeer_def demo_peer_def)
  ultimately show ?thesis
    by (simp add: startHttpServer_def adapt_def newAdmin_def handleAndReply_def marshal_strings_def del: Marshal.simps)
qed

theorem admin_connect_witness:
  "\<exists>w a' c s'. startHttpServer (demo_env alice) demo_lib ''/connect'' (post (request_text bob [''/ip4/'' @ bob]))
    (newAdmin, (NewConnectionStore, no_reps, 7)) = Some (w, (a', ([(7, c)], s'))) \<and>
    Status c = Open \<and> Receiver c = Some bob"
proof -
  obtain w a' c s' where run: "startHttpServer (demo_env alice) demo_lib ''/connect'' (post (request_text bob [''/ip4/'' @ bob]))
    (newAdmin, (NewConnectionStore, no_reps, 7)) = Some (w, (a', ([(7, c)], s')))" "rwStatus w = Some 200"
    using demo_admin_connect by blast
  have "\<exists>i d. map_of [(7 :: uuid, c)] = (map_of NewConnectionStore)(i \<mapsto> d) \<and> Receiver d = Some bob \<and> Status d = Open"
    using admin_connect [OF demo_steady _ _ _ _ _ run(1), of bob "[''/ip4/'' @ bob]" bob] run(2)
    by (auto simp: demo_ids valid_utf8_ascii)
  then obtain i d where "map_of [(7 :: uuid, c)] = [i \<mapsto> d]" "Receiver d = Some bob" "Status d = Open"
    by (auto simp: NewConnectionStore_def)
  then have "c = d" by (auto simp: fun_eq_iff split: if_splits)
  with run(1) \<open>Status d = Open\<close> \<open>Receiver d = Some bob\<close> show ?thesis by blast
qed


theorem admin_refuses_witness:
  "\<exists>w. startHttpServer (demo_env bob) demo_lib ''/connect'' (post ''{'') (newAdmin, fst demo_start) =
      Some (w, (newAdmin, fst demo_start)) \<and> rwStatus w = Some 400"
proof -
  have "parse_json ''{'' = None"
    by (simp add: parse_json_def is_space_def begin_value_def push_frame_def maxNestingDepth_def)
  then show ?thesis
    using admin_refuses [of "''/connect''" "post ''{''" "demo_env bob" demo_lib "(newAdmin, fst demo_start)"] by simp
qed

theorem admin_request_reads_back_witness:
  "\<exists>sp. Unmarshal demo_lib (request_text ''QmBob'' [''/ip4/1'']) (zero_req\<lparr>req_Addresses := [''x'']\<rparr>) =
    (\<lparr> PeerID = ''QmBob'', req_Addresses = [''/ip4/1''], spare = sp \<rparr>, None)"
  by (rule admin_request_reads_back) (simp_all add: valid_utf8_ascii)

theorem admin_lists_connections_witness:
  "\<exists>w rows v. startHttpServer (demo_env bob) demo_lib ''/connections'' get
      (newAdmin, fst (demo_state AwaitingWitness None no_reps [])) =
      Some (w, (newAdmin, fst (demo_state AwaitingWitness None no_reps []))) \<and>
    mset rows = {# \<lparr> cnr_ID = ''7'', cnr_Sender = ''QmAlice'', cnr_Witness = ''%!s(<nil>)'',
      cnr_Receiver = ''QmBob'', cnr_Status = ''AwaitingWitness'' \<rparr> #} \<and>
    marshal_connections rows = Inr v \<and> rwBody w = Marshal v"
proof -
  have m: "mset (mapOrder (demo_env bob) (map fst [(7, demo_conn AwaitingWitness None)])) =
      mset (map fst [(7, demo_conn AwaitingWitness None)])"
    by (simp add: demo_defs)
  have "dec_nat 7 = ''7''" by code_simp
  then have "connResp_of (names.truncate demo_lib) (demo_conn AwaitingWitness None) =
      \<lparr> cnr_ID = ''7'', cnr_Sender = ''QmAlice'', cnr_Witness = ''%!s(<nil>)'',
        cnr_Receiver = ''QmBob'', cnr_Status = ''AwaitingWitness'' \<rparr>"
    by (simp add: connResp_of_def names.defs fmt_id_def demo_conn_def demo_ids)
  with admin_lists_connections [OF demo_reachable [of any_event, unfolded demo_state_def] m, of get demo_lib newAdmin]
  show ?thesis by (auto simp: demo_state_def)
qed

theorem admin_addresses_leak_witness:
  "\<exists>w1 a1 w2 a2.
    startHttpServer (demo_env bob) demo_lib ''/peer'' (post (request_text ''QmCarol'' [''/ip4/1''])) (newAdmin, fst demo_start) =
      Some (w1, (a1, fst demo_start)) \<and>
    startHttpServer (demo_env bob) demo_lib ''/peer'' (post (Marshal (JObj [(''PeerID'', JStr ''QmAlice'')]))) (a1, fst demo_start) =
      Some (w2, (a2, fst demo_start)) \<and> rwStatus w2 = Some 200"
proof -
  have st: "fst demo_start = (NewConnectionStore, no_reps, 7)" by (simp add: demo_start_def)
  obtain w1 sp where r1: "startHttpServer (demo_env bob) demo_lib ''/peer'' (post (request_text ''QmCarol'' [''/ip4/1'']))
      (newAdmin, fst demo_start) =
      Some (w1, (newAdmin\<lparr>peerReq := \<lparr> PeerID = ''QmCarol'', req_Addresses = [''/ip4/1''], spare = sp \<rparr>\<rparr>, fst demo_start))"
    using demo_add_peer [of "''QmCarol''" "''QmCarol''" "[''/ip4/1'']" "fst demo_start"] by (auto simp: valid_utf8_ascii)
  have "\<exists>w2 a2. startHttpServer (demo_env bob) demo_lib ''/peer'' (post (Marshal (JObj [(''PeerID'', JStr ''QmAlice'')])))
      (newAdmin\<lparr>peerReq := \<lparr> PeerID = ''QmCarol'', req_Addresses = [''/ip4/1''], spare = sp \<rparr>\<rparr>, fst demo_start) =
      Some (w2, (a2, fst demo_start)) \<and> rwStatus w2 = Some 200"
    unfolding st
    by (rule admin_addresses_leak [OF _ _ _ _ r1 [unfolded st], of "''QmCarol''" "[''/ip4/1'']" _ "''QmAlice''"])
      (simp_all add: valid_utf8_ascii del: Marshal.simps)
  with r1 show ?thesis by blast
qed

end
