(* ===== verification/Startup.thy ===== *)
theory Startup
  imports Admin
begin

section \<open>Starting the application: main.go, main and what it calls\<close>

text \<open>
  From the command line to a running node: the configuration file, the logger, the private
  key, the libp2p host and the wiring of the collaborators. Every failure ends the process
  with a message, the \<open>Inl\<close> of the results here. Files, names, keys, the libp2p library and
  the random sources are the record \<open>os\<close>.
\<close>

record ('k, 'p, 'w) os = adminLib +
  ReadFile :: "string \<Rightarrow> error + string"
  zapBuild :: "zap_level \<Rightarrow> string option"
  Hostname :: "error + string"
  LookupHost :: "string \<Rightarrow> error + string list"
  IsLoopback :: "string \<Rightarrow> bool"
  pemDecode :: "string \<Rightarrow> string option"
  ParsePKCS8 :: "string \<Rightarrow> error + 'k"
  ParsePKCS1 :: "string \<Rightarrow> error + 'k"
  KeyPair :: "'k \<Rightarrow> error + 'p"
  NewHost :: "string \<Rightarrow> 'p option option \<Rightarrow> error + 'w host"
  randomID :: "'w \<Rightarrow> (uuid \<times> error option) \<times> 'w"
  rangeOrder :: "uuid list \<Rightarrow> uuid list"
  randDraws :: "nat \<Rightarrow> nat"

subsection \<open>Configuration\<close>

record config =
  Libp2pPort :: go_int
  CertPath :: string
  AdminPort :: go_int
  LogLevel :: string
  Host :: string

definition zero_config :: config where
  "zero_config = \<lparr> Libp2pPort = 0, CertPath = [], AdminPort = 0, LogLevel = [], Host = [] \<rparr>"

definition config_fields :: "config fields" where
  "config_fields =
    [(''libp2pport'', ''Libp2pPort'', \<lambda>v c. apfst (\<lambda>n. c\<lparr>Libp2pPort := n\<rparr>) (decode_int v (Libp2pPort c))),
     (''certpath'', ''CertPath'', \<lambda>v c. apfst (\<lambda>s. c\<lparr>CertPath := s\<rparr>) (decode_text v (CertPath c))),
     (''adminport'', ''AdminPort'', \<lambda>v c. apfst (\<lambda>n. c\<lparr>AdminPort := n\<rparr>) (decode_int v (AdminPort c))),
     (''loglevel'', ''LogLevel'', \<lambda>v c. apfst (\<lambda>s. c\<lparr>LogLevel := s\<rparr>) (decode_text v (LogLevel c))),
     (''host'', ''Host'', \<lambda>v c. apfst (\<lambda>s. c\<lparr>Host := s\<rparr>) (decode_text v (Host c)))]"

text \<open>\<open>args\<close> is \<open>os.Args\<close>, the program first; the type of the result is a message or a value.\<close>

definition loadConfig :: "('k, 'p, 'w) os \<Rightarrow> string list \<Rightarrow> string + config" where
  "loadConfig lib args =
     (if length args \<noteq> 2 then Inl ''Please provide a config.''
      else case ReadFile lib (args ! 1) of
        Inl err \<Rightarrow> Inl (''Failed to read config: '' @ error_text (names.truncate lib) err)
      | Inr contents \<Rightarrow> (case unmarshal_struct (syntaxText lib) ''config'' config_fields contents zero_config of
          (cfg, Some err) \<Rightarrow> Inl (''Failed to parse config: '' @ err)
        | (cfg, None) \<Rightarrow> Inr cfg))"

definition initLogger :: "('k, 'p, 'w) os \<Rightarrow> config \<Rightarrow> string + Level" where
  "initLogger lib cfg = (case ParseLevel (LogLevel cfg) of
       Inl str \<Rightarrow> Inl (''Failed to parse log level: '' @ unrecognized_level str)
     | Inr level \<Rightarrow> (case NewZapLogger (zapBuild lib) level of
         Inl err \<Rightarrow> Inl (''Failed to initialize logger: '' @ err)
       | Inr l \<Rightarrow> Inr l))"

subsection \<open>The libp2p host\<close>

text \<open>
  A key, nil or not, and an error, as the code returns them: the error of the last call is
  assigned and not looked at, so a key that libp2p refuses is nil without an error.
\<close>

definition loadPrivKey :: "('k, 'p, 'w) os \<Rightarrow> string \<Rightarrow> 'p option \<times> error option" where
  "loadPrivKey lib path = (case ReadFile lib path of
       Inl err \<Rightarrow> (None, Some err)
     | Inr data \<Rightarrow> (case pemDecode lib data of
         None \<Rightarrow> (None, Some (External ''Invalid key format''))
       | Some block \<Rightarrow>
           (case (case ParsePKCS8 lib block of Inl e \<Rightarrow> ParsePKCS1 lib block | Inr key \<Rightarrow> Inr key) of
              Inl e \<Rightarrow> (None, Some (External
                ''Provided Key was neither PKCS1 nor PKCS8. Please use one of those formats.''))
            | Inr key \<Rightarrow> (case KeyPair lib key of Inl e \<Rightarrow> (None, None) | Inr pk \<Rightarrow> (Some pk, None)))))"

text \<open>The loop over the addresses of the machine: the first that is not a loopback address.\<close>

fun first_address :: "(string \<Rightarrow> bool) \<Rightarrow> string list \<Rightarrow> string" where
  "first_address loopback [] = []"
| "first_address loopback (addr # addrs) = (if loopback addr then first_address loopback addrs else addr)"

definition hostIP :: "('k, 'p, 'w) os \<Rightarrow> config \<Rightarrow> string + string" where
  "hostIP lib cfg =
     (if Host cfg \<noteq> [] then Inr (Host cfg)
      else case Hostname lib of
        Inl err \<Rightarrow> Inl (''Failed to find computer hostname: '' @ error_text (names.truncate lib) err)
      | Inr hostname \<Rightarrow> (case LookupHost lib hostname of
          Inl err \<Rightarrow> Inl (''Failed to find addresses for hostname: '' @ error_text (names.truncate lib) err)
        | Inr addrs \<Rightarrow> Inr (first_address (IsLoopback lib) addrs)))"

definition listen_address :: "string \<Rightarrow> go_int \<Rightarrow> string" where
  "listen_address ip port = ''/ip4/'' @ ip @ ''/udp/'' @ Itoa port @ ''/quic-v1''"

definition create_host :: "('k, 'p, 'w) os \<Rightarrow> config \<Rightarrow> string \<Rightarrow> string + 'w host" where
  "create_host lib cfg addr =
     (case (if CertPath cfg \<noteq> [] then
              (case loadPrivKey lib (CertPath cfg) of
                 (priv, Some err) \<Rightarrow> Inl (''Failed to load private key: '' @ error_text (names.truncate lib) err)
               | (priv, None) \<Rightarrow> Inr (Some priv))
            else Inr None) of
        Inl m \<Rightarrow> Inl m
      | Inr identity \<Rightarrow> (case NewHost lib addr identity of
          Inl err \<Rightarrow> Inl (''Failed to create libp2p host: '' @ error_text (names.truncate lib) err)
        | Inr h \<Rightarrow> Inr h))"

definition initLibp2pHost :: "('k, 'p, 'w) os \<Rightarrow> config \<Rightarrow> string + 'w host" where
  "initLibp2pHost lib cfg = tryE (hostIP lib cfg) (\<lambda>ip. create_host lib cfg (listen_address ip (Libp2pPort cfg)))"

subsection \<open>Wiring\<close>

text \<open>
  The running application: the node, its stream handlers by protocol, the state it starts
  with, and the port of the administration endpoints.
\<close>

record 'w app =
  appEnv :: "'w nodeEnv"
  streamHandlers :: "string \<rightharpoonup> (stream \<Rightarrow> 'w served \<Rightarrow> 'w served option)"
  startState :: "'w nodeState"
  servePort :: go_int

definition wire_node :: "('k, 'p, 'w) os \<Rightarrow> Level \<Rightarrow> 'w host \<Rightarrow> 'w nodeEnv" where
  "wire_node lib logger h =
     (let peerstore = NewPeerStore h (wire.truncate lib);
          trpt = NewTransport \<lparr> trptHost = h, trptWire = wire.truncate lib \<rparr>
      in \<lparr> peerStore = peerstore, transport = trpt, trusts = trustFunc peerstore, logLevel = logger,
           newRandom = randomID lib, mapOrder = rangeOrder lib, envNames = names.truncate lib \<rparr>)"

text \<open>\<open>main\<close> up to the start of the HTTP server; creating the node never fails.\<close>

definition main :: "('k, 'p, 'w) os \<Rightarrow> string list \<Rightarrow> 'w \<Rightarrow> (string + 'w app) option" where
  "main lib args w = (case loadConfig lib args of
       Inl m \<Rightarrow> returns (Inl m)
     | Inr cfg \<Rightarrow> (case initLogger lib cfg of
         Inl m \<Rightarrow> returns (Inl m)
       | Inr logger \<Rightarrow> (case initLibp2pHost lib cfg of
           Inl m \<Rightarrow> returns (Inl m)
         | Inr h \<Rightarrow>
             let env = wire_node lib logger h;
                 handlers = NewNode \<lparr> trptHost = h, trptWire = wire.truncate lib \<rparr> env appHandlers (randDraws lib)
             in do {
               self \<leftarrow> SelfOf env w;
               returns (case self of
                   Inl err \<Rightarrow> Inl (''Got error while attempting to retrieve self: '' @ error_text (names.truncate lib) err)
                 | Inr self \<Rightarrow> Inr \<lparr> appEnv = env, streamHandlers = handlers,
                     startState = (NewConnectionStore, NewReputationStore None, w), servePort = AdminPort cfg \<rparr>) })))"

end
