(* ===== verification/Startup_Props.thy ===== *)
theory Startup_Props
  imports Startup Admin_Laws Libp2p_Props
begin

section \<open>Starting up\<close>

text \<open>
  What a started application is: a node in the initial state of its protocol, over a peer
  store that knows it, serving the five protocols. And how the settings it starts from are
  read.
\<close>

lemma wired_self:
  "SelfOf (wire_node lib l h) w = Some (Inr \<lparr> peer_ID = Some (hostID h), Addresses = hostAddrs h w \<rparr>)"
  by (simp add: SelfOf_def wire_node_def NewPeerStore_def libp2p_Find_def Let_def)

lemma wired_steady: "steady (wire_node lib l h) (hostID h)"
  by (simp add: steady_def wire_node_def NewPeerStore_def Let_def lp.peer_store_axioms)

lemma NewNode_protocols:
  "dom (NewNode t env hs rnd) = {''/connect'', ''/witness'', ''/peers'', ''/witness-notification'', ''/close''}"
  by (auto simp: NewNode_def RegisterHandlers_def Let_def)


subsection \<open>Settings\<close>

lemma dec_nat_head: "n \<noteq> 0 \<Longrightarrow> hd (dec_nat n) \<noteq> CHR ''0''"
proof (induction n rule: dec_nat.induct)
  case (1 n)
  have digit: "digit_char d \<noteq> CHR ''0''" if "0 < d" "d < 10" for d
    using char_digit_digit [OF that(2)] that(1) by (auto simp: char_digit_def)
  show ?case
  proof (cases "n < 10")
    case True
    with 1 digit show ?thesis by (subst dec_nat.simps) simp
  next
    case False
    with 1 show ?thesis by (subst dec_nat.simps) simp
  qed
qed

lemma digit_is_dec: "is_digit c \<Longrightarrow> is_dec c"
proof -
  have "\<forall>c \<in> set ''0123456789''. is_dec c" by (simp add: is_dec_def)
  then show "is_digit c \<Longrightarrow> is_dec c" unfolding is_digit_def by blast
qed

lemma digits_run: "\<forall>c \<in> set s. is_digit c \<Longrightarrow> num_run NInt s"
proof (induction s)
  case (Cons c s)
  then have "is_dec c" by (simp add: digit_is_dec)
  with Cons show ?case by simp
qed (simp add: num_ends_def)

lemma dec_nat_number: "num_run NNeg (dec_nat n) \<and> number_ok (dec_nat n)"
proof (cases "n = 0")
  case True
  have "dec_nat 0 = ''0''" by code_simp
  with True show ?thesis by (simp add: num_ends_def)
next
  case False
  obtain c cs where c: "dec_nat n = c # cs" by (cases "dec_nat n") auto
  with False dec_nat_head [of n] have "c \<noteq> CHR ''0''" by simp
  moreover have "c \<noteq> CHR ''-''" using dec_nat_no_sign [OF c] by simp
  moreover have digits: "\<forall>x \<in> set (c # cs). is_digit x" using c dec_nat_digits [of _ n] by simp
  moreover from digits have "is_dec c" by (simp add: digit_is_dec)
  ultimately show ?thesis using c digits_run [of cs] by simp
qed

lemma Itoa_number: "number_ok (Itoa n)"
  using dec_nat_number by (simp add: Itoa_def Let_def)

text \<open>A configuration file with the five settings, as another program would write it.\<close>

definition config_json :: "config \<Rightarrow> json" where
  "config_json c = JObj [(''Libp2pPort'', JNum (Itoa (Libp2pPort c))), (''CertPath'', JStr (CertPath c)),
     (''AdminPort'', JNum (Itoa (AdminPort c))), (''LogLevel'', JStr (LogLevel c)), (''Host'', JStr (Host c))]"

lemma config_names [simp]:
  "fold_name ''Libp2pPort'' = ''libp2pport''" "fold_name ''CertPath'' = ''certpath''"
  "fold_name ''AdminPort'' = ''adminport''" "fold_name ''LogLevel'' = ''loglevel''" "fold_name ''Host'' = ''host''"
  by code_simp+

lemma config_loaded:
  assumes "ReadFile lib path = Inr (Marshal (config_json cfg))"
    and "valid_utf8 (CertPath cfg)" and "valid_utf8 (LogLevel cfg)" and "valid_utf8 (Host cfg)"
  shows "loadConfig lib [prog, path] = Inr cfg"
proof -
  have "json_ok maxNestingDepth (config_json cfg)" by (simp add: config_json_def Itoa_number)
  moreover have "texts_valid (config_json cfg)" using assms(2-4) by (simp add: config_json_def valid_utf8_ascii)
  ultimately have "parse_json (Marshal (config_json cfg)) = Some (config_json cfg)"
    by (metis parse_Marshal clean_id)
  then show ?thesis
    by (simp add: loadConfig_def assms(1) unmarshal_struct_def config_json_def decode_member_def config_fields_def
        field_error_def zero_config_def)
qed

text \<open>
  A configuration file that gives the five settings is loaded as these settings, ports over
  the whole range of integers and texts in any well-formed UTF-8.\<close>

theorem config_reads_back:
  assumes "ReadFile lib path = Inr (Marshal (config_json cfg))"
    and "valid_utf8 (CertPath cfg)" and "valid_utf8 (LogLevel cfg)" and "valid_utf8 (Host cfg)"
  shows "loadConfig lib [prog, path] = Inr cfg"
  by (rule config_loaded [OF assms])

text \<open>
  Without a configured host the node listens on the first address of the machine that is not a
  loopback address; when there is none the address has no host part, and libp2p is asked to
  listen on it all the same.\<close>

theorem listen_address_choice:
  assumes "Host cfg = []" and "Hostname lib = Inr name" and "LookupHost lib name = Inr addrs" and "CertPath cfg = []"
  shows "initLibp2pHost lib cfg = (case NewHost lib (''/ip4/'' @
      (case filter (\<lambda>a. \<not> IsLoopback lib a) addrs of [] \<Rightarrow> [] | a # _ \<Rightarrow> a) @
      ''/udp/'' @ Itoa (Libp2pPort cfg) @ ''/quic-v1'') None of
    Inl err \<Rightarrow> Inl (''Failed to create libp2p host: '' @ error_text (names.truncate lib) err) | Inr h \<Rightarrow> Inr h)"
proof -
  have "first_address (IsLoopback lib) addrs = (case filter (\<lambda>a. \<not> IsLoopback lib a) addrs of [] \<Rightarrow> [] | a # _ \<Rightarrow> a)"
    by (induction addrs) auto
  then show ?thesis
    using assms by (simp add: initLibp2pHost_def hostIP_def create_host_def listen_address_def)
qed

text \<open>
  A private key that libp2p cannot use is not reported: the error is dropped, and the host
  is created with a nil identity instead.\<close>

theorem unusable_key_ignored:
  assumes "CertPath cfg \<noteq> []" and "ReadFile lib (CertPath cfg) = Inr data" and "pemDecode lib data = Some block"
    and "ParsePKCS8 lib block = Inr key" and "KeyPair lib key = Inl e"
  shows "loadPrivKey lib (CertPath cfg) = (None, None) \<and>
    create_host lib cfg addr = (case NewHost lib addr (Some None) of
        Inl err \<Rightarrow> Inl (''Failed to create libp2p host: '' @ error_text (names.truncate lib) err) | Inr h \<Rightarrow> Inr h)"
  using assms by (simp add: loadPrivKey_def create_host_def)

subsection \<open>A machine to start on\<close>

text \<open>
  One file, which is the configuration and, with a name of its own, the key; a loopback
  address before the public one; and a key pair that libp2p refuses.
\<close>

definition demo_config :: config where
  "demo_config = \<lparr> Libp2pPort = 4433, CertPath = [], AdminPort = 8080, LogLevel = ''INFO'', Host = [] \<rparr>"

definition demo_os :: "(unit, unit, wires) os" where
  "demo_os = adminLib.extend (wire.extend demo_names \<lparr> idMarshal = (\<lambda>i. Inr (JStr i)), syntaxText = (\<lambda>s. ''invalid'') \<rparr>)
    \<lparr> ReadFile = (\<lambda>f. Inr (Marshal (config_json demo_config))), zapBuild = (\<lambda>l. None),
      Hostname = Inr ''bob'', LookupHost = (\<lambda>n. Inr [''127.0.0.1'', ''10.0.0.7'']), IsLoopback = (\<lambda>a. a = ''127.0.0.1''),
      pemDecode = Some, ParsePKCS8 = (\<lambda>b. Inr ()), ParsePKCS1 = (\<lambda>b. Inr ()), KeyPair = (\<lambda>k. Inl (External ''curve'')),
      NewHost = (\<lambda>addr key. Inr (demo_host [] (\<lambda>b. b))), randomID = (\<lambda>w. ((0, None), w)), rangeOrder = (\<lambda>ids. ids),
      randDraws = (\<lambda>k. k) \<rparr>"

lemma demo_os_sel [simp]:
  "ReadFile demo_os f = Inr (Marshal (config_json demo_config))" "zapBuild demo_os l = None"
  "Hostname demo_os = Inr ''bob''" "LookupHost demo_os n = Inr [''127.0.0.1'', ''10.0.0.7'']"
  "IsLoopback demo_os a \<longleftrightarrow> a = ''127.0.0.1''" "pemDecode demo_os b = Some b" "ParsePKCS8 demo_os b = Inr ()"
  "KeyPair demo_os k = Inl (External ''curve'')" "NewHost demo_os addr key = Inr (demo_host [] (\<lambda>b. b))"
  by (simp_all add: demo_os_def adminLib.defs wire.defs)

lemma demo_config_valid: "valid_utf8 (CertPath demo_config)" "valid_utf8 (LogLevel demo_config)" "valid_utf8 (Host demo_config)"
  by (simp_all add: demo_config_def)

theorem config_reads_back_witness: "loadConfig demo_os [''node'', ''cfg''] = Inr demo_config"
  by (rule config_reads_back) (simp_all add: demo_config_valid)

theorem listen_address_choice_witness:
  "initLibp2pHost demo_os demo_config = (case NewHost demo_os (''/ip4/10.0.0.7/udp/'' @ Itoa 4433 @ ''/quic-v1'') None of
    Inl err \<Rightarrow> Inl (''Failed to create libp2p host: '' @ error_text (names.truncate demo_os) err) | Inr h \<Rightarrow> Inr h)"
  using listen_address_choice [of demo_config demo_os "''bob''" "[''127.0.0.1'', ''10.0.0.7'']"]
  by (simp add: demo_config_def)

theorem unusable_key_ignored_witness:
  "loadPrivKey demo_os ''key'' = (None, None) \<and>
   create_host demo_os (demo_config\<lparr>CertPath := ''key''\<rparr>) [] = Inr (demo_host [] (\<lambda>b. b))"
  using unusable_key_ignored [of "demo_config\<lparr>CertPath := ''key''\<rparr>" demo_os _ _ _ _ "[]"] by simp


end
