(* ===== verification/Session.thy ===== *)
theory Session
  imports App Protocol Connect_Props
begin

section \<open>Several nodes at once\<close>

text \<open>
  The nodes of a network, each with its stores and pending tasks, when every message is
  delivered: a request runs the other node's handler at once, and the result is its response.
  A message without a response is delivered as well, and its sender learns nothing of what
  the handler made of it, as with the libp2p transport. The world of a node is the network
  of the others. All nodes run the handlers of \<open>main.go\<close>.
\<close>

type_synonym node_local = "connStore \<times> repStore \<times> task list"
type_synonym net = "peer_id \<Rightarrow> node_local"

abbreviation store_at :: "net \<Rightarrow> peer_id \<Rightarrow> connStore" where
  "store_at n x \<equiv> fst (n x)"

subsection \<open>Delivery\<close>

text \<open>
  \<open>at_node n p f\<close>: run \<open>f\<close> on the stores of the node that peer \<open>p\<close> is, with the network as its
  world, and put back what it leaves.
\<close>

definition at_node :: "net \<Rightarrow> Peer \<Rightarrow> (peer_id \<Rightarrow> net nodeState \<Rightarrow> ('r \<times> task list \<times> net nodeState) option) \<Rightarrow>
    ((error + 'r) \<times> net) option" where
  "at_node n p f = (case peer_ID p of
       None \<Rightarrow> returns (Inl (External ''no such peer''), n)
     | Some b \<Rightarrow> (case n b of (cs, rs, ts) \<Rightarrow> do {
         (r, ts', cs, rs, n) \<leftarrow> f b (cs, rs, n);
         returns (Inr r, n(b := (cs, rs, ts @ ts'))) }))"

text \<open>A handler that fails resets the stream, which the caller sees as an error.\<close>

definition answer :: "(error + ('r \<times> error option)) \<times> net \<Rightarrow> (error + 'r) \<times> net" where
  "answer x = (case x of
       (Inl e, n) \<Rightarrow> (Inl e, n)
     | (Inr (r, None), n) \<Rightarrow> (Inr r, n)
     | (Inr (r, Some e), n) \<Rightarrow> (Inl (External ''stream reset''), n))"

definition sent :: "(error + 'r) \<times> net \<Rightarrow> error option \<times> net" where
  "sent x = (case x of (Inl e, n) \<Rightarrow> (Some e, n) | (Inr r, n) \<Rightarrow> (None, n))"

definition direct :: "(peer_id \<Rightarrow> net nodeEnv) \<Rightarrow> peer_id \<Rightarrow> net Transport" where
  "direct E me = \<lparr>
     SendNotification = (\<lambda>p o1 nt n. map_option sent (at_node n p (\<lambda>b st.
        map_option (\<lambda>(r, st). (r, [], st)) (handle_notification (E b) appHandlers (Some me) nt st)))),
     SendClose = (\<lambda>p o1 r n. map_option sent (at_node n p (\<lambda>b st.
        map_option (\<lambda>(r, st). (r, [], st)) (handle_close appHandlers (Some me) r st)))),
     ExchangeConnect = (\<lambda>p o1 r n. map_option answer (at_node n p (\<lambda>b st.
        map_option (\<lambda>(r, t, st). (r, (case t of None \<Rightarrow> [] | Some t \<Rightarrow> [t]), st))
          (handle_connect (E b) appHandlers (Some me) r st)))),
     ExchangeWitness = (\<lambda>p o1 r n. map_option answer (at_node n p (\<lambda>b st.
        map_option (\<lambda>(r, st). (r, [], st)) (handle_witness (E b) appHandlers (Some me) r st)))),
     ExchangePeers = (\<lambda>p o1 r n. returns (Inl (External ''not served''), n)) \<rparr>"

text \<open>
  A node of the network: its own collaborators, with delivery as the transport. The
  handlers do not use the transport, so the served nodes need none.
\<close>

definition net_env :: "(peer_id \<Rightarrow> net nodeEnv) \<Rightarrow> peer_id \<Rightarrow> net nodeEnv" where
  "net_env E x = (E x)\<lparr>transport := direct E x\<rparr>"

lemma handlers_ignore_transport:
  "handle_connect (e\<lparr>transport := t\<rparr>) h = handle_connect e h"
  "handle_witness (e\<lparr>transport := t\<rparr>) h = handle_witness e h"
  "handle_notification (e\<lparr>transport := t\<rparr>) h = handle_notification e h"
  by (simp_all add: fun_eq_iff handle_connect_def handle_witness_def handle_notification_def connect_error_def
      witness_error_def witness_self_write_def [abs_def] SelfOf_def notification_write_def [abs_def]
      cong: sum.case_cong option.case_cong if_cong)

text \<open>
  A network works when every node knows itself and every other, looking up and adding
  addresses changes nothing else, and assessing a peer changes no reputation.
\<close>

definition working :: "(peer_id \<Rightarrow> net nodeEnv) \<Rightarrow> bool" where
  "working E \<longleftrightarrow> (\<forall>x. steady (E x) x \<and> (\<forall>n. SelfPeer (peerStore (E x)) n \<noteq> None) \<and>
     (\<forall>i n. \<exists>q. Find (peerStore (E x)) (Some i) n = Some (Inr q)) \<and>
     (\<forall>i a n. AddAddr (peerStore (E x)) i a n = Some (None, n)))"

lemma working_self:
  assumes "working E"
  obtains s where "SelfPeer (peerStore (E x)) n = Some (Inr s)" "peer_ID s = Some x"
  using assms unfolding working_def steady_iff by (metis not_None_eq)

lemma working_find:
  assumes "working E"
  obtains q where "Find (peerStore (E x)) (Some i) n = Some (Inr q)" "peer_ID q = Some i"
  using assms unfolding working_def steady_iff by metis

lemma working_update:
  assumes "working E" "peer_ID p = Some b"
  shows "UpdatePeer (net_env E x) p n = Some (None, n)"
proof -
  have "add_addresses (net_env E x) p as n = Some (None, n)" for as
  proof (induction as)
    case (Cons a as)
    obtain q where "Find (peerStore (E x)) (Some b) n = Some (Inr q)" by (rule working_find [OF assms(1)])
    with Cons assms show ?case by (simp add: net_env_def working_def)
  qed simp
  then show ?thesis by (simp add: UpdatePeer_def)
qed

subsection \<open>One message\<close>

abbreviation session_conn :: "uuid \<Rightarrow> peer_id \<Rightarrow> peer_id option \<Rightarrow> peer_id \<Rightarrow> Status \<Rightarrow> Connection" where
  "session_conn i a w b st \<equiv> inMemoryConnection i (Some a) w (Some b) st"

text \<open>
  \<open>stored n x i c ts m\<close>: the network goes from \<open>n\<close> to \<open>m\<close> when node \<open>x\<close> stores connection
  \<open>c\<close> under \<open>i\<close> and starts the tasks \<open>ts\<close>.
\<close>

definition stored :: "net \<Rightarrow> peer_id \<Rightarrow> uuid \<Rightarrow> Connection \<Rightarrow> task list \<Rightarrow> net \<Rightarrow> bool" where
  "stored n x i c ts m \<longleftrightarrow> (\<forall>y. y \<noteq> x \<longrightarrow> m y = n y) \<and> map_of (store_at m x) = (map_of (store_at n x))(i \<mapsto> c) \<and>
     fst (snd (m x)) = fst (snd (n x)) \<and> snd (snd (m x)) = snd (snd (n x)) @ ts"

definition started :: "uuid \<Rightarrow> Options \<Rightarrow> task list" where
  "started i opts = (if WitnessSelector opts = Some WitnessSelectorReceiver then [(i, opts)] else [])"

lemma deliver_connect:
  assumes "working E" "a \<noteq> b" "peer_ID p = Some b" "map_of (store_at n b) i = None"
    and req_def: "req = \<lparr> cq_ConnectionID = i, cq_Sender = Some a, cq_Receiver = Some b, cq_Options = o1 \<rparr>"
  shows "\<exists>m. ExchangeConnect (direct E a) p o2 req n =
      Some (Inr \<lparr> cr_ConnectionID = i, cr_Errors = [], cr_Accepted = True, cr_RejectReasons = [] \<rparr>, m) \<and>
    stored n b i (session_conn i a None b AwaitingWitness) (started i o1) m"
proof -
  obtain cs rs ts where nb: "n b = (cs, rs, ts)" by (cases "n b")
  obtain qa where qa: "Find (peerStore (E b)) (Some a) n = Some (Inr qa)" "peer_ID qa = Some a"
    by (rule working_find [OF assms(1)])
  obtain qb where qb: "Find (peerStore (E b)) (Some b) n = Some (Inr qb)" "peer_ID qb = Some b"
    by (rule working_find [OF assms(1)])
  obtain me where me: "SelfPeer (peerStore (E b)) n = Some (Inr me)" "peer_ID me = Some b"
    by (rule working_self [OF assms(1)])
  let ?cs = "AList.update i (session_conn i a None b AwaitingWitness) cs"
  have "handle_connect (E b) appHandlers (Some a) req (cs, rs, n) =
      Some ((\<lparr> cr_ConnectionID = i, cr_Errors = [], cr_Accepted = True, cr_RejectReasons = [] \<rparr>, None),
        (if selects_witness req me then Some (i, o1) else None), ?cs, rs, n)"
    using assms(2,4) nb qa qb me
    by (simp add: handle_connect_def req_def appHandlers_def appConnectHandler_def Accept_fresh)
  moreover have "selects_witness req me \<longleftrightarrow> WitnessSelector o1 = Some WitnessSelectorReceiver"
    using me(2) assms(2) by (auto simp: selects_witness_def req_def)
  ultimately have "ExchangeConnect (direct E a) p o2 req n =
      Some (Inr \<lparr> cr_ConnectionID = i, cr_Errors = [], cr_Accepted = True, cr_RejectReasons = [] \<rparr>,
        n(b := (?cs, rs, ts @ started i o1)))"
    using assms(3) nb by (simp add: direct_def at_node_def answer_def started_def req_def)
  then show ?thesis using nb by (auto simp: stored_def update_conv')
qed

lemma deliver_witness:
  assumes "working E" "x = a \<or> x = b" "peer_ID p = Some c" "c \<noteq> a" "c \<noteq> b" "map_of (store_at n c) i = None"
  shows "\<exists>m. ExchangeWitness (direct E x) p o2
      \<lparr> wq_ConnectionID = i, wq_Sender = Some a, wq_Receiver = Some b, wq_Options = o1 \<rparr> n =
      Some (Inr \<lparr> wr_ConnectionID = i, wr_Errors = [], wr_Accepted = True, wr_RejectReasons = [] \<rparr>, m) \<and>
    stored n c i (session_conn i a (Some c) b Open) [] m"
proof -
  let ?req = "\<lparr> wq_ConnectionID = i, wq_Sender = Some a, wq_Receiver = Some b, wq_Options = o1 \<rparr>"
  obtain cs rs ts where nc: "n c = (cs, rs, ts)" by (cases "n c")
  obtain qa where qa: "Find (peerStore (E c)) (Some a) n = Some (Inr qa)" "peer_ID qa = Some a"
    by (rule working_find [OF assms(1)])
  obtain qb where qb: "Find (peerStore (E c)) (Some b) n = Some (Inr qb)" "peer_ID qb = Some b"
    by (rule working_find [OF assms(1)])
  obtain me where me: "SelfPeer (peerStore (E c)) n = Some (Inr me)" "peer_ID me = Some c"
    by (rule working_self [OF assms(1)])
  let ?cs1 = "AList.update i (session_conn i a None b Open) cs"
  let ?cs = "AList.update i (session_conn i a (Some c) b Open) ?cs1"
  have "handle_witness (E c) appHandlers (Some x) ?req (cs, rs, n) =
      Some ((\<lparr> wr_ConnectionID = i, wr_Errors = [], wr_Accepted = True, wr_RejectReasons = [] \<rparr>, None), ?cs, rs, n)"
    using assms(2,4,5,6) nc qa qb me
    by (auto simp: handle_witness_def appHandlers_def appWitnessHandler_def Accept_fresh Update_found update_conv'
        witness_self_write_def SelfOf_def)
  then have "ExchangeWitness (direct E x) p o2 ?req n =
      Some (Inr \<lparr> wr_ConnectionID = i, wr_Errors = [], wr_Accepted = True, wr_RejectReasons = [] \<rparr>, n(c := (?cs, rs, ts)))"
    using assms(3) nc by (simp add: direct_def at_node_def answer_def)
  then show ?thesis using nc by (auto simp: stored_def update_conv')
qed

lemma deliver_notification:
  assumes "working E" "{x, y} = {a, b}" "x \<noteq> y" "peer_ID p = Some y"
    and "map_of (store_at n y) i = Some (session_conn i a None b AwaitingWitness)"
  shows "\<exists>m. SendNotification (direct E x) p o2 \<lparr> wn_ConnectionID = i, wn_Witness = w \<rparr> n = Some (None, m) \<and>
    stored n y i (session_conn i a w b Open) [] m"
proof -
  obtain cs rs ts where ny: "n y = (cs, rs, ts)" by (cases "n y")
  obtain me where me: "SelfPeer (peerStore (E y)) n = Some (Inr me)" "peer_ID me = Some y"
    by (rule working_self [OF assms(1)])
  have ab: "x = a \<and> y = b \<or> x = b \<and> y = a" using assms(2,3) by (auto simp: doubleton_eq_iff)
  let ?cs = "AList.update i (session_conn i a w b Open) cs"
  have "handle_notification (E y) appHandlers (Some x) \<lparr> wn_ConnectionID = i, wn_Witness = w \<rparr> (cs, rs, n) =
      Some (None, ?cs, rs, n)"
    using assms(3,5) ny me ab
    by (auto simp: handle_notification_def Update_found notification_write_def appHandlers_def
        appWitnessNotificationHandler_def Let_def)
  then have "SendNotification (direct E x) p o2 \<lparr> wn_ConnectionID = i, wn_Witness = w \<rparr> n = Some (None, n(y := (?cs, rs, ts)))"
    using assms(4) ny by (simp add: direct_def at_node_def sent_def)
  then show ?thesis using ny by (auto simp: stored_def update_conv')
qed

text \<open>A connection that is already closed stays as it is, which is the same connection again.\<close>

lemma deliver_close:
  assumes "peer_ID p = Some y" "map_of (store_at n y) i = Some c" "writable c"
  shows "\<exists>m. SendClose (direct E x) p o2 \<lparr> cl_ConnectionID = i \<rparr> n = Some (None, m) \<and>
    stored n y i (conn_as c Closed (Witness c)) [] m"
proof -
  obtain cs rs ts where ny: "n y = (cs, rs, ts)" by (cases "n y")
  let ?cs = "if Status c = Closed then cs else AList.update i (conn_as c Closed (Witness c)) cs"
  have "handle_close appHandlers (Some x) \<lparr> cl_ConnectionID = i \<rparr> (cs, rs, n) = Some (None, ?cs, rs, n)"
    using assms(2,3) ny
    by (simp add: handle_close_def Update_found close_request_write_def appHandlers_def appCloseHandler_def)
  then have "SendClose (direct E x) p o2 \<lparr> cl_ConnectionID = i \<rparr> n = Some (None, n(y := (?cs, rs, ts)))"
    using assms(1) ny by (simp add: direct_def at_node_def sent_def)
  moreover have "map_of ?cs = (map_of cs)(i \<mapsto> conn_as c Closed (Witness c))"
    using assms(2,3) ny conn_as_same [of c] by (auto simp: update_conv' fun_upd_idem)
  ultimately show ?thesis using ny by (auto simp: stored_def)
qed

subsection \<open>Selecting the witness\<close>

lemma net_env_sel [simp]:
  "peerStore (net_env E x) = peerStore (E x)" "transport (net_env E x) = direct E x"
  "trusts (net_env E x) = trusts (E x)" "newRandom (net_env E x) = newRandom (E x)"
  "logLevel (net_env E x) = logLevel (E x)"
  by (simp_all add: net_env_def)

lemma net_steady: "working E \<Longrightarrow> steady (net_env E x) x"
  by (simp add: working_def steady_iff)

text \<open>The peers that node \<open>x\<close> knows and trusts besides the two participants, in the order of its store.\<close>

definition outsiders ::
  "((peer_id option \<Rightarrow> proportionalReputation) \<Rightarrow> net \<Rightarrow> proportionalReputation \<Rightarrow> bool \<times> error option) \<Rightarrow>
    peer_id \<Rightarrow> peer_id \<Rightarrow> repStore \<Rightarrow> net \<Rightarrow> Peer list \<Rightarrow> Peer list" where
  "outsiders verdict a b rs n = filter (\<lambda>p. peer_ID p \<noteq> Some b \<and> peer_ID p \<noteq> Some a \<and>
     verdict (rep_of rs) n (rep_of rs (peer_ID p)) = (True, None))"

lemma net_findWitness:
  assumes "working E" "trusts_by verdict (E x)" "AllPeers (peerStore (E x)) n = Some (Inr peers)"
    and "outsiders verdict a b rs n peers = p # ps" "peer_ID p = Some c" "x = a \<or> x = b"
    and "map_of (store_at n c) i = None"
  shows "\<exists>rs' m. findWitness (net_env E x) (session_conn i a None b st) o1 o2 (rs, n) =
      Some ((Some (session_conn i a (Some c) b RequestingWitness), None), (rs', m)) \<and>
    rep_of rs' = rep_of rs \<and> stored n c i (session_conn i a (Some c) b Open) [] m"
proof -
  let ?c = "session_conn i a None b RequestingWitness"
  have "p \<in> set (outsiders verdict a b rs n peers)" using assms(4) by simp
  then have c: "c \<noteq> a" "c \<noteq> b" using assms(5) by (auto simp: outsiders_def)
  have trusts: "trusts_by verdict (net_env E x)" using assms(2) by (simp add: trusts_by_def)
  obtain rs' where rs': "rep_of rs' = rep_of rs"
    "witnessCandidates (net_env E x) ?c (rs, n) = Some (Inr (p # ps), (rs', n))"
    using witnessCandidates_filter [OF trusts, of n peers rs ?c] assms(3,4) by (auto simp: outsiders_def)
  obtain m where m: "ExchangeWitness (direct E x) p o2
      \<lparr> wq_ConnectionID = i, wq_Sender = Some a, wq_Receiver = Some b, wq_Options = o1 \<rparr> n =
      Some (Inr \<lparr> wr_ConnectionID = i, wr_Errors = [], wr_Accepted = True, wr_RejectReasons = [] \<rparr>, m)"
    "stored n c i (session_conn i a (Some c) b Open) [] m"
    using deliver_witness [of E x a b p c n i] assms(1,5-7) c by blast
  have "requestWitness (net_env E x) p ?c o1 o2 n = Some (None, m)"
    using m(1) by (simp add: requestWitness_def)
  with rs' m(2) assms(5) show ?thesis by (simp add: findWitness_def)
qed

lemma net_notify:
  assumes "working E" "{x, y} = {a, b}" "x \<noteq> y"
    and "map_of (store_at n y) i = Some (session_conn i a None b AwaitingWitness)"
  shows "\<exists>m. notify_and_open (net_env E x) (Some (session_conn i a (Some c) b st), None) o2 (rs, n) =
      Some ((Some (session_conn i a (Some c) b Open), None), (rs, m)) \<and>
    stored n y i (session_conn i a (Some c) b Open) [] m"
proof -
  obtain me where me: "SelfPeer (peerStore (E x)) n = Some (Inr me)" "peer_ID me = Some x"
    by (rule working_self [OF assms(1)])
  obtain q where q: "Find (peerStore (E x)) (Some y) n = Some (Inr q)" "peer_ID q = Some y"
    by (rule working_find [OF assms(1)])
  obtain m where m: "SendNotification (direct E x) q o2 \<lparr> wn_ConnectionID = i, wn_Witness = Some c \<rparr> n = Some (None, m)"
    "stored n y i (session_conn i a (Some c) b Open) [] m"
    using deliver_notification [of E x y a b q n i] assms q(2) by blast
  have "x = a \<and> y = b \<or> x = b \<and> y = a" using assms(2,3) by (auto simp: doubleton_eq_iff)
  with me q m assms(3) show ?thesis by (auto simp: notify_and_open_def sendWitnessNotification_def)
qed

text \<open>The side that selects, \<open>x\<close>, with the other side, \<open>y\<close>, waiting.\<close>

definition selector_of :: "peer_id \<Rightarrow> peer_id \<Rightarrow> WitnessSelector \<Rightarrow> peer_id" where
  "selector_of a b ws = (case ws of WitnessSelectorSender \<Rightarrow> a | WitnessSelectorReceiver \<Rightarrow> b)"

definition waiting_side :: "peer_id \<Rightarrow> peer_id \<Rightarrow> WitnessSelector \<Rightarrow> peer_id" where
  "waiting_side a b ws = (case ws of WitnessSelectorSender \<Rightarrow> b | WitnessSelectorReceiver \<Rightarrow> a)"

lemma net_selection:
  assumes "working E" "a \<noteq> b" "WitnessSelector o1 = Some ws" "x = selector_of a b ws" "y = waiting_side a b ws"
    and "trusts_by verdict (E x)" "AllPeers (peerStore (E x)) n = Some (Inr peers)"
    and "outsiders verdict a b rs n peers = p # ps" "peer_ID p = Some c"
    and "map_of (store_at n c) i = None" "map_of (store_at n y) i = Some (session_conn i a None b AwaitingWitness)"
  shows "\<exists>rs' n1 m. handleWitnessSelection (net_env E x) (session_conn i a None b st) o1 o2 (rs, n) =
      Some ((Some (session_conn i a (Some c) b Open), None), (rs', m)) \<and> rep_of rs' = rep_of rs \<and>
    stored n c i (session_conn i a (Some c) b Open) [] n1 \<and> stored n1 y i (session_conn i a (Some c) b Open) [] m"
proof -
  have xy: "{x, y} = {a, b}" "x \<noteq> y" "x = a \<or> x = b"
    using assms(2,4,5) by (auto simp: selector_of_def waiting_side_def split: WitnessSelector.splits)
  obtain me where me: "SelfPeer (peerStore (E x)) n = Some (Inr me)" "peer_ID me = Some x"
    by (rule working_self [OF assms(1)])
  obtain rs' n1 where f: "findWitness (net_env E x) (session_conn i a None b st) o1 o2 (rs, n) =
      Some ((Some (session_conn i a (Some c) b RequestingWitness), None), (rs', n1))" "rep_of rs' = rep_of rs"
    and n1: "stored n c i (session_conn i a (Some c) b Open) [] n1"
    using net_findWitness [OF assms(1,6-9) xy(3) assms(10)] by blast
  have "y \<noteq> c" using assms(10,11) by auto
  with n1 have "map_of (store_at n1 y) i = Some (session_conn i a None b AwaitingWitness)"
    using assms(11) by (simp add: stored_def)
  then obtain m where
    m: "notify_and_open (net_env E x) (Some (session_conn i a (Some c) b RequestingWitness), None) o2 (rs', n1) =
      Some ((Some (session_conn i a (Some c) b Open), None), (rs', m))"
    "stored n1 y i (session_conn i a (Some c) b Open) [] m"
    using net_notify [of E x y a b n1 i] assms(1) xy(1,2) by blast
  have "handleWitnessSelection (net_env E x) (session_conn i a None b st) o1 o2 (rs, n) =
      Some ((Some (session_conn i a (Some c) b Open), None), (rs', m))"
    using f(1) m(1) me assms(3,4)
    by (cases ws) (simp_all add: handleWitnessSelection_def selector_of_def)
  with f(2) n1 m(2) show ?thesis by blast
qed

end
