(* ===== verification/Session_Props.thy ===== *)
theory Session_Props
  imports Session
begin

section \<open>A session of three nodes\<close>

text \<open>
  The operations of a node and the handlers of the others, put together: in a working
  network a connection that one node opens is open at its three participants, with the same
  witness, and closing it at one of them closes it at all.
\<close>

subsection \<open>Running an operation at a node\<close>

text \<open>
  An operation at node \<open>x\<close> works on the stores of \<open>x\<close>; the other nodes are its world. No
  message of the operations below goes to \<open>x\<close> itself.
\<close>

definition run_at :: "net \<Rightarrow> peer_id \<Rightarrow> (net nodeState \<Rightarrow> ('r \<times> net nodeState) option) \<Rightarrow> ('r \<times> net) option" where
  "run_at n x f = (case n x of (cs, rs, ts) \<Rightarrow> do {
     (r, cs, rs, m) \<leftarrow> f (cs, rs, n);
     returns (r, m(x := (cs, rs, ts))) })"

text \<open>The oldest pending task of a node.\<close>

definition run_task :: "(peer_id \<Rightarrow> net nodeEnv) \<Rightarrow> peer_id \<Rightarrow> net \<Rightarrow> (error option \<times> net) option" where
  "run_task E x n = (case n x of (cs, rs, ts) \<Rightarrow> (case ts of
       [] \<Rightarrow> returns (None, n)
     | t # ts \<Rightarrow> run_at (n(x := (cs, rs, ts))) x (witness_task (net_env E x) appHandlers t)))"

text \<open>
  \<open>session n i a c b st m\<close>: from \<open>n\<close> to \<open>m\<close> the three participants came to store connection
  \<open>i\<close>, and nothing else: other connections, other nodes and reputations are as they were.
\<close>

definition session :: "net \<Rightarrow> uuid \<Rightarrow> peer_id \<Rightarrow> peer_id \<Rightarrow> peer_id \<Rightarrow> Status \<Rightarrow> net \<Rightarrow> bool" where
  "session n i a c b st m \<longleftrightarrow>
     (\<forall>x \<in> {a, b, c}. map_of (store_at m x) = (map_of (store_at n x))(i \<mapsto> session_conn i a (Some c) b st)) \<and>
     (\<forall>x. x \<notin> {a, b, c} \<longrightarrow> m x = n x) \<and> (\<forall>x. rep_of (fst (snd (m x))) = rep_of (fst (snd (n x))))"

lemma net_connect_write:
  assumes "working E" "a \<noteq> b" "map_of (store_at n b) i = None"
  obtains m where "stored n b i (session_conn i a None b AwaitingWitness) (started i o1) m"
    "connect_write (net_env E a) o1 o2 (session_conn i a None b RequestingReceiver) (rs, n) =
     handleWitnessSelection (net_env E a) (session_conn i a None b RequestingReceiver) o1 o2 (rs, m)"
proof -
  obtain q where q: "Find (peerStore (E a)) (Some b) n = Some (Inr q)" "peer_ID q = Some b"
    by (rule working_find [OF assms(1)])
  obtain m where m: "ExchangeConnect (direct E a) q o2
      \<lparr> cq_ConnectionID = i, cq_Sender = Some a, cq_Receiver = Some b, cq_Options = o1 \<rparr> n =
      Some (Inr \<lparr> cr_ConnectionID = i, cr_Errors = [], cr_Accepted = True, cr_RejectReasons = [] \<rparr>, m)"
    "stored n b i (session_conn i a None b AwaitingWitness) (started i o1) m"
    using deliver_connect [of E a b q n i _ o1 o2] assms q(2) by auto
  show thesis
    by (rule that [OF m(2)]) (simp add: connect_write_def requestConnection_def q m(1))
qed

lemma net_Connect:
  assumes "working E" "peer_ID p = Some b" "newRandom (E a) n = ((i, None), n)" "n a = (cs, rs, ts)" "map_of cs i = None"
    and "connect_write (net_env E a) o1 o2 (session_conn i a None b RequestingReceiver) (rs, n) = Some ((Some c, None), (rs', m))"
  shows "\<exists>cs'. run_at n a (Connect (net_env E a) p o1 o2) = Some ((i, None), m(a := (cs', rs', ts))) \<and>
    map_of cs' = (map_of cs)(i \<mapsto> c)"
proof -
  obtain me where me: "SelfPeer (peerStore (E a)) n = Some (Inr me)" "peer_ID me = Some a"
    by (rule working_self [OF assms(1)])
  show ?thesis
    using assms(2-6) me
    by (auto simp: run_at_def Connect_def working_update [OF assms(1,2)] Create_def Accept_fresh Update_found update_conv')
qed


text \<open>
  The three stores written in turn: that of the witness, that of the waiting side \<open>y\<close>, and
  that of the caller \<open>x\<close>.
\<close>

lemma session_stored:
  assumes "stored n c i C [] n1" "stored n1 y i C [] m" "{x, y} = {a, b}" "distinct [a, b, c]"
    and "C = session_conn i a (Some c) b st" "map_of cs' = (map_of (store_at n x))(i \<mapsto> C)"
    and "rep_of rs' = rep_of (fst (snd (n x)))"
  shows "session n i a c b st (m(x := (cs', rs', ts)))"
    and "snd (snd ((m(x := (cs', rs', ts))) z)) = (if z = x then ts else snd (snd (n z)))"
proof -
  have xy: "x = a \<and> y = b \<or> x = b \<and> y = a" using assms(3,4) by (auto simp: doubleton_eq_iff)
  have m: "m z = n z" if "z \<noteq> y" "z \<noteq> c" for z using assms(1,2) that by (simp add: stored_def)
  have y: "map_of (store_at m y) = (map_of (store_at n y))(i \<mapsto> C)" "snd (m y) = snd (n y)"
    using assms(1-4) xy by (auto simp: stored_def intro!: prod_eqI)
  have c: "map_of (store_at m c) = (map_of (store_at n c))(i \<mapsto> C)" "snd (m c) = snd (n c)"
    using assms(1-4) xy by (auto simp: stored_def intro!: prod_eqI)
  have others: "snd (m z) = snd (n z)" for z
    using y(2) c(2) m by metis
  show "session n i a c b st (m(x := (cs', rs', ts)))"
    using xy y c assms(4-7) by (auto simp: session_def m others)
  show "snd (snd ((m(x := (cs', rs', ts))) z)) = (if z = x then ts else snd (snd (n z)))"
    by (simp add: others)
qed

text \<open>What the participants stored before under the same identifier does not matter.\<close>

lemma session_from:
  assumes "session n1 i a c b st m" "\<And>x. x \<notin> {a, b} \<Longrightarrow> n1 x = n x"
    and "\<And>x j. j \<noteq> i \<Longrightarrow> map_of (store_at n1 x) j = map_of (store_at n x) j"
    and "\<And>x. fst (snd (n1 x)) = fst (snd (n x))"
  shows "session n i a c b st m"
proof -
  have "(map_of (store_at n1 x))(i \<mapsto> d) = (map_of (store_at n x))(i \<mapsto> d)" for x d
    using assms(3) [of _ x] by (simp add: fun_eq_iff)
  with assms show ?thesis by (simp add: session_def)
qed

subsection \<open>A network to run it on\<close>

text \<open>All nodes know Alice, Bob and Carol; the transport of a single node reaches nobody.\<close>

definition net_store :: "peer_id \<Rightarrow> net PeerStore" where
  "net_store me = \<lparr>
     AddAddr = (\<lambda>p a n. returns (None, n)),
     Find = (\<lambda>p n. returns (case p of None \<Rightarrow> Inl (External ''no peer'') | Some q \<Rightarrow> Inr (demo_peer q))),
     AllPeers = (\<lambda>n. returns (Inr [demo_peer alice, demo_peer bob, demo_peer carol])),
     SelfPeer = (\<lambda>n. returns (Inr (demo_peer me))) \<rparr>"

definition offline :: "net Transport" where
  "offline = \<lparr>
     SendNotification = (\<lambda>p o1 m n. returns (Some (External ''offline''), n)),
     SendClose = (\<lambda>p o1 m n. returns (Some (External ''offline''), n)),
     ExchangeConnect = (\<lambda>p o1 m n. returns (Inl (External ''offline''), n)),
     ExchangeWitness = (\<lambda>p o1 m n. returns (Inl (External ''offline''), n)),
     ExchangePeers = (\<lambda>p o1 m n. returns (Inl (External ''offline''), n)) \<rparr>"

definition net_node :: "peer_id \<Rightarrow> net nodeEnv" where
  "net_node me = \<lparr> peerStore = net_store me, transport = offline,
     trusts = (\<lambda>r s. returns ((True, None), s)), logLevel = Info,
     newRandom = (\<lambda>n. ((7, None), n)), mapOrder = (\<lambda>ids. ids), envNames = envNames (demo_env me) \<rparr>"

definition quiet_net :: "connStore \<Rightarrow> net" where
  "quiet_net cs x = (cs, no_reps, [])"

lemma working_net_node: "working net_node"
  by (auto simp: working_def steady_iff net_node_def net_store_def split: option.splits)

lemma trusts_by_net_node: "trusts_by (\<lambda>rho w r. (True, None)) (net_node me)"
  by (auto simp: trusts_by_def net_node_def)

lemma net_node_outsiders:
  "outsiders (\<lambda>rho w r. (True, None)) alice bob rs m [demo_peer alice, demo_peer bob, demo_peer carol] = [demo_peer carol]"
  by (simp add: outsiders_def)

subsection \<open>Opening\<close>

text \<open>C2:
  Liveness of opening, the sender selecting the witness. In a working network, where the
  first peer that node \<open>a\<close> trusts besides itself and \<open>b\<close> is \<open>c\<close>, and for a fresh
  identifier, \<open>Connect\<close> to \<open>b\<close> returns that identifier without an error, and then all three
  nodes store the connection as open with witness \<open>c\<close>. No other node, connection,
  reputation or task is touched.\<close>

theorem session_opens:
  assumes "working E" and "a \<noteq> b" and "peer_ID p = Some b" and "newRandom (E a) n = ((i, None), n)"
    and "\<And>x. map_of (store_at n x) i = None"
    and "trusts_by verdict (E a)" and "\<And>m. AllPeers (peerStore (E a)) m = Some (Inr peers)"
    and "\<And>m. \<exists>ps. outsiders verdict a b (fst (snd (n a))) m peers = q # ps" and "peer_ID q = Some c"
  shows "\<exists>m. run_at n a (Connect (net_env E a) p sender_selects o2) = Some ((i, None), m) \<and>
    session n i a c b Open m \<and> (\<forall>x. snd (snd (m x)) = snd (snd (n x)))"
proof -
  obtain cs rs ts where na: "n a = (cs, rs, ts)" by (cases "n a")
  obtain n1 where n1: "stored n b i (session_conn i a None b AwaitingWitness) [] n1"
    and w: "connect_write (net_env E a) sender_selects o2 (session_conn i a None b RequestingReceiver) (rs, n) =
      handleWitnessSelection (net_env E a) (session_conn i a None b RequestingReceiver) sender_selects o2 (rs, n1)"
    by (rule net_connect_write [OF assms(1,2,5), where ?o1.0 = sender_selects and ?o2.0 = o2 and rs = rs]) (simp add: started_def)
  obtain ps where ps: "outsiders verdict a b rs n1 peers = q # ps" using assms(8) na by auto
  then have "q \<in> set (outsiders verdict a b rs n1 peers)" by simp
  then have c: "c \<noteq> a" "c \<noteq> b" using assms(9) by (auto simp: outsiders_def)
  have fresh: "map_of (store_at n1 c) i = None"
    and waiting: "map_of (store_at n1 b) i = Some (session_conn i a None b AwaitingWitness)"
    using n1 c assms(5) by (simp_all add: stored_def)
  obtain rs' n2 m where sel: "handleWitnessSelection (net_env E a) (session_conn i a None b RequestingReceiver)
      sender_selects o2 (rs, n1) = Some ((Some (session_conn i a (Some c) b Open), None), (rs', m))" "rep_of rs' = rep_of rs"
    "stored n1 c i (session_conn i a (Some c) b Open) [] n2" "stored n2 b i (session_conn i a (Some c) b Open) [] m"
    using net_selection [OF assms(1,2) _ _ _ assms(6,7) ps assms(9) fresh waiting,
        where ?o1.0 = sender_selects and ws = WitnessSelectorSender and st = RequestingReceiver and ?o2.0 = o2]
    by (auto simp: selector_of_def waiting_side_def)
  obtain cs' where cs': "run_at n a (Connect (net_env E a) p sender_selects o2) = Some ((i, None), m(a := (cs', rs', ts)))"
    "map_of cs' = (map_of cs)(i \<mapsto> session_conn i a (Some c) b Open)"
    using net_Connect [OF assms(1,3,4) na _ w [unfolded sel(1)]] assms(5) [of a] na by auto
  have n1a: "n1 a = (cs, rs, ts)" "\<And>x. snd (n1 x) = snd (n x)"
    using n1 na assms(2) by (auto simp: stored_def intro!: prod_eqI)
  have "session n1 i a c b Open (m(a := (cs', rs', ts)))"
    by (rule session_stored [OF sel(3,4)]) (use assms(2) c n1a(1) cs'(2) sel(2) in auto)
  then have "session n i a c b Open (m(a := (cs', rs', ts)))"
  proof (rule session_from)
    show "map_of (store_at n1 x) j = map_of (store_at n x) j" if "j \<noteq> i" for x j
      using n1 that by (cases "x = b") (simp_all add: stored_def)
  qed (use n1 n1a(2) in \<open>simp_all add: stored_def\<close>)
  moreover have "snd (snd ((m(a := (cs', rs', ts))) x)) = snd (snd (n x))" for x
    using session_stored(2) [OF sel(3,4), of a a b Open cs' rs' ts x] assms(2) c n1a cs'(2) sel(2) na by auto
  ultimately show ?thesis using cs'(1) by blast
qed

theorem session_opens_witness:
  "\<exists>m. run_at (quiet_net []) alice (Connect (net_env net_node alice) (demo_peer bob) sender_selects noOptions) =
      Some ((7, None), m) \<and> map_of (store_at m carol) 7 = Some (session_conn 7 alice (Some carol) bob Open)"
  using session_opens [OF working_net_node, of alice bob "demo_peer bob" "quiet_net []" 7 "\<lambda>rho w r. (True, None)"
      "[demo_peer alice, demo_peer bob, demo_peer carol]" "demo_peer carol" carol noOptions]
    trusts_by_net_node net_node_outsiders
  by (auto simp: net_node_def net_store_def quiet_net_def session_def)

text \<open>The task of the receiver, when both ends await a witness.\<close>

lemma net_task:
  assumes "working E" "a \<noteq> b" "n b = (cs, rs, (i, receiver_selects) # ts)"
    and "\<And>x. x \<in> {a, b} \<Longrightarrow> map_of (store_at n x) i = Some (session_conn i a None b AwaitingWitness)"
    and "map_of (store_at n c) i = None" "trusts_by verdict (E b)" "\<And>m. AllPeers (peerStore (E b)) m = Some (Inr peers)"
    and "\<And>m. \<exists>ps. outsiders verdict a b rs m peers = q # ps" "peer_ID q = Some c"
  shows "\<exists>m. run_task E b n = Some (None, m) \<and> session n i a c b Open m \<and>
    (\<forall>x. snd (snd (m x)) = (if x = b then ts else snd (snd (n x))))"
proof -
  let ?waiting = "session_conn i a None b AwaitingWitness" and ?open = "session_conn i a (Some c) b Open"
  obtain n1 where n1: "n1 = n(b := (cs, rs, ts))" by simp
  obtain ps where ps: "outsiders verdict a b rs n1 peers = q # ps" using assms(8) by blast
  have c: "c \<noteq> a" "c \<noteq> b" using assms(4,5) by auto
  have fresh: "map_of (store_at n1 c) i = None" and waiting: "map_of (store_at n1 a) i = Some ?waiting"
    using assms(2,4,5) c n1 by simp_all
  obtain rs' n2 m where sel: "handleWitnessSelection (net_env E b) ?waiting receiver_selects noOptions (rs, n1) =
      Some ((Some ?open, None), (rs', m))" "rep_of rs' = rep_of rs" "stored n1 c i ?open [] n2" "stored n2 a i ?open [] m"
    using net_selection [OF assms(1,2) _ _ _ assms(6,7) ps assms(9) fresh waiting,
        where ?o1.0 = receiver_selects and ws = WitnessSelectorReceiver and st = AwaitingWitness and ?o2.0 = noOptions]
    by (auto simp: selector_of_def waiting_side_def)
  let ?m = "m(b := (AList.update i ?open cs, rs', ts))"
  have upd: "map_of (AList.update i ?open cs) = (map_of (store_at n1 b))(i \<mapsto> ?open)" "rep_of rs' = rep_of (fst (snd (n1 b)))"
    "{b, a} = {a, b}" "distinct [a, b, c]"
    using n1 sel(2) c assms(2) by (auto simp: update_conv')
  have "session n1 i a c b Open ?m"
    by (rule session_stored(1) [OF sel(3,4) upd(3,4) refl upd(1,2)])
  then have "session n i a c b Open ?m"
    by (rule session_from) (use n1 assms(3) in simp_all)
  moreover have "snd (snd (?m x)) = (if x = b then ts else snd (snd (n x)))" for x
    using session_stored(2) [OF sel(3,4) upd(3,4) refl upd(1,2), of ts x] n1 by simp
  moreover have "witness_task (net_env E b) appHandlers (i, receiver_selects) (cs, rs, n1) =
      Some (None, AList.update i ?open cs, rs', m)"
    using sel(1) assms(3) assms(4) [of b] by (simp add: witness_task_def Update_found appHandlers_def)
  then have "run_task E b n = Some (None, ?m)"
    using assms(3) n1 by (simp add: run_task_def run_at_def)
  ultimately show ?thesis by blast
qed

text \<open>C3:
  Liveness of opening, the receiver selecting the witness. \<open>Connect\<close> returns a fresh
  identifier without an error, with both ends awaiting a witness. When then the task runs that
  its request started at \<open>b\<close>, and \<open>c\<close> is the first peer that \<open>b\<close> trusts besides itself and
  \<open>a\<close>, it ends without an error, and the connection is open with witness \<open>c\<close> at all three.\<close>

theorem session_opens_by_receiver:
  assumes "working E" and "a \<noteq> b" and "peer_ID p = Some b" and "newRandom (E a) n = ((i, None), n)"
    and "\<And>x. map_of (store_at n x) i = None" and "snd (snd (n b)) = []"
    and "trusts_by verdict (E b)" and "\<And>m. AllPeers (peerStore (E b)) m = Some (Inr peers)"
    and "\<And>m. \<exists>ps. outsiders verdict a b (fst (snd (n b))) m peers = q # ps" and "peer_ID q = Some c"
  shows "\<exists>m m'. run_at n a (Connect (net_env E a) p receiver_selects o2) = Some ((i, None), m) \<and>
    (\<forall>x \<in> {a, b}. map_of (store_at m x) i = Some (session_conn i a None b AwaitingWitness)) \<and>
    run_task E b m = Some (None, m') \<and> session n i a c b Open m' \<and> (\<forall>x. snd (snd (m' x)) = snd (snd (n x)))"
proof -
  let ?waiting = "session_conn i a None b AwaitingWitness"
  obtain cs rs ts where na: "n a = (cs, rs, ts)" by (cases "n a")
  obtain n1 where n1: "stored n b i ?waiting [(i, receiver_selects)] n1"
    and w: "connect_write (net_env E a) receiver_selects o2 (session_conn i a None b RequestingReceiver) (rs, n) =
      handleWitnessSelection (net_env E a) (session_conn i a None b RequestingReceiver) receiver_selects o2 (rs, n1)"
    by (rule net_connect_write [OF assms(1,2,5), where ?o1.0 = receiver_selects and ?o2.0 = o2 and rs = rs])
      (simp add: started_def)
  obtain me where me: "SelfPeer (peerStore (E a)) n1 = Some (Inr me)" "peer_ID me = Some a"
    by (rule working_self [OF assms(1)])
  have sel: "handleWitnessSelection (net_env E a) (session_conn i a None b RequestingReceiver) receiver_selects o2 (rs, n1) =
      Some ((Some ?waiting, None), (rs, n1))"
    using me assms(2) by (simp add: handleWitnessSelection_def)
  obtain cs' where run: "run_at n a (Connect (net_env E a) p receiver_selects o2) = Some ((i, None), n1(a := (cs', rs, ts)))"
    "map_of cs' = (map_of cs)(i \<mapsto> ?waiting)"
    using net_Connect [OF assms(1,3,4) na _ w [unfolded sel]] assms(5) [of a] na by auto
  obtain m where m: "m = n1(a := (cs', rs, ts))" by simp
  have stores: "map_of (store_at m x) = (if x \<in> {a, b} then (map_of (store_at n x))(i \<mapsto> ?waiting) else map_of (store_at n x))"
    and reps: "fst (snd (m x)) = fst (snd (n x))" and other: "x \<notin> {a, b} \<Longrightarrow> m x = n x"
    and tasks: "snd (snd (m x)) = snd (snd (n x)) @ (if x = b then [(i, receiver_selects)] else [])" for x
    using n1 run(2) na assms(2) unfolding m stored_def by (cases "x = b"; simp)+
  obtain csb where mb: "m b = (csb, fst (snd (n b)), [(i, receiver_selects)])"
    using tasks [of b] reps [of b] assms(6) by (cases "m b") auto
  obtain ps where "outsiders verdict a b (fst (snd (n b))) m peers = q # ps" using assms(9) by blast
  then have "q \<in> set (outsiders verdict a b (fst (snd (n b))) m peers)" by simp
  then have c: "map_of (store_at m c) i = None" using assms(5,10) stores [of c] by (auto simp: outsiders_def)
  obtain m' where m': "run_task E b m = Some (None, m')" "session m i a c b Open m'"
    "\<And>x. snd (snd (m' x)) = (if x = b then [] else snd (snd (m x)))"
    using net_task [OF assms(1,2) mb _ c assms(7,8,9,10)] stores by auto
  have "session n i a c b Open m'"
    by (rule session_from [OF m'(2)]) (use stores reps other in auto)
  moreover have "snd (snd (m' x)) = snd (snd (n x))" for x
    using m'(3) tasks assms(6) by simp
  ultimately show ?thesis
    using run(1) m'(1) stores [of a] stores [of b] m by (intro exI [of _ m] exI [of _ m']) simp
qed

theorem session_opens_by_receiver_witness:
  "\<exists>m m'. run_at (quiet_net []) alice (Connect (net_env net_node alice) (demo_peer bob) receiver_selects noOptions) =
      Some ((7, None), m) \<and> run_task net_node bob m = Some (None, m') \<and>
      map_of (store_at m' alice) 7 = Some (session_conn 7 alice (Some carol) bob Open)"
  using session_opens_by_receiver [OF working_net_node, of alice bob "demo_peer bob" "quiet_net []" 7 "\<lambda>rho w r. (True, None)"
      "[demo_peer alice, demo_peer bob, demo_peer carol]" "demo_peer carol" carol noOptions]
    trusts_by_net_node net_node_outsiders
  by (auto simp: net_node_def net_store_def quiet_net_def session_def)

subsection \<open>Closing\<close>

text \<open>From \<open>n\<close> to \<open>m\<close>, exactly the peers in \<open>S\<close> closed the connection they store under \<open>i\<close>.\<close>

definition closed_for :: "net \<Rightarrow> uuid \<Rightarrow> peer_id set \<Rightarrow> net \<Rightarrow> bool" where
  "closed_for n i S m \<longleftrightarrow> (\<forall>y \<in> S. \<exists>d. map_of (store_at n y) i = Some d \<and>
     map_of (store_at m y) = (map_of (store_at n y))(i \<mapsto> conn_as d Closed (Witness d)) \<and> snd (m y) = snd (n y)) \<and>
     (\<forall>y. y \<notin> S \<longrightarrow> m y = n y)"

lemma closed_for_empty [simp]: "closed_for n i {} n"
  by (simp add: closed_for_def)

lemma closed_for_insert:
  assumes "stored n y i (conn_as d Closed (Witness d)) [] n1" "map_of (store_at n y) i = Some d"
    and "closed_for n1 i S m" "y \<notin> S"
  shows "closed_for n i (insert y S) m"
proof -
  have y: "m y = n1 y" "snd (n1 y) = snd (n y)"
    "map_of (store_at n1 y) = (map_of (store_at n y))(i \<mapsto> conn_as d Closed (Witness d))"
    using assms(1,3,4) by (simp_all add: stored_def closed_for_def prod_eq_iff)
  have z: "n1 z = n z" if "z \<noteq> y" for z using assms(1) that by (simp add: stored_def)
  show ?thesis
    unfolding closed_for_def
  proof (intro conjI ballI allI impI)
    fix x assume x: "x \<in> insert y S"
    show "\<exists>d. map_of (store_at n x) i = Some d \<and>
      map_of (store_at m x) = (map_of (store_at n x))(i \<mapsto> conn_as d Closed (Witness d)) \<and> snd (m x) = snd (n x)"
    proof (cases "x = y")
      case True
      with y assms(2) show ?thesis by simp
    next
      case False
      with x z [of x] assms(3) show ?thesis unfolding closed_for_def by (metis insertE)
    qed
  next
    fix x assume "x \<notin> insert y S"
    with z [of x] assms(3) show "m x = n x" by (simp add: closed_for_def)
  qed
qed

lemma net_close_participants:
  assumes "working E" "peer_ID self = Some x" "ID c = i" "distinct ids"
    and "\<And>y. Some y \<in> set ids \<Longrightarrow> y \<noteq> x \<Longrightarrow> \<exists>d. map_of (store_at n y) i = Some d \<and> writable d"
  shows "\<exists>m. close_participants (net_env E x) self c o2 ids errs n = Some (errs, m) \<and>
    closed_for n i {y. Some y \<in> set ids \<and> y \<noteq> x} m"
  using assms(4,5)
proof (induction ids arbitrary: n)
  case Nil
  then show ?case by simp
next
  case (Cons pid ids)
  show ?case
  proof (cases "pid = Some x \<or> pid = None")
    case True
    then have "{y. Some y \<in> set (pid # ids) \<and> y \<noteq> x} = {y. Some y \<in> set ids \<and> y \<noteq> x}" by auto
    with True Cons.IH [of n] Cons.prems assms(2) show ?thesis by auto
  next
    case False
    then obtain y where y: "pid = Some y" "y \<noteq> x" by (cases pid) auto
    then obtain d where d: "map_of (store_at n y) i = Some d" "writable d" using Cons.prems(2) by auto
    obtain q where q: "Find (peerStore (E x)) (Some y) n = Some (Inr q)" "peer_ID q = Some y"
      by (rule working_find [OF assms(1)])
    obtain n1 where n1: "SendClose (direct E x) q o2 \<lparr> cl_ConnectionID = i \<rparr> n = Some (None, n1)"
      "stored n y i (conn_as d Closed (Witness d)) [] n1"
      using deliver_close [of q y n i d E x o2] q(2) d by blast
    have y_notin: "Some y \<notin> set ids" using Cons.prems(1) y(1) by auto
    have "\<exists>d. map_of (store_at n1 z) i = Some d \<and> writable d" if "Some z \<in> set ids" "z \<noteq> x" for z
    proof -
      have "n1 z = n z" using n1(2) y_notin that(1) by (auto simp: stored_def)
      with Cons.prems(2) [of z] that show ?thesis by simp
    qed
    with Cons.IH [of n1] Cons.prems(1) obtain m
      where m: "close_participants (net_env E x) self c o2 ids errs n1 = Some (errs, m)"
        "closed_for n1 i {y. Some y \<in> set ids \<and> y \<noteq> x} m" by auto
    have "close_participants (net_env E x) self c o2 (pid # ids) errs n = Some (errs, m)"
      using y q n1(1) m(1) assms(2,3) by (simp add: requestClose_def)
    moreover have "{z. Some z \<in> set (pid # ids) \<and> z \<noteq> x} = insert y {y. Some y \<in> set ids \<and> y \<noteq> x}"
      using y by auto
    ultimately show ?thesis using closed_for_insert [OF n1(2) d(1) m(2)] y_notin by simp
  qed
qed

text \<open>C4:
  Liveness of closing. When sender, witness and receiver of a working network store a
  connection as open, \<open>CloseConnection\<close> at any of the three succeeds, and then all three
  store it as closed; no other node, connection or reputation is touched.\<close>

theorem session_closes:
  assumes "working E" and "distinct [a, b, c]" and "x \<in> {a, b, c}"
    and "\<And>y. y \<in> {a, b, c} \<Longrightarrow> map_of (store_at n y) i = Some (session_conn i a (Some c) b Open)"
  shows "\<exists>m. run_at n x (CloseConnection (net_env E x) i o2) = Some (None, m) \<and>
    session n i a c b Closed m \<and> (\<forall>y. snd (snd (m y)) = snd (snd (n y)))"
proof -
  let ?c = "session_conn i a (Some c) b Open" and ?closed = "session_conn i a (Some c) b Closed"
  obtain cs rs ts where nx: "n x = (cs, rs, ts)" by (cases "n x")
  obtain me where me: "SelfPeer (peerStore (E x)) n = Some (Inr me)" "peer_ID me = Some x"
    by (rule working_self [OF assms(1)])
  have "{y. Some y \<in> set [Some a, Some c, Some b] \<and> y \<noteq> x} = {a, b, c} - {x}" by auto
  moreover have "\<exists>d. map_of (store_at n y) i = Some d \<and> writable d" if "Some y \<in> set [Some a, Some c, Some b]" for y
    using assms(4) [of y] that by auto
  ultimately obtain m where m: "close_participants (net_env E x) me ?c o2 [Some a, Some c, Some b] [] n = Some ([], m)"
    and m': "closed_for n i ({a, b, c} - {x}) m"
    using net_close_participants [OF assms(1) me(2), of ?c i "[Some a, Some c, Some b]" n o2 "[]"] assms(2)
    by (auto simp del: close_participants.simps)
  have closed: "map_of (store_at m y) = (map_of (store_at n y))(i \<mapsto> ?closed) \<and> snd (m y) = snd (n y)"
    if y: "y \<in> {a, b, c}" "y \<noteq> x" for y
  proof -
    obtain d where "map_of (store_at n y) i = Some d" "snd (m y) = snd (n y)"
      "map_of (store_at m y) = (map_of (store_at n y))(i \<mapsto> conn_as d Closed (Witness d))"
      using m' y unfolding closed_for_def by (metis DiffI singletonD)
    with assms(4) [OF y(1)] show ?thesis by (simp add: conn_as_def)
  qed
  have other: "m y = n y" if "y \<notin> {a, b, c}" for y
    using m' that by (simp add: closed_for_def)
  let ?m = "m(x := (AList.update i ?closed cs, rs, ts))"
  have "map_of cs i = Some ?c" using assms(3,4) nx by force
  then have "run_at n x (CloseConnection (net_env E x) i o2) = Some (None, ?m)"
    using me m nx by (simp add: run_at_def CloseConnection_def Update_found close_write_def)
  moreover have same: "snd (?m y) = snd (n y)" for y
    using closed [of y] other [of y] nx by (cases "y \<in> {a, b, c}") auto
  moreover have "session n i a c b Closed ?m"
    unfolding session_def same using closed other nx assms(3) by (auto simp: update_conv')
  ultimately show ?thesis by auto
qed

theorem session_closes_witness:
  "\<exists>m. run_at (quiet_net [(7, demo_conn Open (Some carol))]) bob (CloseConnection (net_env net_node bob) 7 noOptions) =
      Some (None, m) \<and> map_of (store_at m carol) 7 = Some (demo_conn Closed (Some carol))"
  using session_closes [OF working_net_node, of alice bob carol bob "quiet_net [(7, demo_conn Open (Some carol))]" 7 noOptions]
  by (auto simp: quiet_net_def session_def demo_conn_def)

end
