(* ===== verification/Locks_Props.thy ===== *)
theory Locks_Props
  imports Inmem_Locks
begin

section \<open>The locks make operations atomic\<close>

text \<open>
  Who holds which lock is a function of where the goroutines stand. From this invariant:
  accepting, updating and reading never race, the store is an atomic one, and it never
  locks up. Listing the identifiers takes no lock, and does race.
\<close>

subsection \<open>Holders of locks\<close>

text \<open>\<open>W\<close> announced to write, or writing; \<open>X\<close> writing; \<open>R\<close> reading.\<close>

fun globalW :: "'s pc \<Rightarrow> bool" where
  "globalW (AcceptWait i p q st) = True"
| "globalW (AcceptBody i p q st) = True"
| "globalW (AcceptUnlock e) = True"
| "globalW _ = False"

fun globalX :: "'s pc \<Rightarrow> bool" where
  "globalX (AcceptBody i p q st) = True"
| "globalX (AcceptUnlock e) = True"
| "globalX _ = False"

fun globalR :: "'s pc \<Rightarrow> bool" where
  "globalR (GetFind i k) = True"
| "globalR (GetRUnlock i k b) = True"
| "globalR _ = False"

fun entryW :: "uuid \<Rightarrow> 's pc \<Rightarrow> bool" where
  "entryW j (EntryWait i f) = (i = j)"
| "entryW j (EntryCall i (Updating f)) = (i = j)"
| "entryW j (EntryStore i u e) = (i = j)"
| "entryW j (EntryUnlock i x e) = (i = j \<and> x)"
| "entryW j _ = False"

fun entryX :: "uuid \<Rightarrow> 's pc \<Rightarrow> bool" where
  "entryX j (EntryCall i (Updating f)) = (i = j)"
| "entryX j (EntryStore i u e) = (i = j)"
| "entryX j (EntryUnlock i x e) = (i = j \<and> x)"
| "entryX j _ = False"

fun entryR :: "uuid \<Rightarrow> 's pc \<Rightarrow> bool" where
  "entryR j (EntryCall i (Reading f)) = (i = j)"
| "entryR j (EntryUnlock i x e) = (i = j \<and> \<not> x)"
| "entryR j _ = False"

text \<open>A goroutine that goes for an entry found it.\<close>

fun entryAt :: "'s pc \<Rightarrow> uuid option" where
  "entryAt (GetRUnlock i k b) = (if b then Some i else None)"
| "entryAt (EntryLock i k) = Some i"
| "entryAt (EntryWait i f) = Some i"
| "entryAt (EntryCall i k) = Some i"
| "entryAt (EntryStore i u e) = Some i"
| "entryAt _ = None"

definition held :: "('s pc \<Rightarrow> bool) \<Rightarrow> ('s pc \<Rightarrow> bool) \<Rightarrow> ('s pc \<Rightarrow> bool) \<Rightarrow> rwmutex \<Rightarrow> (nat \<Rightarrow> 's pc) \<Rightarrow> bool" where
  "held W X R l pcs \<longleftrightarrow> (\<forall>t. W (pcs t) \<longleftrightarrow> writer l = Some t) \<and> (\<forall>t. R (pcs t) \<longleftrightarrow> t \<in> readers l) \<and>
     (\<forall>t. X (pcs t) \<longrightarrow> W (pcs t) \<and> readers l = {})"

definition locks_ok :: "'s lockedStore \<Rightarrow> (nat \<Rightarrow> 's pc) \<Rightarrow> bool" where
  "locks_ok sh pcs \<longleftrightarrow> held globalW globalX globalR (globalLock sh) pcs \<and>
     (\<forall>i. held (entryW i) (entryX i) (entryR i) (entryLock sh i) pcs) \<and>
     (\<forall>t i. entryAt (pcs t) = Some i \<longrightarrow> connEntries sh i \<noteq> None)"

text \<open>The ways in which a goroutine moves between holding and not holding a lock.\<close>

lemma held_keep:
  assumes "held W X R l pcs" "W p' = W (pcs t)" "R p' = R (pcs t)" "X p' \<longrightarrow> W p' \<and> (X (pcs t) \<or> readers l = {})"
  shows "held W X R l (pcs(t := p'))"
  using assms by (auto simp: held_def)

lemma held_announce:
  assumes "held W X R l pcs" "announce t l = Some l'" "W p'" "\<not> R p'" "\<not> X p'" "\<not> W (pcs t)" "\<not> R (pcs t)"
  shows "held W X R l' (pcs(t := p'))"
  using assms by (auto simp: held_def announce_def split: if_splits)

lemma held_RLock:
  assumes "held W X R l pcs" "RLock t l = Some l'" "\<not> W p'" "R p'" "\<not> X p'" "\<not> W (pcs t)"
  shows "held W X R l' (pcs(t := p'))"
  using assms by (fastforce simp: held_def RLock_def split: if_splits)

lemma held_Unlock:
  assumes "held W X R l pcs" "W (pcs t)" "\<not> R (pcs t)" "\<not> W p'" "\<not> R p'" "\<not> X p'"
  shows "held W X R (Unlock l) (pcs(t := p'))"
  using assms by (auto simp: held_def Unlock_def)

lemma held_RUnlock:
  assumes "held W X R l pcs" "R (pcs t)" "\<not> W (pcs t)" "\<not> W p'" "\<not> R p'" "\<not> X p'"
  shows "held W X R (RUnlock t l) (pcs(t := p'))"
  using assms by (auto simp: held_def RUnlock_def)

text \<open>The store's lock, the lock of an entry, and the entries that are looked for.\<close>

lemma step_global:
  assumes "held globalW globalX globalR (globalLock sh) pcs" "thread_step t (pcs t) sh = Some (p', sh')"
  shows "held globalW globalX globalR (globalLock sh') (pcs(t := p'))"
proof (cases "pcs t")
  case (AcceptLock i p q st)
  with assms(2) obtain l where "announce t (globalLock sh) = Some l" "p' = AcceptWait i p q st" "globalLock sh' = l"
    by (auto simp: bind_eq_Some_conv)
  with AcceptLock show ?thesis using held_announce [OF assms(1), of t l p'] by simp
next
  case (AcceptWait i p q st)
  with assms show ?thesis by (auto simp: drained_def intro!: held_keep split: if_splits)
next
  case (AcceptBody i p q st)
  with assms show ?thesis by (auto intro!: held_keep split: option.splits)
next
  case (AcceptUnlock e)
  with assms show ?thesis by (auto intro!: held_Unlock)
next
  case (GetRLock i k)
  with assms(2) obtain l where "RLock t (globalLock sh) = Some l" "p' = GetFind i k" "globalLock sh' = l"
    by (auto simp: bind_eq_Some_conv)
  with GetRLock show ?thesis using held_RLock [OF assms(1), of t l p'] by simp
next
  case (GetRUnlock i k b)
  with assms show ?thesis by (auto intro!: held_RUnlock)
next
  case (EntryLock i k)
  with assms show ?thesis by (cases k) (auto simp: bind_eq_Some_conv set_entryLock_def intro!: held_keep)
next
  case (EntryCall i k)
  with assms show ?thesis by (cases k) (auto simp: bind_eq_Some_conv intro!: held_keep)
next
  case (EntryStore i u e)
  with assms show ?thesis by (auto intro!: held_keep split: option.splits)
qed (use assms in \<open>auto simp: set_entryLock_def drained_def intro!: held_keep split: if_splits\<close>)

lemma step_entry:
  assumes "held (entryW j) (entryX j) (entryR j) (entryLock sh j) pcs" "thread_step t (pcs t) sh = Some (p', sh')"
  shows "held (entryW j) (entryX j) (entryR j) (entryLock sh' j) (pcs(t := p'))"
proof (cases "pcs t")
  case (EntryLock i k)
  show ?thesis
  proof (cases k)
    case (Updating f)
    with assms(2) EntryLock obtain l where l: "announce t (entryLock sh i) = Some l" "p' = EntryWait i f" "sh' = set_entryLock i l sh"
      by (auto simp: bind_eq_Some_conv)
    with EntryLock Updating held_announce [OF assms(1), of t l p'] held_keep [OF assms(1), of p' t] show ?thesis
      by (auto simp: set_entryLock_def)
  next
    case (Reading f)
    with assms(2) EntryLock obtain l where l: "RLock t (entryLock sh i) = Some l" "p' = EntryCall i (Reading f)"
      "sh' = set_entryLock i l sh"
      by (auto simp: bind_eq_Some_conv)
    with EntryLock Reading held_RLock [OF assms(1), of t l p'] held_keep [OF assms(1), of p' t] show ?thesis
      by (auto simp: set_entryLock_def)
  qed
next
  case (EntryUnlock i x e)
  with assms held_Unlock [OF assms(1), of t p'] held_RUnlock [OF assms(1), of t p'] held_keep [OF assms(1), of p' t]
  show ?thesis by (auto simp: set_entryLock_def split: if_splits)
next
  case (EntryCall i k)
  with assms show ?thesis by (cases k) (auto simp: bind_eq_Some_conv intro!: held_keep)
next
  case (GetRUnlock i k b)
  with assms show ?thesis by (cases b; cases k) (auto intro!: held_keep)
next
  case (AcceptBody i p q st)
  with assms show ?thesis by (auto intro!: held_keep split: option.splits)
next
  case (EntryStore i u e)
  with assms show ?thesis by (auto intro!: held_keep split: option.splits)
next
  case (EntryWait i f)
  with assms show ?thesis by (auto simp: drained_def intro!: held_keep split: if_splits)
qed (use assms in \<open>auto simp: bind_eq_Some_conv drained_def intro!: held_keep split: if_splits\<close>)

lemma step_entries:
  assumes "thread_step t p sh = Some (p', sh')" "connEntries sh i \<noteq> None"
  shows "connEntries sh' i \<noteq> None"
proof (cases p)
  case (EntryLock i k)
  with assms show ?thesis by (cases k) (auto simp: bind_eq_Some_conv set_entryLock_def)
next
  case (EntryCall i k)
  with assms show ?thesis by (cases k) (auto simp: bind_eq_Some_conv)
qed (use assms in \<open>auto simp: bind_eq_Some_conv set_entryLock_def split: if_splits option.splits\<close>)

lemma step_entryAt:
  assumes "thread_step t p sh = Some (p', sh')" "entryAt p' = Some i"
  shows "entryAt p = Some i \<or> connEntries sh' i \<noteq> None"
proof (cases p)
  case (EntryLock i k)
  with assms show ?thesis by (cases k) (auto simp: bind_eq_Some_conv)
next
  case (EntryCall i k)
  with assms show ?thesis by (cases k) (auto simp: bind_eq_Some_conv)
qed (use assms in \<open>auto simp: bind_eq_Some_conv split: if_splits option.splits\<close>)

lemma step_locks_ok:
  assumes "locks_ok sh pcs" "thread_step t (pcs t) sh = Some (p', sh')"
  shows "locks_ok sh' (pcs(t := p'))"
  unfolding locks_ok_def
proof (intro conjI allI impI)
  show "held globalW globalX globalR (globalLock sh') (pcs(t := p'))"
    using assms by (auto simp: locks_ok_def intro: step_global)
  show "held (entryW i) (entryX i) (entryR i) (entryLock sh' i) (pcs(t := p'))" for i
    using assms by (auto simp: locks_ok_def intro: step_entry)
  show "connEntries sh' i \<noteq> None" if "entryAt ((pcs(t := p')) t') = Some i" for t' i
    using that assms step_entries [OF assms(2), of i] step_entryAt [OF assms(2), of i]
    by (auto simp: locks_ok_def split: if_splits)
qed

lemma called_holds_nothing [simp]:
  "\<not> globalW (called op)" "\<not> globalX (called op)" "\<not> globalR (called op)"
  "\<not> entryW i (called op)" "\<not> entryX i (called op)" "\<not> entryR i (called op)" "entryAt (called op) = None"
  by (cases op; simp)+

lemma locks_ok_outside:
  assumes "locks_ok sh pcs" "pcs t = Idle \<or> (\<exists>r. pcs t = Returned r)" "p' = Idle \<or> (\<exists>op. p' = called op)"
  shows "locks_ok sh (pcs(t := p'))"
  using assms by (auto simp: locks_ok_def intro!: held_keep)

lemma interleaved_locks_ok: "interleaved s0 h sh pcs \<Longrightarrow> locks_ok sh pcs"
proof (induction rule: interleaved.induct)
  case start
  show ?case by (simp add: locks_ok_def held_def newLockedStore_def newMutex_def)
next
  case (call h sh pcs t op)
  then show ?case by (intro locks_ok_outside) auto
next
  case (step h sh pcs t p' sh')
  then show ?case by (intro step_locks_ok)
next
  case (return h sh pcs t r)
  then show ?case by (intro locks_ok_outside) auto
qed

subsection \<open>Races\<close>

text \<open>
  The memory that the next step of a goroutine touches, and whether it writes there. Two
  goroutines race when both are about to touch the same place and one of them writes.
\<close>

datatype location = StoreMap | Entry uuid

fun accesses :: "'s pc \<Rightarrow> (location \<times> bool) option" where
  "accesses (AcceptBody i p q st) = Some (StoreMap, True)"
| "accesses (GetFind i k) = Some (StoreMap, False)"
| "accesses AllRange = Some (StoreMap, False)"
| "accesses (EntryCall i k) = Some (Entry i, False)"
| "accesses (EntryStore i u e) = (if u = None then None else Some (Entry i, True))"
| "accesses _ = None"

definition race :: "(nat \<Rightarrow> 's pc) \<Rightarrow> bool" where
  "race pcs \<longleftrightarrow> (\<exists>t t' l w w'. t \<noteq> t' \<and> accesses (pcs t) = Some (l, w) \<and> accesses (pcs t') = Some (l, w') \<and> w)"

lemma held_unique: "held W X R l pcs \<Longrightarrow> W (pcs t) \<Longrightarrow> W (pcs t') \<Longrightarrow> t = t'"
  by (auto simp: held_def)

lemma held_exclusive: "held W X R l pcs \<Longrightarrow> X (pcs t) \<Longrightarrow> \<not> R (pcs t')"
  by (auto simp: held_def)

lemma accepting_alone:
  assumes "locks_ok sh pcs" "pcs t = AcceptBody i p q st" "t' \<noteq> t"
  shows "\<not> globalW (pcs t')" "\<not> globalR (pcs t')"
proof -
  have h: "held globalW globalX globalR (globalLock sh) pcs" using assms(1) by (simp add: locks_ok_def)
  show "\<not> globalW (pcs t')" using held_unique [OF h, of t t'] assms(2,3) by auto
  show "\<not> globalR (pcs t')" using held_exclusive [OF h, of t t'] assms(2) by auto
qed

lemma writing_alone:
  assumes "locks_ok sh pcs" "entryX i (pcs t)" "t' \<noteq> t"
  shows "\<not> entryW i (pcs t')" "\<not> entryR i (pcs t')"
proof -
  have h: "held (entryW i) (entryX i) (entryR i) (entryLock sh i) pcs" using assms(1) by (simp add: locks_ok_def)
  then have "entryW i (pcs t)" using assms(2) unfolding held_def by blast
  with h assms(3) show "\<not> entryW i (pcs t')" using held_unique [of _ _ _ _ pcs t t'] by blast
  show "\<not> entryR i (pcs t')" using held_exclusive [OF h assms(2)] .
qed

lemma entry_access: "accesses p = Some (Entry i, w) \<Longrightarrow> entryW i p \<or> entryR i p"
proof (cases p)
  case (EntryCall j k)
  then show "accesses p = Some (Entry i, w) \<Longrightarrow> entryW i p \<or> entryR i p" by (cases k) simp_all
qed (simp_all split: if_splits)

lemma map_access: "accesses p = Some (StoreMap, w) \<Longrightarrow> globalW p \<or> globalR p \<or> p = AllRange"
  by (cases p) (simp_all split: if_splits)

lemma writes:
  assumes "accesses p = Some (l, True)"
  obtains (accepting) i q r st where "p = AcceptBody i q r st" "l = StoreMap" | (storing) i where "l = Entry i" "entryX i p"
  using assms by (cases p) (auto split: if_splits)


subsection \<open>Atomicity\<close>

text \<open>
  Where an operation has taken effect: on a connection when the write function has
  returned, for a missing connection when it was not found.
\<close>

fun status_of :: "'s pc \<Rightarrow> 's status" where
  "status_of Idle = Ready"
| "status_of (AcceptLock i p q st) = Called (OAccept i p q st)"
| "status_of (AcceptWait i p q st) = Called (OAccept i p q st)"
| "status_of (AcceptBody i p q st) = Called (OAccept i p q st)"
| "status_of (AcceptUnlock e) = Finished (Err e)"
| "status_of (GetRLock i k) = Called (OEntry i k)"
| "status_of (GetFind i k) = Called (OEntry i k)"
| "status_of (GetRUnlock i k found) = (if found then Called (OEntry i k) else Finished (Err (Some (NoConnection i))))"
| "status_of (EntryLock i k) = Called (OEntry i k)"
| "status_of (EntryWait i f) = Called (OEntry i (Updating f))"
| "status_of (EntryCall i k) = Called (OEntry i k)"
| "status_of (EntryStore i u e) = Finished (Err e)"
| "status_of (EntryUnlock i x e) = Finished (Err e)"
| "status_of AllRange = Called OAll"
| "status_of (Returned r) = Finished r"

text \<open>The map as if every connection that a write function returned were stored already.\<close>

fun storing :: "'s pc \<Rightarrow> (uuid \<times> Connection) option" where
  "storing (EntryStore i (Some c) e) = Some (i, c)"
| "storing _ = None"

definition as_if :: "(nat \<Rightarrow> (uuid \<times> Connection) option) \<Rightarrow> (uuid \<rightharpoonup> Connection) \<Rightarrow> (uuid \<rightharpoonup> Connection) \<Rightarrow> bool" where
  "as_if g E m \<longleftrightarrow> (\<forall>t i c. g t = Some (i, c) \<longrightarrow> m i = Some c) \<and> (\<forall>i. (\<forall>t c. g t \<noteq> Some (i, c)) \<longrightarrow> m i = E i)"

definition as_stored :: "'s lockedStore \<Rightarrow> (nat \<Rightarrow> 's pc) \<Rightarrow> (uuid \<rightharpoonup> Connection) \<Rightarrow> bool" where
  "as_stored sh pcs m = as_if (\<lambda>t. storing (pcs t)) (connEntries sh) m"

lemma storing_upd: "(\<lambda>x. storing ((pcs(t := p')) x)) = (\<lambda>x. storing (pcs x))(t := storing p')"
  by auto

lemma as_if_at: "as_if g E m \<Longrightarrow> (\<And>t c. g t \<noteq> Some (i, c)) \<Longrightarrow> m i = E i"
  by (simp add: as_if_def)

lemma as_if_put: "as_if g E m \<Longrightarrow> (\<And>t c. g t \<noteq> Some (i, c)) \<Longrightarrow> as_if g (E(i \<mapsto> c)) (m(i \<mapsto> c))"
  by (auto simp: as_if_def)

lemma as_if_pending:
  assumes "as_if g E m" "\<And>t c. g t \<noteq> Some (i, c)" "g t = None"
  shows "as_if (g(t := Some (i, c))) E (m(i \<mapsto> c))"
  unfolding as_if_def
proof (intro conjI allI impI)
  fix t' j d assume "(g(t := Some (i, c))) t' = Some (j, d)"
  then show "(m(i \<mapsto> c)) j = Some d"
    using assms(1,2) unfolding as_if_def by (cases "t' = t"; cases "j = i") auto
next
  fix j assume n: "\<forall>t' d. (g(t := Some (i, c))) t' \<noteq> Some (j, d)"
  then have "j \<noteq> i" by (metis fun_upd_same)
  have "g t' \<noteq> Some (j, d)" for t' d
    using n [THEN spec, of t', THEN spec, of d] assms(3) by (cases "t' = t") auto
  with as_if_at [OF assms(1)] \<open>j \<noteq> i\<close> show "(m(i \<mapsto> c)) j = E j" by simp
qed

lemma as_if_done:
  assumes "as_if g E m" "g t = Some (i, c)" "\<And>t' c. t' \<noteq> t \<Longrightarrow> g t' \<noteq> Some (i, c)"
  shows "as_if (g(t := None)) (E(i \<mapsto> c)) m"
  unfolding as_if_def
proof (intro conjI allI impI)
  fix t' j d assume "(g(t := None)) t' = Some (j, d)"
  then show "m j = Some d" using assms(1) by (auto simp: as_if_def split: if_splits)
next
  fix j assume n: "\<forall>t' d. (g(t := None)) t' \<noteq> Some (j, d)"
  show "m j = (E(i \<mapsto> c)) j"
  proof (cases "j = i")
    case True
    with assms(1,2) show ?thesis by (simp add: as_if_def)
  next
    case False
    then have "g t' \<noteq> Some (j, d)" for t' d
      using n [THEN spec, of t', THEN spec, of d] assms(2) False by (cases "t' = t") auto
    with as_if_at [OF assms(1)] False show ?thesis by simp
  qed
qed

lemma as_stored_keep:
  assumes "as_stored sh pcs m" "connEntries sh' = connEntries sh" "storing (pcs t) = None" "storing p' = None"
  shows "as_stored sh' (pcs(t := p')) m"
  using assms unfolding as_stored_def storing_upd by (simp add: fun_upd_idem)

lemma storing_entry: "storing p = Some (i, c) \<Longrightarrow> entryX i p \<and> entryAt p = Some i"
  by (induction p rule: storing.induct) simp_all

lemma entry_held_not_storing:
  assumes "locks_ok sh pcs" "entryX i (pcs t) \<or> entryR i (pcs t)" "storing (pcs t) = None"
  shows "storing (pcs t') \<noteq> Some (i, c)"
proof
  assume s: "storing (pcs t') = Some (i, c)"
  then have "t \<noteq> t'" using assms(3) by auto
  moreover have x: "entryX i (pcs t')" using storing_entry [OF s] by simp
  moreover have "entryX i p \<Longrightarrow> entryW i p" for p :: "'a pc" by (induction i p rule: entryX.induct) simp_all
  ultimately show False using writing_alone [OF assms(1) x, of t] assms(2) by blast
qed

lemma missing_not_storing: "locks_ok sh pcs \<Longrightarrow> connEntries sh i = None \<Longrightarrow> storing (pcs t) \<noteq> Some (i, c)"
  using storing_entry [of "pcs t" i c] unfolding locks_ok_def by blast

lemma stored_dom:
  assumes "locks_ok sh pcs" "as_stored sh pcs m"
  shows "m i = None \<longleftrightarrow> connEntries sh i = None"
proof (cases "\<exists>t c. storing (pcs t) = Some (i, c)")
  case True
  then show ?thesis
    using assms(2) missing_not_storing [OF assms(1), of i] unfolding as_stored_def as_if_def by (metis option.distinct(1))
next
  case False
  then show ?thesis using as_if_at [OF assms(2) [unfolded as_stored_def], of i] by simp
qed

text \<open>A step either changes nothing that an atomic store shows, or is the operation as a whole.\<close>

lemma step_simulated:
  assumes "locks_ok sh pcs" "as_stored sh pcs m" "thread_step t (pcs t) sh = Some (p', sh')"
  shows "as_stored sh' (pcs(t := p')) m \<and> status_of p' = status_of (pcs t) \<and> outside sh' = outside sh \<or>
    (\<exists>op r m'. status_of (pcs t) = Called op \<and> perform op (m, outside sh) = Some (r, (m', outside sh')) \<and>
      status_of p' = Finished r \<and> as_stored sh' (pcs(t := p')) m')"
proof (cases "pcs t")
  case (AcceptBody i p q st)
  show ?thesis
  proof (cases "connEntries sh i")
    case None
    let ?c = "inMemoryConnection i (peer_ID p) None (peer_ID q) st"
    have "as_stored (sh\<lparr>connEntries := (connEntries sh)(i \<mapsto> ?c)\<rparr>) (pcs(t := AcceptUnlock None)) (m(i \<mapsto> ?c))"
      using as_if_put [OF assms(2) [unfolded as_stored_def] missing_not_storing [OF assms(1) None]] AcceptBody
      unfolding as_stored_def storing_upd by (simp add: fun_upd_idem)
    with None AcceptBody assms(3) stored_dom [OF assms(1,2), of i] show ?thesis by (auto simp: spec_accept_def)
  next
    case (Some c)
    with stored_dom [OF assms(1,2), of i] AcceptBody assms show ?thesis
      by (auto simp: spec_accept_def intro!: as_stored_keep)
  qed
next
  case (GetFind i k)
  have "perform (OEntry i k) (m, outside sh) = Some (Err (Some (NoConnection i)), (m, outside sh))" if "connEntries sh i = None"
    using that stored_dom [OF assms(1,2), of i] by (cases k) (simp_all add: spec_update_def spec_read_def)
  with GetFind assms show ?thesis by (cases "connEntries sh i") (auto intro!: as_stored_keep)
next
  case (EntryLock i k)
  with assms show ?thesis
    by (cases k) (auto simp: bind_eq_Some_conv set_entryLock_def intro!: as_stored_keep)
next
  case (EntryCall i k)
  have alone: "storing (pcs t') \<noteq> Some (i, c)" for t' c
    by (rule entry_held_not_storing [OF assms(1), of i t]) (use EntryCall in \<open>cases k; simp\<close>)+
  then have m: "m i = connEntries sh i" using as_if_at [OF assms(2) [unfolded as_stored_def], of i] by simp
  show ?thesis
  proof (cases k)
    case (Updating f)
    with EntryCall assms(3) obtain c u e s where f: "connEntries sh i = Some c" "f c (outside sh) = Some ((u, e), s)"
      "p' = EntryStore i u e" "sh' = sh\<lparr>outside := s\<rparr>" by (auto simp: bind_eq_Some_conv)
    have "as_stored sh' (pcs(t := p')) (if u = None then m else m(i := u))"
      using as_if_pending [OF assms(2) [unfolded as_stored_def] alone, of t] as_stored_keep [OF assms(2), of sh' t p'] f EntryCall
      unfolding as_stored_def storing_upd by (cases u) auto
    with f m EntryCall Updating show ?thesis by (auto simp: spec_update_def)
  next
    case (Reading f)
    with EntryCall assms(3) obtain c e s where f: "connEntries sh i = Some c" "f c (outside sh) = Some (e, s)"
      "p' = EntryUnlock i False e" "sh' = sh\<lparr>outside := s\<rparr>" by (auto simp: bind_eq_Some_conv)
    then have "as_stored sh' (pcs(t := p')) m" using EntryCall by (intro as_stored_keep [OF assms(2)]) auto
    with f m EntryCall Reading show ?thesis by (auto simp: spec_read_def)
  qed
next
  case (EntryStore i u e)
  show ?thesis
  proof (cases u)
    case None
    with EntryStore assms show ?thesis by (auto intro!: as_stored_keep)
  next
    case (Some c)
    have "storing (pcs t') \<noteq> Some (i, d)" if "t' \<noteq> t" for t' d
    proof
      assume "storing (pcs t') = Some (i, d)"
      then have "entryX i (pcs t')" using storing_entry by blast
      from writing_alone(1) [OF assms(1) this, of t] that EntryStore show False by simp
    qed
    with EntryStore Some assms(3) as_if_done [OF assms(2) [unfolded as_stored_def], of t i c] show ?thesis
      unfolding as_stored_def storing_upd by auto
  qed
next
  case AllRange
  have "dom m = dom (connEntries sh)" using stored_dom [OF assms(1,2)] by (auto simp: dom_def)
  with AllRange assms show ?thesis by (auto intro!: as_stored_keep)
qed (use assms in \<open>auto simp: bind_eq_Some_conv set_entryLock_def split: if_splits intro!: as_stored_keep\<close>)

lemma status_upd: "(\<lambda>x. status_of ((pcs(t := p')) x)) = (\<lambda>x. status_of (pcs x))(t := status_of p')"
  by auto

lemma status_called: "status_of (called op) = Called op"
  by (cases op) simp_all

lemma storing_called: "storing (called op) = None"
  by (cases op) simp_all

lemma interleaved_atomic:
  assumes "interleaved s0 h sh pcs"
  shows "\<exists>m. atomic s0 h (m, outside sh) (\<lambda>t. status_of (pcs t)) \<and> as_stored sh pcs m"
  using assms
proof (induction rule: interleaved.induct)
  case start
  have "atomic s0 [] (Map.empty, s0) (\<lambda>t. Ready)" by (rule atomic.start)
  then show ?case by (intro exI [of _ Map.empty]) (simp add: newLockedStore_def as_stored_def as_if_def)
next
  case (call h sh pcs t op)
  then obtain m where m: "atomic s0 h (m, outside sh) (\<lambda>t. status_of (pcs t))" "as_stored sh pcs m" by blast
  have "atomic s0 (h @ [Call t op]) (m, outside sh) ((\<lambda>t. status_of (pcs t))(t := Called op))"
    by (rule atomic.call [OF m(1)]) (simp add: call.hyps(2))
  moreover have "as_stored sh (pcs(t := called op)) m"
    by (rule as_stored_keep [OF m(2)]) (simp_all add: call.hyps(2) storing_called)
  ultimately show ?case unfolding status_upd status_called by blast
next
  case (step h sh pcs t p' sh')
  then obtain m where m: "atomic s0 h (m, outside sh) (\<lambda>t. status_of (pcs t))" "as_stored sh pcs m" by blast
  from step_simulated [OF interleaved_locks_ok [OF step.hyps(1)] m(2) step.hyps(2)] show ?case
  proof
    assume q: "as_stored sh' (pcs(t := p')) m \<and> status_of p' = status_of (pcs t) \<and> outside sh' = outside sh"
    then have "(\<lambda>x. status_of (pcs x))(t := status_of p') = (\<lambda>x. status_of (pcs x))" by auto
    with q m(1) show ?thesis unfolding status_upd by (intro exI [of _ m]) (simp del: fun_upd_apply)
  next
    assume "\<exists>op r m'. status_of (pcs t) = Called op \<and> perform op (m, outside sh) = Some (r, (m', outside sh')) \<and>
      status_of p' = Finished r \<and> as_stored sh' (pcs(t := p')) m'"
    then obtain op r m' where q: "status_of (pcs t) = Called op" "perform op (m, outside sh) = Some (r, (m', outside sh'))"
      "status_of p' = Finished r" "as_stored sh' (pcs(t := p')) m'" by blast
    from atomic.act [OF m(1) q(1,2)] q(3,4) show ?thesis
      unfolding status_upd by (intro exI [of _ m']) (simp del: fun_upd_apply)
  qed
next
  case (return h sh pcs t r)
  then obtain m where m: "atomic s0 h (m, outside sh) (\<lambda>t. status_of (pcs t))" "as_stored sh pcs m" by blast
  have "atomic s0 (h @ [Return t r]) (m, outside sh) ((\<lambda>t. status_of (pcs t))(t := Ready))"
    by (rule atomic.return [OF m(1)]) (simp add: return.hyps(2))
  moreover have "as_stored sh (pcs(t := Idle)) m"
    by (rule as_stored_keep [OF m(2)]) (simp_all add: return.hyps(2))
  ultimately show ?case unfolding status_upd by (intro exI [of _ m]) (simp del: fun_upd_apply)
qed


subsection \<open>Progress\<close>

text \<open>The functions that goroutines are about to call return.\<close>

definition calls_return :: "(nat \<Rightarrow> 's pc) \<Rightarrow> bool" where
  "calls_return pcs \<longleftrightarrow> (\<forall>t i k. pcs t = EntryCall i k \<longrightarrow>
     (case k of Updating f \<Rightarrow> \<forall>c s. f c s \<noteq> None | Reading f \<Rightarrow> \<forall>c s. f c s \<noteq> None))"

text \<open>A goroutine that holds a lock moves on; one that waits for readers to leave, when there are none.\<close>

lemma holder_moves:
  assumes "locks_ok sh pcs" "calls_return pcs"
    and "globalX (pcs t) \<or> globalR (pcs t) \<or> entryX i (pcs t) \<or> entryR i (pcs t)"
  shows "thread_step t (pcs t) sh \<noteq> None"
proof (cases "pcs t")
  case (EntryCall j k)
  then have "entryAt (pcs t) = Some j" by simp
  then obtain c where c: "connEntries sh j = Some c" using assms(1) unfolding locks_ok_def by blast
  have k: "case k of Updating f \<Rightarrow> \<forall>c s. f c s \<noteq> None | Reading f \<Rightarrow> \<forall>c s. f c s \<noteq> None"
    using assms(2) EntryCall unfolding calls_return_def by blast
  show ?thesis
  proof (cases k)
    case (Updating f)
    with k have "f c (outside sh) \<noteq> None" by simp
    then obtain u e s where "f c (outside sh) = Some ((u, e), s)" by (cases "f c (outside sh)") auto
    with EntryCall Updating c show ?thesis by simp
  next
    case (Reading f)
    with k have "f c (outside sh) \<noteq> None" by simp
    then obtain e s where "f c (outside sh) = Some (e, s)" by (cases "f c (outside sh)") auto
    with EntryCall Reading c show ?thesis by simp
  qed
qed (use assms(3) in \<open>auto split: option.splits\<close>)

lemma global_moves:
  assumes "locks_ok sh pcs" "calls_return pcs" "writer (globalLock sh) \<noteq> None \<or> readers (globalLock sh) \<noteq> {}"
  shows "\<exists>t. thread_step t (pcs t) sh \<noteq> None"
proof (cases "readers (globalLock sh) = {}")
  case False
  then obtain t where "t \<in> readers (globalLock sh)" by blast
  then have "globalR (pcs t)" using assms(1) by (simp add: locks_ok_def held_def)
  with holder_moves [OF assms(1,2)] show ?thesis by blast
next
  case True
  with assms(3) obtain t where "writer (globalLock sh) = Some t" by blast
  then have "globalW (pcs t)" using assms(1) by (simp add: locks_ok_def held_def)
  then have "globalX (pcs t) \<or> thread_step t (pcs t) sh \<noteq> None"
    using True by (cases "pcs t") (simp_all add: drained_def)
  with holder_moves [OF assms(1,2)] show ?thesis by blast
qed

lemma entry_moves:
  assumes "locks_ok sh pcs" "calls_return pcs" "writer (entryLock sh i) \<noteq> None \<or> readers (entryLock sh i) \<noteq> {}"
  shows "\<exists>t. thread_step t (pcs t) sh \<noteq> None"
proof (cases "readers (entryLock sh i) = {}")
  case False
  then obtain t where "t \<in> readers (entryLock sh i)" by blast
  then have "entryR i (pcs t)" using assms(1) by (simp add: locks_ok_def held_def)
  with holder_moves [OF assms(1,2)] show ?thesis by blast
next
  case True
  with assms(3) obtain t where "writer (entryLock sh i) = Some t" by blast
  then have w: "entryW i (pcs t)" using assms(1) by (simp add: locks_ok_def held_def)
  have "entryX i (pcs t) \<or> thread_step t (pcs t) sh \<noteq> None"
  proof (cases "pcs t")
    case (EntryCall j k)
    with w show ?thesis by (cases k) simp_all
  qed (use w True in \<open>simp_all add: drained_def\<close>)
  with holder_moves [OF assms(1,2)] show ?thesis by blast
qed

text \<open>C7:
  The store does not lock up: as long as the functions that its callers pass return, some
  goroutine can take a step whenever one is inside an operation. An operation takes its two locks
  one after the other and never holds both.\<close>

theorem store_never_stuck:
  assumes "interleaved s0 h sh pcs" and "calls_return pcs" and "pcs t \<noteq> Idle" and "\<And>r. pcs t \<noteq> Returned r"
  shows "\<exists>t' p' sh'. thread_step t' (pcs t') sh = Some (p', sh')"
proof -
  note ok = interleaved_locks_ok [OF assms(1)]
  have "\<exists>t. thread_step t (pcs t) sh \<noteq> None"
  proof (rule ccontr)
    assume "\<not> ?thesis"
    then have stuck: "\<And>t. thread_step t (pcs t) sh = None" by blast
    have free: "writer (globalLock sh) = None \<and> readers (globalLock sh) = {}"
      by (rule ccontr) (use global_moves [OF ok assms(2)] stuck in auto)
    have efree: "writer (entryLock sh i) = None \<and> readers (entryLock sh i) = {}" for i
      by (rule ccontr) (use entry_moves [OF ok assms(2), of i] stuck in auto)
    have "\<not> (globalX (pcs t) \<or> globalR (pcs t) \<or> entryX i (pcs t) \<or> entryR i (pcs t))" for i
      using holder_moves [OF ok assms(2)] stuck by blast
    with stuck [of t] assms(3,4) free efree show False
    proof (cases "pcs t")
      case (EntryLock i k)
      with stuck [of t] efree show ?thesis by (cases k) (simp_all add: announce_def RLock_def)
    next
      case (EntryCall i k)
      with holder_moves [OF ok assms(2), of t i] stuck [of t] show ?thesis by (cases k) simp_all
    next
      case (Returned r)
      with assms(4) show ?thesis by blast
    qed (simp_all add: mutex_defs split: option.splits)
  qed
  then show ?thesis by fastforce
qed

subsection \<open>Two goroutines\<close>

text \<open>One accepts a connection and holds the lock of the store, the other lists the identifiers.\<close>

definition two_accept :: "'s storeOp" where
  "two_accept = OAccept 7 \<lparr> peer_ID = Some ''A'', Addresses = [] \<rparr> \<lparr> peer_ID = Some ''B'', Addresses = [] \<rparr> AwaitingWitness"

definition two_shared :: "'s \<Rightarrow> 's lockedStore" where
  "two_shared s0 = (newLockedStore s0)\<lparr>globalLock := \<lparr> writer = Some 0, readers = {} \<rparr>\<rparr>"

definition two_pcs :: "nat \<Rightarrow> 's pc" where
  "two_pcs = (\<lambda>t. Idle)(0 := AcceptBody 7 \<lparr> peer_ID = Some ''A'', Addresses = [] \<rparr> \<lparr> peer_ID = Some ''B'', Addresses = [] \<rparr>
     AwaitingWitness, 1 := AllRange)"

lemma two_run: "interleaved s0 [Call 0 two_accept, Call 1 OAll] (two_shared s0) two_pcs"
proof -
  let ?A = "\<lparr> peer_ID = Some ''A'', Addresses = [] \<rparr>" and ?B = "\<lparr> peer_ID = Some ''B'', Addresses = [] \<rparr>"
  have "interleaved s0 [Call 0 two_accept] (newLockedStore s0) ((\<lambda>t. Idle)(0 := AcceptLock 7 ?A ?B AwaitingWitness))"
    using interleaved.call [OF interleaved.start, where t = 0 and op = two_accept] by (simp add: two_accept_def)
  from interleaved.step [OF this, of 0 "AcceptWait 7 ?A ?B AwaitingWitness" "two_shared s0"]
  have "interleaved s0 [Call 0 two_accept] (two_shared s0) ((\<lambda>t. Idle)(0 := AcceptWait 7 ?A ?B AwaitingWitness))"
    by (simp add: announce_def newLockedStore_def newMutex_def two_shared_def)
  from interleaved.step [OF this, of 0 "AcceptBody 7 ?A ?B AwaitingWitness" "two_shared s0"]
  have "interleaved s0 [Call 0 two_accept] (two_shared s0) ((\<lambda>t. Idle)(0 := AcceptBody 7 ?A ?B AwaitingWitness))"
    by (simp add: drained_def two_shared_def)
  from interleaved.call [OF this, of 1 OAll] show ?thesis by (simp add: two_pcs_def)
qed

text \<open>
  Listing the identifiers races with accepting a connection: there is an interleaving in
  which one goroutine is about to range over the map that another is about to write to.\<close>

theorem listing_races:
  "\<exists>h sh pcs. interleaved s0 h sh pcs \<and> race pcs \<and> (\<exists>t. pcs t = AllRange)"
proof -
  have pcs: "two_pcs 0 = AcceptBody 7 \<lparr> peer_ID = Some ''A'', Addresses = [] \<rparr> \<lparr> peer_ID = Some ''B'', Addresses = [] \<rparr> AwaitingWitness"
    "two_pcs 1 = AllRange" by (simp_all add: two_pcs_def)
  then have "race two_pcs" unfolding race_def by (metis accesses.simps(1,3) zero_neq_one)
  with two_run [of s0] pcs(2) show ?thesis by blast
qed



theorem store_never_stuck_witness:
  "\<exists>t' p' sh'. thread_step t' (two_pcs t') (two_shared (5 :: nat)) = Some (p', sh')"
  by (rule store_never_stuck [OF two_run, of 1]) (simp_all add: calls_return_def two_pcs_def)

end
