(* ===== verification/Spec2Isabelle.thy ===== *)
theory Spec2Isabelle
  imports Protocol_Props Connect_Props Handler_Props Peer_Props Store_Props Wire_Props Libp2p_Props App_Props
    Admin_Props Startup_Props Session_Props Locks_Props
begin

text \<open>
  A verification library for go-clarinet, a Go library and application for peer-to-peer
  connections of three parties: a sender, a receiver and a witness. Sources are named by
  their path under \<open>src/\<close>.

  \<^bold>\<open>The program.\<close> A node (\<open>v2/goclarinet.go\<close>) is built from collaborators behind
  interfaces: a peer store and a transport (package \<open>starterimpl/libp2p\<close>), stores for
  connections, messages and reputations (\<open>starterimpl/inmem\<close>), a trust function and user
  handlers (\<open>main.go\<close>), a logger (\<open>v2/log\<close>, \<open>starterimpl/zap\<close>). \<open>Connect\<close> stores a
  connection, asks the receiver to accept it, finds a witness among the trusted peers and
  tells the receiver; the handlers (\<open>v2/handlers.go\<close>) are the other ends of these messages.
  Every change of a stored connection goes through \<open>Update\<close> of the connection store with a
  write function; the code locks the entry meanwhile, so an operation is one step here,
  which \<open>Inmem_Locks\<close> justifies.
  The application (\<open>main.go\<close>) reads a configuration, creates the libp2p host, wires the
  collaborators and serves administration endpoints, each of which calls one operation.

  \<^bold>\<open>Conventions.\<close> A Go panic is the value \<open>None\<close> of an option (\<open>panic\<close>), a result
  \<open>Some\<close> (\<open>returns\<close>). A result with an error that may be nil is a pair with an
  \<open>error option\<close>, one that is used only without error a sum. Interface values that may be
  nil are options. State is passed explicitly: connection store, reputation store, and the
  world \<open>'w\<close> outside the process, which only the collaborators read and change. Third-party
  code is a parameter: the libp2p host and streams, the texts of UUIDs and peer identifiers,
  keys, files, random draws, the iteration order of maps, the wording of JSON syntax errors. Go's \<open>int\<close> is \<open>64 word\<close>, a UUID
  \<open>128 word\<close>, a \<open>float64\<close> a rational with IEEE rounding, an infinity or NaN; bytes and
  strings are \<open>string\<close>.

  \<^bold>\<open>The theories.\<close>
  \<^item> \<open>Prelude\<close>: panics, early returns, \<open>strings\<close> and \<open>strconv\<close>; the collections
    \<open>panic_split\<close> (case splits of a run that returned) and \<open>wire_simps\<close>.
  \<^item> \<open>Log\<close>: \<open>v2/log/log.go\<close> and \<open>starterimpl/zap/zap.go\<close>.
  \<^item> \<open>Connection\<close>, \<open>Errors\<close>: \<open>v2/connection\<close>, \<open>v2/peer\<close>, \<open>v2/readonlyconnection.go\<close>, and
    the texts of all errors. \<open>conn_as\<close> is the normal form of a changed connection.
  \<^item> \<open>Inmem_Connections\<close>, \<open>Inmem_Reputation\<close>, \<open>Inmem_Messages\<close>: \<open>starterimpl/inmem/inmem.go\<close>.
    The locales \<open>connection_store\<close> and \<open>reputation_store\<close> hold the contracts of the two
    store interfaces and what follows from them, interpreted on the code's stores.
  \<^item> \<open>Inmem_Locks\<close>: the connection store again, with its locks, one memory access or lock
    operation per step, for any number of goroutines; and the atomic store it implements.
  \<^item> \<open>Float64\<close>: binary64 arithmetic, exact up to the one NaN and the one zero, which no
    code here tells apart.
  \<^item> \<open>Base64\<close>, \<open>Serde\<close>, \<open>Wire_Laws\<close>: \<open>starterimpl/libp2p/serde.go\<close>; the locale
    \<open>wire_codec\<close>, parse after print and framing, interpreted for each message type.
  \<^item> \<open>Libp2p\<close>: \<open>starterimpl/libp2p/libp2p.go\<close> and \<open>NewNode\<close>.
  \<^item> \<open>Node\<close>, \<open>Handlers\<close>: \<open>v2/goclarinet.go\<close> and \<open>v2/handlers.go\<close>, with the interfaces of
    \<open>v2/transport\<close> and the contract of a peer store, the locale \<open>peer_store\<close>. The goroutine of the connect handler is returned as a task.
  \<^item> \<open>Node_Laws\<close>: what each operation may do to a connection, for arbitrary collaborators;
    \<open>selection_outcome\<close> lists the ends of a witness selection.
  \<^item> \<open>App\<close>: the handlers and the trust function of \<open>main.go\<close>.
  \<^item> \<open>Json\<close>, \<open>Json_Laws\<close>: what \<open>main.go\<close> uses of package \<open>encoding/json\<close>: printing a
    value, the scanner as the automaton it is, decoding into structs; parse after print.
  \<^item> \<open>Admin\<close>, \<open>Admin_Laws\<close>: the administration endpoints of \<open>main.go\<close>. The locale
    \<open>http_handler\<close> is what a handler promises the adapters, interpreted on all five.
  \<^item> \<open>Startup\<close>: configuration, logger, key, host and wiring in \<open>main.go\<close>.
  \<^item> \<open>Protocol\<close>: the node as a state machine over events and pending tasks, with reachable
    states, \<open>runs\<close>, and the induction rule \<open>reachable_conn_induct\<close> for stored connections.
  \<^item> \<open>Example\<close>: a network of three nodes and sample runs, on which the theorems are applied.
  \<^item> \<open>Session\<close>: several nodes with each other's handlers as their transport.
  \<^item> The theories named \<open>_Props\<close>: the properties, by subject.

  \<^bold>\<open>What is shown.\<close> The status of a connection follows the protocol, closed is final but
  for a pending witness task, a node stores only connections it takes part in, and an open
  connection has a witness if notifications name one (\<open>Protocol_Props\<close>). \<open>Connect\<close> ends in
  one of few ways, and the witness is the first trusted outsider that agrees
  (\<open>Connect_Props\<close>). Handlers accept exactly what they should, and requester and handler
  agree (\<open>Handler_Props\<close>). Closing contacts the others, views are complete, peer lists are
  bounded (\<open>Peer_Props\<close>). Goroutines see the connection store as one of single steps, and
  it never locks up (\<open>Locks_Props\<close>). The stores implement maps, reputations are exact, ordered and
  bounded, signed texts determine messages (\<open>Store_Props\<close>). Messages survive the wire,
  streams are given back, a remote call returns the remote answer (\<open>Wire_Props\<close>,
  \<open>Libp2p_Props\<close>). The trust function does what its formula says, and what it says in the
  corner cases (\<open>App_Props\<close>). In a network of working nodes, opening and closing succeed
  and leave all three participants with the same view (\<open>Session_Props\<close>). The endpoints
  reply with JSON, refuse what they cannot decode, drive the node only through its protocol
  and report what it stores (\<open>Admin_Props\<close>). Starting ends with a message or with a node
  in its initial state (\<open>Startup_Props\<close>).

  \<^bold>\<open>Bounds.\<close> Every loop of the code runs over a list or counts down, so no fuel is needed.
  Reputation counts are exact up to 2^53; the theorems on them take at most 2^51
  interactions, each of weight at most three. JSON nests at most 10000 deep, as in the library.

  \<^bold>\<open>Not modelled.\<close> Blocking between nodes, and the locks of the other stores (the endpoints
  serve one request after the other, and a write function is one step); stream deadlines beyond the calls that set them; the
  \<open>AdditionalOptions\<close> map, which no code reads; what the logger, \<open>net/http\<close> and libp2p do
  with what they are given; the interfaces \<open>Query\<close>, \<open>Answer\<close> and \<open>Forward\<close>, which nothing
  implements.
\<close>

end
